(* ===== verification/Prelude.thy ===== *)
theory Prelude
  imports Main "HOL-Library.Char_ord" "HOL-Library.List_Lexorder"
begin

text \<open>
  What every component shares: the exceptions the worker code raises as values of one
  datatype, results and effectful actions over a state with the two composition operators
  the components use, rows of a table addressed by a key, and the generic list lemmas
  behind them.  The collections \<open>row_simps\<close>, \<open>db_defs\<close> and \<open>inv_intros\<close> are filled by the
  component theories and carry their proofs.
\<close>

named_theorems row_simps \<open>projections of the table rows and of updated tables\<close>
named_theorems db_defs \<open>definitions of the state database operations\<close>
named_theorems inv_intros \<open>preservation of the database invariant, one rule per operation\<close>

section \<open>Exceptions, results and actions\<close>

text \<open>
  A Python exception is a value: its class with the message the code gives it.
\<close>

datatype py_error =
    KeyError string
  | ValueError string
  | TypeError string
  | AttributeError string
  | OverflowError
  | IndexError
  | RuntimeError string
  | IntegrityError string
  | StateDBError string
  | StaleOwnerRejected string
  | InjectedTransactionFailure string
  | SecretLikeMetadataError string
  | EventValidationError string
  | FileNotFoundError string
  | FileExistsError string
  | NotADirectoryError string
  | IsADirectoryError string
  | JSONDecodeError string
  | UnicodeDecodeError string
  | IngressEnqueueRejected string
  | IngressEnqueueUnreachable string
  | DeliveryOutcomeUncertain string
  | DeliveryDeferred string string
  | BackendError string
  | OwnershipViolation string
  | SourceRedactionLeak string
  | SourceStoreError string
  | SourceStoreConflict string
  | SourceStoreResponseTooLarge string
  | CouchDBError string
  | SourceRevisionResolutionError string

type_synonym 'a result = "py_error + 'a"

definition bind_result :: "'a result \<Rightarrow> ('a \<Rightarrow> 'b result) \<Rightarrow> 'b result" where
  "bind_result m f = (case m of Inl e \<Rightarrow> Inl e | Inr x \<Rightarrow> f x)"

lemma bind_result_simps [simp]:
  "bind_result (Inl e) f = Inl e"
  "bind_result (Inr x) f = f x"
  by (simp_all add: bind_result_def)

lemma bind_result_Inr_iff:
  "bind_result m f = Inr y \<longleftrightarrow> (\<exists>x. m = Inr x \<and> f x = Inr y)"
  by (cases m) auto

text \<open>
  An action runs on a state and returns a value or an exception with the state it leaves
  behind: an exception does not undo what earlier steps committed.  \<open>transact\<close> runs one
  database transaction, whose exception leaves the state as it was (rollback).
\<close>

type_synonym ('s, 'a) action = "'s \<Rightarrow> 'a result \<times> 's"

definition return_act :: "'a \<Rightarrow> ('s, 'a) action" where
  "return_act x s = (Inr x, s)"

definition raise_act :: "py_error \<Rightarrow> ('s, 'a) action" where
  "raise_act e s = (Inl e, s)"

definition bind_act :: "('s, 'a) action \<Rightarrow> ('a \<Rightarrow> ('s, 'b) action) \<Rightarrow> ('s, 'b) action" where
  "bind_act m f s = (case m s of (Inl e, s') \<Rightarrow> (Inl e, s') | (Inr x, s') \<Rightarrow> f x s')"

definition transact :: "('s \<Rightarrow> ('a \<times> 's) result) \<Rightarrow> ('s, 'a) action" where
  "transact t s = (case t s of Inl e \<Rightarrow> (Inl e, s) | Inr (x, s') \<Rightarrow> (Inr x, s'))"

lemma act_simps [simp]:
  "return_act x s = (Inr x, s)"
  "raise_act e s = (Inl e, s)"
  by (simp_all add: return_act_def raise_act_def)

lemma bind_act_simps [simp]:
  "m s = (Inl e, s') \<Longrightarrow> bind_act m f s = (Inl e, s')"
  "m s = (Inr x, s') \<Longrightarrow> bind_act m f s = f x s'"
  by (simp_all add: bind_act_def)

lemma transact_simps [simp]:
  "t s = Inl e \<Longrightarrow> transact t s = (Inl e, s)"
  "t s = Inr (x, s') \<Longrightarrow> transact t s = (Inr x, s')"
  by (simp_all add: transact_def)

lemma snd_transact:
  "snd (transact t s) = (case t s of Inl e \<Rightarrow> s | Inr (x, s') \<Rightarrow> s')"
  by (simp add: transact_def split: sum.split prod.split)

text \<open>A property of states that a transaction keeps is kept by the action that runs it.\<close>

lemma transact_preserves:
  assumes "\<And>x s'. t s = Inr (x, s') \<Longrightarrow> P s'" and "P s"
  shows "P (snd (transact t s))"
  using assms by (auto simp: snd_transact split: sum.split prod.split)

lemma bind_act_preserves:
  assumes "P (snd (m s))"
    and "\<And>x s'. m s = (Inr x, s') \<Longrightarrow> P s' \<Longrightarrow> P (snd (f x s'))"
  shows "P (snd (bind_act m f s))"
  using assms by (auto simp: bind_act_def split: sum.split prod.split)

section \<open>Rows addressed by a key\<close>

text \<open>
  A table is the list of its rows in the order of their rowid.  \<open>SELECT * FROM t WHERE k = ?\<close>
  followed by \<open>fetchone\<close> is \<open>row_with\<close>; \<open>UPDATE t SET \<dots> WHERE k = ?\<close> is \<open>update_where\<close>.
\<close>

definition row_with :: "('r \<Rightarrow> 'k) \<Rightarrow> 'k \<Rightarrow> 'r list \<Rightarrow> 'r option" where
  "row_with key k rows = find (\<lambda>r. key r = k) rows"

definition update_where :: "('r \<Rightarrow> 'k) \<Rightarrow> 'k \<Rightarrow> ('r \<Rightarrow> 'r) \<Rightarrow> 'r list \<Rightarrow> 'r list" where
  "update_where key k f rows = map (\<lambda>r. if key r = k then f r else r) rows"

lemma row_with_simps [simp]:
  "row_with key k [] = None"
  "row_with key k (r # rs) = (if key r = k then Some r else row_with key k rs)"
  by (simp_all add: row_with_def)

lemma update_where_simps [simp]:
  "update_where key k f [] = []"
  "update_where key k f (r # rs) = (if key r = k then f r else r) # update_where key k f rs"
  by (simp_all add: update_where_def)

lemma row_with_SomeD: "row_with key k rows = Some r \<Longrightarrow> r \<in> set rows \<and> key r = k"
  by (induction rows) (auto split: if_splits)

lemma row_with_None_iff: "row_with key k rows = None \<longleftrightarrow> k \<notin> key ` set rows"
  by (induction rows) auto

lemma row_with_eqI: "distinct (map key rows) \<Longrightarrow> r \<in> set rows \<Longrightarrow> row_with key (key r) rows = Some r"
  by (induction rows) (auto simp: rev_image_eqI)

lemma row_with_append:
  "row_with key k (xs @ ys) = (case row_with key k xs of None \<Rightarrow> row_with key k ys | Some r \<Rightarrow> Some r)"
  by (induction xs) auto

lemma length_update_where [simp]: "length (update_where key k f rows) = length rows"
  by (simp add: update_where_def)

lemma map_update_where:
  assumes "\<And>r. g (f r) = g r"
  shows "map g (update_where key k f rows) = map g rows"
  by (induction rows) (simp_all add: assms)

lemma row_with_update_where:
  assumes "\<And>r. key (f r) = key r"
  shows "row_with key k' (update_where key k f rows) =
    (if k' = k then map_option f (row_with key k rows) else row_with key k' rows)"
  by (induction rows) (auto simp: assms)

lemma in_update_where:
  "r' \<in> set (update_where key k f rows) \<Longrightarrow>
    (\<exists>r \<in> set rows. key r = k \<and> r' = f r) \<or> (r' \<in> set rows \<and> key r' \<noteq> k)"
  by (auto simp: update_where_def)

lemma update_where_absent: "k \<notin> key ` set rows \<Longrightarrow> update_where key k f rows = rows"
  by (induction rows) auto

lemma distinct_map_append_new:
  "distinct (map key rows) \<Longrightarrow> row_with key (key r) rows = None \<Longrightarrow> distinct (map key (rows @ [r]))"
  by (auto simp: row_with_None_iff)

section \<open>Invariants of step relations\<close>

text \<open>
  The contract between a step relation and an invariant: every step keeps it.  It then holds
  in every state a run reaches.
\<close>

locale invariant_system =
  fixes step :: "'s \<Rightarrow> 's \<Rightarrow> bool" and inv :: "'s \<Rightarrow> bool"
  assumes step_keeps: "step s t \<Longrightarrow> inv s \<Longrightarrow> inv t"
begin

lemma run_keeps: "step\<^sup>*\<^sup>* s t \<Longrightarrow> inv s \<Longrightarrow> inv t"
  by (induction rule: rtranclp_induct) (auto intro: step_keeps)

end

end
