(* ===== verification/Idempotency.thy ===== *)
theory Idempotency
  imports Prelude
begin

text \<open>
  The pure outcome classifier of \<open>rag_ingress/idempotency.py\<close>.  The existing record is a
  mapping of which the classifier reads five keys; a missing key and a null value are both
  read as the empty string by the source's \<open>str(x or "")\<close>, so each is a string here.
\<close>

section \<open>Outcomes and the classifier\<close>

definition ACCEPTED :: string where "ACCEPTED = ''accepted''"
definition DUPLICATE :: string where "DUPLICATE = ''duplicate''"
definition CONFLICT :: string where "CONFLICT = ''conflict''"
definition QUARANTINED :: string where "QUARANTINED = ''quarantined''"
definition REPLAYABLE :: string where "REPLAYABLE = ''replayable''"

lemmas outcome_defs = ACCEPTED_def DUPLICATE_def CONFLICT_def QUARANTINED_def REPLAYABLE_def

definition TERMINAL_PRESERVED_OUTCOMES :: "string list" where
  "TERMINAL_PRESERVED_OUTCOMES = [QUARANTINED, REPLAYABLE]"

record existing_record =
  ex_accept_outcome :: string
  ex_outcome :: string
  ex_status :: string
  ex_idempotency_key :: string
  ex_payload_hash :: string

record idempotency_decision =
  outcome :: string
  reason :: string

definition decide :: "string \<Rightarrow> string \<Rightarrow> idempotency_decision" where
  "decide oc rs = \<lparr>outcome = oc, reason = rs\<rparr>"

definition decision_accepted :: "idempotency_decision \<Rightarrow> bool" where
  "decision_accepted d \<longleftrightarrow> outcome d = ACCEPTED"

definition decision_duplicate :: "idempotency_decision \<Rightarrow> bool" where
  "decision_duplicate d \<longleftrightarrow> outcome d = DUPLICATE"

definition decision_conflict :: "idempotency_decision \<Rightarrow> bool" where
  "decision_conflict d \<longleftrightarrow> outcome d = CONFLICT"

text \<open>Python's \<open>a or b\<close> on strings.\<close>

definition str_or :: "string \<Rightarrow> string \<Rightarrow> string" where
  "str_or a b = (if a = '''' then b else a)"

definition classify_idempotency ::
    "existing_record option \<Rightarrow> string \<Rightarrow> string \<Rightarrow> idempotency_decision result" where
  "classify_idempotency existing idempotency_key payload_hash =
    (if idempotency_key = '''' then Inl (ValueError ''idempotency_key is required'')
     else if payload_hash = '''' then Inl (ValueError ''payload_hash is required'')
     else case existing of
       None \<Rightarrow> Inr (decide ACCEPTED ''new_idempotency_key'')
     | Some ex \<Rightarrow>
         (let existing_outcome = str_or (ex_accept_outcome ex) (ex_outcome ex);
              existing_status = ex_status ex
          in if existing_outcome \<in> set TERMINAL_PRESERVED_OUTCOMES
             then Inr (decide existing_outcome (''existing_'' @ existing_outcome))
             else if existing_status \<in> set TERMINAL_PRESERVED_OUTCOMES
             then Inr (decide existing_status (''existing_'' @ existing_status))
             else if ex_idempotency_key ex \<noteq> idempotency_key
             then Inr (decide ACCEPTED ''different_idempotency_key'')
             else if ex_payload_hash ex = payload_hash
             then Inr (decide DUPLICATE ''same_key_same_payload_hash'')
             else Inr (decide CONFLICT ''same_key_different_payload_hash'')))"

section \<open>What the classifier decides\<close>

text \<open>Whether a stored record preserves its outcome over a new attempt.\<close>

definition preserved :: "existing_record \<Rightarrow> bool" where
  "preserved ex \<longleftrightarrow>
    str_or (ex_accept_outcome ex) (ex_outcome ex) \<in> set TERMINAL_PRESERVED_OUTCOMES
    \<or> ex_status ex \<in> set TERMINAL_PRESERVED_OUTCOMES"

lemma decide_sel [simp]: "outcome (decide a b) = a" "reason (decide a b) = b"
  by (simp_all add: decide_def)

lemma outcomes_distinct [simp]:
  "ACCEPTED \<noteq> DUPLICATE" "ACCEPTED \<noteq> CONFLICT" "DUPLICATE \<noteq> CONFLICT"
  "DUPLICATE \<noteq> ACCEPTED" "CONFLICT \<noteq> ACCEPTED" "CONFLICT \<noteq> DUPLICATE"
  "QUARANTINED \<noteq> ACCEPTED" "QUARANTINED \<noteq> DUPLICATE" "QUARANTINED \<noteq> CONFLICT"
  "REPLAYABLE \<noteq> ACCEPTED" "REPLAYABLE \<noteq> DUPLICATE" "REPLAYABLE \<noteq> CONFLICT"
  "ACCEPTED \<noteq> QUARANTINED" "DUPLICATE \<noteq> QUARANTINED" "CONFLICT \<noteq> QUARANTINED"
  "ACCEPTED \<noteq> REPLAYABLE" "DUPLICATE \<noteq> REPLAYABLE" "CONFLICT \<noteq> REPLAYABLE"
  "QUARANTINED \<noteq> REPLAYABLE" "REPLAYABLE \<noteq> QUARANTINED"
  by (simp_all add: outcome_defs)

lemma classify_total:
  "idempotency_key \<noteq> '''' \<Longrightarrow> payload_hash \<noteq> '''' \<Longrightarrow>
    \<exists>d. classify_idempotency ex idempotency_key payload_hash = Inr d"
  by (auto simp: classify_idempotency_def Let_def split: option.split)

lemma classify_duplicate_iff:
  assumes "classify_idempotency ex k h = Inr d"
  shows "outcome d = DUPLICATE \<longleftrightarrow>
    (\<exists>r. ex = Some r \<and> \<not> preserved r \<and> ex_idempotency_key r = k \<and> ex_payload_hash r = h)"
  using assms
  by (auto simp: classify_idempotency_def preserved_def TERMINAL_PRESERVED_OUTCOMES_def Let_def
      split: option.splits if_splits)

lemma classify_conflict_iff:
  assumes "classify_idempotency ex k h = Inr d"
  shows "outcome d = CONFLICT \<longleftrightarrow>
    (\<exists>r. ex = Some r \<and> \<not> preserved r \<and> ex_idempotency_key r = k \<and> ex_payload_hash r \<noteq> h)"
  using assms
  by (auto simp: classify_idempotency_def preserved_def TERMINAL_PRESERVED_OUTCOMES_def Let_def
      split: option.splits if_splits)

lemma classify_accepted_iff:
  assumes "classify_idempotency ex k h = Inr d"
  shows "outcome d = ACCEPTED \<longleftrightarrow>
    (\<forall>r. ex = Some r \<longrightarrow> \<not> preserved r \<and> ex_idempotency_key r \<noteq> k)"
  using assms
  by (auto simp: classify_idempotency_def preserved_def TERMINAL_PRESERVED_OUTCOMES_def Let_def
      split: option.splits if_splits)

end
