(* ===== verification/Iso_Time.thy ===== *)
theory Iso_Time
  imports Prelude
begin

text \<open>
  Instants and their ISO 8601 text.  The state database stores every instant as the text
  \<open>_iso\<close> of \<open>rag_ingress/state_db.py\<close> makes (\<open>datetime.isoformat\<close> of a UTC datetime) and
  compares instants both as text (in SQL and on retry deadlines) and as datetimes (on
  leases).  A \<open>datetime\<close> is an aware UTC instant in microseconds since 0001-01-01, below the
  end of year 9999, as Python's are.  Shown here: reading the text back gives the instant,
  and the order of the texts is the order of the instants, at a whole second (where
  \<open>isoformat\<close> omits the fraction) too.
\<close>

section \<open>Calendar\<close>

definition days_before :: "nat \<Rightarrow> nat" where
  \<comment> \<open>days before January 1 of year \<open>q + 1\<close>\<close>
  "days_before q = 365 * q + q div 4 - q div 100 + q div 400"

definition is_leap :: "nat \<Rightarrow> bool" where
  "is_leap y \<longleftrightarrow> y mod 4 = 0 \<and> (y mod 100 \<noteq> 0 \<or> y mod 400 = 0)"

definition year0_of :: "nat \<Rightarrow> nat" where
  "year0_of day =
    (let e = 400 * day div 146097 in if days_before (e + 1) \<le> day then e + 1 else e)"

definition month_starts :: "bool \<Rightarrow> nat list" where
  "month_starts leap =
    (if leap then [0, 31, 60, 91, 121, 152, 182, 213, 244, 274, 305, 335]
     else [0, 31, 59, 90, 120, 151, 181, 212, 243, 273, 304, 334])"

definition month0_of :: "bool \<Rightarrow> nat \<Rightarrow> nat" where
  "month0_of leap doy = length (takeWhile (\<lambda>s. s \<le> doy) (tl (month_starts leap)))"

section \<open>Text\<close>

definition digit :: "nat \<Rightarrow> char" where
  "digit d = char_of (48 + d)"

fun pad :: "nat \<Rightarrow> nat \<Rightarrow> string" where
  "pad 0 n = []"
| "pad (Suc w) n = pad w (n div 10) @ [digit (n mod 10)]"

fun undigits :: "nat \<Rightarrow> string \<Rightarrow> nat" where
  "undigits acc [] = acc"
| "undigits acc (c # cs) = undigits (acc * 10 + (of_char c - 48)) cs"

definition date_text :: "nat \<Rightarrow> string" where
  "date_text day =
    (let q = year0_of day; leap = is_leap (q + 1); doy = day - days_before q;
         m = month0_of leap doy
     in pad 4 (q + 1) @ ''-'' @ pad 2 (m + 1) @ ''-'' @ pad 2 (doy - month_starts leap ! m + 1))"

definition clock_text :: "nat \<Rightarrow> string" where
  "clock_text sec = pad 2 (sec div 3600) @ '':'' @ pad 2 (sec div 60 mod 60) @ '':'' @ pad 2 (sec mod 60)"

definition fraction_text :: "nat \<Rightarrow> string" where
  "fraction_text us = (if us = 0 then '''' else ''.'' @ pad 6 us)"

definition iso_text :: "nat \<Rightarrow> string" where
  "iso_text n =
    date_text (n div 86400000000) @ ''T'' @ clock_text (n div 1000000 mod 86400) @
    fraction_text (n mod 1000000) @ ''+00:00''"

definition MAX_US :: nat where
  "MAX_US = 3652059 * 86400000000"

text \<open>The instant the digits of such a text name, and reading a text back.\<close>

definition read_us :: "string \<Rightarrow> nat" where
  "read_us s =
    (let q = undigits 0 (take 4 s) - 1; m = undigits 0 (take 2 (drop 5 s)) - 1;
         d = undigits 0 (take 2 (drop 8 s)) - 1;
         day = days_before q + month_starts (is_leap (q + 1)) ! (m mod 12) + d;
         sec = undigits 0 (take 2 (drop 11 s)) * 3600 + undigits 0 (take 2 (drop 14 s)) * 60
           + undigits 0 (take 2 (drop 17 s));
         us = (if length s = 25 then 0 else undigits 0 (take 6 (drop 20 s)))
     in (day * 86400 + sec) * 1000000 + us)"

section \<open>Datetimes\<close>

typedef datetime = "{n::nat. n < MAX_US}"
  morphisms us_of Abs_datetime
  by (rule exI [of _ 0]) (simp add: MAX_US_def)

setup_lifting type_definition_datetime

lift_definition dt_of :: "nat \<Rightarrow> datetime" is "\<lambda>n. n mod MAX_US"
  by (simp add: MAX_US_def)

lift_definition iso :: "datetime \<Rightarrow> string" is iso_text .

instantiation datetime :: linorder
begin

lift_definition less_eq_datetime :: "datetime \<Rightarrow> datetime \<Rightarrow> bool" is "(\<le>)" .

lift_definition less_datetime :: "datetime \<Rightarrow> datetime \<Rightarrow> bool" is "(<)" .

instance
  by standard (transfer; auto)+

end

instantiation datetime :: equal
begin

definition equal_datetime :: "datetime \<Rightarrow> datetime \<Rightarrow> bool" where
  "equal_datetime s t \<longleftrightarrow> us_of s = us_of t"

instance
  by standard (simp add: equal_datetime_def us_of_inject)

end

text \<open>
  \<open>datetime.fromisoformat\<close> on the texts that \<open>_iso\<close> writes; any other text is refused, as
  the source refuses a malformed lease.
\<close>

definition fromisoformat :: "string \<Rightarrow> datetime option" where
  "fromisoformat s =
    (let n = read_us s in if n < MAX_US \<and> iso_text n = s then Some (dt_of n) else None)"

text \<open>\<open>stamp + timedelta(seconds=\<dots>)\<close>: an instant out of range raises.\<close>

definition dt_add :: "datetime \<Rightarrow> int \<Rightarrow> datetime result" where
  "dt_add t s =
    (let n = int (us_of t) + s * 1000000
     in if 0 \<le> n \<and> n < int MAX_US then Inr (dt_of (nat n)) else Inl OverflowError)"

section \<open>The year of a day\<close>

lemma days_before_scaled:
  "400 * int (days_before q) =
    146097 * int q - 100 * int (q mod 4) + 4 * int (q mod 100) - int (q mod 400)"
proof -
  have "q div 100 \<le> 365 * q + q div 4" by simp
  then have "int (days_before q) = 365 * int q + int (q div 4) - int (q div 100) + int (q div 400)"
    by (simp add: days_before_def of_nat_diff)
  moreover have "int q = 4 * int (q div 4) + int (q mod 4)"
    and "int q = 100 * int (q div 100) + int (q mod 100)"
    and "int q = 400 * int (q div 400) + int (q mod 400)"
    using div_mult_mod_eq [of q 4] div_mult_mod_eq [of q 100] div_mult_mod_eq [of q 400] by linarith+
  ultimately show ?thesis by linarith
qed

lemma days_before_bounds:
  "146097 * int q - 699 \<le> 400 * int (days_before q)"
  "400 * int (days_before q) \<le> 146097 * int q + 396"
proof -
  have "q mod 4 \<le> 3" "q mod 100 \<le> 99" "q mod 400 \<le> 399" "q mod 4 \<ge> 0" "q mod 400 \<ge> 0"
    by (simp_all add: less_Suc_eq_le [symmetric])
  then show "146097 * int q - 699 \<le> 400 * int (days_before q)"
    and "400 * int (days_before q) \<le> 146097 * int q + 396"
    using days_before_scaled [of q] by linarith+
qed

lemma days_before_Suc: "days_before (Suc q) = days_before q + 365 + (if is_leap (Suc q) then 1 else 0)"
proof -
  have div: "Suc q div k = q div k + (if Suc q mod k = 0 then 1 else 0)" for k
    by (subst div_Suc) simp
  have imp: "Suc q mod 100 = 0 \<Longrightarrow> Suc q mod 4 = 0" "Suc q mod 400 = 0 \<Longrightarrow> Suc q mod 100 = 0"
    by (simp_all only: mod_eq_0_iff_dvd) (erule dvd_trans [rotated], simp)+
  obtain a b c where abc: "q div 4 = a" "q div 100 = b" "q div 400 = c" by blast
  have "b \<le> a" unfolding abc [symmetric] by (rule div_le_mono2) simp_all
  with imp show ?thesis
    unfolding days_before_def is_leap_def div abc
    by (cases "Suc q mod 4 = 0"; cases "Suc q mod 100 = 0"; cases "Suc q mod 400 = 0") simp_all
qed

lemma days_before_mono: "q \<le> q' \<Longrightarrow> days_before q \<le> days_before q'"
  by (rule lift_Suc_mono_le) (auto simp: days_before_Suc)

lemma year0_of_bounds: "days_before (year0_of day) \<le> day \<and> day < days_before (year0_of day + 1)"
proof -
  define e where "e = 400 * day div 146097"
  have e: "146097 * int e \<le> 400 * int day" "400 * int day < 146097 * int e + 146097"
    using div_mult_mod_eq [of "400 * day" 146097] mod_less_divisor [of 146097 "400 * day"]
    unfolding e_def by linarith+
  have low: "days_before e \<le> day" 
    using days_before_bounds(2) [of e] e by linarith
  have high: "day < days_before (e + 2)"
    using days_before_bounds(1) [of "e + 2"] e by simp
  show ?thesis
    using low high by (auto simp: year0_of_def e_def Let_def)
qed

lemma year0_of_mono: "day \<le> day' \<Longrightarrow> year0_of day \<le> year0_of day'"
proof (rule ccontr)
  assume le: "day \<le> day'" and "\<not> year0_of day \<le> year0_of day'"
  then have "days_before (year0_of day' + 1) \<le> days_before (year0_of day)"
    by (intro days_before_mono) simp
  with le year0_of_bounds [of day] year0_of_bounds [of day'] show False by linarith
qed

lemma year0_of_less: "day < 3652059 \<Longrightarrow> year0_of day < 9999"
proof (rule ccontr)
  assume "day < 3652059" and "\<not> year0_of day < 9999"
  then have "days_before 9999 \<le> days_before (year0_of day)"
    by (intro days_before_mono) simp
  moreover have "days_before 9999 = 3652059" by (simp add: days_before_def)
  ultimately show False
    using \<open>day < 3652059\<close> year0_of_bounds [of day] by linarith
qed

section \<open>The month of a day of the year\<close>

lemma length_takeWhile_mono:
  "(\<And>x. P x \<Longrightarrow> Q x) \<Longrightarrow> length (takeWhile P xs) \<le> length (takeWhile Q xs)"
  by (induction xs) auto

lemma length_month_starts: "length (month_starts leap) = 12"
  by (simp add: month_starts_def)

lemma month0_of_less: "month0_of leap doy < 12"
  using length_takeWhile_le [of "\<lambda>s. s \<le> doy" "tl (month_starts leap)"]
  by (simp add: month0_of_def length_month_starts)

lemma month0_of_mono: "doy \<le> doy' \<Longrightarrow> month0_of leap doy \<le> month0_of leap doy'"
  unfolding month0_of_def by (rule length_takeWhile_mono) simp

lemma month_start_le: "month_starts leap ! month0_of leap doy \<le> doy"
proof (cases "month0_of leap doy")
  case 0
  then show ?thesis by (simp add: month_starts_def)
next
  case (Suc k)
  define ys where "ys = tl (month_starts leap)"
  have k: "k < length (takeWhile (\<lambda>s. s \<le> doy) ys)"
    using Suc by (simp add: month0_of_def ys_def)
  then have "takeWhile (\<lambda>s. s \<le> doy) ys ! k \<le> doy"
    using nth_mem set_takeWhileD by metis
  with k have "ys ! k \<le> doy" by (simp add: takeWhile_nth)
  moreover have "month_starts leap = 0 # ys" by (simp add: ys_def month_starts_def)
  ultimately show ?thesis using Suc by simp
qed

lemma month_start_gap:
  "k < 11 \<Longrightarrow> tl (month_starts leap) ! k \<le> month_starts leap ! k + 31"
  by (auto simp: month_starts_def less_Suc_eq numeral_eq_Suc)

lemma month_day_less: "doy < 366 \<Longrightarrow> doy - month_starts leap ! month0_of leap doy < 32"
proof (cases "month0_of leap doy < 11")
  case True
  then have "doy < tl (month_starts leap) ! month0_of leap doy"
    using nth_length_takeWhile [of "\<lambda>s. s \<le> doy" "tl (month_starts leap)"]
    by (simp add: month0_of_def length_month_starts)
  with month_start_gap [OF True, of leap] show ?thesis by linarith
next
  case False
  assume "doy < 366"
  from False have "month0_of leap doy = 11" using month0_of_less [of leap doy] by linarith
  with \<open>doy < 366\<close> show ?thesis by (cases leap) (auto simp: month_starts_def)
qed

section \<open>Fixed-width numbers and the order of texts\<close>

lemma append_less_iff:
  fixes xs ys :: string
  shows "length xs = length ys \<Longrightarrow> (xs @ us < ys @ vs) = (xs < ys \<or> xs = ys \<and> us < vs)"
  by (induction xs ys rule: list_induct2) auto

lemma length_pad [simp]: "length (pad w n) = w"
  by (induction w arbitrary: n) simp_all

lemma of_char_digit: "d < 10 \<Longrightarrow> of_char (digit d) = 48 + d"
  by (simp add: digit_def)

lemma digit_less_iff: "d < 10 \<Longrightarrow> e < 10 \<Longrightarrow> digit d < digit e \<longleftrightarrow> d < e"
  by (simp add: less_char_def of_char_digit)

lemma pad_less: "n < m \<Longrightarrow> m < 10 ^ w \<Longrightarrow> pad w n < pad w m"
proof (induction w arbitrary: n m)
  case 0
  then show ?case by simp
next
  case (Suc w)
  have less: "m div 10 < 10 ^ w"
    using Suc.prems(2) by (simp add: less_mult_imp_div_less mult.commute)
  show ?case
  proof (cases "n div 10 = m div 10")
    case True
    with Suc.prems(1) have "n mod 10 < m mod 10"
      using div_mult_mod_eq [of n 10] div_mult_mod_eq [of m 10] by linarith
    with True show ?thesis by (simp add: append_less_iff digit_less_iff)
  next
    case False
    with Suc.prems(1) have "n div 10 < m div 10"
      by (simp add: div_le_mono le_neq_implies_less)
    with Suc.IH less show ?thesis by (simp add: append_less_iff)
  qed
qed

lemma undigits_append: "undigits acc (xs @ ys) = undigits (undigits acc xs) ys"
  by (induction acc xs rule: undigits.induct) simp_all

lemma undigits_pad: "n < 10 ^ w \<Longrightarrow> undigits 0 (pad w n) = n"
proof (induction w arbitrary: n)
  case 0
  then show ?case by simp
next
  case (Suc w)
  then have "n div 10 < 10 ^ w"
    by (simp add: less_mult_imp_div_less mult.commute)
  with Suc.IH show ?case by (simp add: undigits_append of_char_digit)
qed


lemma length_date_text: "length (date_text day) = 10"
  by (simp add: date_text_def Let_def)

lemma length_clock_text: "length (clock_text sec) = 8"
  by (simp add: clock_text_def)

lemma day_of_year_less: "day - days_before (year0_of day) < 366"
  using year0_of_bounds [of day] days_before_Suc [of "year0_of day"]
  by (auto split: if_splits)

lemma date_text_less:
  assumes "day < day'" and "day' < 3652059"
  shows "date_text day < date_text day'"
proof -
  define q q' where "q = year0_of day" and "q' = year0_of day'"
  define l where "l = is_leap (q + 1)"
  define y y' where "y = day - days_before q" and "y' = day' - days_before q'"
  have le: "q \<le> q'" and b: "q' < 9999" and y366: "y' < 366"
    using assms year0_of_mono [of day day'] year0_of_less [of day'] day_of_year_less [of day']
    by (simp_all add: q_def q'_def y'_def)
  show ?thesis
  proof (cases "q = q'")
    case False
    then have "pad 4 (q + 1) < pad 4 (q' + 1)" using le b by (intro pad_less) simp_all
    then show ?thesis
      unfolding date_text_def Let_def q_def [symmetric] q'_def [symmetric]
      by (simp add: append_less_iff)
  next
    case True
    have yy: "y < y'"
      using assms(1) year0_of_bounds [of day] True by (auto simp: y_def y'_def q_def intro: diff_less_mono)
    define m m' where "m = month0_of l y" and "m' = month0_of l y'"
    have "m \<le> m'" and "m' < 12"
      using month0_of_mono [of y y' l] month0_of_less [of l y'] yy by (simp_all add: m_def m'_def)
    then have "pad 2 (m + 1) < pad 2 (m' + 1) \<or> m = m'"
      using pad_less [of "m + 1" "m' + 1" 2] by fastforce
    moreover have "pad 2 (y - month_starts l ! m + 1) < pad 2 (y' - month_starts l ! m + 1)"
      if "m = m'"
      using that month_day_less [OF y366, of l] diff_less_mono [OF yy month_start_le, of l]
      by (intro pad_less) (simp_all add: m_def m'_def)
    moreover have "date_text day = pad 4 (q + 1) @ ''-'' @ pad 2 (m + 1) @ ''-'' @
        pad 2 (y - month_starts l ! m + 1)"
      by (simp add: date_text_def Let_def q_def l_def y_def m_def)
    moreover have "date_text day' = pad 4 (q + 1) @ ''-'' @ pad 2 (m' + 1) @ ''-'' @
        pad 2 (y' - month_starts l ! m' + 1)"
      unfolding True by (simp add: date_text_def Let_def q'_def l_def y'_def m'_def True)
    ultimately show ?thesis
      by (auto simp: append_less_iff)
  qed
qed

lemma mixed_radix_less:
  fixes a b :: nat
  assumes "a * k + b < a' * k + b'" and "b < k" and "b' < k"
  shows "a < a' \<or> a = a' \<and> b < b'"
proof (cases a a' rule: linorder_cases)
  case greater
  then have "Suc a' * k \<le> a * k" by (intro mult_le_mono1) simp
  with assms show ?thesis by simp
qed (use assms in simp_all)

lemma mixed_radix_less3:
  fixes a b c :: nat
  assumes "(a * k + b) * l + c < (a' * k + b') * l + c'"
    and "b < k" and "b' < k" and "c < l" and "c' < l"
  shows "a < a' \<or> a = a' \<and> b < b' \<or> a = a' \<and> b = b' \<and> c < c'"
proof (cases "a * k + b = a' * k + b'")
  case True
  moreover have "(a * k + b) div k = a" "(a' * k + b') div k = a'"
    using assms(2,3) by auto
  ultimately have "a = a'" by metis
  with assms True show ?thesis by simp
next
  case False
  with mixed_radix_less [OF assms(1,4,5)] have "a * k + b < a' * k + b'" by blast
  from mixed_radix_less [OF this assms(2,3)] show ?thesis by blast
qed

lemma seconds_split: "(s div 3600 * 60 + s div 60 mod 60) * 60 + s mod 60 = (s :: nat)"
proof -
  have "s div 3600 * 60 + s div 60 mod 60 = s div 60"
    using div_mult_mod_eq [of "s div 60" 60] by (simp add: div_mult2_eq [symmetric])
  then show ?thesis by simp
qed

lemma clock_text_less:
  assumes "sec < sec'" and "sec' < 86400"
  shows "clock_text sec < clock_text sec'"
proof -
  have d: "a < b \<Longrightarrow> b < 100 \<Longrightarrow> pad 2 a < pad 2 b" for a b :: nat
    by (rule pad_less) simp_all
  have lt: "(sec div 3600 * 60 + sec div 60 mod 60) * 60 + sec mod 60
      < (sec' div 3600 * 60 + sec' div 60 mod 60) * 60 + sec' mod 60"
    using assms(1) by (simp only: seconds_split)
  have b: "sec' div 3600 < 100" "sec' div 60 mod 60 < 100" "sec' mod 60 < 100"
    using assms(2) less_mult_imp_div_less [of sec' 24 3600] mod_less_divisor [of 60 "sec' div 60"]
      mod_less_divisor [of 60 sec'] by linarith+
  consider
      "sec div 3600 < sec' div 3600"
    | "sec div 3600 = sec' div 3600" "sec div 60 mod 60 < sec' div 60 mod 60"
    | "sec div 3600 = sec' div 3600" "sec div 60 mod 60 = sec' div 60 mod 60" "sec mod 60 < sec' mod 60"
    using mixed_radix_less3 [OF lt] by auto
  then show ?thesis
    using b by cases (simp_all add: clock_text_def append_less_iff d)
qed

lemma fraction_text_less:
  assumes "us < us'" and "us' < 1000000"
  shows "fraction_text us @ ''+00:00'' < fraction_text us' @ ''+00:00''"
  using assms pad_less [of us us' 6]
  by (auto simp: fraction_text_def append_less_iff less_char_def)

lemma us_split: "n = (n div 86400000000 * 86400 + n div 1000000 mod 86400) * 1000000 + n mod (1000000::nat)"
  using div_mult_mod_eq [of n 1000000] div_mult_mod_eq [of "n div 1000000" 86400]
  by (simp add: div_mult2_eq [symmetric])

text \<open>The text of a later instant is the greater text.\<close>

lemma iso_text_less:
  assumes "n < n'" and "n' < MAX_US"
  shows "iso_text n < iso_text n'"
proof -
  define d d' where "d = n div 86400000000" and "d' = n' div 86400000000"
  define s s' where "s = n div 1000000 mod 86400" and "s' = n' div 1000000 mod 86400"
  define u u' where "u = n mod 1000000" and "u' = n' mod 1000000"
  have b: "d' < 3652059" "s < 86400" "s' < 86400" "u < 1000000" "u' < 1000000"
    using assms(2) by (simp_all add: d'_def s_def s'_def u_def u'_def MAX_US_def less_mult_imp_div_less)
  have n: "n = (d * 86400 + s) * 1000000 + u" and n': "n' = (d' * 86400 + s') * 1000000 + u'"
    using us_split [of n] us_split [of n']
    by (simp_all add: d_def d'_def s_def s'_def u_def u'_def)
  consider "d < d'" | "d = d'" "s < s'" | "d = d'" "s = s'" "u < u'"
    using mixed_radix_less3 [OF assms(1) [unfolded n n']] b by auto
  then have "date_text d @ ''T'' @ clock_text s @ fraction_text u @ ''+00:00''
      < date_text d' @ ''T'' @ clock_text s' @ fraction_text u' @ ''+00:00''"
    using date_text_less [of d d'] clock_text_less [of s s'] fraction_text_less [of u u'] b
    by cases (simp_all add: append_less_iff length_date_text length_clock_text)
  then show ?thesis
    by (simp add: iso_text_def d_def d'_def s_def s'_def u_def u'_def)
qed


section \<open>Reading a text back\<close>

lemma read_iso_text:
  assumes "n < MAX_US"
  shows "read_us (iso_text n) = n"
proof -
  define d s u where "d = n div 86400000000" and "s = n div 1000000 mod 86400"
    and "u = n mod 1000000"
  define q where "q = year0_of d"
  define l where "l = is_leap (q + 1)"
  define y where "y = d - days_before q"
  define m where "m = month0_of l y"
  have d: "d < 3652059" and s: "s < 86400" and u: "u < 1000000"
    using assms by (simp_all add: d_def s_def u_def MAX_US_def less_mult_imp_div_less)
  have q: "q + 1 < 10 ^ 4" "days_before q \<le> d" "y < 366"
    using year0_of_less [OF d] year0_of_bounds [of d] day_of_year_less [of d]
    by (simp_all add: q_def y_def)
  have m: "m < 12" "month_starts l ! m \<le> y" "y - month_starts l ! m + 1 < 10 ^ 2"
    using month0_of_less [of l y] month_start_le [of l y] month_day_less [OF q(3), of l]
    by (simp_all add: m_def)
  have c: "s div 3600 < 10 ^ 2" "s div 60 mod 60 < 10 ^ 2" "s mod 60 < 10 ^ 2"
    using s mod_less_divisor [of 60 "s div 60"] mod_less_divisor [of 60 s]
      less_mult_imp_div_less [of s 24 3600] by simp_all
  have shape: "iso_text n = pad 4 (q + 1) @ ''-'' @ pad 2 (m + 1) @ ''-'' @
      pad 2 (y - month_starts l ! m + 1) @ ''T'' @ pad 2 (s div 3600) @ '':'' @
      pad 2 (s div 60 mod 60) @ '':'' @ pad 2 (s mod 60) @ fraction_text u @ ''+00:00''"
    by (simp add: iso_text_def date_text_def clock_text_def Let_def d_def s_def u_def q_def l_def
        y_def m_def)
  have sec: "s div 3600 * 3600 + (s div 60 mod 60) * 60 + s mod 60 = s"
    using seconds_split [of s] by (simp add: algebra_simps)
  have "read_us (iso_text n) =
      ((days_before q + month_starts l ! m + (y - month_starts l ! m)) * 86400 +
        (s div 3600 * 3600 + (s div 60 mod 60) * 60 + s mod 60)) * 1000000 + u"
    unfolding read_us_def shape Let_def
    using undigits_pad [OF q(1)] undigits_pad [of "m + 1" 2] undigits_pad [OF m(3)]
      undigits_pad [OF c(1)] undigits_pad [OF c(2)] undigits_pad [OF c(3)] undigits_pad [of u 6] m(1) u
    by (cases "u = 0") (simp_all add: fraction_text_def l_def take_Cons' drop_Cons')
  also have "\<dots> = (d * 86400 + s) * 1000000 + u"
    using q m sec by (simp add: y_def)
  also have "\<dots> = n"
    using us_split [of n] by (simp add: d_def s_def u_def)
  finally show ?thesis .
qed

section \<open>The contract of instants stored as text\<close>

text \<open>
  What the database relies on when it stores instants as text: a text reads back as its
  instant, the order of texts is the order of instants, and no text is the empty string that
  stands for \<open>no instant\<close>.
\<close>

locale instant_text =
  fixes render :: "'t::linorder \<Rightarrow> string" and parse :: "string \<Rightarrow> 't option"
  assumes parse_render: "parse (render t) = Some t"
    and render_less: "s < t \<Longrightarrow> render s < render t"
    and render_nonempty: "render t \<noteq> ''''"
begin

lemma render_inject: "render s = render t \<longleftrightarrow> s = t"
  by (metis option.inject parse_render)

lemma render_less_iff: "render s < render t \<longleftrightarrow> s < t"
  by (metis less_asym' linorder_less_linear render_inject render_less)

lemma render_le_iff: "render s \<le> render t \<longleftrightarrow> s \<le> t"
  by (metis linorder_not_less render_less_iff)

end

lemma us_of_dt_of [simp]: "us_of (dt_of n) = n mod MAX_US"
  by transfer simp

lemma us_of_less: "us_of t < MAX_US"
  by transfer simp

lemma dt_of_us_of [simp]: "dt_of (us_of t) = t"
  by (simp add: us_of_inject [symmetric] us_of_less)

lemma iso_alt: "iso t = iso_text (us_of t)"
  by (simp add: iso.rep_eq)

lemma less_us_of: "s < t \<longleftrightarrow> us_of s < us_of t" and le_us_of: "s \<le> t \<longleftrightarrow> us_of s \<le> us_of t"
  by (transfer; simp)+

interpretation iso_instants: instant_text iso fromisoformat
proof unfold_locales
  fix s t :: datetime
  show "fromisoformat (iso t) = Some t"
    by (simp add: fromisoformat_def iso_alt read_iso_text us_of_less)
  show "iso s < iso t" if "s < t"
    using that by (simp add: iso_alt iso_text_less us_of_less less_us_of)
  show "iso t \<noteq> ''''"
    by (simp add: iso_alt iso_text_def)
qed

lemmas iso_simps [simp] =
  iso_instants.parse_render iso_instants.render_nonempty iso_instants.render_inject
  iso_instants.render_less_iff iso_instants.render_le_iff

lemma dt_add_InrD: "dt_add t s = Inr u \<Longrightarrow> int (us_of u) = int (us_of t) + s * 1000000"
  by (auto simp: dt_add_def Let_def nat_less_iff split: if_splits)

lemma dt_add_later: "dt_add t s = Inr u \<Longrightarrow> 0 < s \<Longrightarrow> t < u"
  using dt_add_InrD [of t s u] by (simp add: less_us_of)

lemma dt_add_mono: "dt_add t s = Inr u \<Longrightarrow> dt_add t' s = Inr u' \<Longrightarrow> t \<le> t' \<Longrightarrow> u \<le> u'"
  using dt_add_InrD [of t s u] dt_add_InrD [of t' s u'] by (simp add: le_us_of)

end
