(* ===== verification/Py_Json.thy ===== *)
theory Py_Json
  imports Iso_Time
begin

text \<open>
  The JSON values the worker handles and the Python operations on them that the code uses:
  truth value, \<open>or\<close>, \<open>dict.get\<close>, \<open>str\<close>, and \<open>json.dumps\<close>/\<open>json.loads\<close> with the options of
  \<open>_json_dumps\<close> in \<open>rag_ingress/state_db.py\<close> (sorted keys, compact separators, ASCII output) and of the
  other writers of the lane.
  A dict is the list of its items in insertion order, with distinct keys.  A character is a
  code point below 256; JSON numbers are integers (the wire payloads have no fractions), so
  reading a fraction fails.  Shown here: reading a dumped value back gives the value with the
  keys of its dicts sorted, which is the same value to Python's \<open>==\<close>.
\<close>

section \<open>Values\<close>

datatype json =
    JNull
  | JBool bool
  | JInt int
  | JStr string
  | JArr "json list"
  | JObj "(string \<times> json) list"

type_synonym dict = "(string \<times> json) list"

fun truthy :: "json \<Rightarrow> bool" where
  "truthy JNull = False"
| "truthy (JBool b) = b"
| "truthy (JInt i) = (i \<noteq> 0)"
| "truthy (JStr s) = (s \<noteq> [])"
| "truthy (JArr xs) = (xs \<noteq> [])"
| "truthy (JObj ps) = (ps \<noteq> [])"

definition py_or :: "json \<Rightarrow> json \<Rightarrow> json" where
  "py_or a b = (if truthy a then a else b)"

fun is_dict :: "json \<Rightarrow> bool" where
  "is_dict (JObj ps) = True"
| "is_dict _ = False"

text \<open>\<open>d.get(k)\<close> on a dict, \<open>None\<close> when the key is absent; on another value, AttributeError.\<close>

definition get_item :: "dict \<Rightarrow> string \<Rightarrow> json" where
  "get_item d k = (case map_of d k of None \<Rightarrow> JNull | Some v \<Rightarrow> v)"

fun dict_get :: "json \<Rightarrow> string \<Rightarrow> json result" where
  "dict_get (JObj ps) k = Inr (get_item ps k)"
| "dict_get _ k = Inl (AttributeError ''get'')"

text \<open>\<open>d[k] = v\<close>: replaced in place, or appended.\<close>

fun set_item :: "dict \<Rightarrow> string \<Rightarrow> json \<Rightarrow> dict" where
  "set_item [] k v = [(k, v)]"
| "set_item ((k', v') # ps) k v = (if k' = k then (k, v) # ps else (k', v') # set_item ps k v)"

definition set_default :: "dict \<Rightarrow> string \<Rightarrow> json \<Rightarrow> dict" where
  "set_default d k v = (case map_of d k of None \<Rightarrow> d @ [(k, v)] | Some _ \<Rightarrow> d)"

section \<open>Decimal numbers and \<open>str\<close>\<close>

fun show_nat :: "nat \<Rightarrow> string" where
  "show_nat n = (if n < 10 then [digit n] else show_nat (n div 10) @ [digit (n mod 10)])"

declare show_nat.simps [simp del]

definition show_int :: "int \<Rightarrow> string" where
  "show_int i = (if i < 0 then CHR ''-'' # show_nat (nat (- i)) else show_nat (nat i))"

definition hex_digit :: "nat \<Rightarrow> char" where
  "hex_digit d = (if d < 10 then char_of (48 + d) else char_of (87 + d))"

definition code :: "char \<Rightarrow> nat" where
  "code c = of_char c"

definition hex2 :: "char \<Rightarrow> string" where
  "hex2 c = [hex_digit (code c div 16), hex_digit (code c mod 16)]"

definition repr_char :: "char \<Rightarrow> char \<Rightarrow> string" where
  "repr_char q c =
    (if c = q \<or> code c = 92 then [char_of (92::nat), c]
     else if code c = 10 then [char_of (92::nat), CHR ''n'']
     else if code c = 13 then [char_of (92::nat), CHR ''r'']
     else if code c = 9 then [char_of (92::nat), CHR ''t'']
     else if code c < 32 \<or> 127 \<le> code c \<and> code c \<le> 160 \<or> code c = 173
     then char_of (92::nat) # CHR ''x'' # hex2 c
     else [c])"

definition repr_string :: "string \<Rightarrow> string" where
  "repr_string s =
    (let q = (if char_of (39::nat) \<in> set s \<and> CHR 0x22 \<notin> set s then CHR 0x22 else char_of (39::nat))
     in q # concat (map (repr_char q) s) @ [q])"

fun join :: "string \<Rightarrow> string list \<Rightarrow> string" where
  "join sep [] = []"
| "join sep [x] = x"
| "join sep (x # xs) = x @ sep @ join sep xs"

primrec py_repr :: "json \<Rightarrow> string" where
  "py_repr JNull = ''None''"
| "py_repr (JBool b) = (if b then ''True'' else ''False'')"
| "py_repr (JInt i) = show_int i"
| "py_repr (JStr s) = repr_string s"
| "py_repr (JArr xs) = ''['' @ join '', '' (map py_repr xs) @ '']''"
| "py_repr (JObj ps) =
    ''{'' @ join '', '' (map (\<lambda>kv. repr_string (fst kv) @ '': '' @ snd kv) (map (map_prod id py_repr) ps))
    @ ''}''"

definition py_str :: "json \<Rightarrow> string" where
  "py_str j = (case j of JStr s \<Rightarrow> s | _ \<Rightarrow> py_repr j)"

text \<open>The code's ubiquitous \<open>str(x or "")\<close>.\<close>

definition str_or_empty :: "json \<Rightarrow> string" where
  "str_or_empty j = (if truthy j then py_str j else '''')"

section \<open>Writing\<close>

text \<open>
  The style of a text: \<open>separators=(",", ":")\<close> or the default separators, which put a blank after the
  comma and the colon, and whether \<open>ensure_ascii\<close> escapes what is not ASCII.
\<close>

record json_style =
  sep_spaced :: bool
  ensure_ascii :: bool

definition esc_char :: "json_style \<Rightarrow> char \<Rightarrow> string" where
  "esc_char sp c =
    (if code c = 34 \<or> code c = 92 then [char_of (92::nat), c]
     else if code c = 10 then [char_of (92::nat), CHR ''n'']
     else if code c = 13 then [char_of (92::nat), CHR ''r'']
     else if code c = 9 then [char_of (92::nat), CHR ''t'']
     else if code c = 8 then [char_of (92::nat), CHR ''b'']
     else if code c = 12 then [char_of (92::nat), CHR ''f'']
     else if code c < 32 \<or> ensure_ascii sp \<and> 126 < code c
     then char_of (92::nat) # CHR ''u'' # CHR ''0'' # CHR ''0'' # hex2 c
     else [c])"

definition quote :: "json_style \<Rightarrow> string \<Rightarrow> string" where
  "quote sp s = CHR 0x22 # concat (map (esc_char sp) s) @ [CHR 0x22]"

definition gap :: "json_style \<Rightarrow> string" where
  "gap sp = (if sep_spaced sp then '' '' else '''')"

primrec json_print :: "json_style \<Rightarrow> json \<Rightarrow> string" where
  "json_print sp JNull = ''null''"
| "json_print sp (JBool b) = (if b then ''true'' else ''false'')"
| "json_print sp (JInt i) = show_int i"
| "json_print sp (JStr s) = quote sp s"
| "json_print sp (JArr xs) = ''['' @ join ('','' @ gap sp) (map (json_print sp) xs) @ '']''"
| "json_print sp (JObj ps) =
    ''{'' @ join ('','' @ gap sp) (map (\<lambda>kv. quote sp (fst kv) @ '':'' @ gap sp @ snd kv) (map (map_prod id (json_print sp)) ps))
    @ ''}''"

text \<open>Sorting the keys of every dict: the canonical form of a value.\<close>

primrec json_canon :: "json \<Rightarrow> json" where
  "json_canon JNull = JNull"
| "json_canon (JBool b) = JBool b"
| "json_canon (JInt i) = JInt i"
| "json_canon (JStr s) = JStr s"
| "json_canon (JArr xs) = JArr (map json_canon xs)"
| "json_canon (JObj ps) = JObj (sort_key fst (map (map_prod id json_canon) ps))"

definition json_dumps :: "json \<Rightarrow> string" where
  "json_dumps j = json_print \<lparr>sep_spaced = False, ensure_ascii = True\<rparr> (json_canon j)"

text \<open>\<open>json.dump(value, handle, sort_keys=True)\<close>, with the default separators.\<close>

definition json_dump_sorted :: "json \<Rightarrow> string" where
  "json_dump_sorted j = json_print \<lparr>sep_spaced = True, ensure_ascii = True\<rparr> (json_canon j)"

text \<open>\<open>json.dumps(value, ensure_ascii=False, sort_keys=True, separators=(",", ":"))\<close>.\<close>

definition json_dumps_raw :: "json \<Rightarrow> string" where
  "json_dumps_raw j = json_print \<lparr>sep_spaced = False, ensure_ascii = False\<rparr> (json_canon j)"

text \<open>Python's \<open>==\<close> on such values: the order of a dict's items does not matter.\<close>

definition json_eq :: "json \<Rightarrow> json \<Rightarrow> bool" where
  "json_eq a b \<longleftrightarrow> json_canon a = json_canon b"

primrec json_wf :: "json \<Rightarrow> bool" where
  "json_wf JNull = True"
| "json_wf (JBool b) = True"
| "json_wf (JInt i) = True"
| "json_wf (JStr s) = True"
| "json_wf (JArr xs) = list_all id (map json_wf xs)"
| "json_wf (JObj ps) = (distinct (map fst ps) \<and> list_all snd (map (map_prod id json_wf) ps))"

section \<open>Reading\<close>

fun skip_ws :: "string \<Rightarrow> string" where
  "skip_ws (c # cs) = (if code c \<in> {32, 9, 10, 13} then skip_ws cs else c # cs)"
| "skip_ws [] = []"

definition hex_value :: "char \<Rightarrow> nat option" where
  "hex_value c =
    (let n = code c
     in if 48 \<le> n \<and> n \<le> 57 then Some (n - 48)
        else if 97 \<le> n \<and> n \<le> 102 then Some (n - 87)
        else if 65 \<le> n \<and> n \<le> 70 then Some (n - 55)
        else None)"

definition unicode_escape :: "char \<Rightarrow> char \<Rightarrow> char \<Rightarrow> char \<Rightarrow> char option" where
  "unicode_escape h1 h2 h3 h4 =
    (case (hex_value h1, hex_value h2, hex_value h3, hex_value h4) of
       (Some a, Some b, Some c, Some d) \<Rightarrow>
         (if a = 0 \<and> b = 0 then Some (char_of (16 * c + d)) else None)
     | _ \<Rightarrow> None)"

definition simple_escape :: "char \<Rightarrow> char option" where
  "simple_escape e =
    (if code e = 34 \<or> code e = 92 \<or> e = CHR ''/'' then Some e
     else if e = CHR ''n'' then Some (char_of (10::nat))
     else if e = CHR ''r'' then Some (char_of (13::nat))
     else if e = CHR ''t'' then Some (char_of (9::nat))
     else if e = CHR ''b'' then Some (char_of (8::nat))
     else if e = CHR ''f'' then Some (char_of (12::nat))
     else None)"

definition cons_fst :: "char \<Rightarrow> (string \<times> string) option \<Rightarrow> (string \<times> string) option" where
  "cons_fst c r = map_option (apfst (Cons c)) r"

function (sequential) scan_string :: "string \<Rightarrow> (string \<times> string) option" where
  "scan_string [] = None"
| "scan_string (c # cs) =
    (if code c = 34 then Some ([], cs)
     else if code c = 92 then
       (case cs of
          [] \<Rightarrow> None
        | e # rest \<Rightarrow>
            if e = CHR ''u'' then
              (if length rest < 4 then None
               else case unicode_escape (rest ! 0) (rest ! 1) (rest ! 2) (rest ! 3) of
                 None \<Rightarrow> None
               | Some d \<Rightarrow> cons_fst d (scan_string (drop 4 rest)))
            else (case simple_escape e of
                 None \<Rightarrow> None
               | Some d \<Rightarrow> cons_fst d (scan_string rest)))
     else if code c < 32 then None
     else cons_fst c (scan_string cs))"
  by pat_completeness auto
termination
  by (relation "measure length") auto

definition is_digit_char :: "char \<Rightarrow> bool" where
  "is_digit_char c \<longleftrightarrow> 48 \<le> code c \<and> code c \<le> 57"

definition scan_nat :: "string \<Rightarrow> (nat \<times> string) option" where
  "scan_nat s =
    (let ds = takeWhile is_digit_char s; r = dropWhile is_digit_char s
     in if ds = [] \<or> (hd ds = CHR ''0'' \<and> length ds > 1) then None
        else if r \<noteq> [] \<and> hd r \<in> {CHR ''.'', CHR ''e'', CHR ''E''} then None
        else Some (undigits 0 ds, r))"

definition scan_int :: "string \<Rightarrow> (json \<times> string) option" where
  "scan_int s =
    (case s of
       c # cs \<Rightarrow>
         if c = CHR ''-'' then map_option (\<lambda>(n, r). (JInt (- int n), r)) (scan_nat cs)
         else map_option (\<lambda>(n, r). (JInt (int n), r)) (scan_nat s)
     | [] \<Rightarrow> None)"

definition dict_of_pairs :: "(string \<times> json) list \<Rightarrow> dict" where
  "dict_of_pairs ps = foldl (\<lambda>d (k, v). set_item d k v) [] ps"

fun parse_value :: "nat \<Rightarrow> string \<Rightarrow> (json \<times> string) option"
and parse_elements :: "nat \<Rightarrow> string \<Rightarrow> (json list \<times> string) option"
and parse_members :: "nat \<Rightarrow> string \<Rightarrow> ((string \<times> json) list \<times> string) option" where
  "parse_value 0 s = None"
| "parse_value (Suc fuel) s =
    (case s of
       [] \<Rightarrow> None
     | c # cs \<Rightarrow>
         if code c = 34 then map_option (\<lambda>(x, r). (JStr x, r)) (scan_string cs)
         else if c = CHR ''['' then
           (if take 1 (skip_ws cs) = '']'' then Some (JArr [], drop 1 (skip_ws cs))
            else map_option (\<lambda>(xs, r). (JArr xs, r)) (parse_elements fuel (skip_ws cs)))
         else if c = CHR ''{'' then
           (if take 1 (skip_ws cs) = ''}'' then Some (JObj [], drop 1 (skip_ws cs))
            else map_option (\<lambda>(ps, r). (JObj (dict_of_pairs ps), r)) (parse_members fuel (skip_ws cs)))
         else if take 4 s = ''null'' then Some (JNull, drop 4 s)
         else if take 4 s = ''true'' then Some (JBool True, drop 4 s)
         else if take 5 s = ''false'' then Some (JBool False, drop 5 s)
         else scan_int s)"
| "parse_elements 0 s = None"
| "parse_elements (Suc fuel) s =
    (case parse_value fuel s of
       None \<Rightarrow> None
     | Some (v, r) \<Rightarrow>
         (case skip_ws r of
            [] \<Rightarrow> None
          | c # r' \<Rightarrow>
              if c = CHR '']'' then Some ([v], r')
              else if c = CHR '','' then map_option (apfst (Cons v)) (parse_elements fuel (skip_ws r'))
              else None))"
| "parse_members 0 s = None"
| "parse_members (Suc fuel) s =
    (case s of
       [] \<Rightarrow> None
     | c # cs \<Rightarrow>
         if code c \<noteq> 34 then None
         else (case scan_string cs of
            None \<Rightarrow> None
          | Some (k, r) \<Rightarrow>
              (case skip_ws r of
                 [] \<Rightarrow> None
               | c # r' \<Rightarrow>
                   if c \<noteq> CHR '':'' then None
                   else (case parse_value fuel (skip_ws r') of
                      None \<Rightarrow> None
                    | Some (v, r2) \<Rightarrow>
                        (case skip_ws r2 of
                           [] \<Rightarrow> None
                         | c # r3 \<Rightarrow>
                             if c = CHR ''}'' then Some ([(k, v)], r3)
                             else if c = CHR '','' then
                               map_option (apfst (Cons (k, v))) (parse_members fuel (skip_ws r3))
                             else None)))))"

text \<open>Every recursive call reads on past a character, so the length of the text is enough fuel.\<close>

definition json_loads :: "string \<Rightarrow> json option" where
  "json_loads s =
    (case parse_value (Suc (length s)) (skip_ws s) of
       None \<Rightarrow> None
     | Some (v, r) \<Rightarrow> if skip_ws r = [] then Some v else None)"

section \<open>Strings read back\<close>

lemma code_less: "code c < 256"
  by (simp add: code_def)

lemma code_char_of [simp]: "n < 256 \<Longrightarrow> code (char_of n) = n"
  by (simp add: code_def)

lemma char_of_code [simp]: "char_of (code c) = c"
  by (simp add: code_def)

lemma code_eq_iff: "code c = code d \<longleftrightarrow> c = d"
  by (simp add: code_def)

lemma hex_value_digit: "d < 16 \<Longrightarrow> hex_value (hex_digit d) = Some d"
  by (auto simp: hex_value_def hex_digit_def Let_def)

lemma unicode_escape_hex2:
  "unicode_escape (CHR ''0'') (CHR ''0'') (hex_digit (code c div 16)) (hex_digit (code c mod 16)) = Some c"
proof -
  have "code c div 16 < 16" using code_less [of c] by (simp add: less_mult_imp_div_less)
  moreover have "hex_value (CHR ''0'') = Some 0" by (simp add: hex_value_def code_def)
  ultimately show ?thesis by (simp add: unicode_escape_def hex_value_digit)
qed

declare scan_string.simps [simp del]

lemma scan_quote: "scan_string (CHR 0x22 # r) = Some ([], r)"
  by (simp add: scan_string.simps code_def)

lemma scan_esc_char: "scan_string (esc_char sp c @ r) = cons_fst c (scan_string r)"
proof -
  have bs: "code (CHR 0x5C) = 92" "char_of (92::nat) = CHR 0x5C"
    by (simp_all add: code_eq_iff [symmetric]) (simp_all add: code_def)
  have simple: "scan_string (CHR 0x5C # e # r) = cons_fst d (scan_string r)"
    if "simple_escape e = Some d" "e \<noteq> CHR ''u''" for e d
    using that by (simp add: scan_string.simps(2) bs)
  have c: "c = char_of n" if "code c = n" for n
    using that by auto
  have uni: "scan_string (CHR 0x5C # CHR ''u'' # CHR ''0'' # CHR ''0'' # hex2 c @ r)
      = cons_fst c (scan_string r)"
    by (simp add: scan_string.simps(2) bs hex2_def unicode_escape_hex2)
  have plain: "scan_string (c # r) = cons_fst c (scan_string r)"
    if "code c \<noteq> 34" "code c \<noteq> 92" "\<not> code c < 32"
    using that by (simp add: scan_string.simps(2))
  have esc: "simple_escape c = Some c" "c \<noteq> CHR ''u''" if "code c = 34 \<or> code c = 92"
    using that by (auto simp: simple_escape_def code_def)
  have ctl: "simple_escape (CHR ''n'') = Some (char_of (10::nat))"
    "simple_escape (CHR ''r'') = Some (char_of (13::nat))"
    "simple_escape (CHR ''t'') = Some (char_of (9::nat))"
    "simple_escape (CHR ''b'') = Some (char_of (8::nat))"
    "simple_escape (CHR ''f'') = Some (char_of (12::nat))"
    by (simp_all add: simple_escape_def code_def)
  consider "code c = 34 \<or> code c = 92" | "code c = 10" | "code c = 13" | "code c = 9" | "code c = 8"
    | "code c = 12"
    | "code c \<noteq> 34" "code c \<noteq> 92" "code c \<noteq> 10" "code c \<noteq> 13" "code c \<noteq> 9" "code c \<noteq> 8"
      "code c \<noteq> 12" by blast
  then show ?thesis
  proof cases
    case 1
    then show ?thesis using simple [OF esc] by (simp add: esc_char_def bs)
  qed (use simple [OF ctl(1)] simple [OF ctl(2)] simple [OF ctl(3)] simple [OF ctl(4)]
      simple [OF ctl(5)] uni plain in \<open>auto simp: esc_char_def bs dest: c\<close>)
qed

lemma scan_string_quote: "scan_string (concat (map (esc_char sp) s) @ CHR 0x22 # r) = Some (s, r)"
  by (induction s) (simp_all add: scan_quote scan_esc_char cons_fst_def)

section \<open>Numbers read back\<close>

lemma show_nat_nonempty [simp]: "show_nat n \<noteq> []"
  by (subst show_nat.simps) simp

lemma undigits_show_nat: "undigits 0 (show_nat n) = n"
proof (induction n rule: show_nat.induct)
  case (1 n)
  then show ?case
    by (subst show_nat.simps) (auto simp: undigits_append of_char_digit)
qed

lemma digit_is_digit: "d < 10 \<Longrightarrow> is_digit_char (digit d)"
  by (simp add: is_digit_char_def code_def of_char_digit)

lemma show_nat_digits: "c \<in> set (show_nat n) \<Longrightarrow> is_digit_char c"
proof (induction n rule: show_nat.induct)
  case (1 n)
  then show ?case
    by (subst (asm) (2) show_nat.simps) (auto simp: digit_is_digit split: if_splits)
qed

lemma digit_0_iff: "d < 10 \<Longrightarrow> digit d = CHR ''0'' \<longleftrightarrow> d = 0"
  by (simp add: digit_def code_eq_iff [symmetric] code_def)

lemma show_nat_no_leading_zero: "hd (show_nat n) = CHR ''0'' \<Longrightarrow> length (show_nat n) = 1"
proof (induction n rule: show_nat.induct)
  case (1 n)
  show ?case
  proof (cases "n < 10")
    case True
    then show ?thesis by (simp add: show_nat.simps)
  next
    case False
    have "hd (show_nat (n div 10)) = CHR ''0''"
      using "1.prems" False show_nat_nonempty [of "n div 10"] by (simp add: show_nat.simps [of n])
    with "1.IH" False have "length (show_nat (n div 10)) = 1" by simp
    then have "show_nat (n div 10) = ''0''"
      using \<open>hd (show_nat (n div 10)) = CHR ''0''\<close> by (cases "show_nat (n div 10)") auto
    then have "n div 10 = 0"
      using undigits_show_nat [of "n div 10"] by simp
    with False show ?thesis by simp
  qed
qed

text \<open>What may follow a value in a printed text: nothing, a separator or the end of the line.\<close>

definition follows :: "string \<Rightarrow> bool" where
  "follows r \<longleftrightarrow> r = [] \<or> hd r = CHR '','' \<or> hd r = CHR '']'' \<or> hd r = CHR ''}'' \<or> code (hd r) = 10"

lemma scan_nat_show:
  assumes "follows r"
  shows "scan_nat (show_nat n @ r) = Some (n, r)"
proof -
  have stop: "r = [] \<or> \<not> is_digit_char (hd r)"
    using assms by (auto simp: follows_def is_digit_char_def code_def)
  have "takeWhile is_digit_char (show_nat n @ r) = show_nat n"
    and "dropWhile is_digit_char (show_nat n @ r) = r"
    using show_nat_digits [of _ n] stop
    by (cases r; auto simp: takeWhile_append dropWhile_append)+
  then show ?thesis
    using assms show_nat_nonempty [of n] show_nat_no_leading_zero [of n]
    by (auto simp: scan_nat_def Let_def undigits_show_nat follows_def code_def)
qed

lemma scan_int_show: "follows r \<Longrightarrow> scan_int (show_int i @ r) = Some (JInt i, r)"
proof -
  assume r: "follows r"
  have "show_nat (nat i) \<noteq> []" and "is_digit_char (hd (show_nat (nat i)))"
    using show_nat_nonempty [of "nat i"] show_nat_digits [of "hd (show_nat (nat i))" "nat i"] by auto
  moreover have "\<not> is_digit_char (CHR ''-'')"
    by (simp add: is_digit_char_def code_def)
  ultimately obtain c cs where c: "show_nat (nat i) = c # cs" "c \<noteq> CHR ''-''"
    by (cases "show_nat (nat i)") auto
  show ?thesis
    using scan_nat_show [OF r, of "nat i"] scan_nat_show [OF r, of "nat (- i)"] c
    by (auto simp: scan_int_def show_int_def)
qed


section \<open>Values read back\<close>

lemma skip_ws_id: "s = [] \<or> 32 < code (hd s) \<Longrightarrow> skip_ws s = s"
  by (cases s) (auto simp: skip_ws.simps(1))

declare skip_ws.simps(1) [simp del]

lemma hd_show_int: "show_int i \<noteq> [] \<and> (hd (show_int i) = CHR ''-'' \<or> is_digit_char (hd (show_int i)))"
  using show_nat_nonempty [of "nat i"] show_nat_digits [of "hd (show_nat (nat i))" "nat i"]
  by (simp add: show_int_def)

text \<open>The first character of a printed value: printable, not a bracket that closes.\<close>

lemma json_print_first:
  "json_print sp j \<noteq> [] \<and> 32 < code (hd (json_print sp j)) \<and> hd (json_print sp j) \<noteq> CHR '']''"
proof (cases j)
  case (JInt i)
  then show ?thesis
    using hd_show_int [of i] by (auto simp: is_digit_char_def code_def)
qed (auto simp: quote_def code_def)

lemma skip_ws_print [simp]: "skip_ws (json_print sp j @ r) = json_print sp j @ r"
  using json_print_first [of sp j] by (intro skip_ws_id) auto

lemma skip_ws_gap [simp]: "skip_ws (gap sp @ r) = skip_ws r"
  by (simp add: gap_def skip_ws.simps(1) code_def)

lemma skip_ws_quote [simp]: "skip_ws (quote sp k @ r) = quote sp k @ r"
  by (rule skip_ws_id) (simp add: quote_def code_def)

lemma skip_ws_sep [simp]:
  "skip_ws (CHR '','' # r) = CHR '','' # r" "skip_ws (CHR '':'' # r) = CHR '':'' # r"
  "skip_ws (CHR '']'' # r) = CHR '']'' # r" "skip_ws (CHR ''}'' # r) = CHR ''}'' # r"
  by (simp_all add: skip_ws.simps(1) code_def)

definition reads_back :: "json_style \<Rightarrow> json \<Rightarrow> bool" where
  "reads_back sp j \<longleftrightarrow>
    (\<forall>fuel r. length (json_print sp j) \<le> fuel \<longrightarrow> follows r \<longrightarrow>
      parse_value fuel (json_print sp j @ r) = Some (j, r))"

lemma reads_backD:
  "reads_back sp j \<Longrightarrow> length (json_print sp j) \<le> fuel \<Longrightarrow> follows r \<Longrightarrow>
    parse_value fuel (json_print sp j @ r) = Some (j, r)"
  by (simp add: reads_back_def)

lemma follows_sep [simp]:
  "follows (CHR '','' # r)" "follows (CHR '']'' # r)" "follows (CHR ''}'' # r)"
  by (simp_all add: follows_def)

lemma parse_elements_print:
  assumes "xs \<noteq> []" and "\<And>x. x \<in> set xs \<Longrightarrow> reads_back sp x"
    and "length (join ('','' @ gap sp) (map (json_print sp) xs)) < fuel"
  shows "parse_elements fuel (join ('','' @ gap sp) (map (json_print sp) xs) @ CHR '']'' # r) = Some (xs, r)"
  using assms
proof (induction xs arbitrary: fuel)
  case Nil
  then show ?case by simp
next
  case (Cons x xs)
  then obtain f where fuel: "fuel = Suc f" by (cases fuel) auto
  show ?case
  proof (cases xs)
    case Nil
    then show ?thesis
      using Cons.prems reads_backD [of sp x f "CHR '']'' # r"] by (simp add: fuel)
  next
    case xs: (Cons y ys)
    let ?rest = "join ('','' @ gap sp) (map (json_print sp) xs) @ CHR '']'' # r"
    have "parse_value f (json_print sp x @ CHR '','' # gap sp @ ?rest) = Some (x, CHR '','' # gap sp @ ?rest)"
      using Cons.prems xs by (intro reads_backD) (simp_all add: fuel)
    moreover have "skip_ws ?rest = ?rest"
      by (cases ys) (simp_all add: xs)
    moreover have "parse_elements f ?rest = Some (xs, r)"
      using Cons.prems xs by (intro Cons.IH) (simp_all add: fuel)
    ultimately show ?thesis
      by (simp add: fuel xs)
  qed
qed

definition member_text :: "json_style \<Rightarrow> string \<times> json \<Rightarrow> string" where
  "member_text sp kv = quote sp (fst kv) @ '':'' @ gap sp @ json_print sp (snd kv)"

lemma json_print_obj:
  "json_print sp (JObj ps) = ''{'' @ join ('','' @ gap sp) (map (member_text sp) ps) @ ''}''"
  unfolding member_text_def [abs_def] by (simp add: comp_def)

lemma parse_members_print:
  assumes "ps \<noteq> []" and "\<And>k v. (k, v) \<in> set ps \<Longrightarrow> reads_back sp v"
    and "length (join ('','' @ gap sp) (map (member_text sp) ps)) < fuel"
  shows "parse_members fuel (join ('','' @ gap sp) (map (member_text sp) ps) @ CHR ''}'' # r) = Some (ps, r)"
  using assms
proof (induction ps arbitrary: fuel)
  case Nil
  then show ?case by simp
next
  case (Cons p ps)
  obtain k v where p: "p = (k, v)" by force
  obtain f where fuel: "fuel = Suc f" using Cons.prems by (cases fuel) auto
  have q: "code (CHR 0x22) = 34" by (simp add: code_def)
  have read: "parse_value f (json_print sp v @ c # s) = Some (v, c # s)"
    if "c = CHR '','' \<or> c = CHR ''}''" for c s
    using Cons.prems that
    by (intro reads_backD) (cases ps; auto simp: p fuel member_text_def)+
  show ?case
  proof (cases ps)
    case Nil
    then show ?thesis
      by (simp add: fuel p member_text_def quote_def q scan_string_quote read)
  next
    case ps: (Cons p' ps')
    let ?rest = "join ('','' @ gap sp) (map (member_text sp) ps) @ CHR ''}'' # r"
    have "skip_ws ?rest = ?rest"
      by (cases ps') (simp_all add: ps member_text_def)
    moreover have "parse_members f ?rest = Some (ps, r)"
      using Cons.prems ps by (intro Cons.IH) (auto simp: fuel)
    moreover have "join ('','' @ gap sp) (map (member_text sp) (p # ps)) @ CHR ''}'' # r =
        CHR 0x22 # concat (map (esc_char sp) k) @ CHR 0x22 # CHR '':'' # gap sp @ json_print sp v @ CHR '','' # gap sp @ ?rest"
      by (simp add: p ps member_text_def [of sp "(k, v)"] quote_def)
    ultimately show ?thesis
      by (simp add: fuel p q scan_string_quote read)
  qed
qed


lemma set_item_new: "k \<notin> fst ` set d \<Longrightarrow> set_item d k v = d @ [(k, v)]"
  by (induction d k v rule: set_item.induct) auto

lemma dict_of_pairs_distinct: "distinct (map fst ps) \<Longrightarrow> dict_of_pairs ps = ps"
proof (induction ps rule: rev_induct)
  case Nil
  then show ?case by (simp add: dict_of_pairs_def)
next
  case (snoc p ps)
  then show ?case
    by (cases p) (auto simp: dict_of_pairs_def set_item_new)
qed

lemma reads_back_atoms:
  "reads_back sp JNull" "reads_back sp (JBool b)" "reads_back sp (JInt i)" "reads_back sp (JStr s)"
proof -
  have q: "code (CHR 0x22) = 34" "code (CHR ''n'') \<noteq> 34" "code (CHR ''t'') \<noteq> 34" "code (CHR ''f'') \<noteq> 34"
    by (simp_all add: code_def)
  have "parse_value fuel (json_print sp a @ r) = Some (a, r)"
    if "a \<in> {JNull, JBool b, JStr s}" "length (json_print sp a) \<le> fuel" for a fuel r
    using that by (cases fuel; cases b) (auto simp: q quote_def scan_string_quote)
  then show "reads_back sp JNull" "reads_back sp (JBool b)" "reads_back sp (JStr s)"
    unfolding reads_back_def by blast+
  obtain c cs where c: "show_int i = c # cs" "c = CHR ''-'' \<or> is_digit_char c"
    using hd_show_int [of i] by (cases "show_int i") auto
  then have "c \<noteq> CHR ''['' \<and> c \<noteq> CHR ''{'' \<and> c \<noteq> CHR ''n'' \<and> c \<noteq> CHR ''t'' \<and> c \<noteq> CHR ''f'' \<and> code c \<noteq> 34"
    by (auto simp: is_digit_char_def code_def)
  then have "parse_value (Suc f) (show_int i @ r) = scan_int (show_int i @ r)" for f r
    by (simp add: c(1) numeral_eq_Suc)
  then have "parse_value fuel (show_int i @ r) = Some (JInt i, r)"
    if "length (show_int i) \<le> fuel" "follows r" for fuel r
    using that c(1) scan_int_show [OF that(2), of i]
    by (cases fuel) (simp_all only: list.size le_zero_eq)
  then show "reads_back sp (JInt i)"
    by (simp add: reads_back_def)
qed

lemma reads_back_wf: "json_wf j \<Longrightarrow> reads_back sp j"
proof (induction j)
  case (JArr xs)
  have IH: "reads_back sp x" if "x \<in> set xs" for x
    using JArr that by (auto simp: list_all_iff)
  show ?case
    unfolding reads_back_def
  proof (intro allI impI)
    fix fuel r
    assume len: "length (json_print sp (JArr xs)) \<le> fuel"
    then obtain f where f: "fuel = Suc f" by (cases fuel) auto
    show "parse_value fuel (json_print sp (JArr xs) @ r) = Some (JArr xs, r)"
    proof (cases xs)
      case Nil
      then show ?thesis by (simp add: f code_def)
    next
      case (Cons y ys)
      let ?t = "join ('','' @ gap sp) (map (json_print sp) xs) @ CHR '']'' # r"
      have "skip_ws ?t = ?t" "take 1 ?t \<noteq> '']''"
        using json_print_first [of sp y]
        by (cases ys; simp add: Cons; cases "json_print sp y"; simp)+
      moreover have "parse_elements f ?t = Some (xs, r)"
        using IH len Cons by (intro parse_elements_print) (simp_all add: f)
      ultimately show ?thesis by (simp add: f code_def)
    qed
  qed
next
  case (JObj ps)
  have IH: "reads_back sp v" if "(k, v) \<in> set ps" for k v
    using JObj that by (force simp: list_all_iff)
  show ?case
    unfolding reads_back_def
  proof (intro allI impI)
    fix fuel r
    assume len: "length (json_print sp (JObj ps)) \<le> fuel"
    then obtain f where f: "fuel = Suc f" by (cases fuel) auto
    show "parse_value fuel (json_print sp (JObj ps) @ r) = Some (JObj ps, r)"
    proof (cases ps)
      case Nil
      then show ?thesis by (simp add: f code_def)
    next
      case (Cons y ys)
      let ?t = "join ('','' @ gap sp) (map (member_text sp) ps) @ CHR ''}'' # r"
      have "skip_ws ?t = ?t" "take 1 ?t \<noteq> ''}''"
        by (cases ys; simp add: Cons member_text_def; simp add: quote_def)+
      moreover have "parse_members f ?t = Some (ps, r)"
        using IH len Cons by (intro parse_members_print) (auto simp: f json_print_obj simp del: json_print.simps)
      moreover have "dict_of_pairs ps = ps"
        using JObj.prems by (simp add: dict_of_pairs_distinct)
      ultimately show ?thesis by (simp add: f code_def json_print_obj del: json_print.simps)
    qed
  qed
qed (simp_all only: reads_back_atoms)

lemma json_loads_print:
  assumes "json_wf j" "follows r" "skip_ws r = []"
  shows "json_loads (json_print sp j @ r) = Some j"
  using reads_backD [OF reads_back_wf, of j sp "Suc (length (json_print sp j @ r))" r] assms
  by (simp add: json_loads_def)

lemma follows_end [simp]: "follows []" "follows [char_of (10::nat)]"
  by (simp_all add: follows_def)

lemma skip_ws_newline [simp]: "skip_ws (char_of (10::nat) # r) = skip_ws r"
  by (simp add: skip_ws.simps(1))

section \<open>Canonical forms\<close>

lemma distinct_map_sort_key: "distinct (map f (sort_key g xs)) = distinct (map f xs)"
  by (simp add: distinct_map)

lemma json_wf_canon: "json_wf j \<Longrightarrow> json_wf (json_canon j)"
proof (induction j)
  case (JObj ps)
  have "map fst (map (map_prod id json_canon) ps) = map fst ps" by simp
  then have "distinct (map fst (sort_key fst (map (map_prod id json_canon) ps)))"
    using JObj.prems by (simp only: distinct_map_sort_key json_wf.simps)
  then show ?case
    using JObj by (fastforce simp: list_all_iff)
qed (auto simp: list_all_iff)

lemma json_loads_dumps: "json_wf j \<Longrightarrow> json_loads (json_dumps j) = Some (json_canon j)"
  using json_loads_print [of "json_canon j" "[]"] by (simp add: json_dumps_def json_wf_canon)

lemma json_loads_dumps_raw: "json_wf j \<Longrightarrow> json_loads (json_dumps_raw j) = Some (json_canon j)"
  using json_loads_print [of "json_canon j" "[]"] by (simp add: json_dumps_raw_def json_wf_canon)

lemma json_loads_dump_sorted:
  "json_wf j \<Longrightarrow> json_loads (json_dump_sorted j @ [char_of (10::nat)]) = Some (json_canon j)"
  by (simp add: json_dump_sorted_def json_loads_print json_wf_canon)

lemma json_canon_idem [simp]: "json_canon (json_canon j) = json_canon j"
proof (induction j)
  case (JObj ps)
  let ?qs = "sort_key fst (map (map_prod id json_canon) ps)"
  have "map (map_prod id json_canon) ?qs = ?qs"
    using JObj by (intro map_idI) (force simp: map_prod_def)
  moreover have "sort_key fst ?qs = ?qs"
    by (rule sort_key_id_if_sorted) simp
  ultimately show ?case by simp
qed (auto simp: map_idI)

lemma json_eq_canon: "json_eq (json_canon j) j"
  by (simp add: json_eq_def)

lemma get_item_canon:
  assumes "json_wf (JObj d)" "json_canon (JObj d) = JObj d'"
  shows "get_item d' k = json_canon (get_item d k)"
proof -
  let ?m = "map (map_prod id json_canon) d"
  have d': "d' = sort_key fst ?m" using assms(2) by simp
  have dm: "distinct (map fst ?m)" using assms(1) by simp
  then have "distinct (map fst d')" by (simp only: d' distinct_map_sort_key)
  then have "map_of d' = map_of ?m"
    using dm by (subst map_of_inject_set) (simp_all add: d')
  then have "map_of d' k = map_option json_canon (map_of d k)"
    by (simp add: map_prod_def map_of_map)
  then show ?thesis
    by (auto simp: get_item_def split: option.split)
qed

lemma json_wf_item: "json_wf (JObj d) \<Longrightarrow> json_wf (get_item d k)"
  by (auto simp: get_item_def list_all_iff split: option.split dest: map_of_SomeD)

lemma json_eq_items:
  assumes "json_wf (JObj a)" "json_wf (JObj b)" "json_eq (JObj a) (JObj b)"
  shows "json_eq (get_item a k) (get_item b k)"
proof -
  obtain c where c: "json_canon (JObj a) = JObj c" by simp
  then have "json_canon (JObj b) = JObj c" using assms(3) by (simp add: json_eq_def)
  with c show ?thesis
    using get_item_canon [OF assms(1) c, of k] get_item_canon [OF assms(2), of c k] by (simp add: json_eq_def)
qed

end
