(* ===== verification/Sha256.thy ===== *)
theory Sha256
  imports Py_Json "HOL-Library.Word"
begin

unbundle bit_operations_syntax

text \<open>
  SHA-256 as \<open>hashlib.sha256(text.encode("utf-8")).hexdigest()\<close> computes it (FIPS 180-4), on
  32-bit words with wrap-around addition.  The worker uses it for content hashes, job ids,
  document ids and payload identities.  The proofs of the components never look inside it:
  they hold for whatever digest it returns.
\<close>

type_synonym u32 = "32 word"

text \<open>
  The constants as the standard defines them: the first 32 bits of the fractional parts of the
  cube roots of the first 64 primes and of the square roots of the first 8.
\<close>

definition first_primes :: "nat \<Rightarrow> nat list" where
  "first_primes n = take n (filter (\<lambda>p. list_all (\<lambda>d. p mod d \<noteq> 0) [2..<p]) [2..<312])"

text \<open>The largest \<open>r < acc + 2 ^ bits\<close> with \<open>r ^ k \<le> n\<close>, one binary digit at a time.\<close>

fun int_root :: "nat \<Rightarrow> nat \<Rightarrow> nat \<Rightarrow> nat \<Rightarrow> nat" where
  "int_root k n 0 acc = acc"
| "int_root k n (Suc bits) acc =
    int_root k n bits (if (acc + 2 ^ bits) ^ k \<le> n then acc + 2 ^ bits else acc)"

definition root_fraction :: "nat \<Rightarrow> nat \<Rightarrow> u32" where
  "root_fraction k p = of_nat (int_root k (p * 2 ^ (32 * k)) 38 0)"

definition round_constants :: "u32 list" where
  "round_constants = map (root_fraction 3) (first_primes 64)"

definition initial_hash :: "u32 list" where
  "initial_hash = map (root_fraction 2) (first_primes 8)"

definition rotr :: "nat \<Rightarrow> u32 \<Rightarrow> u32" where
  "rotr n x = drop_bit n x OR push_bit (32 - n) x"

definition utf8_bytes :: "string \<Rightarrow> nat list" where
  "utf8_bytes s =
    concat (map (\<lambda>c. if code c < 128 then [code c] else [192 + code c div 64, 128 + code c mod 64]) s)"

definition big_endian :: "nat \<Rightarrow> nat \<Rightarrow> nat list" where
  "big_endian w n = map (\<lambda>i. n div 256 ^ (w - 1 - i) mod 256) [0..<w]"

definition pad_message :: "nat list \<Rightarrow> nat list" where
  "pad_message bs =
    (let n = length bs in bs @ [128] @ replicate ((119 - n mod 64) mod 64) 0 @ big_endian 8 (8 * n))"

fun words_of :: "nat list \<Rightarrow> u32 list" where
  "words_of (a # b # c # d # bs) = of_nat (((a * 256 + b) * 256 + c) * 256 + d) # words_of bs"
| "words_of _ = []"

function chunks16 :: "'a list \<Rightarrow> 'a list list" where
  "chunks16 xs = (if length xs < 16 then [] else take 16 xs # chunks16 (drop 16 xs))"
  by pat_completeness auto
termination
  by (relation "measure length") auto

declare chunks16.simps [simp del]

definition extend1 :: "u32 list \<Rightarrow> u32 list" where
  \<comment> \<open>the schedule held with its latest word first\<close>
  "extend1 w =
    (let x15 = w ! 14; x2 = w ! 1;
         s0 = rotr 7 x15 XOR rotr 18 x15 XOR drop_bit 3 x15;
         s1 = rotr 17 x2 XOR rotr 19 x2 XOR drop_bit 10 x2
     in (w ! 15 + s0 + w ! 6 + s1) # w)"

definition schedule :: "u32 list \<Rightarrow> u32 list" where
  "schedule block = rev ((extend1 ^^ 48) (rev block))"

fun round256 :: "u32 list \<Rightarrow> u32 \<times> u32 \<Rightarrow> u32 list" where
  "round256 [a, b, c, d, e, f, g, h] (k, w) =
    (let s1 = rotr 6 e XOR rotr 11 e XOR rotr 25 e;
         ch = (e AND f) XOR (NOT e AND g);
         t1 = h + s1 + ch + k + w;
         s0 = rotr 2 a XOR rotr 13 a XOR rotr 22 a;
         maj = (a AND b) XOR (a AND c) XOR (b AND c)
     in [t1 + s0 + maj, a, b, c, d + t1, e, f, g])"
| "round256 st _ = st"

definition compress :: "u32 list \<Rightarrow> u32 list \<Rightarrow> u32 list" where
  "compress st block = map2 (+) st (foldl round256 st (zip round_constants (schedule block)))"

definition hex_word :: "u32 \<Rightarrow> string" where
  "hex_word x = map (\<lambda>i. hex_digit (unat x div 16 ^ (7 - i) mod 16)) [0..<8]"

definition sha256_hex :: "string \<Rightarrow> string" where
  "sha256_hex s =
    concat (map hex_word (foldl compress initial_hash (chunks16 (words_of (pad_message (utf8_bytes s))))))"

text \<open>The code's \<open>"sha256:" + hashlib.sha256(\<dots>).hexdigest()\<close>.\<close>

definition sha256_ref :: "string \<Rightarrow> string" where
  "sha256_ref s = ''sha256:'' @ sha256_hex s"

lemma sha256_ref_nonempty [simp]: "sha256_ref s \<noteq> ''''"
  by (simp add: sha256_ref_def)

end
