(* ===== verification/State_Rows.thy ===== *)
theory State_Rows
  imports Idempotency Py_Json Sha256
begin

text \<open>
  The tables of the worker's SQLite state database (the \<open>CREATE TABLE\<close> statements of
  \<open>RAGIngressStateDB._initialize\<close> in \<open>rag_ingress/state_db.py\<close>): one record per row type with
  the columns in DDL order, a record of the six tables, the insert statements with the
  constraints SQLite enforces (primary keys, unique indexes, and foreign keys, which
  \<open>connect\<close> switches on), the select statements, and the invariant of the database.  Every
  text column has a default or is NOT NULL and every statement supplies text, so no column
  is null.  A table is the list of its rows in rowid order; an ORDER BY is a stable sort of it.
\<close>

section \<open>Rows and tables\<close>

record inbox_event =
  ev_event_id :: string
  ev_idempotency_key :: string
  ev_payload_hash :: string
  ev_source :: string
  ev_kind :: string
  ev_target_profile :: string
  ev_payload_ref :: string
  ev_received_at :: string
  ev_persisted_at :: string
  ev_accept_outcome :: string
  ev_consumed_by :: string
  ev_consumed_at :: string
  ev_outcome_reason :: string
  ev_created_at :: string
  ev_updated_at :: string

record command_row =
  cmd_id :: string
  cmd_type :: string
  cmd_resource_id_hash :: string
  cmd_session_id_hash :: string
  cmd_idempotency_key :: string
  cmd_payload_hash :: string
  cmd_input_epoch :: string
  cmd_status :: string
  cmd_lease_owner :: string
  cmd_lease_until :: string
  cmd_attempt_count :: int
  cmd_last_error_class :: string
  cmd_created_at :: string
  cmd_updated_at :: string

record command_result =
  res_id :: string
  res_command_id :: string
  res_decision :: string
  res_payload_ref :: string
  res_domain_versions_written :: string
  res_error_class :: string
  res_created_at :: string

record domain_record =
  dom_id :: string
  dom_command_id :: string
  dom_resource_id_hash :: string
  dom_session_id_hash :: string
  dom_kind :: string
  dom_lifecycle_status :: string
  dom_version :: int
  dom_payload_hash :: string
  dom_payload_ref :: string
  dom_projection_json :: string
  dom_created_at :: string
  dom_updated_at :: string

record delivery_job =
  job_id :: string
  job_command_id :: string
  job_idempotency_key :: string
  job_payload_hash :: string
  job_target_profile :: string
  job_document_kind :: string
  job_status :: string
  job_attempt_count :: int
  job_next_retry_at :: string
  job_lease_owner :: string
  job_lease_until :: string
  job_index_target_id :: string
  job_index_document_id :: string
  job_index_run_id :: string
  job_last_error_class :: string
  job_last_reconciled_at :: string
  job_created_at :: string
  job_updated_at :: string

record delivery_payload =
  pl_idempotency_key :: string
  pl_payload_hash :: string
  pl_payload_json :: string
  pl_recorded_at :: string

record state_db =
  inbox_events :: "inbox_event list"
  commands :: "command_row list"
  command_results :: "command_result list"
  domain_records :: "domain_record list"
  delivery_jobs :: "delivery_job list"
  delivery_payloads :: "delivery_payload list"

definition empty_db :: state_db where
  "empty_db = \<lparr>inbox_events = [], commands = [], command_results = [], domain_records = [],
     delivery_jobs = [], delivery_payloads = []\<rparr>"

type_synonym 'a tx = "state_db \<Rightarrow> ('a \<times> state_db) result"

section \<open>Statements\<close>

text \<open>
  The row dictionaries as the code passes them on: to the idempotency classifier, which
  reads the columns by name, and into the audit record of a source correction.
\<close>

definition inbox_existing :: "inbox_event \<Rightarrow> existing_record" where
  "inbox_existing ev = \<lparr>ex_accept_outcome = ev_accept_outcome ev, ex_outcome = '''', ex_status = '''',
     ex_idempotency_key = ev_idempotency_key ev, ex_payload_hash = ev_payload_hash ev\<rparr>"

definition job_existing :: "delivery_job \<Rightarrow> existing_record" where
  "job_existing j = \<lparr>ex_accept_outcome = '''', ex_outcome = '''', ex_status = job_status j,
     ex_idempotency_key = job_idempotency_key j, ex_payload_hash = job_payload_hash j\<rparr>"

definition job_dict :: "delivery_job \<Rightarrow> dict" where
  "job_dict j =
    [(''job_id'', JStr (job_id j)), (''command_id'', JStr (job_command_id j)),
     (''idempotency_key'', JStr (job_idempotency_key j)), (''payload_hash'', JStr (job_payload_hash j)),
     (''target_profile'', JStr (job_target_profile j)), (''document_kind'', JStr (job_document_kind j)),
     (''status'', JStr (job_status j)), (''attempt_count'', JInt (job_attempt_count j)),
     (''next_retry_at'', JStr (job_next_retry_at j)), (''lease_owner'', JStr (job_lease_owner j)),
     (''lease_until'', JStr (job_lease_until j)), (''index_target_id'', JStr (job_index_target_id j)),
     (''index_document_id'', JStr (job_index_document_id j)), (''index_run_id'', JStr (job_index_run_id j)),
     (''last_error_class'', JStr (job_last_error_class j)),
     (''last_reconciled_at'', JStr (job_last_reconciled_at j)),
     (''created_at'', JStr (job_created_at j)), (''updated_at'', JStr (job_updated_at j))]"

text \<open>\<open>SELECT \<dots> WHERE key = ? ORDER BY created_at ASC LIMIT 1\<close>.\<close>

definition first_by :: "('r \<Rightarrow> string) \<Rightarrow> ('r \<Rightarrow> bool) \<Rightarrow> 'r list \<Rightarrow> 'r option" where
  "first_by created p rows =
    (case sort_key created (filter p rows) of [] \<Rightarrow> None | r # _ \<Rightarrow> Some r)"

definition sql_limit :: "int \<Rightarrow> 'r list \<Rightarrow> 'r list" where
  "sql_limit n rows = (if n < 0 then rows else take (nat n) rows)"

definition find_delivery_job_by_idempotency_key :: "state_db \<Rightarrow> string \<Rightarrow> delivery_job option" where
  "find_delivery_job_by_idempotency_key db k =
    first_by job_created_at (\<lambda>j. job_idempotency_key j = k) (delivery_jobs db)"

definition get_delivery_job :: "state_db \<Rightarrow> string \<Rightarrow> delivery_job option" where
  "get_delivery_job db k = row_with job_id k (delivery_jobs db)"

definition get_domain_record :: "state_db \<Rightarrow> string \<Rightarrow> domain_record option" where
  "get_domain_record db k = row_with dom_id k (domain_records db)"

definition list_delivery_jobs ::
    "state_db \<Rightarrow> string \<Rightarrow> int \<Rightarrow> datetime option \<Rightarrow> delivery_job list" where
  "list_delivery_jobs db status limit due_at =
    sql_limit limit (sort_key job_created_at (filter (\<lambda>j. job_status j = status
      \<and> (case due_at of None \<Rightarrow> True
          | Some t \<Rightarrow> job_next_retry_at j = '''' \<or> job_next_retry_at j \<le> iso t)) (delivery_jobs db)))"

definition insert_inbox_event :: "inbox_event \<Rightarrow> state_db \<Rightarrow> state_db result" where
  "insert_inbox_event ev db =
    (if ev_event_id ev \<in> ev_event_id ` set (inbox_events db)
     then Inl (IntegrityError ''inbox_events.event_id'')
     else Inr (db\<lparr>inbox_events := inbox_events db @ [ev]\<rparr>))"

definition insert_command :: "command_row \<Rightarrow> state_db \<Rightarrow> state_db result" where
  "insert_command c db =
    (if cmd_id c \<in> cmd_id ` set (commands db) then Inl (IntegrityError ''commands.command_id'')
     else if cmd_idempotency_key c \<in> cmd_idempotency_key ` set (commands db)
     then Inl (IntegrityError ''commands.idempotency_key'')
     else Inr (db\<lparr>commands := commands db @ [c]\<rparr>))"

definition insert_result_row :: "command_result \<Rightarrow> state_db \<Rightarrow> state_db result" where
  "insert_result_row r db =
    (if res_id r \<in> res_id ` set (command_results db)
     then Inl (IntegrityError ''command_results.result_id'')
     else if res_command_id r \<notin> cmd_id ` set (commands db) then Inl (IntegrityError ''FOREIGN KEY'')
     else Inr (db\<lparr>command_results := command_results db @ [r]\<rparr>))"

definition dom_version_key :: "domain_record \<Rightarrow> string \<times> string \<times> int" where
  "dom_version_key d = (dom_resource_id_hash d, dom_kind d, dom_version d)"

definition insert_domain_row :: "domain_record \<Rightarrow> state_db \<Rightarrow> state_db result" where
  "insert_domain_row d db =
    (if dom_id d \<in> dom_id ` set (domain_records db)
     then Inl (IntegrityError ''domain_records.domain_record_id'')
     else if dom_version_key d \<in> dom_version_key ` set (domain_records db)
     then Inl (IntegrityError ''domain_records.resource_kind_version'')
     else if dom_command_id d \<notin> cmd_id ` set (commands db) then Inl (IntegrityError ''FOREIGN KEY'')
     else Inr (db\<lparr>domain_records := domain_records db @ [d]\<rparr>))"

definition insert_job_row :: "delivery_job \<Rightarrow> state_db \<Rightarrow> state_db result" where
  "insert_job_row j db =
    (if job_id j \<in> job_id ` set (delivery_jobs db) then Inl (IntegrityError ''delivery_jobs.job_id'')
     else if job_idempotency_key j \<in> job_idempotency_key ` set (delivery_jobs db)
     then Inl (IntegrityError ''delivery_jobs.idempotency_key'')
     else if job_command_id j \<notin> cmd_id ` set (commands db) then Inl (IntegrityError ''FOREIGN KEY'')
     else Inr (db\<lparr>delivery_jobs := delivery_jobs db @ [j]\<rparr>))"

definition insert_payload_row :: "delivery_payload \<Rightarrow> state_db \<Rightarrow> state_db result" where
  "insert_payload_row p db =
    (if pl_idempotency_key p \<in> pl_idempotency_key ` set (delivery_payloads db)
     then Inl (IntegrityError ''delivery_payloads.idempotency_key'')
     else Inr (db\<lparr>delivery_payloads := delivery_payloads db @ [p]\<rparr>))"

lemmas insert_defs = insert_inbox_event_def insert_command_def insert_result_row_def
  insert_domain_row_def insert_job_row_def insert_payload_row_def

definition update_command :: "string \<Rightarrow> (command_row \<Rightarrow> command_row) \<Rightarrow> state_db \<Rightarrow> state_db" where
  "update_command k f db = db\<lparr>commands := update_where cmd_id k f (commands db)\<rparr>"

definition update_job :: "string \<Rightarrow> (delivery_job \<Rightarrow> delivery_job) \<Rightarrow> state_db \<Rightarrow> state_db" where
  "update_job k f db = db\<lparr>delivery_jobs := update_where job_id k f (delivery_jobs db)\<rparr>"

section \<open>The invariant of the database\<close>

text \<open>
  A lease column is empty or the text of an instant.  A delivery job that is neither claimed
  nor executing has no lease; its retry deadline is empty or the text of an instant, and it
  counts no negative number of attempts.
\<close>

definition instant_or_empty :: "string \<Rightarrow> bool" where
  "instant_or_empty s \<longleftrightarrow> s = '''' \<or> (\<exists>t. s = iso t)"

definition command_ok :: "command_row \<Rightarrow> bool" where
  "command_ok c \<longleftrightarrow> instant_or_empty (cmd_lease_until c) \<and> 0 \<le> cmd_attempt_count c"

definition job_leased :: "delivery_job \<Rightarrow> bool" where
  "job_leased j \<longleftrightarrow> job_status j \<in> {''claimed'', ''executing''}"

definition job_ok :: "delivery_job \<Rightarrow> bool" where
  "job_ok j \<longleftrightarrow> instant_or_empty (job_lease_until j) \<and> 0 \<le> job_attempt_count j
    \<and> (job_leased j \<or> job_lease_owner j = '''' \<and> job_lease_until j = '''')"

text \<open>A stored payload is the text of a dict whose key and content hash are its columns.\<close>

definition payload_ok :: "delivery_payload \<Rightarrow> bool" where
  "payload_ok p \<longleftrightarrow> (\<exists>d. json_wf (JObj d) \<and> pl_payload_json p = json_dumps (JObj d)
    \<and> str_or_empty (get_item d ''idempotencyKey'') = pl_idempotency_key p
    \<and> str_or_empty (get_item d ''contentHash'') = pl_payload_hash p
    \<and> pl_idempotency_key p \<noteq> '''' \<and> pl_payload_hash p \<noteq> '''')"

definition inbox_ok :: "string set \<Rightarrow> inbox_event \<Rightarrow> bool" where
  "inbox_ok ids ev \<longleftrightarrow> (ev_consumed_by ev = '''' \<or> ev_consumed_by ev \<in> ids)"

definition keys_ok :: "state_db \<Rightarrow> bool" where
  "keys_ok db \<longleftrightarrow> distinct (map ev_event_id (inbox_events db))
    \<and> distinct (map cmd_id (commands db)) \<and> distinct (map cmd_idempotency_key (commands db))
    \<and> distinct (map res_id (command_results db))
    \<and> distinct (map dom_id (domain_records db)) \<and> distinct (map dom_version_key (domain_records db))
    \<and> distinct (map job_id (delivery_jobs db)) \<and> distinct (map job_idempotency_key (delivery_jobs db))
    \<and> distinct (map pl_idempotency_key (delivery_payloads db))"

definition refs_ok :: "state_db \<Rightarrow> bool" where
  "refs_ok db \<longleftrightarrow>
    (let ids = cmd_id ` set (commands db)
     in (\<forall>ev \<in> set (inbox_events db). inbox_ok ids ev)
      \<and> (\<forall>r \<in> set (command_results db). res_command_id r \<in> ids)
      \<and> (\<forall>d \<in> set (domain_records db). dom_command_id d \<in> ids)
      \<and> (\<forall>j \<in> set (delivery_jobs db). job_command_id j \<in> ids))"

definition rows_ok :: "state_db \<Rightarrow> bool" where
  "rows_ok db \<longleftrightarrow> (\<forall>c \<in> set (commands db). command_ok c) \<and> (\<forall>j \<in> set (delivery_jobs db). job_ok j)
    \<and> (\<forall>p \<in> set (delivery_payloads db). payload_ok p)"

definition db_wf :: "state_db \<Rightarrow> bool" where
  "db_wf db \<longleftrightarrow> keys_ok db \<and> refs_ok db \<and> rows_ok db"

lemmas wf_defs = db_wf_def keys_ok_def refs_ok_def rows_ok_def Let_def

lemma instant_or_empty_intros [simp, intro]: "instant_or_empty ''''" "instant_or_empty (iso t)"
  by (auto simp: instant_or_empty_def)

lemma empty_db_wf: "db_wf empty_db"
  by (simp add: wf_defs empty_db_def)

section \<open>Statements keep the invariant\<close>

lemma insert_inbox_event_wf:
  "insert_inbox_event ev db = Inr db' \<Longrightarrow> db_wf db \<Longrightarrow> ev_consumed_by ev = '''' \<Longrightarrow> db_wf db'"
  by (auto simp: insert_defs wf_defs inbox_ok_def split: if_splits)

lemma insert_command_wf:
  "insert_command c db = Inr db' \<Longrightarrow> db_wf db \<Longrightarrow> command_ok c \<Longrightarrow> db_wf db'"
  by (auto simp: insert_defs wf_defs inbox_ok_def split: if_splits)

lemma insert_result_row_wf: "insert_result_row r db = Inr db' \<Longrightarrow> db_wf db \<Longrightarrow> db_wf db'"
  by (auto simp: insert_defs wf_defs split: if_splits)

lemma insert_domain_row_wf: "insert_domain_row d db = Inr db' \<Longrightarrow> db_wf db \<Longrightarrow> db_wf db'"
  by (auto simp: insert_defs wf_defs split: if_splits)

lemma insert_job_row_wf: "insert_job_row j db = Inr db' \<Longrightarrow> db_wf db \<Longrightarrow> job_ok j \<Longrightarrow> db_wf db'"
  by (auto simp: insert_defs wf_defs split: if_splits)

lemma insert_payload_row_wf:
  "insert_payload_row p db = Inr db' \<Longrightarrow> db_wf db \<Longrightarrow> payload_ok p \<Longrightarrow> db_wf db'"
  by (auto simp: insert_defs wf_defs split: if_splits)

text \<open>An update that keeps the key columns and the row predicate keeps the invariant.\<close>

definition command_keeping :: "(command_row \<Rightarrow> command_row) \<Rightarrow> bool" where
  "command_keeping f \<longleftrightarrow> (\<forall>c. cmd_id (f c) = cmd_id c \<and> cmd_idempotency_key (f c) = cmd_idempotency_key c
    \<and> (command_ok c \<longrightarrow> command_ok (f c)))"

definition job_keeping :: "(delivery_job \<Rightarrow> delivery_job) \<Rightarrow> bool" where
  "job_keeping f \<longleftrightarrow> (\<forall>j. job_id (f j) = job_id j \<and> job_idempotency_key (f j) = job_idempotency_key j
    \<and> job_command_id (f j) = job_command_id j)"

lemma set_update_where_ok:
  "(\<And>r. r \<in> set rows \<Longrightarrow> key r = k \<Longrightarrow> P (f r)) \<Longrightarrow> \<forall>r \<in> set rows. P r
    \<Longrightarrow> \<forall>r \<in> set (update_where key k f rows). P r"
  by (auto dest: in_update_where)

lemma image_update_where:
  "(\<And>r. g (f r) = g r) \<Longrightarrow> g ` set (update_where key k f rows) = g ` set rows"
  using map_update_where [of g f key k rows] by (metis image_set)

lemma update_command_wf:
  assumes "db_wf db" "command_keeping f"
  shows "db_wf (update_command k f db)"
  using assms set_update_where_ok [of "commands db" cmd_id k command_ok f]
  by (auto simp: update_command_def wf_defs command_keeping_def map_update_where image_update_where)

lemma update_job_wf:
  assumes wf: "db_wf db" and keep: "job_keeping f"
    and ok: "\<And>j. j \<in> set (delivery_jobs db) \<Longrightarrow> job_id j = k \<Longrightarrow> job_ok j \<Longrightarrow> job_ok (f j)"
  shows "db_wf (update_job k f db)"
proof -
  let ?P = "\<lambda>j. job_ok j \<and> job_command_id j \<in> cmd_id ` set (commands db)"
  have "\<forall>j \<in> set (delivery_jobs db). ?P j" using wf by (simp add: wf_defs)
  moreover from this have "\<forall>j \<in> set (update_where job_id k f (delivery_jobs db)). ?P j"
    using keep ok by (intro set_update_where_ok) (simp_all add: job_keeping_def)
  ultimately show ?thesis
    using wf keep by (simp add: update_job_def wf_defs job_keeping_def map_update_where)
qed

text \<open>What a select finds after an update or an insert.\<close>

lemma get_delivery_job_update [row_simps]:
  "job_keeping f \<Longrightarrow> get_delivery_job (update_job k f db) k' =
    (if k' = k then map_option f (get_delivery_job db k) else get_delivery_job db k')"
  by (simp add: get_delivery_job_def update_job_def row_with_update_where job_keeping_def)

lemma get_delivery_job_ok:
  "db_wf db \<Longrightarrow> get_delivery_job db k = Some j \<Longrightarrow> job_ok j \<and> job_id j = k \<and> j \<in> set (delivery_jobs db)"
  by (auto simp: get_delivery_job_def wf_defs dest: row_with_SomeD)

lemma first_by_unique:
  assumes "distinct (map key rows)"
  shows "first_by created (\<lambda>r. key r = k) rows = row_with key k rows"
proof -
  have "filter (\<lambda>r. key r = k) rows = (case row_with key k rows of None \<Rightarrow> [] | Some r \<Rightarrow> [r])"
    using assms
  proof (induction rows)
    case (Cons r rows)
    then have "row_with key (key r) rows = None" by (simp add: row_with_None_iff)
    then show ?case using Cons by auto
  qed simp
  then show ?thesis
    by (simp add: first_by_def split: option.split)
qed

lemma first_by_SomeD:
  assumes "first_by created p rows = Some r"
  shows "r \<in> set rows \<and> p r"
proof -
  from assms have "r \<in> set (sort_key created (filter p rows))"
    by (cases "sort_key created (filter p rows)") (simp_all add: first_by_def del: set_sort)
  then show ?thesis by simp
qed

lemma find_delivery_job_wf:
  "db_wf db \<Longrightarrow> find_delivery_job_by_idempotency_key db k = row_with job_idempotency_key k (delivery_jobs db)"
  by (simp add: find_delivery_job_by_idempotency_key_def first_by_unique wf_defs)

end
