(* ===== verification/State_Db.thy ===== *)
theory State_Db
  imports State_Rows
begin

text \<open>
  The methods of \<open>RAGIngressStateDB\<close> in \<open>rag_ingress/state_db.py\<close> that read or change the
  database outside a command transaction: the inbox, commands and their leases, delivery
  jobs with their leases, retries and evidence, stored payloads, and the audited source
  correction.  Each method is one transaction: an exception leaves the database as it was.
  The clock (\<open>now or _utc_now()\<close>) and the random part of a fresh identifier are arguments.
\<close>

section \<open>Leases\<close>

definition lease_is_live :: "string \<Rightarrow> datetime \<Rightarrow> bool" where
  "lease_is_live lease_until now =
    (if lease_until = '''' then False
     else case fromisoformat lease_until of None \<Rightarrow> False | Some parsed \<Rightarrow> now < parsed)"

definition with_row :: "'r option \<Rightarrow> string \<Rightarrow> ('r \<Rightarrow> 'a result) \<Rightarrow> 'a result" where
  "with_row r k f = (case r of None \<Rightarrow> Inl (KeyError k) | Some x \<Rightarrow> f x)"

section \<open>Inbox and commands\<close>

definition record_inbox_shadow ::
    "dict \<Rightarrow> string \<Rightarrow> string \<Rightarrow> string \<Rightarrow> datetime \<Rightarrow> idempotency_decision tx" where
  "record_inbox_shadow payload payload_ref event_id fresh now db =
    (let idempotency_key = str_or_empty (py_or (get_item payload ''idempotencyKey'') (get_item payload ''idempotency_key''));
         payload_hash = str_or_empty (py_or (get_item payload ''contentHash'') (get_item payload ''payload_hash''))
     in if idempotency_key = '''' then Inl (ValueError ''idempotencyKey is required'')
        else if payload_hash = '''' then Inl (ValueError ''contentHash is required'')
        else
          (let existing = first_by ev_created_at (\<lambda>ev. ev_idempotency_key ev = idempotency_key) (inbox_events db)
           in bind_result (classify_idempotency (map_option inbox_existing existing) idempotency_key payload_hash)
            (\<lambda>decision. bind_result
              (insert_inbox_event
                \<lparr>ev_event_id = str_or event_id (''inbox_'' @ fresh), ev_idempotency_key = idempotency_key,
                 ev_payload_hash = payload_hash,
                 ev_source = json_dumps (py_or (get_item payload ''source'') (JObj [])),
                 ev_kind = str_or_empty (get_item payload ''kind''),
                 ev_target_profile = str_or_empty (py_or (get_item payload ''targetProfile'') (get_item payload ''target_profile'')),
                 ev_payload_ref = payload_ref, ev_received_at = iso now, ev_persisted_at = iso now,
                 ev_accept_outcome = outcome decision, ev_consumed_by = '''', ev_consumed_at = '''',
                 ev_outcome_reason = reason decision, ev_created_at = iso now, ev_updated_at = iso now\<rparr> db)
              (\<lambda>db'. Inr (decision, db')))))"

definition create_command ::
    "string \<Rightarrow> string \<Rightarrow> string \<Rightarrow> string \<Rightarrow> string \<Rightarrow> string \<Rightarrow> string \<Rightarrow> string \<Rightarrow> datetime \<Rightarrow> unit tx" where
  "create_command command_id command_type idempotency_key payload_hash resource_id_hash session_id_hash
     input_epoch status now db =
    bind_result
      (insert_command
        \<lparr>cmd_id = command_id, cmd_type = command_type, cmd_resource_id_hash = resource_id_hash,
         cmd_session_id_hash = session_id_hash, cmd_idempotency_key = idempotency_key,
         cmd_payload_hash = payload_hash, cmd_input_epoch = input_epoch, cmd_status = status,
         cmd_lease_owner = '''', cmd_lease_until = '''', cmd_attempt_count = 0, cmd_last_error_class = '''',
         cmd_created_at = iso now, cmd_updated_at = iso now\<rparr> db)
      (\<lambda>db'. Inr ((), db'))"

definition get_command :: "state_db \<Rightarrow> string \<Rightarrow> command_row option" where
  "get_command db k = row_with cmd_id k (commands db)"

definition claim_command :: "string \<Rightarrow> string \<Rightarrow> datetime \<Rightarrow> int \<Rightarrow> int \<Rightarrow> bool tx" where
  "claim_command command_id lease_owner now lease_seconds max_attempts db =
    bind_result (dt_add now lease_seconds) (\<lambda>lease_until.
    with_row (get_command db command_id) command_id (\<lambda>row.
      if lease_is_live (cmd_lease_until row) now \<and> cmd_lease_owner row \<notin> {'''', lease_owner}
      then Inr (False, db)
      else
        (let attempt_count = cmd_attempt_count row + 1
         in if attempt_count > max_attempts
            then Inr (False, update_command command_id (\<lambda>c. c\<lparr>cmd_status := ''quarantined'',
                cmd_attempt_count := attempt_count, cmd_last_error_class := ''lease_attempt_limit'',
                cmd_updated_at := iso now\<rparr>) db)
            else Inr (True, update_command command_id (\<lambda>c. c\<lparr>cmd_status := ''claimed'',
                cmd_lease_owner := lease_owner, cmd_lease_until := iso lease_until,
                cmd_attempt_count := attempt_count, cmd_updated_at := iso now\<rparr>) db))))"

definition complete_claimed_command :: "string \<Rightarrow> string \<Rightarrow> datetime \<Rightarrow> bool tx" where
  "complete_claimed_command command_id lease_owner now db =
    with_row (get_command db command_id) command_id (\<lambda>row.
      if cmd_lease_owner row \<noteq> lease_owner \<or> \<not> lease_is_live (cmd_lease_until row) now
      then Inr (False, update_command command_id (\<lambda>c. c\<lparr>cmd_last_error_class := ''stale_owner_rejected'',
          cmd_updated_at := iso now\<rparr>) db)
      else Inr (True, update_command command_id (\<lambda>c. c\<lparr>cmd_status := ''completed'',
          cmd_updated_at := iso now\<rparr>) db))"

section \<open>Delivery jobs\<close>

record delivery_job_spec =
  spec_job_id :: string
  spec_target_profile :: string
  spec_document_kind :: string
  spec_idempotency_key :: string
  spec_payload_hash :: string
  spec_status :: string
  spec_next_retry_at :: string

definition insert_delivery_job :: "delivery_job_spec \<Rightarrow> string \<Rightarrow> string \<Rightarrow> state_db \<Rightarrow> state_db result" where
  "insert_delivery_job job stamp command_id db =
    insert_job_row
      \<lparr>job_id = spec_job_id job, job_command_id = command_id,
       job_idempotency_key = spec_idempotency_key job, job_payload_hash = spec_payload_hash job,
       job_target_profile = spec_target_profile job, job_document_kind = spec_document_kind job,
       job_status = spec_status job, job_attempt_count = 0, job_next_retry_at = spec_next_retry_at job,
       job_lease_owner = '''', job_lease_until = '''', job_index_target_id = '''',
       job_index_document_id = '''', job_index_run_id = '''', job_last_error_class = '''',
       job_last_reconciled_at = '''', job_created_at = stamp, job_updated_at = stamp\<rparr> db"

definition create_delivery_job ::
    "string \<Rightarrow> string \<Rightarrow> string \<Rightarrow> string \<Rightarrow> string \<Rightarrow> string \<Rightarrow> string \<Rightarrow> datetime \<Rightarrow> unit tx" where
  "create_delivery_job job command_id idempotency_key payload_hash target_profile document_kind status now db =
    (let spec = \<lparr>spec_job_id = job, spec_target_profile = target_profile, spec_document_kind = document_kind,
                 spec_idempotency_key = idempotency_key, spec_payload_hash = payload_hash,
                 spec_status = status, spec_next_retry_at = ''''\<rparr>
     in case get_command db command_id of
          None \<Rightarrow> Inl (StateDBError ''delivery job must reference a committed command'')
        | Some _ \<Rightarrow>
            bind_result (classify_idempotency
                (map_option job_existing (find_delivery_job_by_idempotency_key db idempotency_key))
                idempotency_key payload_hash) (\<lambda>decision.
              if outcome decision = DUPLICATE then Inr ((), db)
              else if outcome decision = CONFLICT then Inl (StateDBError ''delivery idempotency conflict'')
              else bind_result (insert_delivery_job spec (iso now) command_id db) (\<lambda>db'. Inr ((), db'))))"

text \<open>\<open>claim_delivery_job\<close>: which jobs a worker may claim now, and the claim itself.\<close>

definition claimable :: "delivery_job \<Rightarrow> string \<Rightarrow> datetime \<Rightarrow> bool" where
  "claimable row lease_owner now =
    (let status = job_status row
     in if status \<in> {''succeeded'', ''quarantined''} then False
        else if status = ''pending'' then True
        else if status \<in> {REPLAYABLE, ''failed_retryable''}
        then \<not> (job_next_retry_at row = '''' \<or> job_next_retry_at row > iso now)
        else if status \<in> {''claimed'', ''executing''}
        then \<not> (lease_is_live (job_lease_until row) now \<and> job_lease_owner row \<notin> {'''', lease_owner})
        else False)"

definition claim_delivery_job :: "string \<Rightarrow> string \<Rightarrow> datetime \<Rightarrow> int \<Rightarrow> int \<Rightarrow> bool tx" where
  "claim_delivery_job job lease_owner now lease_seconds max_attempts db =
    bind_result (dt_add now lease_seconds) (\<lambda>lease_until.
    with_row (get_delivery_job db job) job (\<lambda>row.
      if \<not> claimable row lease_owner now then Inr (False, db)
      else if job_attempt_count row \<ge> max_attempts
      then Inr (False, update_job job (\<lambda>j. j\<lparr>job_status := ''quarantined'', job_lease_owner := '''',
          job_lease_until := '''', job_last_error_class := ''lease_attempt_limit'', job_updated_at := iso now\<rparr>) db)
      else Inr (True, update_job job (\<lambda>j. j\<lparr>job_status := ''claimed'', job_lease_owner := lease_owner,
          job_lease_until := iso lease_until, job_updated_at := iso now\<rparr>) db)))"

definition quarantine_transport_delivery :: "string \<Rightarrow> string \<Rightarrow> datetime \<Rightarrow> unit tx" where
  "quarantine_transport_delivery job expected_updated_at now db =
    with_row (get_delivery_job db job) job (\<lambda>current.
      if job_status current \<in> {''succeeded'', ''quarantined''} then Inr ((), db)
      else if job_updated_at current \<noteq> expected_updated_at \<or> lease_is_live (job_lease_until current) now
      then Inl (StaleOwnerRejected ''transport_quarantine_version_or_lease'')
      else if row_with pl_idempotency_key (job_idempotency_key current) (delivery_payloads db) = None
      then Inl (StateDBError ''transport_quarantine_payload_missing'')
      else Inr ((), update_job job (\<lambda>j. j\<lparr>job_status := ''quarantined'', job_lease_owner := '''',
          job_lease_until := '''', job_next_retry_at := '''',
          job_last_error_class := (if job_last_error_class j = '''' then ''transport_max_deliver''
            else job_last_error_class j),
          job_updated_at := iso now\<rparr>) db))"

text \<open>Who may record an attempt: the live owner, or anyone when no owner is named and no lease is live.\<close>

definition stale_owner :: "delivery_job \<Rightarrow> string \<Rightarrow> datetime \<Rightarrow> bool" where
  "stale_owner row lease_owner now =
    (if lease_owner \<noteq> '''' then job_lease_owner row \<noteq> lease_owner \<or> \<not> lease_is_live (job_lease_until row) now
     else lease_is_live (job_lease_until row) now)"

definition record_replayable_attempt :: "string \<Rightarrow> string \<Rightarrow> datetime \<Rightarrow> int \<Rightarrow> int \<Rightarrow> string tx" where
  "record_replayable_attempt job lease_owner now max_attempts next_retry_seconds db =
    bind_result (dt_add now next_retry_seconds) (\<lambda>retry_at.
    with_row (get_delivery_job db job) job (\<lambda>row.
      if stale_owner row lease_owner now then Inr (''stale_owner_rejected'', db)
      else
        (let attempt_count = job_attempt_count row + 1;
             capped = attempt_count \<ge> max_attempts;
             status = (if capped then ''quarantined'' else REPLAYABLE);
             last_error_class = (if capped then str_or (job_last_error_class row) ''remote_outcome_uncertain''
               else ''remote_outcome_uncertain'');
             next_retry_at = (if capped then '''' else iso retry_at)
         in Inr (status, update_job job (\<lambda>j. j\<lparr>job_status := status, job_attempt_count := attempt_count,
             job_next_retry_at := next_retry_at, job_lease_owner := '''', job_lease_until := '''',
             job_last_error_class := last_error_class, job_updated_at := iso now\<rparr>) db))))"

definition mark_delivery_executing :: "string \<Rightarrow> string \<Rightarrow> datetime \<Rightarrow> bool tx" where
  "mark_delivery_executing job lease_owner now db =
    with_row (get_delivery_job db job) job (\<lambda>row.
      if job_lease_owner row \<noteq> lease_owner \<or> \<not> lease_is_live (job_lease_until row) now then Inr (False, db)
      else Inr (True, update_job job (\<lambda>j. j\<lparr>job_status := ''executing'', job_updated_at := iso now\<rparr>) db))"

definition record_delivery_evidence ::
    "string \<Rightarrow> string \<Rightarrow> string \<Rightarrow> string \<Rightarrow> string \<Rightarrow> string \<Rightarrow> datetime \<Rightarrow> unit tx" where
  "record_delivery_evidence job status dataset_ref document_ref run last_error_class observed_at db =
    (if status \<notin> {''succeeded'', ''failed_retryable'', ''quarantined'', ''replayable''}
     then Inl (ValueError ''unsupported delivery evidence status'')
     else Inr ((), update_job job (\<lambda>j. j\<lparr>job_status := status, job_index_target_id := dataset_ref,
         job_index_document_id := document_ref, job_index_run_id := run,
         job_last_error_class := last_error_class, job_last_reconciled_at := iso observed_at,
         job_lease_owner := '''', job_lease_until := '''', job_updated_at := iso observed_at\<rparr>) db))"

definition correction_id :: "string \<Rightarrow> string" where
  "correction_id job = ''source-correction:'' @ job"

text \<open>
  The evidence of a corrected job also leaves an audit row and counts an attempt, in the
  same transaction.
\<close>

definition audit_corrected_attempt ::
    "delivery_job \<Rightarrow> string \<Rightarrow> string \<Rightarrow> string \<Rightarrow> string \<Rightarrow> string \<Rightarrow> string \<Rightarrow> datetime \<Rightarrow> state_db \<Rightarrow> state_db result" where
  "audit_corrected_attempt row status dataset_ref document_ref run last_error_class fresh now db =
    (let job = job_id row
     in if get_domain_record db (correction_id job) = None then Inr db
        else bind_result
          (insert_result_row
            \<lparr>res_id = ''correction_attempt_'' @ fresh, res_command_id = job_command_id row,
             res_decision = ''procedural_source_attempt_'' @ status, res_payload_ref = '''',
             res_domain_versions_written = json_dumps (JObj [(''job_id'', JStr job),
               (''correction_audit_id'', JStr (correction_id job)), (''run'', JStr run),
               (''document_ref'', JStr document_ref), (''dataset_ref'', JStr dataset_ref)]),
             res_error_class = last_error_class, res_created_at = iso now\<rparr> db)
          (\<lambda>db'. Inr (update_job job (\<lambda>j. j\<lparr>job_attempt_count := job_attempt_count j + 1\<rparr>) db')))"

definition complete_delivery_with_evidence ::
    "string \<Rightarrow> string \<Rightarrow> string \<Rightarrow> string \<Rightarrow> string \<Rightarrow> string \<Rightarrow> string \<Rightarrow> datetime option \<Rightarrow> datetime
      \<Rightarrow> string \<Rightarrow> bool tx" where
  "complete_delivery_with_evidence job lease_owner status dataset_ref document_ref run last_error_class
     observed_at now fresh db =
    (let evidence_stamp = iso (case observed_at of None \<Rightarrow> now | Some t \<Rightarrow> t)
     in if status \<notin> {''succeeded'', ''failed_retryable'', ''quarantined''}
        then Inl (ValueError ''unsupported delivery completion status'')
        else with_row (get_delivery_job db job) job (\<lambda>row.
          if job_lease_owner row \<noteq> lease_owner \<or> \<not> lease_is_live (job_lease_until row) now then Inr (False, db)
          else bind_result
            (audit_corrected_attempt row status dataset_ref document_ref run last_error_class fresh now
              (update_job job (\<lambda>j. j\<lparr>job_status := status, job_index_target_id := dataset_ref,
                job_index_document_id := document_ref, job_index_run_id := run,
                job_last_error_class := last_error_class, job_last_reconciled_at := evidence_stamp,
                job_lease_owner := '''', job_lease_until := '''', job_updated_at := iso now\<rparr>) db))
            (\<lambda>db'. Inr (True, db'))))"

definition record_failed_retryable_attempt ::
    "string \<Rightarrow> string \<Rightarrow> string \<Rightarrow> string \<Rightarrow> string \<Rightarrow> string \<Rightarrow> datetime option \<Rightarrow> datetime \<Rightarrow> int \<Rightarrow> int
      \<Rightarrow> string tx" where
  "record_failed_retryable_attempt job run dataset_ref document_ref error_class lease_owner observed_at now
     max_attempts next_retry_seconds db =
    (let evidence_stamp = iso (case observed_at of None \<Rightarrow> now | Some t \<Rightarrow> t)
     in bind_result (dt_add now next_retry_seconds) (\<lambda>retry_at.
        with_row (get_delivery_job db job) job (\<lambda>row.
          if stale_owner row lease_owner now then Inr (''stale_owner_rejected'', db)
          else
            (let attempt_count = job_attempt_count row + 1;
                 capped = attempt_count \<ge> max_attempts;
                 status = (if capped then ''quarantined'' else ''failed_retryable'');
                 next_retry_at = (if capped then '''' else iso retry_at)
             in Inr (status, update_job job (\<lambda>j. j\<lparr>job_status := status, job_attempt_count := attempt_count,
                 job_next_retry_at := next_retry_at, job_index_target_id := dataset_ref,
                 job_index_document_id := document_ref, job_index_run_id := run,
                 job_lease_owner := '''', job_lease_until := '''', job_last_error_class := error_class,
                 job_last_reconciled_at := evidence_stamp, job_updated_at := iso now\<rparr>) db)))))"

section \<open>Stored payloads\<close>

definition record_delivery_payload :: "dict \<Rightarrow> datetime \<Rightarrow> string tx" where
  "record_delivery_payload payload now db =
    (let idempotency_key = str_or_empty (get_item payload ''idempotencyKey'');
         payload_hash = str_or_empty (get_item payload ''contentHash'')
     in if idempotency_key = '''' then Inl (ValueError ''idempotencyKey is required'')
        else if payload_hash = '''' then Inl (ValueError ''contentHash is required'')
        else case row_with pl_idempotency_key idempotency_key (delivery_payloads db) of
          Some existing \<Rightarrow>
            Inr (if pl_payload_hash existing \<noteq> payload_hash then ''conflict'' else ''already_present'', db)
        | None \<Rightarrow>
            bind_result
              (insert_payload_row
                \<lparr>pl_idempotency_key = idempotency_key, pl_payload_hash = payload_hash,
                 pl_payload_json = json_dumps (JObj payload), pl_recorded_at = iso now\<rparr> db)
              (\<lambda>db'. Inr (''recorded'', db')))"

definition get_delivery_payload :: "state_db \<Rightarrow> string \<Rightarrow> dict option" where
  "get_delivery_payload db idempotency_key =
    (case row_with pl_idempotency_key idempotency_key (delivery_payloads db) of
       None \<Rightarrow> None
     | Some row \<Rightarrow>
         (case json_loads (pl_payload_json row) of
            Some (JObj d) \<Rightarrow> Some d
          | _ \<Rightarrow> None))"

text \<open>\<open>x[k]\<close> and \<open>x[k1][k2]\<dots>[kn] = v\<close> on nested dicts.\<close>

fun json_item :: "json \<Rightarrow> string \<Rightarrow> json result" where
  "json_item (JObj d) k = (case map_of d k of None \<Rightarrow> Inl (KeyError k) | Some v \<Rightarrow> Inr v)"
| "json_item _ k = Inl (TypeError ''subscript'')"

fun json_path :: "json \<Rightarrow> string list \<Rightarrow> json result" where
  "json_path j [] = Inr j"
| "json_path j (k # ks) = bind_result (json_item j k) (\<lambda>v. json_path v ks)"

fun set_path :: "json \<Rightarrow> string list \<Rightarrow> json \<Rightarrow> json" where
  "set_path j [] v = v"
| "set_path (JObj d) (k # ks) v = JObj (set_item d k (set_path (get_item d k) ks v))"
| "set_path j (k # ks) v = j"

definition session_hash_path :: "string list" where
  "session_hash_path = [''payload'', ''document'', ''metadata'', ''session_id_hash'']"

definition is_bare_sha256 :: "string \<Rightarrow> bool" where
  "is_bare_sha256 s \<longleftrightarrow> length s = 64 \<and>
    list_all (\<lambda>c. CHR ''0'' \<le> c \<and> c \<le> CHR ''9'' \<or> CHR ''a'' \<le> c \<and> c \<le> CHR ''f'') s"

definition as_str :: "json \<Rightarrow> py_error \<Rightarrow> string result" where
  "as_str j e = (case j of JStr s \<Rightarrow> Inr s | _ \<Rightarrow> Inl e)"

text \<open>The corrected payload: one metadata field gains its \<open>sha256:\<close> prefix.\<close>

definition corrected_payload :: "dict \<Rightarrow> string \<Rightarrow> (dict \<times> string) result" where
  "corrected_payload original err =
    bind_result (json_path (JObj original) session_hash_path) (\<lambda>v.
    bind_result (as_str v (TypeError ''expected string'')) (\<lambda>old_hash.
      if \<not> is_bare_sha256 old_hash then Inl (StateDBError err)
      else case set_path (JObj original) session_hash_path (JStr (''sha256:'' @ old_hash)) of
        JObj d \<Rightarrow> Inr (d, old_hash)
      | _ \<Rightarrow> Inl (TypeError ''subscript'')))"

definition get_effective_delivery_payload :: "state_db \<Rightarrow> string \<Rightarrow> dict option result" where
  "get_effective_delivery_payload db idempotency_key =
    (case (get_delivery_payload db idempotency_key,
           row_with job_idempotency_key idempotency_key (delivery_jobs db)) of
       (Some original, Some job) \<Rightarrow>
         (case get_domain_record db (correction_id (job_id job)) of
            None \<Rightarrow> Inr (Some original)
          | Some audit \<Rightarrow>
              (case json_loads (dom_projection_json audit) of
                 None \<Rightarrow> Inl (ValueError ''JSONDecodeError'')
               | Some projection \<Rightarrow>
                   bind_result (corrected_payload original ''source_correction_original_drift'') (\<lambda>(corrected, _).
                   bind_result (json_item projection ''old_payload'') (\<lambda>old.
                     if \<not> json_eq old (JObj original) then Inl (StateDBError ''source_correction_original_drift'')
                     else bind_result (json_item projection ''corrected_payload'') (\<lambda>new.
                       if \<not> json_eq new (JObj corrected) then Inl (StateDBError ''source_correction_original_drift'')
                       else bind_result (json_item projection ''job_id'') (\<lambda>jid.
                         if \<not> json_eq jid (JStr (job_id job)) \<or> job_document_kind job \<noteq> ''repo_usage_pattern''
                           \<or> job_target_profile job \<noteq> ''index-procedural-memory''
                         then Inl (StateDBError ''source_correction_original_drift'')
                         else Inr (Some corrected)))))))
     | (original, _) \<Rightarrow> Inr original)"

text \<open>
  \<open>correct_procedural_source_hash\<close>: the preimage the caller saw, the identity of the stored
  payload and its three content hashes are checked before the audit is written.
\<close>

definition correction_preimage :: "delivery_job \<Rightarrow> string \<Rightarrow> datetime \<Rightarrow> bool" where
  "correction_preimage job expected_updated_at now \<longleftrightarrow>
    \<not> (job_updated_at job \<noteq> expected_updated_at \<or> lease_is_live (job_lease_until job) now
      \<or> job_status job \<noteq> ''replayable'' \<or> job_attempt_count job \<noteq> 1
      \<or> job_last_error_class job \<noteq> ''remote_outcome_uncertain''
      \<or> job_document_kind job \<noteq> ''repo_usage_pattern''
      \<or> job_target_profile job \<noteq> ''index-procedural-memory'')"

fun require_items :: "json \<Rightarrow> (string \<times> string) list \<Rightarrow> py_error \<Rightarrow> unit result" where
  "require_items j [] e = Inr ()"
| "require_items j ((k, s) # rest) e =
    bind_result (json_item j k) (\<lambda>v. if \<not> json_eq v (JStr s) then Inl e else require_items j rest e)"

definition correction_contract :: "dict \<Rightarrow> delivery_job \<Rightarrow> delivery_payload \<Rightarrow> string \<Rightarrow> unit result" where
  "correction_contract original job retained content_hash =
    (let mismatch = StateDBError ''source_correction_payload_contract_mismatch''
     in if content_hash \<noteq> job_payload_hash job \<or> content_hash \<noteq> pl_payload_hash retained then Inl mismatch
        else require_items (JObj original)
          [(''contentHash'', content_hash), (''idempotencyKey'', job_idempotency_key job),
           (''kind'', job_document_kind job), (''targetProfile'', job_target_profile job)] mismatch)"

definition correction_projection :: "delivery_job \<Rightarrow> dict \<Rightarrow> dict \<Rightarrow> string \<Rightarrow> dict" where
  "correction_projection job original corrected identity =
    [(''schema_version'', JStr ''procedural_source_correction.v1''), (''job_id'', JStr (job_id job)),
     (''old_job'', JObj (job_dict job)), (''old_payload'', JObj original),
     (''corrected_payload'', JObj corrected), (''old_payload_identity'', JStr identity),
     (''new_payload_identity'', JStr (sha256_ref (json_dumps (JObj corrected)))),
     (''changed_field'', JStr ''payload.document.metadata.session_id_hash''),
     (''scope'', JStr ''raw_source_only''), (''historical_error'', JStr (job_last_error_class job))]"

definition write_correction ::
    "delivery_job \<Rightarrow> dict \<Rightarrow> dict \<Rightarrow> string \<Rightarrow> string \<Rightarrow> datetime \<Rightarrow> string tx" where
  "write_correction job original corrected identity lease_owner now db =
    (let audit_id = correction_id (job_id job)
     in bind_result
       (insert_domain_row
         \<lparr>dom_id = audit_id, dom_command_id = job_command_id job, dom_resource_id_hash = job_id job,
          dom_session_id_hash = '''', dom_kind = ''procedural_source_correction'',
          dom_lifecycle_status = ''preserved'', dom_version = 1, dom_payload_hash = identity,
          dom_payload_ref = '''',
          dom_projection_json = json_dumps (JObj (correction_projection job original corrected identity)),
          dom_created_at = iso now, dom_updated_at = iso now\<rparr> db) (\<lambda>db1.
       bind_result
         (insert_result_row
           \<lparr>res_id = audit_id, res_command_id = job_command_id job,
            res_decision = ''procedural_source_correction_preserved'', res_payload_ref = '''',
            res_domain_versions_written = json_dumps (JObj [(audit_id, JInt 1)]), res_error_class = '''',
            res_created_at = iso now\<rparr> db1) (\<lambda>db2.
         bind_result (dt_add now 600) (\<lambda>lease_until.
           Inr (audit_id, update_job (job_id job) (\<lambda>j. j\<lparr>job_status := ''claimed'',
             job_lease_owner := lease_owner, job_lease_until := iso lease_until, job_updated_at := iso now\<rparr>) db2)))))"

definition correct_procedural_source_hash ::
    "string \<Rightarrow> string \<Rightarrow> string \<Rightarrow> string \<Rightarrow> datetime \<Rightarrow> string tx" where
  "correct_procedural_source_hash k expected_updated_at expected_payload_identity lease_owner now db =
    (if lease_owner = '''' then Inl (ValueError ''source correction lease owner is required'')
     else with_row (get_delivery_job db k) k (\<lambda>job.
       if get_domain_record db (correction_id k) \<noteq> None
       then Inl (StateDBError ''source_correction_already_recorded_get_only'')
       else if \<not> correction_preimage job expected_updated_at now
       then Inl (StaleOwnerRejected ''source_correction_preimage_or_lease'')
       else case row_with pl_idempotency_key (job_idempotency_key job) (delivery_payloads db) of
         None \<Rightarrow> Inl (StateDBError ''source_correction_payload_missing'')
       | Some retained \<Rightarrow>
           (case json_loads (pl_payload_json retained) of
              None \<Rightarrow> Inl (ValueError ''JSONDecodeError'')
            | Some stored \<Rightarrow>
                (let identity = sha256_ref (json_dumps stored)
                 in if identity \<noteq> expected_payload_identity
                    then Inl (StateDBError ''source_correction_payload_identity_mismatch'')
                    else case stored of
                      JObj original \<Rightarrow>
                        bind_result (json_path stored [''payload'', ''document'', ''body'']) (\<lambda>b.
                        bind_result (as_str b (AttributeError ''encode'')) (\<lambda>body.
                        bind_result (correction_contract original job retained (sha256_ref body)) (\<lambda>_.
                        bind_result (corrected_payload original ''source_correction_not_bare_sha256'') (\<lambda>(corrected, _).
                          write_correction job original corrected identity lease_owner now db))))
                    | _ \<Rightarrow> Inl (TypeError ''subscript'')))))"

section \<open>Every method keeps the invariant\<close>

lemma with_row_Inr_iff [simp]:
  "with_row r k f = Inr y \<longleftrightarrow> (\<exists>x. r = Some x \<and> f x = Inr y)"
  by (auto simp: with_row_def split: option.split)

lemma with_row_simps [simp]:
  "with_row None k f = Inl (KeyError k)"
  "with_row (Some x) k f = f x"
  by (simp_all add: with_row_def)

lemma lease_is_live_simps [simp]:
  "\<not> lease_is_live '''' now"
  "lease_is_live (iso t) now \<longleftrightarrow> now < t"
  by (simp_all add: lease_is_live_def)

lemma lease_is_live_leased:
  "job_ok j \<Longrightarrow> lease_is_live (job_lease_until j) now \<Longrightarrow> job_leased j"
  by (auto simp: job_ok_def)

lemma record_inbox_shadow_wf [inv_intros]:
  "record_inbox_shadow payload ref event_id fresh now db = Inr (d, db') \<Longrightarrow> db_wf db \<Longrightarrow> db_wf db'"
  by (auto simp: record_inbox_shadow_def Let_def bind_result_Inr_iff split: if_splits
      dest!: insert_inbox_event_wf)

lemma create_command_wf [inv_intros]:
  "create_command i ty k h r s e st now db = Inr (x, db') \<Longrightarrow> db_wf db \<Longrightarrow> db_wf db'"
  by (auto simp: create_command_def bind_result_Inr_iff command_ok_def dest!: insert_command_wf)

lemma command_keeping_sets [simp]:
  "command_keeping (\<lambda>c. c\<lparr>cmd_status := st, cmd_updated_at := u\<rparr>)"
  "command_keeping (\<lambda>c. c\<lparr>cmd_status := st, cmd_last_error_class := e, cmd_updated_at := u\<rparr>)"
  "command_keeping (\<lambda>c. c\<lparr>cmd_last_error_class := e, cmd_updated_at := u\<rparr>)"
  "0 \<le> n \<Longrightarrow> command_keeping (\<lambda>c. c\<lparr>cmd_status := st, cmd_attempt_count := n, cmd_last_error_class := e,
     cmd_updated_at := u\<rparr>)"
  "0 \<le> n \<Longrightarrow> command_keeping (\<lambda>c. c\<lparr>cmd_status := st, cmd_lease_owner := own, cmd_lease_until := iso t,
     cmd_attempt_count := n, cmd_updated_at := u\<rparr>)"
  by (simp_all add: command_keeping_def command_ok_def)

lemma get_command_ok: "db_wf db \<Longrightarrow> get_command db k = Some c \<Longrightarrow> command_ok c"
  by (auto simp: get_command_def wf_defs dest: row_with_SomeD)

lemma claim_command_wf [inv_intros]:
  "claim_command i own now ls ma db = Inr (b, db') \<Longrightarrow> db_wf db \<Longrightarrow> db_wf db'"
  by (auto simp: claim_command_def bind_result_Inr_iff Let_def command_ok_def split: if_splits
      dest: get_command_ok intro!: update_command_wf)

lemma complete_claimed_command_wf [inv_intros]:
  "complete_claimed_command i own now db = Inr (b, db') \<Longrightarrow> db_wf db \<Longrightarrow> db_wf db'"
  by (auto simp: complete_claimed_command_def split: if_splits intro!: update_command_wf)

lemma insert_delivery_job_wf:
  "insert_delivery_job spec stamp c db = Inr db' \<Longrightarrow> db_wf db \<Longrightarrow> db_wf db'"
  by (auto simp: insert_delivery_job_def job_ok_def dest!: insert_job_row_wf)

lemma create_delivery_job_wf [inv_intros]:
  "create_delivery_job i c k h p kd st now db = Inr (x, db') \<Longrightarrow> db_wf db \<Longrightarrow> db_wf db'"
  by (auto simp: create_delivery_job_def Let_def bind_result_Inr_iff split: option.splits if_splits
      intro: insert_delivery_job_wf)

lemma get_delivery_job_attempts: "db_wf db \<Longrightarrow> get_delivery_job db k = Some j \<Longrightarrow> 0 \<le> job_attempt_count j"
  using get_delivery_job_ok by (auto simp: job_ok_def)

text \<open>The updates of a delivery job keep its keys; those that drop the lease may set any status.\<close>

lemma job_keepingI:
  assumes "\<And>j. job_id (f j) = job_id j" "\<And>j. job_idempotency_key (f j) = job_idempotency_key j"
    "\<And>j. job_command_id (f j) = job_command_id j"
  shows "job_keeping f"
  by (simp add: job_keeping_def assms)

lemma claim_delivery_job_wf [inv_intros]:
  "claim_delivery_job i own now ls ma db = Inr (b, db') \<Longrightarrow> db_wf db \<Longrightarrow> db_wf db'"
  by (auto simp: claim_delivery_job_def bind_result_Inr_iff job_ok_def job_leased_def split: if_splits
      intro!: update_job_wf job_keepingI)

lemma quarantine_transport_delivery_wf [inv_intros]:
  "quarantine_transport_delivery i u now db = Inr (x, db') \<Longrightarrow> db_wf db \<Longrightarrow> db_wf db'"
  by (auto simp: quarantine_transport_delivery_def job_ok_def split: if_splits
      intro!: update_job_wf job_keepingI)

lemma record_replayable_attempt_wf [inv_intros]:
  "record_replayable_attempt i own now ma rs db = Inr (st, db') \<Longrightarrow> db_wf db \<Longrightarrow> db_wf db'"
  by (auto simp: record_replayable_attempt_def bind_result_Inr_iff job_ok_def Let_def split: if_splits
      intro!: update_job_wf job_keepingI dest: get_delivery_job_attempts)

lemma mark_delivery_executing_wf [inv_intros]:
  "mark_delivery_executing i own now db = Inr (b, db') \<Longrightarrow> db_wf db \<Longrightarrow> db_wf db'"
  by (auto simp: mark_delivery_executing_def job_ok_def job_leased_def split: if_splits
      intro!: update_job_wf job_keepingI)

lemma record_delivery_evidence_wf [inv_intros]:
  "record_delivery_evidence i st ds dc run e t db = Inr (x, db') \<Longrightarrow> db_wf db \<Longrightarrow> db_wf db'"
  by (auto simp: record_delivery_evidence_def job_ok_def split: if_splits intro!: update_job_wf job_keepingI)

lemma audit_corrected_attempt_wf:
  "audit_corrected_attempt row st ds dc run e fresh now db = Inr db' \<Longrightarrow> db_wf db \<Longrightarrow> db_wf db'"
  by (auto simp: audit_corrected_attempt_def Let_def bind_result_Inr_iff job_ok_def job_leased_def
      split: if_splits dest: insert_result_row_wf intro!: update_job_wf job_keepingI)

lemma complete_delivery_with_evidence_wf [inv_intros]:
  "complete_delivery_with_evidence i own st ds dc run e obs now fresh db = Inr (b, db') \<Longrightarrow> db_wf db \<Longrightarrow> db_wf db'"
  by (auto simp: complete_delivery_with_evidence_def Let_def bind_result_Inr_iff job_ok_def
      split: if_splits elim!: audit_corrected_attempt_wf intro!: update_job_wf job_keepingI)

lemma record_failed_retryable_attempt_wf [inv_intros]:
  "record_failed_retryable_attempt i run ds dc e own obs now ma rs db = Inr (st, db') \<Longrightarrow> db_wf db \<Longrightarrow> db_wf db'"
  by (auto simp: record_failed_retryable_attempt_def bind_result_Inr_iff job_ok_def Let_def split: if_splits
      intro!: update_job_wf job_keepingI dest: get_delivery_job_attempts)

lemma record_delivery_payload_wf [inv_intros]:
  "record_delivery_payload payload now db = Inr (st, db') \<Longrightarrow> db_wf db \<Longrightarrow> json_wf (JObj payload) \<Longrightarrow> db_wf db'"
  by (auto simp: record_delivery_payload_def Let_def bind_result_Inr_iff payload_ok_def
      split: if_splits option.splits simp del: json_wf.simps elim!: insert_payload_row_wf)

lemma write_correction_wf:
  "write_correction job orig corr ident own now db = Inr (x, db') \<Longrightarrow> db_wf db \<Longrightarrow> db_wf db'"
  by (auto simp: write_correction_def Let_def bind_result_Inr_iff job_ok_def job_leased_def
      dest!: insert_domain_row_wf insert_result_row_wf intro!: update_job_wf job_keepingI)

lemma correct_procedural_source_hash_wf [inv_intros]:
  "correct_procedural_source_hash i u ident own now db = Inr (x, db') \<Longrightarrow> db_wf db \<Longrightarrow> db_wf db'"
  by (auto simp: correct_procedural_source_hash_def Let_def bind_result_Inr_iff
      split: if_splits option.splits json.splits elim: write_correction_wf)

end
