(* ===== verification/Command_Tx.thy ===== *)
theory Command_Tx
  imports State_Db
begin

text \<open>
  \<open>CommandTransaction.execute\<close> of \<open>rag_ingress/state_db.py\<close> with the statements it composes:
  one SQLite transaction that claims a command, consumes its inbox event, validates, plans the
  delivery jobs against the idempotency keys, writes the domain records, the result and the
  jobs, and completes the command.  The \<open>validate\<close> and \<open>mutate\<close> callbacks are functions on the
  database inside the transaction.  An exception rolls everything back; a rejected validation
  and a delivery conflict commit what has been written so far.
\<close>

section \<open>Specifications and results\<close>

record domain_record_spec =
  dspec_id :: string
  dspec_kind :: string
  dspec_lifecycle_status :: string
  dspec_resource_id_hash :: string
  dspec_session_id_hash :: string
  dspec_payload_hash :: string
  dspec_payload_ref :: string
  dspec_projection :: "dict option"

record command_result_spec =
  rspec_decision :: string
  rspec_payload_ref :: string
  rspec_domain_versions_written :: "dict option"
  rspec_error_class :: string

record command_transaction_result =
  ctr_command_id :: string
  ctr_status :: string
  ctr_delivery_job_ids :: "string list"

record delivery_plan =
  plan_to_insert :: "delivery_job_spec list"
  plan_duplicate_job_ids :: "string list"
  plan_conflict :: "idempotency_decision option"

text \<open>What a \<open>validate\<close> callback does: it returns, rejects, or raises another exception.\<close>

datatype validation = Validated | ValidationRejected string string | ValidationRaised py_error

record command_request =
  rq_command_id :: string
  rq_command_type :: string
  rq_idempotency_key :: string
  rq_payload_hash :: string
  rq_result :: command_result_spec
  rq_domain_records :: "domain_record_spec list"
  rq_delivery_jobs :: "delivery_job_spec list"
  rq_validate :: "(state_db \<Rightarrow> validation \<times> state_db) option"
  rq_mutate :: "(state_db \<Rightarrow> (dict option \<times> state_db) result) option"
  rq_inbox_event_id :: string
  rq_resource_id_hash :: string
  rq_session_id_hash :: string
  rq_input_epoch :: string
  rq_lease_owner :: string
  rq_lease_seconds :: int
  rq_inject_failure_at :: string

section \<open>Statements of the transaction\<close>

definition maybe_fail :: "string \<Rightarrow> string \<Rightarrow> state_db \<Rightarrow> state_db result" where
  "maybe_fail inject_failure_at stage db =
    (if inject_failure_at = stage then Inl (InjectedTransactionFailure (''injected failure at '' @ stage))
     else Inr db)"

text \<open>The event identifier is the primary key, so at most one row matches.\<close>

definition consume_inbox_event :: "string \<Rightarrow> string \<Rightarrow> string \<Rightarrow> state_db \<Rightarrow> state_db result" where
  "consume_inbox_event event_id command_id stamp db =
    (if length (filter (\<lambda>ev. ev_event_id ev = event_id \<and> ev_consumed_by ev = '''') (inbox_events db)) \<noteq> 1
     then Inl (StateDBError ''inbox event is missing or already consumed'')
     else Inr (db\<lparr>inbox_events := map (\<lambda>ev.
       if ev_event_id ev = event_id \<and> ev_consumed_by ev = ''''
       then ev\<lparr>ev_consumed_by := command_id, ev_consumed_at := stamp, ev_updated_at := stamp\<rparr> else ev)
       (inbox_events db)\<rparr>))"

definition insert_command_result ::
    "string \<Rightarrow> command_result_spec \<Rightarrow> string \<Rightarrow> string \<Rightarrow> state_db \<Rightarrow> state_db result" where
  "insert_command_result command_id result stamp fresh db =
    insert_result_row
      \<lparr>res_id = ''cmdres_'' @ fresh, res_command_id = command_id, res_decision = rspec_decision result,
       res_payload_ref = rspec_payload_ref result,
       res_domain_versions_written = json_dumps (JObj (case rspec_domain_versions_written result of
         None \<Rightarrow> [] | Some d \<Rightarrow> d)),
       res_error_class = rspec_error_class result, res_created_at = stamp\<rparr> db"

definition next_domain_record_version :: "string \<Rightarrow> string \<Rightarrow> state_db \<Rightarrow> int" where
  "next_domain_record_version resource_id_hash domain_kind db =
    (case map dom_version (filter (\<lambda>d. dom_resource_id_hash d = resource_id_hash \<and> dom_kind d = domain_kind)
        (domain_records db)) of
       [] \<Rightarrow> 0 + 1
     | v # vs \<Rightarrow> foldl max v vs + 1)"

definition insert_domain_record ::
    "domain_record_spec \<Rightarrow> string \<Rightarrow> string \<Rightarrow> state_db \<Rightarrow> (json \<times> state_db) result" where
  "insert_domain_record spec stamp command_id db =
    (let version = next_domain_record_version (dspec_resource_id_hash spec) (dspec_kind spec) db
     in bind_result
       (insert_domain_row
         \<lparr>dom_id = dspec_id spec, dom_command_id = command_id,
          dom_resource_id_hash = dspec_resource_id_hash spec, dom_session_id_hash = dspec_session_id_hash spec,
          dom_kind = dspec_kind spec, dom_lifecycle_status = dspec_lifecycle_status spec,
          dom_version = version, dom_payload_hash = dspec_payload_hash spec,
          dom_payload_ref = dspec_payload_ref spec,
          dom_projection_json = json_dumps (JObj (case dspec_projection spec of None \<Rightarrow> [] | Some d \<Rightarrow> d)),
          dom_created_at = stamp, dom_updated_at = stamp\<rparr> db)
       (\<lambda>db'. Inr (JObj [(''domain_record_id'', JStr (dspec_id spec)), (''domain_kind'', JStr (dspec_kind spec)),
          (''version'', JInt version)], db')))"

fun insert_domain_records ::
    "domain_record_spec list \<Rightarrow> string \<Rightarrow> string \<Rightarrow> state_db \<Rightarrow> (json list \<times> state_db) result" where
  "insert_domain_records [] stamp command_id db = Inr ([], db)"
| "insert_domain_records (spec # specs) stamp command_id db =
    bind_result (insert_domain_record spec stamp command_id db) (\<lambda>(v, db1).
    bind_result (insert_domain_records specs stamp command_id db1) (\<lambda>(vs, db2). Inr (v # vs, db2)))"

fun insert_delivery_jobs :: "delivery_job_spec list \<Rightarrow> string \<Rightarrow> string \<Rightarrow> state_db \<Rightarrow> state_db result" where
  "insert_delivery_jobs [] stamp command_id db = Inr db"
| "insert_delivery_jobs (job # jobs) stamp command_id db =
    bind_result (insert_delivery_job job stamp command_id db) (insert_delivery_jobs jobs stamp command_id)"

text \<open>
  The planning loop: what has been planned in this batch, then what the table holds.  The
  accumulators are the jobs to insert, the duplicates, and the keys planned so far.
\<close>

fun plan_jobs ::
    "state_db \<Rightarrow> delivery_job_spec list \<Rightarrow> delivery_job_spec list \<Rightarrow> string list \<Rightarrow> (string \<times> string) list
      \<Rightarrow> delivery_plan result" where
  "plan_jobs db [] to_insert dups planned =
    Inr \<lparr>plan_to_insert = to_insert, plan_duplicate_job_ids = dups, plan_conflict = None\<rparr>"
| "plan_jobs db (job # jobs) to_insert dups planned =
    (case map_of planned (spec_idempotency_key job) of
       Some existing_payload_hash \<Rightarrow>
         (if existing_payload_hash = spec_payload_hash job
          then plan_jobs db jobs to_insert (dups @ [spec_job_id job]) planned
          else Inr \<lparr>plan_to_insert = [], plan_duplicate_job_ids = dups,
                    plan_conflict = Some (decide ''conflict'' ''same_batch_conflict'')\<rparr>)
     | None \<Rightarrow>
         (let existing = find_delivery_job_by_idempotency_key db (spec_idempotency_key job)
          in bind_result (classify_idempotency (map_option job_existing existing)
              (spec_idempotency_key job) (spec_payload_hash job)) (\<lambda>decision.
            if outcome decision = CONFLICT
            then Inr \<lparr>plan_to_insert = [], plan_duplicate_job_ids = dups, plan_conflict = Some decision\<rparr>
            else if outcome decision = DUPLICATE
            then plan_jobs db jobs to_insert
              (dups @ [case existing of None \<Rightarrow> spec_job_id job | Some e \<Rightarrow> str_or (job_id e) (spec_job_id job)])
              planned
            else plan_jobs db jobs (to_insert @ [job]) dups
              ((spec_idempotency_key job, spec_payload_hash job) # planned))))"

definition plan_delivery_jobs :: "state_db \<Rightarrow> delivery_job_spec list \<Rightarrow> delivery_plan result" where
  "plan_delivery_jobs db jobs = plan_jobs db jobs [] [] []"

section \<open>The transaction\<close>

definition simple_result :: "string \<Rightarrow> string \<Rightarrow> command_result_spec" where
  "simple_result decision error_class = \<lparr>rspec_decision = decision, rspec_payload_ref = '''',
     rspec_domain_versions_written = None, rspec_error_class = error_class\<rparr>"

definition transaction_result :: "string \<Rightarrow> string \<Rightarrow> string list \<Rightarrow> command_transaction_result" where
  "transaction_result i st ids = \<lparr>ctr_command_id = i, ctr_status = st, ctr_delivery_job_ids = ids\<rparr>"

definition set_command_status :: "string \<Rightarrow> string \<Rightarrow> string \<Rightarrow> state_db \<Rightarrow> state_db" where
  "set_command_status command_id status stamp =
    update_command command_id (\<lambda>c. c\<lparr>cmd_status := status, cmd_updated_at := stamp\<rparr>)"

definition fail_command_status :: "string \<Rightarrow> string \<Rightarrow> string \<Rightarrow> string \<Rightarrow> state_db \<Rightarrow> state_db" where
  "fail_command_status command_id status error_class stamp =
    update_command command_id (\<lambda>c. c\<lparr>cmd_status := status, cmd_last_error_class := error_class,
      cmd_updated_at := stamp\<rparr>)"

text \<open>Claiming: the command row is inserted with its lease and its inbox event is consumed.\<close>

definition tx_claim :: "command_request \<Rightarrow> datetime \<Rightarrow> datetime \<Rightarrow> state_db \<Rightarrow> state_db result" where
  "tx_claim rq now lease_until db =
    bind_result
      (insert_command
        \<lparr>cmd_id = rq_command_id rq, cmd_type = rq_command_type rq,
         cmd_resource_id_hash = rq_resource_id_hash rq, cmd_session_id_hash = rq_session_id_hash rq,
         cmd_idempotency_key = rq_idempotency_key rq, cmd_payload_hash = rq_payload_hash rq,
         cmd_input_epoch = rq_input_epoch rq, cmd_status = ''claimed'', cmd_lease_owner = rq_lease_owner rq,
         cmd_lease_until = iso lease_until, cmd_attempt_count = 1, cmd_last_error_class = '''',
         cmd_created_at = iso now, cmd_updated_at = iso now\<rparr> db) (\<lambda>db1.
    bind_result
      (if rq_inbox_event_id rq \<noteq> ''''
       then consume_inbox_event (rq_inbox_event_id rq) (rq_command_id rq) (iso now) db1 else Inr db1)
      (maybe_fail (rq_inject_failure_at rq) ''claim''))"

text \<open>Writing: mutation, domain records, result, jobs, completion, with the stages that may fail.\<close>

definition final_result :: "command_result_spec \<Rightarrow> dict option \<Rightarrow> json list \<Rightarrow> command_result_spec" where
  "final_result result domain_versions inserted_versions =
    (if (domain_versions \<noteq> None \<or> inserted_versions \<noteq> []) \<and> rspec_domain_versions_written result = None
     then result\<lparr>rspec_domain_versions_written := Some (case domain_versions of
       Some (p # ps) \<Rightarrow> p # ps
     | _ \<Rightarrow> [(''domain_records'', JArr inserted_versions)])\<rparr>
     else result)"

definition tx_write ::
    "command_request \<Rightarrow> datetime \<Rightarrow> string \<Rightarrow> delivery_plan \<Rightarrow> command_transaction_result tx" where
  "tx_write rq now fresh plan db =
    (let stamp = iso now; cid = rq_command_id rq; inject = rq_inject_failure_at rq
     in bind_result (case rq_mutate rq of None \<Rightarrow> Inr (None, db) | Some mutate \<Rightarrow> mutate db) (\<lambda>(versions, db1).
        bind_result (maybe_fail inject ''mutate'' db1) (\<lambda>db2.
        bind_result (insert_domain_records (rq_domain_records rq) stamp cid db2) (\<lambda>(inserted, db3).
        bind_result (maybe_fail inject ''domain'' db3) (\<lambda>db4.
        bind_result (insert_command_result cid (final_result (rq_result rq) versions inserted) stamp fresh db4) (\<lambda>db5.
        bind_result (maybe_fail inject ''result'' db5) (\<lambda>db6.
        bind_result (insert_delivery_jobs (plan_to_insert plan) stamp cid db6) (\<lambda>db7.
        bind_result (maybe_fail inject ''jobs'' db7) (\<lambda>db8.
        bind_result (maybe_fail inject ''commit'' (set_command_status cid ''completed'' stamp db8)) (\<lambda>db9.
          Inr (transaction_result cid ''completed''
            (plan_duplicate_job_ids plan @ map spec_job_id (plan_to_insert plan)), db9)))))))))))"

definition tx_deliver :: "command_request \<Rightarrow> datetime \<Rightarrow> string \<Rightarrow> command_transaction_result tx" where
  "tx_deliver rq now fresh db =
    (let stamp = iso now; cid = rq_command_id rq; db1 = set_command_status cid ''validated'' stamp db
     in bind_result (plan_delivery_jobs db1 (rq_delivery_jobs rq)) (\<lambda>plan.
        if plan_conflict plan \<noteq> None
        then bind_result (insert_command_result cid (simple_result ''conflict'' ''idempotency_conflict'') stamp fresh
               (fail_command_status cid ''quarantined'' ''idempotency_conflict'' stamp db1))
             (\<lambda>db2. Inr (transaction_result cid ''quarantined'' [], db2))
        else if rq_delivery_jobs rq \<noteq> [] \<and> plan_to_insert plan = []
        then bind_result (insert_command_result cid (simple_result ''duplicate'' '''') stamp fresh db1)
             (\<lambda>db2. Inr (transaction_result cid ''completed'' (plan_duplicate_job_ids plan),
                set_command_status cid ''completed'' stamp db2))
        else tx_write rq now fresh plan db1))"

definition tx_validate :: "command_request \<Rightarrow> datetime \<Rightarrow> string \<Rightarrow> command_transaction_result tx" where
  "tx_validate rq now fresh db =
    (let stamp = iso now; cid = rq_command_id rq
     in case (case rq_validate rq of None \<Rightarrow> (Validated, db) | Some validate \<Rightarrow> validate db) of
          (ValidationRejected error_class decision, db1) \<Rightarrow>
            bind_result (insert_command_result cid (simple_result decision error_class) stamp fresh
              (fail_command_status cid ''validation_failed'' error_class stamp db1))
            (\<lambda>db2. Inr (transaction_result cid ''validation_failed'' [], db2))
        | (ValidationRaised e, db1) \<Rightarrow> Inl e
        | (Validated, db1) \<Rightarrow>
            bind_result (maybe_fail (rq_inject_failure_at rq) ''validate'' db1) (tx_deliver rq now fresh))"

definition execute :: "command_request \<Rightarrow> datetime \<Rightarrow> string \<Rightarrow> command_transaction_result tx" where
  "execute rq now fresh db =
    bind_result (dt_add now (rq_lease_seconds rq)) (\<lambda>lease_until.
    bind_result (tx_claim rq now lease_until db) (tx_validate rq now fresh))"

definition consume_inbox_with_command ::
    "string \<Rightarrow> string \<Rightarrow> string \<Rightarrow> string \<Rightarrow> string \<Rightarrow> command_result_spec \<Rightarrow> domain_record_spec list
      \<Rightarrow> delivery_job_spec list \<Rightarrow> string \<Rightarrow> string \<Rightarrow> string \<Rightarrow> datetime \<Rightarrow> string \<Rightarrow> string
      \<Rightarrow> command_transaction_result tx" where
  "consume_inbox_with_command inbox_event_id command_id command_type idempotency_key payload_hash result
     dom_specs job_specs resource_id_hash session_id_hash input_epoch now inject_failure_at fresh =
    execute \<lparr>rq_command_id = command_id, rq_command_type = command_type,
      rq_idempotency_key = idempotency_key, rq_payload_hash = payload_hash, rq_result = result,
      rq_domain_records = dom_specs, rq_delivery_jobs = job_specs, rq_validate = None, rq_mutate = None,
      rq_inbox_event_id = inbox_event_id, rq_resource_id_hash = resource_id_hash,
      rq_session_id_hash = session_id_hash, rq_input_epoch = input_epoch,
      rq_lease_owner = ''command-transaction'', rq_lease_seconds = 60,
      rq_inject_failure_at = inject_failure_at\<rparr> now fresh"

section \<open>The transaction keeps the invariant\<close>

lemma maybe_fail_Inr_iff [simp]: "maybe_fail inject st db = Inr db' \<longleftrightarrow> inject \<noteq> st \<and> db' = db"
  by (auto simp: maybe_fail_def)

lemma consume_inbox_event_wf:
  "consume_inbox_event e c stamp db = Inr db' \<Longrightarrow> db_wf db \<Longrightarrow> c \<in> cmd_id ` set (commands db) \<Longrightarrow> db_wf db'"
proof -
  assume *: "consume_inbox_event e c stamp db = Inr db'" "db_wf db" "c \<in> cmd_id ` set (commands db)"
  let ?f = "\<lambda>ev. if ev_event_id ev = e \<and> ev_consumed_by ev = ''''
       then ev\<lparr>ev_consumed_by := c, ev_consumed_at := stamp, ev_updated_at := stamp\<rparr> else ev"
  from * have db': "db' = db\<lparr>inbox_events := map ?f (inbox_events db)\<rparr>"
    by (auto simp: consume_inbox_event_def split: if_splits)
  have "map ev_event_id (map ?f (inbox_events db)) = map ev_event_id (inbox_events db)"
    by simp
  moreover have "\<forall>ev \<in> set (map ?f (inbox_events db)). inbox_ok (cmd_id ` set (commands db)) ev"
    using * by (auto simp: wf_defs inbox_ok_def)
  ultimately show ?thesis
    using *(2) by (simp add: db' wf_defs del: map_map set_map list.set_map)
qed

lemma insert_command_result_wf:
  "insert_command_result c r stamp fresh db = Inr db' \<Longrightarrow> db_wf db \<Longrightarrow> db_wf db'"
  unfolding insert_command_result_def by (rule insert_result_row_wf)

lemma insert_domain_records_wf:
  "insert_domain_records specs stamp c db = Inr (vs, db') \<Longrightarrow> db_wf db \<Longrightarrow> db_wf db'"
  by (induction specs stamp c db arbitrary: vs db' rule: insert_domain_records.induct)
    (auto simp: bind_result_Inr_iff insert_domain_record_def Let_def dest: insert_domain_row_wf)

lemma insert_delivery_jobs_wf:
  "insert_delivery_jobs jobs stamp c db = Inr db' \<Longrightarrow> db_wf db \<Longrightarrow> db_wf db'"
  by (induction jobs stamp c db rule: insert_delivery_jobs.induct)
    (auto simp: bind_result_Inr_iff dest: insert_delivery_job_wf)

lemma command_status_wf:
  "db_wf db \<Longrightarrow> db_wf (set_command_status c st stamp db)"
  "db_wf db \<Longrightarrow> db_wf (fail_command_status c st e stamp db)"
  by (simp_all add: set_command_status_def fail_command_status_def update_command_wf)

text \<open>The callbacks run statements of their own: they keep what every statement keeps.\<close>

definition callbacks_keep :: "(state_db \<Rightarrow> bool) \<Rightarrow> command_request \<Rightarrow> bool" where
  "callbacks_keep P rq \<longleftrightarrow>
    (\<forall>f. rq_validate rq = Some f \<longrightarrow> (\<forall>db. P db \<longrightarrow> P (snd (f db))))
    \<and> (\<forall>f. rq_mutate rq = Some f \<longrightarrow> (\<forall>db x db'. P db \<longrightarrow> f db = Inr (x, db') \<longrightarrow> P db'))"

lemma tx_claim_wf:
  assumes "tx_claim rq now until db = Inr db'" "db_wf db"
  shows "db_wf db'"
proof -
  from assms(1) obtain c db1 where c: "insert_command c db = Inr db1" "cmd_id c = rq_command_id rq" "command_ok c"
    and d: "(if rq_inbox_event_id rq \<noteq> ''''
       then consume_inbox_event (rq_inbox_event_id rq) (rq_command_id rq) (iso now) db1 else Inr db1) = Inr db'"
    by (auto simp: tx_claim_def bind_result_Inr_iff command_ok_def)
  have "db_wf db1" using c assms(2) by (blast intro: insert_command_wf)
  moreover have "rq_command_id rq \<in> cmd_id ` set (commands db1)"
    using c by (auto simp: insert_command_def split: if_splits)
  ultimately show ?thesis
    using d by (auto split: if_splits intro: consume_inbox_event_wf)
qed

lemma tx_write_wf:
  "tx_write rq now fresh plan db = Inr (r, db') \<Longrightarrow> db_wf db \<Longrightarrow> callbacks_keep db_wf rq \<Longrightarrow> db_wf db'"
  by (auto simp: tx_write_def Let_def bind_result_Inr_iff callbacks_keep_def split: option.splits
      dest!: insert_domain_records_wf insert_command_result_wf insert_delivery_jobs_wf intro!: command_status_wf)

lemma tx_deliver_wf:
  "tx_deliver rq now fresh db = Inr (r, db') \<Longrightarrow> db_wf db \<Longrightarrow> callbacks_keep db_wf rq \<Longrightarrow> db_wf db'"
  by (auto simp: tx_deliver_def Let_def bind_result_Inr_iff command_status_wf split: if_splits
      dest!: insert_command_result_wf tx_write_wf)

lemma tx_validate_wf:
  assumes "tx_validate rq now fresh db = Inr (r, db')" "db_wf db" "callbacks_keep db_wf rq"
  shows "db_wf db'"
proof -
  obtain v db1 where v: "(case rq_validate rq of None \<Rightarrow> (Validated, db) | Some validate \<Rightarrow> validate db) = (v, db1)"
    by force
  then have "db_wf db1"
    using assms(2,3) by (auto simp: callbacks_keep_def split: option.splits dest: sym)
  then show ?thesis
    using assms by (cases v)
      (auto simp: tx_validate_def v Let_def bind_result_Inr_iff command_status_wf
        dest!: insert_command_result_wf tx_deliver_wf)
qed

lemma execute_wf [inv_intros]:
  "execute rq now fresh db = Inr (r, db') \<Longrightarrow> db_wf db \<Longrightarrow> callbacks_keep db_wf rq \<Longrightarrow> db_wf db'"
  by (auto simp: execute_def bind_result_Inr_iff dest: tx_claim_wf tx_validate_wf)

section \<open>What the statements leave alone\<close>

lemma update_command_frame [simp]:
  "inbox_events (update_command k f db) = inbox_events db"
  "delivery_jobs (update_command k f db) = delivery_jobs db"
  "command_results (update_command k f db) = command_results db"
  "domain_records (update_command k f db) = domain_records db"
  "delivery_payloads (update_command k f db) = delivery_payloads db"
  by (simp_all add: update_command_def)

lemma command_status_frame [simp]:
  "inbox_events (set_command_status c st stamp db) = inbox_events db"
  "delivery_jobs (set_command_status c st stamp db) = delivery_jobs db"
  "command_results (set_command_status c st stamp db) = command_results db"
  "inbox_events (fail_command_status c st e stamp db) = inbox_events db"
  "delivery_jobs (fail_command_status c st e stamp db) = delivery_jobs db"
  "command_results (fail_command_status c st e stamp db) = command_results db"
  by (simp_all add: set_command_status_def fail_command_status_def)

lemma insert_command_result_frame:
  "insert_command_result c r stamp fresh db = Inr db' \<Longrightarrow>
    delivery_jobs db' = delivery_jobs db \<and> inbox_events db' = inbox_events db \<and> commands db' = commands db
    \<and> (\<exists>row. command_results db' = command_results db @ [row] \<and> res_command_id row = c
      \<and> res_decision row = rspec_decision r \<and> res_error_class row = rspec_error_class r)"
  by (auto simp: insert_command_result_def insert_defs split: if_splits)

lemma insert_domain_records_frame:
  "insert_domain_records specs stamp c db = Inr (vs, db') \<Longrightarrow>
    delivery_jobs db' = delivery_jobs db \<and> inbox_events db' = inbox_events db \<and> commands db' = commands db
    \<and> command_results db' = command_results db"
  by (induction specs stamp c db arbitrary: vs db' rule: insert_domain_records.induct)
    (auto simp: bind_result_Inr_iff insert_domain_record_def insert_defs Let_def split: if_splits)

definition job_of_spec :: "delivery_job_spec \<Rightarrow> delivery_job \<Rightarrow> bool" where
  "job_of_spec spec j \<longleftrightarrow>
    job_idempotency_key j = spec_idempotency_key spec \<and> job_payload_hash j = spec_payload_hash spec"

lemma insert_delivery_job_frame:
  "insert_delivery_job spec stamp c db = Inr db' \<Longrightarrow>
    inbox_events db' = inbox_events db \<and> commands db' = commands db \<and> command_results db' = command_results db
    \<and> (\<exists>j. delivery_jobs db' = delivery_jobs db @ [j] \<and> job_id j = spec_job_id spec
      \<and> job_of_spec spec j \<and> job_command_id j = c)"
  by (auto simp: insert_delivery_job_def insert_defs job_of_spec_def split: if_splits)

lemma insert_delivery_jobs_frame:
  "insert_delivery_jobs jobs stamp c db = Inr db' \<Longrightarrow>
    inbox_events db' = inbox_events db \<and> commands db' = commands db \<and> command_results db' = command_results db
    \<and> (\<exists>new. delivery_jobs db' = delivery_jobs db @ new \<and> map job_id new = map spec_job_id jobs
      \<and> list_all2 job_of_spec jobs new \<and> (\<forall>j \<in> set new. job_command_id j = c))"
proof (induction jobs stamp c db rule: insert_delivery_jobs.induct)
  case (2 job jobs stamp c db)
  then obtain db1 where db1: "insert_delivery_job job stamp c db = Inr db1"
      and rest: "insert_delivery_jobs jobs stamp c db1 = Inr db'"
    by (auto simp: bind_result_Inr_iff)
  obtain j where j: "delivery_jobs db1 = delivery_jobs db @ [j]" "job_id j = spec_job_id job"
      "job_of_spec job j" "job_command_id j = c"
    using insert_delivery_job_frame [OF db1] by blast
  obtain new where new: "delivery_jobs db' = delivery_jobs db1 @ new"
      "map job_id new = map spec_job_id jobs" "list_all2 job_of_spec jobs new" "\<forall>j \<in> set new. job_command_id j = c"
    using 2(1)[OF rest] by blast
  then show ?case
    using 2(1)[OF rest] insert_delivery_job_frame [OF db1] j by (intro conjI exI [of _ "j # new"]) simp_all
qed simp

section \<open>What the plan and the transaction achieve\<close>

lemma plan_jobs_covers:
  assumes "plan_jobs db jobs ins dups planned = Inr plan" "plan_conflict plan = None"
    and "\<And>k h. map_of planned k = Some h \<Longrightarrow> \<exists>s \<in> set ins. spec_idempotency_key s = k \<and> spec_payload_hash s = h"
  shows "set ins \<subseteq> set (plan_to_insert plan) \<and>
    (\<forall>job \<in> set jobs. (\<exists>s \<in> set (plan_to_insert plan). spec_idempotency_key s = spec_idempotency_key job
        \<and> spec_payload_hash s = spec_payload_hash job)
      \<or> (\<exists>j \<in> set (delivery_jobs db). job_of_spec job j))"
  using assms
proof (induction db jobs ins dups planned rule: plan_jobs.induct)
  case (2 db job jobs ins dups planned)
  show ?case
  proof (cases "map_of planned (spec_idempotency_key job)")
    case (Some h)
    with 2(4,5) have "h = spec_payload_hash job" by (auto split: if_splits)
    with 2(3)[OF Some this] 2(4-) Some show ?thesis by fastforce
  next
    case None
    then obtain d where d: "classify_idempotency
        (map_option job_existing (find_delivery_job_by_idempotency_key db (spec_idempotency_key job)))
        (spec_idempotency_key job) (spec_payload_hash job) = Inr d" "outcome d \<noteq> CONFLICT"
      using 2(4,5) by (auto simp: bind_result_Inr_iff Let_def split: if_splits)
    show ?thesis
    proof (cases "outcome d = DUPLICATE")
      case True
      then obtain e where "find_delivery_job_by_idempotency_key db (spec_idempotency_key job) = Some e"
          "job_of_spec job e"
        using classify_duplicate_iff [OF d(1)] by (auto simp: job_existing_def job_of_spec_def)
      moreover from this(1) have "e \<in> set (delivery_jobs db)"
        by (auto simp: find_delivery_job_by_idempotency_key_def dest: first_by_SomeD)
      ultimately show ?thesis
        using 2(1) [OF None refl d(2) True] 2(4-) None d True by (fastforce simp: Let_def)
    next
      case False
      then show ?thesis
        using 2(2) [OF None refl d(2) False] 2(4-) None d by (fastforce simp: Let_def split: if_splits)
    qed
  qed
qed auto


definition no_callbacks :: "command_request \<Rightarrow> bool" where
  "no_callbacks rq \<longleftrightarrow> rq_validate rq = None \<and> rq_mutate rq = None"

lemma tx_write_delivers:
  assumes "tx_write rq now fresh plan db = Inr (r, db')" "no_callbacks rq"
  shows "\<exists>new row. delivery_jobs db' = delivery_jobs db @ new \<and> list_all2 job_of_spec (plan_to_insert plan) new
    \<and> (\<forall>j \<in> set new. job_command_id j = rq_command_id rq)
    \<and> commands db' = commands (set_command_status (rq_command_id rq) ''completed'' (iso now) db)
    \<and> ctr_status r = ''completed'' \<and> inbox_events db' = inbox_events db
    \<and> command_results db' = command_results db @ [row] \<and> res_command_id row = rq_command_id rq
    \<and> res_decision row = rspec_decision (rq_result rq)"
proof -
  from assms obtain vs db3 db5 db7 where
    d: "insert_domain_records (rq_domain_records rq) (iso now) (rq_command_id rq) db = Inr (vs, db3)"
    and r: "insert_command_result (rq_command_id rq) (final_result (rq_result rq) None vs) (iso now) fresh db3 = Inr db5"
    and j: "insert_delivery_jobs (plan_to_insert plan) (iso now) (rq_command_id rq) db5 = Inr db7"
    and f: "db' = set_command_status (rq_command_id rq) ''completed'' (iso now) db7" "ctr_status r = ''completed''"
    by (auto simp: tx_write_def Let_def bind_result_Inr_iff no_callbacks_def transaction_result_def)
  have "rspec_decision (final_result (rq_result rq) None vs) = rspec_decision (rq_result rq)"
    by (simp add: final_result_def)
  then show ?thesis
    using insert_domain_records_frame [OF d] insert_command_result_frame [OF r]
      insert_delivery_jobs_frame [OF j] f
    by (auto simp: set_command_status_def update_command_def)
qed

lemma plan_delivery_jobs_covers:
  assumes "plan_delivery_jobs db jobs = Inr plan" "plan_conflict plan = None"
    and "list_all2 job_of_spec (plan_to_insert plan) new"
  shows "\<forall>job \<in> set jobs. \<exists>j \<in> set (delivery_jobs db @ new). job_of_spec job j"
proof
  fix job
  assume "job \<in> set jobs"
  then consider s where "s \<in> set (plan_to_insert plan)" "spec_idempotency_key s = spec_idempotency_key job"
      "spec_payload_hash s = spec_payload_hash job"
    | j where "j \<in> set (delivery_jobs db)" "job_of_spec job j"
    using plan_jobs_covers [of db jobs "[]" "[]" "[]" plan] assms(1,2) by (auto simp: plan_delivery_jobs_def)
  then show "\<exists>j \<in> set (delivery_jobs db @ new). job_of_spec job j"
  proof cases
    case 1
    then obtain j where "j \<in> set new" "job_of_spec s j"
      using assms(3) by (metis in_set_conv_nth list_all2_conv_all_nth)
    with 1 show ?thesis by (auto simp: job_of_spec_def)
  qed auto
qed

text \<open>
  What a committed transaction without callbacks has done: which jobs it added, that a
  completed one covers every requested job, and the state of its command and its result.
\<close>

definition tx_done :: "command_request \<Rightarrow> state_db \<Rightarrow> command_transaction_result \<Rightarrow> state_db \<Rightarrow> bool" where
  "tx_done rq db r db' \<longleftrightarrow>
    (\<exists>new row. delivery_jobs db' = delivery_jobs db @ new
      \<and> (\<forall>j \<in> set new. job_command_id j = rq_command_id rq)
      \<and> (ctr_status r = ''completed'' \<and> (\<forall>spec \<in> set (rq_delivery_jobs rq). \<exists>j \<in> set (delivery_jobs db'). job_of_spec spec j)
         \<or> ctr_status r = ''quarantined'' \<and> new = [])
      \<and> map_option cmd_status (get_command db' (rq_command_id rq)) =
          map_option (\<lambda>_. ctr_status r) (get_command db (rq_command_id rq))
      \<and> command_results db' = command_results db @ [row] \<and> res_command_id row = rq_command_id rq
      \<and> inbox_events db' = inbox_events db)"

lemma get_command_set_status:
  "get_command (set_command_status c st stamp db) c =
    map_option (\<lambda>row. row\<lparr>cmd_status := st, cmd_updated_at := stamp\<rparr>) (get_command db c)"
  "get_command (fail_command_status c st e stamp db) c =
    map_option (\<lambda>row. row\<lparr>cmd_status := st, cmd_last_error_class := e, cmd_updated_at := stamp\<rparr>) (get_command db c)"
  by (simp_all add: get_command_def set_command_status_def fail_command_status_def update_command_def
      row_with_update_where)

lemma get_command_cong: "commands db = commands db' \<Longrightarrow> get_command db k = get_command db' k"
  by (simp add: get_command_def)

lemma tx_deliver_done:
  assumes "tx_deliver rq now fresh db = Inr (r, db')" "no_callbacks rq"
  shows "tx_done rq db r db'"
proof -
  let ?c = "rq_command_id rq"
  let ?db1 = "set_command_status ?c ''validated'' (iso now) db"
  from assms(1) obtain plan where plan: "plan_delivery_jobs ?db1 (rq_delivery_jobs rq) = Inr plan"
    by (auto simp: tx_deliver_def Let_def bind_result_Inr_iff)
  consider (conflict) "plan_conflict plan \<noteq> None"
    | (dup) "plan_conflict plan = None" "rq_delivery_jobs rq \<noteq> []" "plan_to_insert plan = []"
    | (fresh) "plan_conflict plan = None" "\<not> (rq_delivery_jobs rq \<noteq> [] \<and> plan_to_insert plan = [])"
    by blast
  then show ?thesis
  proof cases
    case conflict
    then obtain db2 where i: "insert_command_result ?c (simple_result ''conflict'' ''idempotency_conflict'') (iso now) fresh
        (fail_command_status ?c ''quarantined'' ''idempotency_conflict'' (iso now) ?db1) = Inr db'"
      and r: "ctr_status r = ''quarantined''"
      using assms(1) plan by (auto simp: tx_deliver_def Let_def bind_result_Inr_iff transaction_result_def)
    have "commands db' = commands (fail_command_status ?c ''quarantined'' ''idempotency_conflict'' (iso now) ?db1)"
      using insert_command_result_frame [OF i] by blast
    from get_command_cong [OF this] show ?thesis
      using insert_command_result_frame [OF i] r
      by (auto simp: tx_done_def get_command_set_status option.map_comp comp_def)
  next
    case dup
    then obtain db2 where i: "insert_command_result ?c (simple_result ''duplicate'' '''') (iso now) fresh ?db1 = Inr db2"
      and r: "ctr_status r = ''completed''" "db' = set_command_status ?c ''completed'' (iso now) db2"
      using assms(1) plan by (auto simp: tx_deliver_def Let_def bind_result_Inr_iff transaction_result_def)
    have "commands db2 = commands ?db1"
      using insert_command_result_frame [OF i] by blast
    from get_command_cong [OF this] show ?thesis
      using insert_command_result_frame [OF i] r plan_delivery_jobs_covers [OF plan dup(1), of "[]"] dup(3)
      by (auto simp: tx_done_def get_command_set_status option.map_comp comp_def)
  next
    case fresh
    then have w: "tx_write rq now fresh plan ?db1 = Inr (r, db')"
      using assms(1) plan by (auto simp: tx_deliver_def Let_def)
    obtain new row where n: "delivery_jobs db' = delivery_jobs ?db1 @ new" "list_all2 job_of_spec (plan_to_insert plan) new"
      "\<forall>j \<in> set new. job_command_id j = ?c" "commands db' = commands (set_command_status ?c ''completed'' (iso now) ?db1)"
      "ctr_status r = ''completed''" "inbox_events db' = inbox_events ?db1"
      "command_results db' = command_results ?db1 @ [row]" "res_command_id row = ?c"
      using tx_write_delivers [OF w assms(2)] by blast
    show ?thesis
      using n plan_delivery_jobs_covers [OF plan fresh(1) n(2)] get_command_cong [OF n(4)]
      by (auto simp: tx_done_def get_command_set_status option.map_comp comp_def)
  qed
qed

definition event_consumed :: "string \<Rightarrow> string \<Rightarrow> state_db \<Rightarrow> bool" where
  "event_consumed e c db \<longleftrightarrow> (\<exists>ev \<in> set (inbox_events db). ev_event_id ev = e \<and> ev_consumed_by ev = c)"

lemma consume_inbox_event_done:
  assumes "consume_inbox_event e c stamp db = Inr db'"
  shows "event_consumed e c db' \<and> event_consumed e '''' db
    \<and> delivery_jobs db' = delivery_jobs db \<and> commands db' = commands db \<and> command_results db' = command_results db"
proof -
  let ?p = "\<lambda>ev. ev_event_id ev = e \<and> ev_consumed_by ev = ''''"
  have "length (filter ?p (inbox_events db)) = 1"
    using assms by (simp add: consume_inbox_event_def split: if_splits)
  then obtain ev where "filter ?p (inbox_events db) = [ev]"
    by (cases "filter ?p (inbox_events db)") auto
  then have "ev \<in> set (filter ?p (inbox_events db))" by simp
  then have "ev \<in> set (inbox_events db)" "?p ev" by simp_all
  moreover from this have "ev\<lparr>ev_consumed_by := c, ev_consumed_at := stamp, ev_updated_at := stamp\<rparr> \<in> set (inbox_events db')"
    using assms by (force simp: consume_inbox_event_def split: if_splits)
  then have "event_consumed e c db'"
    unfolding event_consumed_def by (rule rev_bexI) (simp add: \<open>?p ev\<close>)
  ultimately show ?thesis
    using assms by (auto simp: consume_inbox_event_def event_consumed_def split: if_splits)
qed

lemma tx_claim_done:
  assumes "tx_claim rq now until db = Inr db'"
  shows "(\<exists>c. commands db' = commands db @ [c] \<and> cmd_id c = rq_command_id rq
      \<and> cmd_idempotency_key c = rq_idempotency_key rq)
    \<and> get_command db (rq_command_id rq) = None
    \<and> rq_idempotency_key rq \<notin> cmd_idempotency_key ` set (commands db)
    \<and> (\<exists>c. get_command db' (rq_command_id rq) = Some c)
    \<and> delivery_jobs db' = delivery_jobs db \<and> command_results db' = command_results db
    \<and> (rq_inbox_event_id rq \<noteq> '''' \<longrightarrow> event_consumed (rq_inbox_event_id rq) (rq_command_id rq) db'
        \<and> event_consumed (rq_inbox_event_id rq) '''' db)"
proof -
  from assms obtain c db1 where c: "insert_command c db = Inr db1" "cmd_id c = rq_command_id rq"
      "cmd_idempotency_key c = rq_idempotency_key rq"
    and d: "(if rq_inbox_event_id rq \<noteq> ''''
       then consume_inbox_event (rq_inbox_event_id rq) (rq_command_id rq) (iso now) db1 else Inr db1) = Inr db'"
    by (auto simp: tx_claim_def bind_result_Inr_iff)
  have 1: "commands db1 = commands db @ [c]" "get_command db (rq_command_id rq) = None"
      "rq_idempotency_key rq \<notin> cmd_idempotency_key ` set (commands db)"
      "delivery_jobs db1 = delivery_jobs db" "command_results db1 = command_results db"
      "inbox_events db1 = inbox_events db"
    using c by (auto simp: insert_command_def get_command_def row_with_None_iff split: if_splits)
  have 2: "commands db' = commands db1" "delivery_jobs db' = delivery_jobs db1" "command_results db' = command_results db1"
      "rq_inbox_event_id rq \<noteq> '''' \<longrightarrow> event_consumed (rq_inbox_event_id rq) (rq_command_id rq) db'
        \<and> event_consumed (rq_inbox_event_id rq) '''' db1"
    using d consume_inbox_event_done by (auto split: if_splits)
  have "get_command db' (rq_command_id rq) = Some c"
    using 1 2 c by (auto simp: get_command_def row_with_append)
  with 1 2 c show ?thesis
    by (auto simp: event_consumed_def)
qed

text \<open>A committed transaction, described from outside.\<close>

definition committed :: "command_request \<Rightarrow> state_db \<Rightarrow> command_transaction_result \<Rightarrow> state_db \<Rightarrow> bool" where
  "committed rq db r db' \<longleftrightarrow>
    (\<exists>new. delivery_jobs db' = delivery_jobs db @ new \<and> (\<forall>j \<in> set new. job_command_id j = rq_command_id rq)
      \<and> (ctr_status r = ''completed'' \<and> (\<forall>spec \<in> set (rq_delivery_jobs rq). \<exists>j \<in> set (delivery_jobs db'). job_of_spec spec j)
         \<or> ctr_status r = ''quarantined'' \<and> new = []))
    \<and> get_command db (rq_command_id rq) = None
    \<and> map_option cmd_status (get_command db' (rq_command_id rq)) = Some (ctr_status r)
    \<and> (\<exists>row. command_results db' = command_results db @ [row] \<and> res_command_id row = rq_command_id rq)
    \<and> (rq_inbox_event_id rq \<noteq> '''' \<longrightarrow> event_consumed (rq_inbox_event_id rq) '''' db
        \<and> event_consumed (rq_inbox_event_id rq) (rq_command_id rq) db')"

lemma execute_commits:
  assumes "execute rq now fresh db = Inr (r, db')" "no_callbacks rq"
  shows "committed rq db r db'"
proof -
  from assms obtain until db1 where c: "tx_claim rq now until db = Inr db1"
    and v: "tx_validate rq now fresh db1 = Inr (r, db')"
    by (auto simp: execute_def bind_result_Inr_iff)
  from v assms(2) have "tx_deliver rq now fresh db1 = Inr (r, db')"
    by (auto simp: tx_validate_def no_callbacks_def Let_def bind_result_Inr_iff)
  then have "tx_done rq db1 r db'"
    using assms(2) by (rule tx_deliver_done)
  with tx_claim_done [OF c] show ?thesis
    by (auto simp: tx_done_def committed_def event_consumed_def)
qed

lemma execute_replay_rejected:
  assumes "rq_idempotency_key rq \<in> cmd_idempotency_key ` set (commands db)"
  shows "\<exists>e. execute rq now fresh db = Inl e \<and> (e = OverflowError \<or> (\<exists>m. e = IntegrityError m))"
  using assms by (cases "dt_add now (rq_lease_seconds rq)")
    (auto simp: execute_def tx_claim_def insert_command_def dt_add_def Let_def split: if_splits)

text \<open>
  A job whose stored outcome is preserved (replayable or quarantined) is neither a duplicate
  nor a conflict for the planner: it plans an insert, which the unique index refuses.
\<close>

lemma classify_preserved:
  "k \<noteq> '''' \<Longrightarrow> h \<noteq> '''' \<Longrightarrow> job_status j \<in> {QUARANTINED, REPLAYABLE} \<Longrightarrow>
    \<exists>d. classify_idempotency (Some (job_existing j)) k h = Inr d \<and> outcome d = job_status j"
  by (auto simp: classify_idempotency_def job_existing_def str_or_def TERMINAL_PRESERVED_OUTCOMES_def outcome_defs Let_def)

lemma create_delivery_job_preserved:
  assumes "db_wf db" "get_command db c = Some cmd" "row_with job_idempotency_key k (delivery_jobs db) = Some j"
    and "job_status j \<in> {QUARANTINED, REPLAYABLE}" "k \<noteq> ''''" "h \<noteq> ''''"
  shows "\<exists>m. create_delivery_job i c k h p kd st now db = Inl (IntegrityError m)"
proof -
  obtain d where "classify_idempotency (Some (job_existing j)) k h = Inr d" "outcome d = job_status j"
    using classify_preserved assms by blast
  moreover have "k \<in> job_idempotency_key ` set (delivery_jobs db)"
    using assms(3) by (auto dest: row_with_SomeD)
  ultimately show ?thesis
    using assms by (auto simp: create_delivery_job_def find_delivery_job_wf insert_delivery_job_def
        insert_job_row_def)
qed

end
