(* ===== verification/Job_Lifecycle.thy ===== *)
theory Job_Lifecycle
  imports Command_Tx
begin

text \<open>
  The database as a state machine.  \<open>db_step\<close> is one method call of \<open>RAGIngressStateDB\<close> or one
  command transaction; the invariant holds in every database such calls reach.  A delivery job
  refines an abstract life cycle of five phases, and the calls that carry a lease owner move
  it along the abstract transitions.  The contract of a lease (one live holder, a fenced
  finish) is an interface that commands and delivery jobs both implement.
\<close>

section \<open>Steps of the database\<close>

inductive db_step :: "state_db \<Rightarrow> state_db \<Rightarrow> bool" where
  st_inbox: "record_inbox_shadow payload ref ev fresh now db = Inr (d, db') \<Longrightarrow> db_step db db'"
| st_create_command: "create_command i ty k h r s e st now db = Inr ((), db') \<Longrightarrow> db_step db db'"
| st_claim_command: "claim_command i own now ls ma db = Inr (b, db') \<Longrightarrow> db_step db db'"
| st_complete_command: "complete_claimed_command i own now db = Inr (b, db') \<Longrightarrow> db_step db db'"
| st_create_job: "create_delivery_job i c k h p kd st now db = Inr ((), db') \<Longrightarrow> db_step db db'"
| st_claim_job: "claim_delivery_job i own now ls ma db = Inr (b, db') \<Longrightarrow> db_step db db'"
| st_quarantine: "quarantine_transport_delivery i u now db = Inr ((), db') \<Longrightarrow> db_step db db'"
| st_replayable: "record_replayable_attempt i own now ma rs db = Inr (st, db') \<Longrightarrow> db_step db db'"
| st_executing: "mark_delivery_executing i own now db = Inr (b, db') \<Longrightarrow> db_step db db'"
| st_evidence: "record_delivery_evidence i st ds dc run e t db = Inr ((), db') \<Longrightarrow> db_step db db'"
| st_complete_job: "complete_delivery_with_evidence i own st ds dc run e obs now fresh db = Inr (b, db') \<Longrightarrow> db_step db db'"
| st_failed: "record_failed_retryable_attempt i run ds dc e own obs now ma rs db = Inr (st, db') \<Longrightarrow> db_step db db'"
| st_payload: "record_delivery_payload payload now db = Inr (st, db') \<Longrightarrow> json_wf (JObj payload) \<Longrightarrow> db_step db db'"
| st_correct: "correct_procedural_source_hash i u ident own now db = Inr (a, db') \<Longrightarrow> db_step db db'"
| st_command: "execute rq now fresh db = Inr (r, db') \<Longrightarrow> no_callbacks rq \<Longrightarrow> db_step db db'"

lemma no_callbacks_keep: "no_callbacks rq \<Longrightarrow> callbacks_keep P rq"
  by (simp add: no_callbacks_def callbacks_keep_def)

interpretation db_machine: invariant_system db_step db_wf
proof
  fix db db'
  assume "db_step db db'" "db_wf db"
  then show "db_wf db'"
    by (cases rule: db_step.cases) (auto intro: inv_intros no_callbacks_keep simp del: json_wf.simps)
qed

section \<open>The contract of a lease\<close>

text \<open>
  \<open>holder s k\<close> is the owner and the end of the lease that row \<open>k\<close> carries.  A granted claim
  installs the claimant until the end of its lease and was not granted over the live lease of
  somebody else; a finish succeeds only for the live holder.
\<close>

locale leased =
  fixes inv :: "'s \<Rightarrow> bool"
    and holder :: "'s \<Rightarrow> string \<Rightarrow> (string \<times> string) option"
    and claim :: "string \<Rightarrow> string \<Rightarrow> datetime \<Rightarrow> int \<Rightarrow> int \<Rightarrow> 's \<Rightarrow> (bool \<times> 's) result"
    and finish :: "string \<Rightarrow> string \<Rightarrow> datetime \<Rightarrow> 's \<Rightarrow> (bool \<times> 's) result"
  assumes claim_keeps: "inv s \<Longrightarrow> claim k own t ls ma s = Inr (b, s') \<Longrightarrow> inv s'"
    and claim_granted: "inv s \<Longrightarrow> claim k own t ls ma s = Inr (True, s') \<Longrightarrow>
      \<exists>u. dt_add t ls = Inr u \<and> holder s' k = Some (own, iso u)"
    and claim_guard: "inv s \<Longrightarrow> claim k own t ls ma s = Inr (True, s') \<Longrightarrow> holder s k = Some (own', u) \<Longrightarrow>
      lease_is_live u t \<Longrightarrow> own' \<in> {'''', own}"
    and finish_guard: "inv s \<Longrightarrow> finish k own t s = Inr (True, s') \<Longrightarrow>
      \<exists>u. holder s k = Some (own, u) \<and> lease_is_live u t"
begin

lemma exclusive:
  assumes "inv s" "claim k a t1 ls ma s = Inr (True, s1)" "dt_add t1 ls = Inr u" "t2 < u"
    and "a \<noteq> ''''" "b \<noteq> a"
  shows "claim k b t2 ls' ma' s1 \<noteq> Inr (True, s2)"
proof
  assume c: "claim k b t2 ls' ma' s1 = Inr (True, s2)"
  have "holder s1 k = Some (a, iso u)" using claim_granted [OF assms(1,2)] assms(3) by auto
  moreover have "inv s1" using claim_keeps assms(1,2) by blast
  ultimately have "a \<in> {'''', b}" using claim_guard [OF _ c] assms(4) by auto
  with assms(5,6) show False by auto
qed

lemma fenced:
  assumes "inv s" "claim k b t ls ma s = Inr (True, s1)" "a \<noteq> b"
  shows "finish k a t' s1 \<noteq> Inr (True, s2)"
  using claim_granted [OF assms(1,2)] claim_keeps [OF assms(1,2)] finish_guard [of s1 k a t' s2] assms(3) by auto

lemma expired:
  assumes "inv s" "claim k a t ls ma s = Inr (True, s1)" "dt_add t ls = Inr u" "u \<le> t'"
  shows "finish k a t' s1 \<noteq> Inr (True, s2)"
  using claim_granted [OF assms(1,2)] claim_keeps [OF assms(1,2)] finish_guard [of s1 k a t' s2] assms(3,4)
  by auto

end

definition command_holder :: "state_db \<Rightarrow> string \<Rightarrow> (string \<times> string) option" where
  "command_holder db k = map_option (\<lambda>c. (cmd_lease_owner c, cmd_lease_until c)) (get_command db k)"

definition job_holder :: "state_db \<Rightarrow> string \<Rightarrow> (string \<times> string) option" where
  "job_holder db k = map_option (\<lambda>j. (job_lease_owner j, job_lease_until j)) (get_delivery_job db k)"

lemma get_command_update:
  "command_keeping f \<Longrightarrow> get_command (update_command k f db) k = map_option f (get_command db k)"
  by (simp add: get_command_def update_command_def row_with_update_where command_keeping_def)

interpretation command_lease: leased db_wf command_holder claim_command complete_claimed_command
proof
  fix db k own t ls ma b db'
  assume wf: "db_wf db"
  show "db_wf db'" if "claim_command k own t ls ma db = Inr (b, db')"
    using that wf by (rule claim_command_wf)
  show "\<exists>u. dt_add t ls = Inr u \<and> command_holder db' k = Some (own, iso u)"
    if "claim_command k own t ls ma db = Inr (True, db')"
    using that get_command_ok [OF wf]
    by (auto simp: claim_command_def bind_result_Inr_iff Let_def command_holder_def get_command_update command_ok_def
        split: if_splits)
  show "own' \<in> {'''', own}" if "claim_command k own t ls ma db = Inr (True, db')"
    "command_holder db k = Some (own', u)" "lease_is_live u t" for own' u
    using that by (auto simp: claim_command_def bind_result_Inr_iff Let_def command_holder_def split: if_splits)
  show "\<exists>u. command_holder db k = Some (own, u) \<and> lease_is_live u t"
    if "complete_claimed_command k own t db = Inr (True, db')"
    using that by (auto simp: complete_claimed_command_def command_holder_def split: if_splits)
qed

lemma claimable_guard:
  "job_ok j \<Longrightarrow> claimable j own now \<Longrightarrow> lease_is_live (job_lease_until j) now \<Longrightarrow> job_lease_owner j \<in> {'''', own}"
  using lease_is_live_leased [of j now]
  by (auto simp: claimable_def job_leased_def Let_def REPLAYABLE_def split: if_splits)

interpretation job_lease: leased db_wf job_holder claim_delivery_job
    "\<lambda>k own t. complete_delivery_with_evidence k own st ds dc run e obs t fresh"
  for st ds dc run e obs fresh
proof
  fix db k own t ls ma b db'
  assume wf: "db_wf db"
  show "db_wf db'" if "claim_delivery_job k own t ls ma db = Inr (b, db')"
    using that wf by (rule claim_delivery_job_wf)
  show "\<exists>u. dt_add t ls = Inr u \<and> job_holder db' k = Some (own, iso u)"
    if "claim_delivery_job k own t ls ma db = Inr (True, db')"
    using that by (auto simp: claim_delivery_job_def bind_result_Inr_iff job_holder_def row_simps job_keepingI
        split: if_splits)
  show "own' \<in> {'''', own}" if "claim_delivery_job k own t ls ma db = Inr (True, db')"
    "job_holder db k = Some (own', u)" "lease_is_live u t" for own' u
    using that claimable_guard get_delivery_job_ok [OF wf]
    by (fastforce simp: claim_delivery_job_def bind_result_Inr_iff job_holder_def split: if_splits)
  show "\<exists>u. job_holder db k = Some (own, u) \<and> lease_is_live u t"
    if "complete_delivery_with_evidence k own st ds dc run e obs t fresh db = Inr (True, db')"
    using that by (auto simp: complete_delivery_with_evidence_def job_holder_def Let_def bind_result_Inr_iff
        split: if_splits)
qed

section \<open>The life cycle of a delivery job\<close>

text \<open>
  The abstract job: waiting to be claimed for the first time, waiting for a retry deadline,
  held under a lease, or closed; a status outside the code's set leaves the job unknown.
\<close>

datatype phase = Pending | Waiting string | Held string string | Closed string | Unknown string

type_synonym abstract_job = "phase \<times> int"

definition phase_of :: "delivery_job \<Rightarrow> phase" where
  "phase_of j =
    (let st = job_status j
     in if st = ''pending'' then Pending
        else if st \<in> {''replayable'', ''failed_retryable''} then Waiting (job_next_retry_at j)
        else if st \<in> {''claimed'', ''executing''} then Held (job_lease_owner j) (job_lease_until j)
        else if st \<in> {''succeeded'', ''quarantined''} then Closed st
        else Unknown st)"

definition abs_job :: "delivery_job \<Rightarrow> abstract_job" where
  "abs_job j = (phase_of j, job_attempt_count j)"

text \<open>The phases in which a worker may claim the job at an instant.\<close>

fun open_for :: "string \<Rightarrow> datetime \<Rightarrow> phase \<Rightarrow> bool" where
  "open_for own now Pending = True"
| "open_for own now (Waiting due) = (due \<noteq> '''' \<and> due \<le> iso now)"
| "open_for own now (Held h u) = (lease_is_live u now \<longrightarrow> h \<in> {'''', own})"
| "open_for own now (Closed st) = False"
| "open_for own now (Unknown st) = False"

inductive lane :: "string \<Rightarrow> datetime \<Rightarrow> int \<Rightarrow> abstract_job \<Rightarrow> abstract_job \<Rightarrow> bool"
  for own :: string and now :: datetime and ma :: int where
  lane_claim: "open_for own now p \<Longrightarrow> n < ma \<Longrightarrow> lane own now ma (p, n) (Held own (iso u), n)"
| lane_cap: "open_for own now p \<Longrightarrow> ma \<le> n \<Longrightarrow> lane own now ma (p, n) (Closed ''quarantined'', n)"
| lane_run: "lease_is_live u now \<Longrightarrow> lane own now ma (Held own u, n) (Held own u, n)"
| lane_retry: "lease_is_live u now \<Longrightarrow> n + 1 < ma \<Longrightarrow> lane own now ma (Held own u, n) (Waiting (iso due), n + 1)"
| lane_exhaust: "lease_is_live u now \<Longrightarrow> ma \<le> n + 1 \<Longrightarrow> lane own now ma (Held own u, n) (Closed ''quarantined'', n + 1)"
| lane_finish: "lease_is_live u now \<Longrightarrow> st \<in> {''succeeded'', ''quarantined''} \<Longrightarrow> d \<in> {0, 1} \<Longrightarrow>
    lane own now ma (Held own u, n) (Closed st, n + d)"

inductive_cases lane_closedE: "lane own now ma (Closed st, n) q"

inductive_simps lane_held_simps: "lane own now ma (Held h u, n) q"

lemma lane_from_closed: "\<not> lane own now ma (Closed st, n) q"
  by (auto elim: lane_closedE)

lemma lane_attempts: "lane own now ma (p, n) (q, m) \<Longrightarrow> n \<le> m \<and> m \<le> n + 1"
  by (induction "(p, n)" "(q, m)" rule: lane.induct) auto

text \<open>Under the invariant only a held job has a live lease.\<close>

lemma held_of_live:
  "job_ok j \<Longrightarrow> lease_is_live (job_lease_until j) now \<Longrightarrow> phase_of j = Held (job_lease_owner j) (job_lease_until j)"
  using lease_is_live_leased [of j now] by (auto simp: phase_of_def job_leased_def)

lemma claimable_open: "claimable j own now \<Longrightarrow> open_for own now (phase_of j)"
  by (auto simp: claimable_def phase_of_def Let_def REPLAYABLE_def split: if_splits)

lemma open_claimable: "open_for own now (phase_of j) \<Longrightarrow> claimable j own now"
  by (auto simp: claimable_def phase_of_def Let_def REPLAYABLE_def split: if_splits)

text \<open>
  Each call that names its lease owner moves the job it addresses by one abstract step, or
  leaves the database as it was.
\<close>

definition job_moves :: "string \<Rightarrow> datetime \<Rightarrow> int \<Rightarrow> string \<Rightarrow> state_db \<Rightarrow> state_db \<Rightarrow> bool" where
  "job_moves own now ma k db db' \<longleftrightarrow>
    (\<forall>k'. k' \<noteq> k \<longrightarrow> get_delivery_job db' k' = get_delivery_job db k')
    \<and> (get_delivery_job db' k = get_delivery_job db k
      \<or> (\<exists>j j'. get_delivery_job db k = Some j \<and> get_delivery_job db' k = Some j'
        \<and> lane own now ma (abs_job j) (abs_job j')))"

lemma job_moves_refl [simp]: "job_moves own now ma k db db"
  by (simp add: job_moves_def)

lemma job_moves_update:
  assumes "job_keeping f" "get_delivery_job db k = Some j" "lane own now ma (abs_job j) (abs_job (f j))"
  shows "job_moves own now ma k db (update_job k f db)"
  using assms by (auto simp: job_moves_def row_simps)

lemma claim_delivery_job_moves:
  assumes "db_wf db" "claim_delivery_job k own now ls ma db = Inr (b, db')"
  shows "job_moves own now ma k db db'"
proof -
  from assms(2) obtain u j where j: "get_delivery_job db k = Some j"
    and u: "dt_add now ls = Inr u" by (auto simp: claim_delivery_job_def bind_result_Inr_iff)
  show ?thesis
  proof (cases "claimable j own now")
    case True
    then have o: "open_for own now (phase_of j)" by (rule claimable_open)
    show ?thesis
    proof (cases "job_attempt_count j \<ge> ma")
      case c: True
      then have "lane own now ma (abs_job j) (Closed ''quarantined'', job_attempt_count j)"
        unfolding abs_job_def by (intro lane_cap o)
      then show ?thesis
        using assms(2) j u True c
        by (auto simp: claim_delivery_job_def abs_job_def phase_of_def intro!: job_moves_update job_keepingI)
    next
      case c: False
      then have "lane own now ma (abs_job j) (Held own (iso u), job_attempt_count j)"
        unfolding abs_job_def by (intro lane_claim o) simp
      then show ?thesis
        using assms(2) j u True c
        by (auto simp: claim_delivery_job_def abs_job_def phase_of_def intro!: job_moves_update job_keepingI)
    qed
  next
    case False
    then show ?thesis using assms(2) j u by (simp add: claim_delivery_job_def)
  qed
qed

text \<open>The calls of the live holder.\<close>

lemma holder_abs:
  "db_wf db \<Longrightarrow> get_delivery_job db k = Some j \<Longrightarrow> lease_is_live (job_lease_until j) now \<Longrightarrow>
    abs_job j = (Held (job_lease_owner j) (job_lease_until j), job_attempt_count j)"
  using get_delivery_job_ok [of db k j] held_of_live [of j now] by (simp add: abs_job_def)

lemma mark_delivery_executing_moves:
  "db_wf db \<Longrightarrow> mark_delivery_executing k own now db = Inr (b, db') \<Longrightarrow> job_moves own now ma k db db'"
  by (auto simp: mark_delivery_executing_def holder_abs split: if_splits
      intro!: job_moves_update job_keepingI)
    (auto simp: abs_job_def phase_of_def intro: lane_run)

lemma record_replayable_attempt_moves:
  "db_wf db \<Longrightarrow> record_replayable_attempt k own now ma rs db = Inr (st, db') \<Longrightarrow> own \<noteq> '''' \<Longrightarrow>
    job_moves own now ma k db db'"
  by (auto simp: record_replayable_attempt_def bind_result_Inr_iff stale_owner_def Let_def holder_abs
      split: if_splits intro!: job_moves_update job_keepingI)
    (auto simp: abs_job_def phase_of_def REPLAYABLE_def intro: lane_retry lane_exhaust)

lemma record_failed_retryable_attempt_moves:
  "db_wf db \<Longrightarrow> record_failed_retryable_attempt k run ds dc e own obs now ma rs db = Inr (st, db') \<Longrightarrow> own \<noteq> '''' \<Longrightarrow>
    job_moves own now ma k db db'"
  by (auto simp: record_failed_retryable_attempt_def bind_result_Inr_iff stale_owner_def Let_def holder_abs
      split: if_splits intro!: job_moves_update job_keepingI)
    (auto simp: abs_job_def phase_of_def intro: lane_retry lane_exhaust)

lemma get_delivery_job_result_row:
  "insert_result_row r db = Inr db' \<Longrightarrow> get_delivery_job db' k = get_delivery_job db k"
  "insert_domain_row d db = Inr db' \<Longrightarrow> get_delivery_job db' k = get_delivery_job db k"
  by (auto simp: insert_defs get_delivery_job_def split: if_splits)

lemma complete_delivery_with_evidence_moves:
  assumes wf: "db_wf db" and c: "complete_delivery_with_evidence k own st ds dc run e obs now fresh db = Inr (b, db')"
    and st: "st \<noteq> ''failed_retryable''"
  shows "job_moves own now ma k db db'"
proof -
  from c obtain j where j: "get_delivery_job db k = Some j"
    by (auto simp: complete_delivery_with_evidence_def Let_def split: if_splits)
  let ?f = "\<lambda>j. j\<lparr>job_status := st, job_index_target_id := ds,
                job_index_document_id := dc, job_index_run_id := run,
                job_last_error_class := e, job_last_reconciled_at := iso (case obs of None \<Rightarrow> now | Some t \<Rightarrow> t),
                job_lease_owner := '''', job_lease_until := '''', job_updated_at := iso now\<rparr>"
  have k: "job_id j = k" using j get_delivery_job_ok [OF wf] by blast
  have keep: "job_keeping ?f" "job_keeping (\<lambda>j. j\<lparr>job_attempt_count := job_attempt_count j + 1\<rparr>)"
    by (simp_all add: job_keeping_def)
  show ?thesis
  proof (cases "job_lease_owner j \<noteq> own \<or> \<not> lease_is_live (job_lease_until j) now")
    case True
    then show ?thesis using c j by (auto simp: complete_delivery_with_evidence_def Let_def split: if_splits)
  next
    case False
    with c j have a: "audit_corrected_attempt j st ds dc run e fresh now (update_job k ?f db) = Inr db'"
      and st': "st \<in> {''succeeded'', ''quarantined''}"
      using st by (auto simp: complete_delivery_with_evidence_def Let_def bind_result_Inr_iff split: if_splits)
    from a obtain j' where g: "get_delivery_job db' k = Some j'" "job_status j' = st"
        "job_attempt_count j' \<in> {job_attempt_count j, job_attempt_count j + 1}"
      and o: "\<And>k'. k' \<noteq> k \<Longrightarrow> get_delivery_job db' k' = get_delivery_job db k'"
      using keep j k by (auto simp: audit_corrected_attempt_def Let_def bind_result_Inr_iff row_simps
          get_delivery_job_result_row split: if_splits)
    from g obtain d where d: "d \<in> {0, 1}" "job_attempt_count j' = job_attempt_count j + d" by auto
    then have "abs_job j' = (Closed st, job_attempt_count j + d)"
      using g st' by (auto simp: abs_job_def phase_of_def)
    moreover have "lane own now ma (abs_job j) (Closed st, job_attempt_count j + d)"
      using False st' d(1) lane_finish [of "job_lease_until j" now st d own ma "job_attempt_count j"]
      by (simp add: holder_abs [OF wf j, of now])
    ultimately show ?thesis
      using j g o by (auto simp: job_moves_def)
  qed
qed


section \<open>Closed jobs stay closed\<close>

text \<open>
  The calls of the workers: those that record evidence name their lease owner.  What is left
  out is evidence recorded without a lease, which is the reconciler's.
\<close>

inductive worker_step :: "state_db \<Rightarrow> state_db \<Rightarrow> bool" where
  ws_inbox: "record_inbox_shadow payload ref ev fresh now db = Inr (d, db') \<Longrightarrow> worker_step db db'"
| ws_create_job: "create_delivery_job i c k h p kd st now db = Inr ((), db') \<Longrightarrow> worker_step db db'"
| ws_claim_job: "claim_delivery_job i own now ls ma db = Inr (b, db') \<Longrightarrow> worker_step db db'"
| ws_quarantine: "quarantine_transport_delivery i u now db = Inr ((), db') \<Longrightarrow> worker_step db db'"
| ws_replayable: "record_replayable_attempt i own now ma rs db = Inr (st, db') \<Longrightarrow> own \<noteq> '''' \<Longrightarrow> worker_step db db'"
| ws_executing: "mark_delivery_executing i own now db = Inr (b, db') \<Longrightarrow> worker_step db db'"
| ws_complete_job: "complete_delivery_with_evidence i own st ds dc run e obs now fresh db = Inr (b, db') \<Longrightarrow> worker_step db db'"
| ws_failed: "record_failed_retryable_attempt i run ds dc e own obs now ma rs db = Inr (st, db') \<Longrightarrow> own \<noteq> '''' \<Longrightarrow>
    worker_step db db'"
| ws_payload: "record_delivery_payload payload now db = Inr (st, db') \<Longrightarrow> json_wf (JObj payload) \<Longrightarrow> worker_step db db'"
| ws_correct: "correct_procedural_source_hash i u ident own now db = Inr (a, db') \<Longrightarrow> worker_step db db'"
| ws_command: "execute rq now fresh db = Inr (r, db') \<Longrightarrow> no_callbacks rq \<Longrightarrow> worker_step db db'"

lemma worker_step_db_step: "worker_step db db' \<Longrightarrow> db_step db db'"
  by (cases rule: worker_step.cases) (auto intro: db_step.intros simp del: json_wf.simps)

definition closed_job :: "delivery_job \<Rightarrow> bool" where
  "closed_job j \<longleftrightarrow> job_status j \<in> {''succeeded'', ''quarantined''}"

lemma closed_no_lease: "job_ok j \<Longrightarrow> closed_job j \<Longrightarrow> \<not> lease_is_live (job_lease_until j) now"
  using lease_is_live_leased [of j now] by (auto simp: closed_job_def job_leased_def)

text \<open>A call addresses one job; whether it may touch a closed one is decided on that row.\<close>

lemma get_delivery_job_update_other:
  "job_keeping f \<Longrightarrow> k \<noteq> i \<Longrightarrow> get_delivery_job (update_job i f db) k = get_delivery_job db k"
  by (simp add: row_simps)

lemma get_delivery_job_append:
  "delivery_jobs db' = delivery_jobs db @ new \<Longrightarrow> get_delivery_job db k = Some j \<Longrightarrow> get_delivery_job db' k = Some j"
  by (simp add: get_delivery_job_def row_with_append)

lemma worker_step_keeps_closed:
  assumes step: "worker_step db db'" and wf: "db_wf db" and j: "get_delivery_job db k = Some j" "closed_job j"
  shows "get_delivery_job db' k = Some j"
proof -
  have dead: "\<not> lease_is_live (job_lease_until j) now" for now
    using closed_no_lease get_delivery_job_ok [OF wf j(1)] j(2) by blast
  show ?thesis
    using step
  proof cases
    case (ws_inbox payload ref ev fresh now d)
    then show ?thesis using j
      by (auto simp: record_inbox_shadow_def Let_def bind_result_Inr_iff insert_defs get_delivery_job_def split: if_splits)
  next
    case (ws_create_job i c k h p kd st now)
    then show ?thesis using j
      by (auto simp: create_delivery_job_def Let_def bind_result_Inr_iff split: option.splits if_splits
          dest!: insert_delivery_job_frame intro: get_delivery_job_append)
  next
    case (ws_claim_job i own now ls ma b)
    then show ?thesis using j dead
      by (cases "i = k") (auto simp: claim_delivery_job_def bind_result_Inr_iff claimable_def closed_job_def
          get_delivery_job_update_other job_keepingI split: if_splits)
  next
    case (ws_quarantine i u now)
    then show ?thesis using j
      by (cases "i = k") (auto simp: quarantine_transport_delivery_def closed_job_def
          get_delivery_job_update_other job_keepingI split: if_splits)
  next
    case (ws_replayable i own now ma rs st)
    then show ?thesis using j dead
      by (cases "i = k") (auto simp: record_replayable_attempt_def bind_result_Inr_iff stale_owner_def Let_def
          get_delivery_job_update_other job_keepingI split: if_splits)
  next
    case (ws_executing i own now b)
    then show ?thesis using j dead
      by (cases "i = k") (auto simp: mark_delivery_executing_def get_delivery_job_update_other job_keepingI split: if_splits)
  next
    case (ws_complete_job i own st ds dc run e obs now fresh b)
    then show ?thesis using j dead get_delivery_job_ok [OF wf]
      by (cases "i = k") (fastforce simp: complete_delivery_with_evidence_def audit_corrected_attempt_def Let_def
          bind_result_Inr_iff get_delivery_job_update_other get_delivery_job_result_row job_keepingI split: if_splits)+
  next
    case (ws_failed i run ds dc e own obs now ma rs st)
    then show ?thesis using j dead
      by (cases "i = k") (auto simp: record_failed_retryable_attempt_def bind_result_Inr_iff stale_owner_def Let_def
          get_delivery_job_update_other job_keepingI split: if_splits)
  next
    case (ws_payload payload now st)
    then show ?thesis using j
      by (auto simp: record_delivery_payload_def Let_def bind_result_Inr_iff insert_defs get_delivery_job_def
          split: if_splits option.splits)
  next
    case (ws_correct i u ident own now a)
    then obtain job orig corr where "get_delivery_job db i = Some job" "job_status job = ''replayable''"
        "write_correction job orig corr ident own now db = Inr (a, db')"
      by (auto simp: correct_procedural_source_hash_def correction_preimage_def Let_def bind_result_Inr_iff
          split: if_splits option.splits json.splits)
    then show ?thesis using j get_delivery_job_ok [OF wf]
      by (cases "i = k") (auto simp: write_correction_def Let_def bind_result_Inr_iff closed_job_def
          get_delivery_job_update_other job_keepingI get_delivery_job_result_row)
  next
    case (ws_command rq now fresh r)
    then obtain new where "delivery_jobs db' = delivery_jobs db @ new"
      using execute_commits [of rq now fresh db r db'] by (auto simp: committed_def)
    with j show ?thesis by (blast intro: get_delivery_job_append)
  qed
qed

interpretation closed_jobs: invariant_system worker_step
    "\<lambda>db. db_wf db \<and> get_delivery_job db k = Some j \<and> closed_job j" for k j
  by unfold_locales (auto intro: worker_step_keeps_closed db_machine.step_keeps worker_step_db_step)

text \<open>The calls a worker makes on the job it works on, all under one lease owner.\<close>

inductive leased_call :: "string \<Rightarrow> datetime \<Rightarrow> int \<Rightarrow> string \<Rightarrow> state_db \<Rightarrow> state_db \<Rightarrow> bool"
  for own :: string and now :: datetime and ma :: int and k :: string where
  lc_claim: "claim_delivery_job k own now ls ma db = Inr (b, db') \<Longrightarrow> leased_call own now ma k db db'"
| lc_mark: "mark_delivery_executing k own now db = Inr (b, db') \<Longrightarrow> leased_call own now ma k db db'"
| lc_replayable: "record_replayable_attempt k own now ma rs db = Inr (st, db') \<Longrightarrow> leased_call own now ma k db db'"
| lc_failed: "record_failed_retryable_attempt k run ds dc e own obs now ma rs db = Inr (st, db') \<Longrightarrow>
    leased_call own now ma k db db'"
| lc_complete: "complete_delivery_with_evidence k own st ds dc run e obs now fresh db = Inr (b, db') \<Longrightarrow>
    st \<noteq> ''failed_retryable'' \<Longrightarrow> leased_call own now ma k db db'"

lemmas call_moves = claim_delivery_job_moves mark_delivery_executing_moves record_replayable_attempt_moves
  record_failed_retryable_attempt_moves complete_delivery_with_evidence_moves

lemma leased_call_moves:
  "leased_call own now ma k db db' \<Longrightarrow> db_wf db \<Longrightarrow> own \<noteq> '''' \<Longrightarrow> job_moves own now ma k db db'"
  by (cases rule: leased_call.cases) (auto intro: call_moves)

end
