(* ===== verification/Delivery.thy ===== *)
theory Delivery
  imports Job_Lifecycle
begin

text \<open>
  The delivery lane: the payload gate (\<open>delivery_payload_gate.py\<close>), the executor
  (\<open>delivery_executor.py\<close>), the reconciler (\<open>delivery_reconcile.py\<close>) and the drain
  (\<open>delivery_drain.py\<close>).  They run on an environment: the world of the delivery backend and
  the state database.  Each database method is one transaction of its own; the backend, which
  the code takes as an injected protocol, is a record of actions on the same environment, so
  that a remote call may take time in which other workers change the database.  The clock
  readings of one execution are its argument: one for the claim, one for the mark and one for
  the recording; a caller that passes \<open>now\<close> makes them equal.
\<close>

section \<open>The environment and the backend\<close>

type_synonym 'w env = "'w \<times> state_db"

definition on_db :: "'a tx \<Rightarrow> ('w env, 'a) action" where
  "on_db t = (\<lambda>(w, db). case t db of Inl e \<Rightarrow> (Inl e, (w, db)) | Inr (x, db') \<Rightarrow> (Inr x, (w, db')))"

definition read_db :: "(state_db \<Rightarrow> 'a) \<Rightarrow> ('w env, 'a) action" where
  "read_db f = (\<lambda>(w, db). (Inr (f db), (w, db)))"

record job_view =
  jv_job_id :: string
  jv_idempotency_key :: string
  jv_payload_hash :: string
  jv_target_profile :: string
  jv_document_kind :: string

definition view_from_row :: "delivery_job \<Rightarrow> job_view" where
  "view_from_row row = \<lparr>jv_job_id = job_id row, jv_idempotency_key = job_idempotency_key row,
     jv_payload_hash = job_payload_hash row, jv_target_profile = job_target_profile row,
     jv_document_kind = job_document_kind row\<rparr>"

record evidence =
  evd_idempotency_key :: string
  evd_payload_hash :: string
  evd_dataset_ref :: string
  evd_document_ref :: string
  evd_run :: string
  evd_status :: string
  evd_observed_at :: "datetime option"

record receipt =
  rcpt_status :: string
  rcpt_submit_attempted :: bool

definition mk_receipt :: "string \<Rightarrow> bool \<Rightarrow> receipt" where
  "mk_receipt st b = \<lparr>rcpt_status = st, rcpt_submit_attempted = b\<rparr>"

record 'w backend =
  submit :: "job_view \<Rightarrow> ('w env, evidence) action"
  find_by_natural_key :: "string \<Rightarrow> string \<Rightarrow> ('w env, evidence option) action"
  backend_status :: "string \<Rightarrow> string \<Rightarrow> ('w env, evidence option) action"

section \<open>The payload gate\<close>

definition PAYLOAD_OK :: string where "PAYLOAD_OK = ''ok''"
definition PAYLOAD_MISSING :: string where "PAYLOAD_MISSING = ''payload_missing''"
definition PAYLOAD_HASH_MISMATCH :: string where "PAYLOAD_HASH_MISMATCH = ''payload_hash_mismatch''"

text \<open>\<open>str(((payload.get("payload") or {}).get("document") or {}).get("body") or "")\<close>.\<close>

definition payload_body :: "dict \<Rightarrow> string result" where
  "payload_body payload =
    bind_result (dict_get (py_or (get_item payload ''payload'') (JObj [])) ''document'') (\<lambda>doc.
    bind_result (dict_get (py_or doc (JObj [])) ''body'') (\<lambda>body.
    Inr (str_or_empty body)))"

definition resolve_delivery_payload :: "state_db \<Rightarrow> string \<Rightarrow> string \<Rightarrow> (dict option \<times> string) result" where
  "resolve_delivery_payload db idempotency_key expected_payload_hash =
    bind_result (get_effective_delivery_payload db idempotency_key) (\<lambda>found.
      case found of
        None \<Rightarrow> Inr (None, PAYLOAD_MISSING)
      | Some payload \<Rightarrow>
          (let content_hash = str_or_empty (get_item payload ''contentHash'')
           in bind_result (payload_body payload) (\<lambda>body.
             if content_hash \<noteq> expected_payload_hash \<or> sha256_ref body \<noteq> expected_payload_hash
             then Inr (None, PAYLOAD_HASH_MISMATCH)
             else Inr (Some payload, PAYLOAD_OK))))"

section \<open>The executor\<close>

record executor =
  exe_lease_owner :: string
  exe_lease_seconds :: int

definition delivery_executor :: "string \<Rightarrow> int \<Rightarrow> executor" where
  "delivery_executor lease_owner lease_seconds =
    \<lparr>exe_lease_owner = lease_owner, exe_lease_seconds = max lease_seconds 60\<rparr>"

record clock =
  t_claim :: datetime
  t_mark :: datetime
  t_record :: datetime

definition at_instant :: "datetime \<Rightarrow> clock" where
  "at_instant t = \<lparr>t_claim = t, t_mark = t, t_record = t\<rparr>"

text \<open>Recording what the backend answered, once the job is executing under our lease.\<close>

definition record_outcome ::
    "executor \<Rightarrow> string \<Rightarrow> datetime \<Rightarrow> int \<Rightarrow> string \<Rightarrow> evidence result \<Rightarrow> receipt tx" where
  "record_outcome ex job now max_attempts fresh answer db =
    (let own = exe_lease_owner ex;
         replayable = bind_result (record_replayable_attempt job own now max_attempts 60 db)
           (\<lambda>(st, db'). Inr (mk_receipt st True, db'));
         finish = (\<lambda>ev st err. bind_result
           (complete_delivery_with_evidence job own st (evd_dataset_ref ev) (evd_document_ref ev) (evd_run ev) err
             (evd_observed_at ev) now fresh db)
           (\<lambda>(ok, db'). Inr (mk_receipt (if ok then st else ''stale_owner_rejected'') True, db')))
     in case answer of
          Inl (DeliveryOutcomeUncertain _) \<Rightarrow> replayable
        | Inl e \<Rightarrow> Inl e
        | Inr ev \<Rightarrow>
            (if evd_status ev \<in> {''quarantined'', ''payload_unavailable'', ''payload_integrity_mismatch''}
             then finish ev ''quarantined'' (''delivery_'' @ evd_status ev)
             else if evd_status ev = ''succeeded'' then finish ev ''succeeded'' ''''
             else if evd_status ev = ''failed_retryable''
             then bind_result
               (record_failed_retryable_attempt job (evd_run ev) (evd_dataset_ref ev) (evd_document_ref ev)
                 ''async_parse_failed'' own (evd_observed_at ev) now max_attempts 60 db)
               (\<lambda>(st, db'). Inr (mk_receipt st True, db'))
             else replayable))"

text \<open>An exception of the backend is a value that the next step inspects.\<close>

definition attempt :: "('s, 'a) action \<Rightarrow> ('s, 'a result) action" where
  "attempt m = (\<lambda>s. case m s of (r, s') \<Rightarrow> (Inr r, s'))"

definition submit_and_record ::
    "'w backend \<Rightarrow> executor \<Rightarrow> string \<Rightarrow> delivery_job \<Rightarrow> clock \<Rightarrow> int \<Rightarrow> string \<Rightarrow> ('w env, receipt) action" where
  "submit_and_record be ex job row ck max_attempts fresh =
    bind_act (on_db (mark_delivery_executing job (exe_lease_owner ex) (t_mark ck))) (\<lambda>marked.
      if \<not> marked then return_act (mk_receipt ''stale_owner_rejected'' False)
      else bind_act (read_db (\<lambda>db. case get_delivery_job db job of None \<Rightarrow> row | Some r \<Rightarrow> r)) (\<lambda>current.
        bind_act (attempt (submit be (view_from_row current))) (\<lambda>answer.
          on_db (record_outcome ex job (t_record ck) max_attempts fresh answer))))"

definition execute_once_with_receipt ::
    "'w backend \<Rightarrow> executor \<Rightarrow> string \<Rightarrow> clock \<Rightarrow> int \<Rightarrow> string \<Rightarrow> ('w env, receipt) action" where
  "execute_once_with_receipt be ex job ck max_attempts fresh =
    bind_act (read_db (\<lambda>db. get_delivery_job db job)) (\<lambda>found.
      case found of
        None \<Rightarrow> raise_act (KeyError job)
      | Some row \<Rightarrow>
          (let status = job_status row
           in if status \<in> {''succeeded'', ''quarantined''} then return_act (mk_receipt status False)
              else bind_act (read_db (\<lambda>db. get_domain_record db (correction_id job))) (\<lambda>correction.
                if correction \<noteq> None \<and> status \<noteq> ''claimed''
                then return_act (mk_receipt ''correction_reconcile_required'' False)
                else if correction \<noteq> None \<and> job_lease_owner row \<noteq> exe_lease_owner ex
                then return_act (mk_receipt ''stale_owner_rejected'' False)
                else if status \<in> {''pending'', ''replayable'', ''failed_retryable'', ''claimed'', ''executing''}
                then bind_act
                  (on_db (claim_delivery_job job (exe_lease_owner ex) (t_claim ck) (exe_lease_seconds ex) max_attempts))
                  (\<lambda>claimed.
                    if \<not> claimed
                    then bind_act (read_db (\<lambda>db. get_delivery_job db job)) (\<lambda>current.
                      return_act (mk_receipt
                        (if map_option job_status current = Some ''quarantined'' then ''quarantined''
                         else ''claim_rejected'') False))
                    else submit_and_record be ex job row ck max_attempts fresh)
                else return_act (mk_receipt ''claim_rejected'' False))))"

definition execute_once ::
    "'w backend \<Rightarrow> executor \<Rightarrow> string \<Rightarrow> clock \<Rightarrow> int \<Rightarrow> string \<Rightarrow> ('w env, string) action" where
  "execute_once be ex job ck max_attempts fresh =
    bind_act (execute_once_with_receipt be ex job ck max_attempts fresh) (\<lambda>r. return_act (rcpt_status r))"

section \<open>The reconciler\<close>

definition reconcile_evidence :: "'w backend \<Rightarrow> delivery_job \<Rightarrow> ('w env, evidence option) action" where
  "reconcile_evidence be row =
    bind_act (find_by_natural_key be (job_idempotency_key row) (job_payload_hash row)) (\<lambda>natural.
      if (case natural of None \<Rightarrow> True | Some ev \<Rightarrow> evd_status ev = ''succeeded'')
        \<and> job_index_target_id row \<noteq> '''' \<and> job_index_document_id row \<noteq> ''''
      then bind_act (backend_status be (job_index_target_id row) (job_index_document_id row)) (\<lambda>status_ev.
        return_act (case status_ev of
          None \<Rightarrow> natural
        | Some ev \<Rightarrow> if natural = None \<or> evd_status ev \<noteq> ''unknown'' then Some ev else natural))
      else return_act natural)"

definition record_reconciled :: "string \<Rightarrow> datetime \<Rightarrow> int \<Rightarrow> evidence option \<Rightarrow> string tx" where
  "record_reconciled job now max_attempts found db =
    (let replayable = record_replayable_attempt job '''' now max_attempts 60 db;
         record_as = (\<lambda>ev st err. bind_result
           (record_delivery_evidence job st (evd_dataset_ref ev) (evd_document_ref ev) (evd_run ev) err
             (case evd_observed_at ev of None \<Rightarrow> now | Some t \<Rightarrow> t) db)
           (\<lambda>(_, db'). Inr (st, db')))
     in case found of
          None \<Rightarrow> replayable
        | Some ev \<Rightarrow>
            (if evd_status ev = ''succeeded'' then record_as ev ''succeeded'' ''''
             else if evd_status ev = ''failed_retryable''
             then record_failed_retryable_attempt job (evd_run ev) (evd_dataset_ref ev) (evd_document_ref ev)
               ''async_parse_failed'' '''' (evd_observed_at ev) now max_attempts 60 db
             else if evd_status ev \<in> {''quarantined'', ''payload_unavailable'', ''payload_integrity_mismatch''}
             then record_as ev ''quarantined'' (''delivery_'' @ evd_status ev)
             else replayable))"

definition reconcile_once :: "'w backend \<Rightarrow> string \<Rightarrow> datetime \<Rightarrow> int \<Rightarrow> ('w env, string) action" where
  "reconcile_once be job now max_attempts =
    bind_act (read_db (\<lambda>db. get_delivery_job db job)) (\<lambda>found.
      case found of
        None \<Rightarrow> raise_act (KeyError job)
      | Some row \<Rightarrow>
          bind_act (reconcile_evidence be row) (\<lambda>ev. on_db (record_reconciled job now max_attempts ev)))"

section \<open>The drain\<close>

definition EXECUTABLE_STATUSES :: "string list" where
  "EXECUTABLE_STATUSES = [''replayable'', ''failed_retryable'', ''pending'']"

fun select_jobs :: "state_db \<Rightarrow> int \<Rightarrow> datetime \<Rightarrow> string list \<Rightarrow> delivery_job list \<Rightarrow> delivery_job list" where
  "select_jobs db limit now [] selected = selected"
| "select_jobs db limit now (status # rest) selected =
    (let remaining = max (limit - int (length selected)) 0
     in if remaining \<le> 0 then selected
        else select_jobs db limit now rest (selected @ list_delivery_jobs db status remaining (Some now)))"

record gate_counts =
  gc_available :: nat
  gc_missing :: nat
  gc_hash_mismatch :: nat

fun gate_selected :: "state_db \<Rightarrow> delivery_job list \<Rightarrow> gate_counts \<Rightarrow> gate_counts result" where
  "gate_selected db [] gc = Inr gc"
| "gate_selected db (row # rows) gc =
    bind_result (resolve_delivery_payload db (job_idempotency_key row) (job_payload_hash row)) (\<lambda>(_, gate).
      gate_selected db rows
        (if gate = PAYLOAD_OK then gc\<lparr>gc_available := gc_available gc + 1\<rparr>
         else if gate = ''payload_missing'' then gc\<lparr>gc_missing := gc_missing gc + 1\<rparr>
         else gc\<lparr>gc_hash_mismatch := gc_hash_mismatch gc + 1\<rparr>))"

record drain_counts =
  dc_claimed :: nat
  dc_executed :: nat
  dc_succeeded :: nat
  dc_retryable :: nat
  dc_quarantined :: nat
  dc_blocked :: nat
  dc_runtime_exceeded :: bool

definition no_counts :: drain_counts where
  "no_counts = \<lparr>dc_claimed = 0, dc_executed = 0, dc_succeeded = 0, dc_retryable = 0, dc_quarantined = 0,
     dc_blocked = 0, dc_runtime_exceeded = False\<rparr>"

definition count_outcome :: "string \<Rightarrow> drain_counts \<Rightarrow> drain_counts" where
  "count_outcome oc dc =
    (let dc1 = dc\<lparr>dc_executed := dc_executed dc + 1\<rparr>
     in if oc \<in> {''claim_rejected'', ''stale_owner_rejected''} then dc1\<lparr>dc_blocked := dc_blocked dc1 + 1\<rparr>
        else let dc2 = dc1\<lparr>dc_claimed := dc_claimed dc1 + 1\<rparr>
          in if oc = ''succeeded'' then dc2\<lparr>dc_succeeded := dc_succeeded dc2 + 1\<rparr>
             else if oc = ''quarantined'' then dc2\<lparr>dc_quarantined := dc_quarantined dc2 + 1\<rparr>
             else dc2\<lparr>dc_retryable := dc_retryable dc2 + 1\<rparr>)"

text \<open>
  The live loop.  \<open>over i\<close> says whether the monotonic clock has passed the runtime limit when
  it is read before the \<open>i\<close>-th job, \<open>fresh i\<close> is the random part of that job's audit identifier.
\<close>

fun drain_loop ::
    "'w backend \<Rightarrow> executor \<Rightarrow> datetime \<Rightarrow> int \<Rightarrow> (nat \<Rightarrow> bool) \<Rightarrow> (nat \<Rightarrow> string) \<Rightarrow> nat \<Rightarrow> delivery_job list
      \<Rightarrow> drain_counts \<Rightarrow> ('w env, drain_counts) action" where
  "drain_loop be ex now max_attempts over fresh i [] dc = return_act dc"
| "drain_loop be ex now max_attempts over fresh i (row # rows) dc =
    (if over i then return_act (dc\<lparr>dc_runtime_exceeded := True\<rparr>)
     else bind_act (execute_once be ex (job_id row) (at_instant now) max_attempts (fresh i)) (\<lambda>oc.
       drain_loop be ex now max_attempts over fresh (Suc i) rows (count_outcome oc dc)))"

record drain_report =
  dr_dry_run :: bool
  dr_selected_count :: nat
  dr_gate :: gate_counts
  dr_counts :: drain_counts
  dr_blockers :: "string list"
  dr_execution_status :: string
  dr_mutation_performed :: bool
  dr_network_used :: bool

definition drain_report_of :: "bool \<Rightarrow> delivery_job list \<Rightarrow> gate_counts \<Rightarrow> drain_counts \<Rightarrow> drain_report" where
  "drain_report_of dry_run selected gc dc =
    (let blockers = (if gc_missing gc \<noteq> 0 then [''delivery_payload_missing''] else [])
           @ (if gc_hash_mismatch gc \<noteq> 0 then [''delivery_payload_hash_mismatch''] else [])
           @ (if dc_runtime_exceeded dc then [''max_runtime_exceeded''] else [])
     in \<lparr>dr_dry_run = dry_run, dr_selected_count = length selected, dr_gate = gc, dr_counts = dc,
         dr_blockers = blockers,
         dr_execution_status =
           (if dry_run then ''dry_run''
            else if blockers \<noteq> [] \<and> (dc_succeeded dc \<noteq> 0 \<or> dc_retryable dc \<noteq> 0 \<or> dc_quarantined dc \<noteq> 0)
            then ''partial_failure''
            else if blockers \<noteq> [] then ''blocked'' else ''executed''),
         dr_mutation_performed = (dc_executed dc \<noteq> 0),
         dr_network_used = (\<not> dry_run \<and> dc_executed dc \<noteq> 0)\<rparr>)"

definition drain_pending_deliveries ::
    "'w backend option \<Rightarrow> string \<Rightarrow> int \<Rightarrow> bool \<Rightarrow> int \<Rightarrow> datetime \<Rightarrow> (nat \<Rightarrow> bool) \<Rightarrow> (nat \<Rightarrow> string)
      \<Rightarrow> ('w env, drain_report) action" where
  "drain_pending_deliveries backend lease_owner limit dry_run max_attempts now over fresh =
    bind_act (read_db (\<lambda>db. select_jobs db limit now EXECUTABLE_STATUSES [])) (\<lambda>selected.
    bind_act (on_db (\<lambda>db. bind_result
        (gate_selected db selected \<lparr>gc_available = 0, gc_missing = 0, gc_hash_mismatch = 0\<rparr>)
        (\<lambda>gc. Inr (gc, db)))) (\<lambda>gc.
      if dry_run then return_act (drain_report_of dry_run selected gc no_counts)
      else case backend of
        None \<Rightarrow> raise_act (ValueError ''live drain requires a delivery backend'')
      | Some be \<Rightarrow>
          bind_act (drain_loop be (delivery_executor lease_owner 600) now max_attempts over fresh 0 selected no_counts)
            (\<lambda>dc. return_act (drain_report_of dry_run selected gc dc))))"

section \<open>The gate\<close>

lemma env_simps [simp]:
  "read_db f (w, db) = (Inr (f db), (w, db))"
  "t db = Inl e \<Longrightarrow> on_db t (w, db) = (Inl e, (w, db))"
  "t db = Inr (x, db') \<Longrightarrow> on_db t (w, db) = (Inr x, (w, db'))"
  "m (w, db) = (r, s') \<Longrightarrow> attempt m (w, db) = (Inr r, s')"
  by (simp_all add: read_db_def on_db_def attempt_def)

lemma resolve_ok_iff:
  "resolve_delivery_payload db k h = Inr (Some p, g) \<longleftrightarrow>
    g = PAYLOAD_OK \<and> get_effective_delivery_payload db k = Inr (Some p)
    \<and> str_or_empty (get_item p ''contentHash'') = h \<and> (\<exists>body. payload_body p = Inr body \<and> sha256_ref body = h)"
  by (auto simp: resolve_delivery_payload_def bind_result_Inr_iff Let_def split: option.splits if_splits)

text \<open>A stored payload is found again with the keys of its dicts sorted.\<close>

lemma payload_stored:
  assumes "record_delivery_payload d now db = Inr (''recorded'', db')" "json_wf (JObj d)"
    and "get_item d ''idempotencyKey'' = JStr k"
  shows "\<exists>d'. json_canon (JObj d) = JObj d' \<and> get_delivery_payload db' k = Some d'
    \<and> delivery_jobs db' = delivery_jobs db"
proof -
  obtain d' where d': "json_canon (JObj d) = JObj d'" by simp
  from assms have k: "k \<noteq> ''''" and "row_with pl_idempotency_key k (delivery_payloads db) = None"
    by (auto simp: record_delivery_payload_def Let_def str_or_empty_def py_str_def split: if_splits option.splits)
  with assms have "row_with pl_idempotency_key k (delivery_payloads db') = Some
      \<lparr>pl_idempotency_key = k, pl_payload_hash = str_or_empty (get_item d ''contentHash''),
       pl_payload_json = json_dumps (JObj d), pl_recorded_at = iso now\<rparr>" "delivery_jobs db' = delivery_jobs db"
    by (auto simp: record_delivery_payload_def Let_def str_or_empty_def py_str_def bind_result_Inr_iff
        insert_payload_row_def row_with_append split: if_splits)
  with d' assms(2) show ?thesis
    by (simp add: get_delivery_payload_def json_loads_dumps del: json_canon.simps json_wf.simps)
qed

text \<open>The document body of a stored payload, where every part of the path is there.\<close>

definition document_payload :: "dict \<Rightarrow> dict \<Rightarrow> dict \<Rightarrow> string \<Rightarrow> bool" where
  "document_payload d p doc body \<longleftrightarrow> get_item d ''payload'' = JObj p \<and> get_item p ''document'' = JObj doc
    \<and> get_item doc ''body'' = JStr body"

lemma get_item_truthy: "get_item d k = v \<Longrightarrow> v \<noteq> JNull \<Longrightarrow> d \<noteq> []"
  by (auto simp: get_item_def)

lemma payload_body_document: "document_payload d p doc body \<Longrightarrow> payload_body d = Inr body"
  by (auto simp: payload_body_def document_payload_def py_or_def str_or_empty_def py_str_def dest: get_item_truthy)

lemma document_payload_canon:
  assumes "document_payload d p doc body" "json_wf (JObj d)" "json_canon (JObj d) = JObj d'"
  shows "\<exists>p' doc'. document_payload d' p' doc' body"
proof -
  obtain p' doc' where p': "json_canon (JObj p) = JObj p'" and doc': "json_canon (JObj doc) = JObj doc'" by simp
  have "json_wf (JObj p)" using json_wf_item [OF assms(2), of "''payload''"] assms(1)
    by (simp add: document_payload_def)
  moreover from this have "json_wf (JObj doc)" using json_wf_item [of p "''document''"] assms(1)
    by (simp add: document_payload_def)
  ultimately have "document_payload d' p' doc' body"
    using assms get_item_canon p' doc' by (auto simp: document_payload_def simp del: json_canon.simps json_wf.simps)
      (simp_all add: get_item_canon)
  then show ?thesis by blast
qed


lemma gate_passes_recorded:
  assumes "record_delivery_payload d now db = Inr (''recorded'', db')" "json_wf (JObj d)"
    and "get_item d ''idempotencyKey'' = JStr k" "get_item d ''contentHash'' = JStr (sha256_ref body)"
    and "document_payload d p doc body"
    and "row_with job_idempotency_key k (delivery_jobs db) = None"
  shows "\<exists>d'. json_canon (JObj d) = JObj d'
    \<and> resolve_delivery_payload db' k (sha256_ref body) = Inr (Some d', PAYLOAD_OK)"
proof -
  obtain d' where d': "json_canon (JObj d) = JObj d'" and g: "get_delivery_payload db' k = Some d'"
    and j: "delivery_jobs db' = delivery_jobs db"
    using payload_stored [OF assms(1,2,3)] by blast
  have "get_effective_delivery_payload db' k = Inr (Some d')"
    using g j assms(6) by (simp add: get_effective_delivery_payload_def)
  moreover have "get_item d' ''contentHash'' = JStr (sha256_ref body)"
    using get_item_canon [OF assms(2) d', of "''contentHash''"] assms(4) by simp
  moreover obtain p' doc' where "document_payload d' p' doc' body"
    using document_payload_canon [OF assms(5,2) d'] by blast
  ultimately have "resolve_delivery_payload db' k (sha256_ref body) = Inr (Some d', PAYLOAD_OK)"
    by (simp add: resolve_ok_iff payload_body_document str_or_empty_def py_str_def)
  with d' show ?thesis by blast
qed

section \<open>The executor keeps the invariant\<close>

definition backend_keeps :: "(state_db \<Rightarrow> bool) \<Rightarrow> 'w backend \<Rightarrow> bool" where
  "backend_keeps P be \<longleftrightarrow>
    (\<forall>v s. P (snd s) \<longrightarrow> P (snd (snd (submit be v s))))
    \<and> (\<forall>k h s. P (snd s) \<longrightarrow> P (snd (snd (find_by_natural_key be k h s))))
    \<and> (\<forall>a b s. P (snd s) \<longrightarrow> P (snd (snd (backend_status be a b s))))"

text \<open>An action keeps a property of the database whatever it returns.\<close>

definition act_keeps :: "(state_db \<Rightarrow> bool) \<Rightarrow> ('w env, 'a) action \<Rightarrow> bool" where
  "act_keeps P m \<longleftrightarrow> (\<forall>s. P (snd s) \<longrightarrow> P (snd (snd (m s))))"

named_theorems keeps_intros \<open>actions that keep a property of the database\<close>

lemma act_keeps_pure [keeps_intros]:
  "act_keeps P (return_act x)" "act_keeps P (raise_act e)" "act_keeps P (read_db f)"
  by (simp_all add: act_keeps_def read_db_def split: prod.split)

lemma act_keeps_bind [keeps_intros]:
  "act_keeps P m \<Longrightarrow> (\<And>x. act_keeps P (f x)) \<Longrightarrow> act_keeps P (bind_act m f)"
  unfolding act_keeps_def
  by (intro allI impI bind_act_preserves [of "\<lambda>s. P (snd s)"]) auto

lemma act_keeps_attempt [keeps_intros]: "act_keeps P m \<Longrightarrow> act_keeps P (attempt m)"
  by (simp add: act_keeps_def attempt_def split_def)

lemma act_keeps_on_db:
  "(\<And>db x db'. t db = Inr (x, db') \<Longrightarrow> P db \<Longrightarrow> P db') \<Longrightarrow> act_keeps P (on_db t)"
  by (auto simp: act_keeps_def on_db_def split: prod.split sum.split)

lemma record_outcome_wf: "record_outcome ex k now ma fresh ans db = Inr (r, db') \<Longrightarrow> db_wf db \<Longrightarrow> db_wf db'"
  by (auto simp: record_outcome_def Let_def bind_result_Inr_iff split: sum.splits py_error.splits if_splits
      intro: inv_intros)

lemma record_reconciled_wf: "record_reconciled k now ma found db = Inr (r, db') \<Longrightarrow> db_wf db \<Longrightarrow> db_wf db'"
  by (auto simp: record_reconciled_def Let_def bind_result_Inr_iff split: option.splits if_splits intro: inv_intros)

lemma on_db_keeps [keeps_intros]:
  "act_keeps db_wf (on_db (claim_delivery_job k own now ls ma))"
  "act_keeps db_wf (on_db (mark_delivery_executing k own now))"
  "act_keeps db_wf (on_db (record_outcome ex k now ma fresh ans))"
  "act_keeps db_wf (on_db (record_reconciled k now ma found))"
  by (rule act_keeps_on_db, erule claim_delivery_job_wf mark_delivery_executing_wf record_outcome_wf
      record_reconciled_wf, assumption)+

lemma execute_once_with_receipt_keeps [keeps_intros]:
  assumes "backend_keeps db_wf be"
  shows "act_keeps db_wf (execute_once_with_receipt be ex k ck ma fresh)"
proof -
  have "act_keeps db_wf (submit be v)" for v
    using assms by (simp add: backend_keeps_def act_keeps_def)
  then have "act_keeps db_wf (submit_and_record be ex k row ck ma fresh)" for row
    unfolding submit_and_record_def
    by (auto intro!: keeps_intros)
  then show ?thesis
    unfolding execute_once_with_receipt_def
    by (auto intro!: keeps_intros simp: Let_def split: option.split)
qed

lemma execute_once_keeps [keeps_intros]:
  "backend_keeps db_wf be \<Longrightarrow> act_keeps db_wf (execute_once be ex k ck ma fresh)"
  unfolding execute_once_def by (auto intro!: keeps_intros)

lemma reconcile_once_keeps [keeps_intros]:
  assumes "backend_keeps db_wf be"
  shows "act_keeps db_wf (reconcile_once be k now ma)"
proof -
  have "act_keeps db_wf (find_by_natural_key be a b)" "act_keeps db_wf (backend_status be a b)" for a b
    using assms by (simp_all add: backend_keeps_def act_keeps_def)
  then show ?thesis
    unfolding reconcile_once_def reconcile_evidence_def
    by (auto intro!: keeps_intros split: option.split)
qed

lemma drain_loop_keeps [keeps_intros]:
  "backend_keeps db_wf be \<Longrightarrow> act_keeps db_wf (drain_loop be ex now ma over fresh i rows dc)"
  by (induction be ex now ma over fresh i rows dc rule: drain_loop.induct) (auto intro!: keeps_intros)

lemma drain_keeps:
  "(\<And>be. backend = Some be \<Longrightarrow> backend_keeps db_wf be) \<Longrightarrow>
    act_keeps db_wf (drain_pending_deliveries backend own limit dry ma now over fresh)"
  unfolding drain_pending_deliveries_def
  by (auto intro!: keeps_intros act_keeps_on_db simp: bind_result_Inr_iff split: option.split)

section \<open>What one execution does\<close>

text \<open>The answers the executor handles: evidence, or an uncertain outcome.\<close>

definition handled :: "evidence result \<Rightarrow> bool" where
  "handled ans = (case ans of Inl (DeliveryOutcomeUncertain _) \<Rightarrow> True | Inl _ \<Rightarrow> False | Inr _ \<Rightarrow> True)"

lemma record_outcome_fenced:
  assumes "record_outcome ex k now ma fresh ans db = Inr (r, db')" "get_delivery_job db k = Some j"
    and "exe_lease_owner ex \<noteq> ''''"
    and "job_lease_owner j \<noteq> exe_lease_owner ex \<or> \<not> lease_is_live (job_lease_until j) now"
  shows "r = mk_receipt ''stale_owner_rejected'' True \<and> db' = db"
  using assms
  by (auto simp: record_outcome_def Let_def bind_result_Inr_iff record_replayable_attempt_def
      record_failed_retryable_attempt_def complete_delivery_with_evidence_def stale_owner_def
      split: sum.splits py_error.splits if_splits)

text \<open>The live holder's recording: the job is closed, or waits for its next deadline one attempt later.\<close>

definition settled :: "string \<Rightarrow> datetime \<Rightarrow> int \<Rightarrow> int \<Rightarrow> state_db \<Rightarrow> bool" where
  "settled k due n ma db \<longleftrightarrow> (\<exists>j. get_delivery_job db k = Some j
    \<and> (closed_job j \<or> phase_of j = Waiting (iso due) \<and> job_attempt_count j = n + 1 \<and> n + 1 < ma))"

definition held_job :: "state_db \<Rightarrow> string \<Rightarrow> string \<Rightarrow> datetime \<Rightarrow> int \<Rightarrow> bool" where
  "held_job db k own now n \<longleftrightarrow> (\<exists>j. get_delivery_job db k = Some j \<and> job_lease_owner j = own
    \<and> lease_is_live (job_lease_until j) now \<and> job_attempt_count j = n)"

lemma settled_updateI:
  "get_delivery_job db k = Some j \<Longrightarrow> job_keeping f \<Longrightarrow>
    closed_job (f j) \<or> phase_of (f j) = Waiting (iso due) \<and> job_attempt_count (f j) = n + 1 \<and> n + 1 < ma \<Longrightarrow>
    settled k due n ma (update_job k f db)"
  by (auto simp: settled_def row_simps)

lemma replayable_settles:
  assumes "held_job db k own now n" "own \<noteq> ''''" "dt_add now 60 = Inr due"
  shows "\<exists>st db'. record_replayable_attempt k own now ma 60 db = Inr (st, db') \<and> settled k due n ma db'"
  using assms by (auto simp: held_job_def record_replayable_attempt_def stale_owner_def Let_def
      closed_job_def phase_of_def REPLAYABLE_def simp del: with_row_Inr_iff intro!: settled_updateI job_keepingI)

lemma failed_settles:
  assumes "held_job db k own now n" "own \<noteq> ''''" "dt_add now 60 = Inr due"
  shows "\<exists>st db'. record_failed_retryable_attempt k run ds dc e own obs now ma 60 db = Inr (st, db') \<and> settled k due n ma db'"
  using assms by (auto simp: held_job_def record_failed_retryable_attempt_def stale_owner_def Let_def
      closed_job_def phase_of_def simp del: with_row_Inr_iff intro!: settled_updateI job_keepingI)

lemma complete_settles:
  assumes "db_wf db" "held_job db k own now n" "get_domain_record db (correction_id k) = None"
    and "st \<in> {''succeeded'', ''quarantined''}"
  shows "\<exists>db'. complete_delivery_with_evidence k own st ds dc run e obs now fresh db = Inr (True, db')
    \<and> settled k due n ma db'"
proof -
  obtain j where j: "get_delivery_job db k = Some j" "job_lease_owner j = own" "lease_is_live (job_lease_until j) now"
    using assms(2) by (auto simp: held_job_def)
  then have "job_id j = k" using get_delivery_job_ok [OF assms(1)] by blast
  moreover have "get_domain_record (update_job k f db) (correction_id k) = None" for f
    using assms(3) by (simp add: get_domain_record_def update_job_def)
  ultimately show ?thesis
    using j assms(4) by (auto simp: complete_delivery_with_evidence_def Let_def audit_corrected_attempt_def
        closed_job_def simp del: with_row_Inr_iff intro!: settled_updateI job_keepingI)
qed

lemma record_outcome_settles:
  assumes "db_wf db" "held_job db k (exe_lease_owner ex) now n" "exe_lease_owner ex \<noteq> ''''"
    and "get_domain_record db (correction_id k) = None" "dt_add now 60 = Inr due" "handled ans"
  shows "\<exists>r db'. record_outcome ex k now ma fresh ans db = Inr (r, db') \<and> rcpt_submit_attempted r \<and> settled k due n ma db'"
proof (cases ans)
  case (Inl e)
  then obtain m where "e = DeliveryOutcomeUncertain m" using assms(6) by (cases e) (auto simp: handled_def)
  then show ?thesis using replayable_settles [OF assms(2,3,5), of ma] Inl
    by (auto simp: record_outcome_def Let_def mk_receipt_def)
next
  case (Inr ev)
  note c = complete_settles [OF assms(1,2,4), of _ "evd_dataset_ref ev" "evd_document_ref ev" "evd_run ev" _
      "evd_observed_at ev" fresh due ma]
  consider (q) "evd_status ev \<in> {''quarantined'', ''payload_unavailable'', ''payload_integrity_mismatch''}"
    | (s) "evd_status ev = ''succeeded''" | (f) "evd_status ev = ''failed_retryable''"
    | (r) "evd_status ev \<notin> {''quarantined'', ''payload_unavailable'', ''payload_integrity_mismatch'',
        ''succeeded'', ''failed_retryable''}"
    by auto
  then show ?thesis
  proof cases
    case q
    with c [of "''quarantined''" "''delivery_'' @ evd_status ev"] Inr show ?thesis
      by (auto simp: record_outcome_def Let_def mk_receipt_def)
  next
    case s
    with c [of "''succeeded''" "''''"] Inr show ?thesis
      by (auto simp: record_outcome_def Let_def mk_receipt_def)
  next
    case f
    with failed_settles [OF assms(2,3,5), of "evd_run ev" "evd_dataset_ref ev" "evd_document_ref ev"
        "''async_parse_failed''" "evd_observed_at ev" ma] Inr show ?thesis
      by (auto simp: record_outcome_def Let_def mk_receipt_def)
  next
    case r
    with replayable_settles [OF assms(2,3,5), of ma] Inr show ?thesis
      by (auto simp: record_outcome_def Let_def mk_receipt_def)
  qed
qed

lemma claim_open:
  assumes "get_delivery_job db k = Some j" "open_for own t (phase_of j)" "job_attempt_count j < ma" "dt_add t ls = Inr u"
  shows "claim_delivery_job k own t ls ma db = Inr (True, update_job k (\<lambda>j. j\<lparr>job_status := ''claimed'',
      job_lease_owner := own, job_lease_until := iso u, job_updated_at := iso t\<rparr>) db)"
  using assms open_claimable [OF assms(2)]
  by (simp add: claim_delivery_job_def del: with_row_Inr_iff)

lemma mark_held:
  assumes "get_delivery_job db k = Some j" "job_lease_owner j = own" "lease_is_live (job_lease_until j) t"
  shows "mark_delivery_executing k own t db =
    Inr (True, update_job k (\<lambda>j. j\<lparr>job_status := ''executing'', job_updated_at := iso t\<rparr>) db)"
  using assms by (simp add: mark_delivery_executing_def del: with_row_Inr_iff)

lemma open_status:
  "open_for own t (phase_of j) \<Longrightarrow>
    job_status j \<in> {''pending'', ''replayable'', ''failed_retryable'', ''claimed'', ''executing''}"
  by (auto simp: phase_of_def Let_def split: if_splits)

lemma update_job_frame [simp]:
  "domain_records (update_job k f db) = domain_records db"
  "delivery_payloads (update_job k f db) = delivery_payloads db"
  "commands (update_job k f db) = commands db"
  "inbox_events (update_job k f db) = inbox_events db"
  by (simp_all add: update_job_def)

lemma job_calls_domain:
  "record_replayable_attempt k own now ma rs db = Inr (st, db') \<Longrightarrow> domain_records db' = domain_records db"
  "record_failed_retryable_attempt k run ds dc e own obs now ma rs db = Inr (st, db') \<Longrightarrow>
    domain_records db' = domain_records db"
  by (auto simp: record_replayable_attempt_def record_failed_retryable_attempt_def bind_result_Inr_iff Let_def
      split: if_splits)

lemma complete_domain:
  "complete_delivery_with_evidence k own st ds dc run e obs now fresh db = Inr (b, db') \<Longrightarrow>
    domain_records db' = domain_records db"
  by (auto simp: complete_delivery_with_evidence_def audit_corrected_attempt_def insert_result_row_def Let_def
      bind_result_Inr_iff split: if_splits)

lemma record_outcome_domain:
  "record_outcome ex k now ma fresh ans db = Inr (r, db') \<Longrightarrow> domain_records db' = domain_records db"
  by (auto simp: record_outcome_def Let_def bind_result_Inr_iff split: sum.splits py_error.splits if_splits
      dest!: job_calls_domain complete_domain)

text \<open>A backend that does not touch the database and answers as the executor expects.\<close>

definition quiet :: "'w backend \<Rightarrow> bool" where
  "quiet be \<longleftrightarrow> (\<forall>v w db. \<exists>ans w'. submit be v (w, db) = (ans, (w', db)) \<and> handled ans)"

lemma execute_progress:
  assumes wf: "db_wf db" and j: "get_delivery_job db k = Some j" and op: "open_for (exe_lease_owner ex) t (phase_of j)"
    and n: "job_attempt_count j < ma" and own: "exe_lease_owner ex \<noteq> ''''"
    and corr: "get_domain_record db (correction_id k) = None"
    and ls: "0 < exe_lease_seconds ex" "dt_add t (exe_lease_seconds ex) = Inr u" and due: "dt_add t 60 = Inr due"
    and be: "quiet be"
  shows "\<exists>r w' db'. execute_once_with_receipt be ex k (at_instant t) ma fresh (w, db) = (Inr r, (w', db'))
    \<and> rcpt_submit_attempted r \<and> settled k due (job_attempt_count j) ma db' \<and> db_wf db'
    \<and> get_domain_record db' (correction_id k) = None"
proof -
  let ?own = "exe_lease_owner ex"
  let ?f = "\<lambda>j. j\<lparr>job_status := ''claimed'', job_lease_owner := ?own, job_lease_until := iso u, job_updated_at := iso t\<rparr>"
  let ?g = "\<lambda>j. j\<lparr>job_status := ''executing'', job_updated_at := iso t\<rparr>"
  let ?db1 = "update_job k ?f db" and ?db2 = "update_job k ?g (update_job k ?f db)"
  have keep: "job_keeping ?f" "job_keeping ?g" by (simp_all add: job_keeping_def)
  have tu: "t < u" using dt_add_later ls by blast
  have c: "claim_delivery_job k ?own t (exe_lease_seconds ex) ma db = Inr (True, ?db1)"
    by (rule claim_open [OF j op n ls(2)])
  have j1: "get_delivery_job ?db1 k = Some (?f j)" using j keep by (simp add: row_simps)
  have m: "mark_delivery_executing k ?own t ?db1 = Inr (True, ?db2)"
    by (rule mark_held [OF j1]) (simp_all add: tu)
  have wf2: "db_wf ?db2" using c m wf by (blast intro: inv_intros)
  have j2: "get_delivery_job ?db2 k = Some (?g (?f j))" using j keep by (simp add: row_simps)
  have corr2: "get_domain_record ?db2 (correction_id k) = None" using corr by (simp add: get_domain_record_def)
  obtain ans w' where s: "submit be (view_from_row (?g (?f j))) (w, ?db2) = (ans, (w', ?db2))" and h: "handled ans"
    using be unfolding quiet_def by blast
  have held: "held_job ?db2 k ?own t (job_attempt_count j)"
    using j2 tu by (simp add: held_job_def)
  obtain r db' where r: "record_outcome ex k t ma fresh ans ?db2 = Inr (r, db')" "rcpt_submit_attempted r"
      "settled k due (job_attempt_count j) ma db'"
    using record_outcome_settles [OF wf2 held own corr2 due h, of ma fresh] by blast
  have "execute_once_with_receipt be ex k (at_instant t) ma fresh (w, db) = (Inr r, (w', db'))"
    using j op corr c m j2 s r(1) open_status [OF op]
    by (auto simp: execute_once_with_receipt_def submit_and_record_def at_instant_def Let_def)
  moreover have "db_wf db'" using record_outcome_wf r(1) wf2 by blast
  moreover have "get_domain_record db' (correction_id k) = None"
    using record_outcome_domain [OF r(1)] corr by (simp add: get_domain_record_def)
  ultimately show ?thesis using r(2,3) by blast
qed

section \<open>Repeated executions end\<close>

text \<open>The executions of one job at given instants, and instants that leave room for the retry delay.\<close>

fun deliver_at ::
    "'w backend \<Rightarrow> executor \<Rightarrow> string \<Rightarrow> int \<Rightarrow> (nat \<Rightarrow> string) \<Rightarrow> datetime list \<Rightarrow> ('w env, unit) action" where
  "deliver_at be ex k ma fresh [] = return_act ()"
| "deliver_at be ex k ma fresh (t # ts) =
    bind_act (execute_once_with_receipt be ex k (at_instant t) ma (fresh (length ts))) (\<lambda>_.
      deliver_at be ex k ma fresh ts)"

fun spaced :: "int \<Rightarrow> datetime list \<Rightarrow> bool" where
  "spaced ls [] = True"
| "spaced ls (t # ts) =
    (case (dt_add t 60, dt_add t ls) of
       (Inr due, Inr u) \<Rightarrow> (case ts of [] \<Rightarrow> True | t' # _ \<Rightarrow> due \<le> t') \<and> spaced ls ts
     | _ \<Rightarrow> False)"

text \<open>Closed, or open at the next instant with enough instants left for its attempts.\<close>

definition on_track :: "executor \<Rightarrow> string \<Rightarrow> int \<Rightarrow> datetime list \<Rightarrow> state_db \<Rightarrow> bool" where
  "on_track ex k ma ts db \<longleftrightarrow> db_wf db \<and> get_domain_record db (correction_id k) = None
    \<and> (\<exists>j. get_delivery_job db k = Some j \<and> (closed_job j
      \<or> job_attempt_count j < ma \<and> ma - job_attempt_count j \<le> int (length ts)
        \<and> (\<forall>t \<in> set (take 1 ts). open_for (exe_lease_owner ex) t (phase_of j))))"

lemma on_track_step:
  assumes "on_track ex k ma (t # ts) db" "spaced (exe_lease_seconds ex) (t # ts)" "quiet be"
    and "exe_lease_owner ex \<noteq> ''''" "0 < exe_lease_seconds ex"
  shows "\<exists>r w' db'. execute_once_with_receipt be ex k (at_instant t) ma fresh (w, db) = (Inr r, (w', db'))
    \<and> on_track ex k ma ts db' \<and> spaced (exe_lease_seconds ex) ts"
proof -
  from assms(2) obtain due u where due: "dt_add t 60 = Inr due" and u: "dt_add t (exe_lease_seconds ex) = Inr u"
    and next_due: "\<And>t'. t' \<in> set (take 1 ts) \<Longrightarrow> due \<le> t'" and sp: "spaced (exe_lease_seconds ex) ts"
    by (cases ts) (auto split: sum.splits)
  from assms(1) obtain j where wf: "db_wf db" and corr: "get_domain_record db (correction_id k) = None"
    and j: "get_delivery_job db k = Some j"
    and c: "closed_job j \<or> job_attempt_count j < ma \<and> ma - job_attempt_count j \<le> int (length (t # ts))
      \<and> open_for (exe_lease_owner ex) t (phase_of j)"
    by (auto simp: on_track_def)
  show ?thesis
  proof (cases "closed_job j")
    case True
    then have "execute_once_with_receipt be ex k (at_instant t) ma fresh (w, db) =
        (Inr (mk_receipt (job_status j) False), (w, db))"
      using j by (auto simp: execute_once_with_receipt_def closed_job_def Let_def)
    with True j wf corr sp show ?thesis by (auto simp: on_track_def)
  next
    case False
    obtain r w' db' where e: "execute_once_with_receipt be ex k (at_instant t) ma fresh (w, db) = (Inr r, (w', db'))"
      "settled k due (job_attempt_count j) ma db'" "db_wf db'" "get_domain_record db' (correction_id k) = None"
      using execute_progress [OF wf j _ _ assms(4) corr assms(5) u due assms(3), of ma fresh w] c False by auto
    then have "on_track ex k ma ts db'"
      using c False next_due by (auto simp: on_track_def settled_def)
    with e sp show ?thesis by blast
  qed
qed

lemma deliver_at_on_track:
  assumes "on_track ex k ma ts db" "spaced (exe_lease_seconds ex) ts" "quiet be"
    and "exe_lease_owner ex \<noteq> ''''" "0 < exe_lease_seconds ex"
  shows "\<exists>w' db'. deliver_at be ex k ma fresh ts (w, db) = (Inr (), (w', db')) \<and> on_track ex k ma [] db'"
  using assms(1,2)
proof (induction ts arbitrary: w db)
  case (Cons t ts)
  obtain r w' db' where "execute_once_with_receipt be ex k (at_instant t) ma (fresh (length ts)) (w, db) = (Inr r, (w', db'))"
      "on_track ex k ma ts db'" "spaced (exe_lease_seconds ex) ts"
    using on_track_step [OF Cons.prems assms(3-5)] by blast
  then show ?case using Cons.IH [of db' w'] by simp
qed simp

lemma on_track_end: "on_track ex k ma [] db \<Longrightarrow> \<exists>j. get_delivery_job db k = Some j \<and> closed_job j"
  by (auto simp: on_track_def)

section \<open>The backend is called only under the lease\<close>

text \<open>
  Two backends that answer alike whenever the job is executing under a live lease of the
  executor are indistinguishable to it: it calls the backend in no other state.
\<close>

definition executing_for :: "executor \<Rightarrow> string \<Rightarrow> datetime \<Rightarrow> state_db \<Rightarrow> bool" where
  "executing_for ex k t db \<longleftrightarrow> (\<exists>j. get_delivery_job db k = Some j \<and> job_status j = ''executing''
    \<and> job_lease_owner j = exe_lease_owner ex \<and> lease_is_live (job_lease_until j) t)"

lemma mark_executing_for:
  "mark_delivery_executing k (exe_lease_owner ex) t db = Inr (True, db') \<Longrightarrow> executing_for ex k t db'"
  by (auto simp: mark_delivery_executing_def executing_for_def row_simps job_keepingI split: if_splits)

lemma submit_only_executing:
  assumes "\<And>v w db. executing_for ex k (t_mark ck) db \<Longrightarrow> submit be v (w, db) = submit be' v (w, db)"
  shows "execute_once_with_receipt be ex k ck ma fresh s = execute_once_with_receipt be' ex k ck ma fresh s"
proof -
  have "submit_and_record be ex k row ck ma fresh (w, db) = submit_and_record be' ex k row ck ma fresh (w, db)" for row w db
  proof (cases "mark_delivery_executing k (exe_lease_owner ex) (t_mark ck) db")
    case (Inr p)
    obtain b db' where p: "p = (b, db')" by force
    show ?thesis
    proof (cases b)
      case True
      then have "submit be v (w, db') = submit be' v (w, db')" for v
        using assms mark_executing_for [of k ex "t_mark ck" db db'] Inr p by simp
      then show ?thesis using Inr p by (simp add: submit_and_record_def bind_act_def attempt_def)
    qed (use Inr p in \<open>simp add: submit_and_record_def\<close>)
  qed (simp add: submit_and_record_def)
  then have eq: "submit_and_record be ex k row ck ma fresh = submit_and_record be' ex k row ck ma fresh" for row
    by (intro ext) (metis prod.exhaust)
  show ?thesis
    unfolding execute_once_with_receipt_def eq ..
qed


section \<open>The drain\<close>

lemma length_sql_limit: "0 \<le> n \<Longrightarrow> length (sql_limit n xs) \<le> nat n"
  by (simp add: sql_limit_def)

lemma select_jobs_bound:
  "length selected \<le> nat limit \<Longrightarrow> length (select_jobs db limit now sts selected) \<le> nat limit"
proof (induction db limit now sts selected rule: select_jobs.induct)
  case (2 db limit now st rest selected)
  let ?r = "max (limit - int (length selected)) 0"
  have "length (list_delivery_jobs db st ?r (Some now)) \<le> nat ?r"
    unfolding list_delivery_jobs_def by (rule length_sql_limit) simp
  with 2 show ?case by (auto simp: Let_def)
qed simp

lemma set_list_delivery_jobs:
  "j \<in> set (list_delivery_jobs db st n (Some now)) \<Longrightarrow>
    j \<in> set (delivery_jobs db) \<and> job_status j = st \<and> (job_next_retry_at j = '''' \<or> job_next_retry_at j \<le> iso now)"
  by (auto simp: list_delivery_jobs_def sql_limit_def split: if_splits dest!: in_set_takeD)

lemma set_select_jobs:
  assumes "j \<in> set (select_jobs db limit now sts selected)" "j \<notin> set selected"
  shows "j \<in> set (delivery_jobs db) \<and> job_status j \<in> set sts
    \<and> (job_next_retry_at j = '''' \<or> job_next_retry_at j \<le> iso now)"
  using assms
proof (induction db limit now sts selected rule: select_jobs.induct)
  case (2 db limit now st rest selected)
  then show ?case
    by (cases "j \<in> set (list_delivery_jobs db st (max (limit - int (length selected)) 0) (Some now))")
      (auto simp: Let_def dest: set_list_delivery_jobs split: if_splits)
qed simp

lemma distinct_list_delivery_jobs: "db_wf db \<Longrightarrow> distinct (map job_id (list_delivery_jobs db st n due))"
proof -
  assume "db_wf db"
  then have "distinct (map job_id (sort_key job_created_at (filter P (delivery_jobs db))))" for P
    by (simp add: distinct_map_sort_key wf_defs distinct_map_filter)
  then show ?thesis
    by (auto simp: list_delivery_jobs_def sql_limit_def take_map [symmetric] intro: distinct_take)
qed

lemma count_outcome_sums:
  assumes "dc_executed dc = dc_claimed dc + dc_blocked dc"
    and "dc_claimed dc = dc_succeeded dc + dc_retryable dc + dc_quarantined dc"
  shows "dc_executed (count_outcome oc dc) = dc_claimed (count_outcome oc dc) + dc_blocked (count_outcome oc dc)
    \<and> dc_claimed (count_outcome oc dc) =
      dc_succeeded (count_outcome oc dc) + dc_retryable (count_outcome oc dc) + dc_quarantined (count_outcome oc dc)
    \<and> dc_executed (count_outcome oc dc) = Suc (dc_executed dc)
    \<and> dc_runtime_exceeded (count_outcome oc dc) = dc_runtime_exceeded dc"
  using assms by (simp add: count_outcome_def Let_def)

lemma drain_loop_sums:
  assumes "drain_loop be ex now ma over fresh i rows dc s = (Inr dc', s')"
    and "dc_executed dc = dc_claimed dc + dc_blocked dc"
    and "dc_claimed dc = dc_succeeded dc + dc_retryable dc + dc_quarantined dc"
  shows "dc_executed dc' = dc_claimed dc' + dc_blocked dc'
    \<and> dc_claimed dc' = dc_succeeded dc' + dc_retryable dc' + dc_quarantined dc'
    \<and> dc_executed dc' \<le> dc_executed dc + length rows
    \<and> (dc_runtime_exceeded dc' \<or> dc_executed dc' = dc_executed dc + length rows)"
  using assms
proof (induction be ex now ma over fresh i rows dc arbitrary: s rule: drain_loop.induct)
  case (2 be ex now ma over fresh i row rows dc)
  show ?case
  proof (cases "over i")
    case False
    then obtain oc s1 where "execute_once be ex (job_id row) (at_instant now) ma (fresh i) s = (Inr oc, s1)"
      and d: "drain_loop be ex now ma over fresh (Suc i) rows (count_outcome oc dc) s1 = (Inr dc', s')"
      using 2(2) by (auto simp: bind_act_def split: prod.splits sum.splits)
    from 2(1) [OF False d] count_outcome_sums [OF 2(3,4), of oc] show ?thesis by auto
  qed (use 2 in auto)
qed auto

lemma gate_selected_sums:
  "gate_selected db rows gc = Inr gc' \<Longrightarrow>
    gc_available gc' + gc_missing gc' + gc_hash_mismatch gc' =
      gc_available gc + gc_missing gc + gc_hash_mismatch gc + length rows"
proof (induction rows arbitrary: gc)
  case (Cons row rows)
  then show ?case by (auto simp: bind_result_Inr_iff dest!: Cons.IH split: if_splits)
qed simp

lemma drain_dry_run:
  assumes "drain_pending_deliveries backend own limit True ma now over fresh (w, db) = (x, s')"
  shows "s' = (w, db) \<and> (\<forall>r. x = Inr r \<longrightarrow> \<not> dr_mutation_performed r \<and> \<not> dr_network_used r)"
  using assms by (auto simp: drain_pending_deliveries_def bind_act_def on_db_def bind_result_def drain_report_of_def
      no_counts_def Let_def split: sum.splits)

lemmas gate_names = PAYLOAD_OK_def PAYLOAD_MISSING_def PAYLOAD_HASH_MISMATCH_def

lemma drain_live:
  assumes "drain_pending_deliveries (Some be) own limit False ma now over fresh s = (Inr r, s')"
  shows "dr_selected_count r \<le> nat limit
    \<and> gc_available (dr_gate r) + gc_missing (dr_gate r) + gc_hash_mismatch (dr_gate r) = dr_selected_count r
    \<and> dc_executed (dr_counts r) = dc_claimed (dr_counts r) + dc_blocked (dr_counts r)
    \<and> dc_claimed (dr_counts r) = dc_succeeded (dr_counts r) + dc_retryable (dr_counts r) + dc_quarantined (dr_counts r)
    \<and> dc_executed (dr_counts r) \<le> dr_selected_count r
    \<and> (dc_runtime_exceeded (dr_counts r) \<or> dc_executed (dr_counts r) = dr_selected_count r)"
proof -
  obtain w db where s: "s = (w, db)" by force
  let ?sel = "select_jobs db limit now EXECUTABLE_STATUSES []"
  from assms obtain gc dc where
    g: "gate_selected db ?sel \<lparr>gc_available = 0, gc_missing = 0, gc_hash_mismatch = 0\<rparr> = Inr gc"
    and l: "drain_loop be (delivery_executor own 600) now ma over fresh 0 ?sel no_counts (w, db) = (Inr dc, s')"
    and r: "r = drain_report_of False ?sel gc dc"
    by (auto simp: s drain_pending_deliveries_def bind_act_def on_db_def bind_result_def split: sum.splits prod.splits)
  have "dc_executed dc = dc_claimed dc + dc_blocked dc
      \<and> dc_claimed dc = dc_succeeded dc + dc_retryable dc + dc_quarantined dc
      \<and> dc_executed dc \<le> length ?sel \<and> (dc_runtime_exceeded dc \<or> dc_executed dc = length ?sel)"
    using drain_loop_sums [OF l] by (auto simp: no_counts_def)
  then show ?thesis
    using gate_selected_sums [OF g] select_jobs_bound [of "[]" limit db now EXECUTABLE_STATUSES]
    by (auto simp: r drain_report_of_def Let_def)
qed

end
