(* ===== verification/Samples.thy ===== *)
theory Samples
  imports Delivery
begin

text \<open>
  Concrete instants, rows, databases and a backend, small enough to be evaluated: the data on
  which the properties of the development are shown to be applicable.
\<close>

definition sec :: "nat \<Rightarrow> datetime" where
  "sec n = dt_of (n * 1000000)"

lemma us_of_sec: "n < 86400 \<Longrightarrow> us_of (sec n) = n * 1000000"
  by (simp add: sec_def MAX_US_def)

lemma sec_less [simp]: "n < 86400 \<Longrightarrow> m < 86400 \<Longrightarrow> sec n < sec m \<longleftrightarrow> n < m"
  by (simp add: less_us_of us_of_sec)

lemma sec_le [simp]: "n < 86400 \<Longrightarrow> m < 86400 \<Longrightarrow> sec n \<le> sec m \<longleftrightarrow> n \<le> m"
  by (simp add: le_us_of us_of_sec)

lemma dt_add_sec [simp]: "n < 86400 \<Longrightarrow> n + m < 86400 \<Longrightarrow> dt_add (sec n) (int m) = Inr (sec (n + m))"
  by (simp add: dt_add_def Let_def us_of_sec MAX_US_def nat_add_distrib nat_mult_distrib sec_def algebra_simps)

lemma dt_add_sec_numeral [simp]:
  "n < 86400 \<Longrightarrow> n + numeral m < 86400 \<Longrightarrow> dt_add (sec n) (numeral m) = Inr (sec (n + numeral m))"
  using dt_add_sec [of n "numeral m"] by simp

definition sample_command :: command_row where
  "sample_command = \<lparr>cmd_id = ''cmd-1'', cmd_type = ''ingest'', cmd_resource_id_hash = '''',
     cmd_session_id_hash = '''', cmd_idempotency_key = ''key-1'', cmd_payload_hash = ''hash-1'',
     cmd_input_epoch = '''', cmd_status = ''completed'', cmd_lease_owner = '''', cmd_lease_until = '''',
     cmd_attempt_count = 0, cmd_last_error_class = '''', cmd_created_at = iso (sec 0), cmd_updated_at = iso (sec 0)\<rparr>"

definition sample_job :: "string \<Rightarrow> int \<Rightarrow> string \<Rightarrow> delivery_job" where
  "sample_job status attempts next_retry_at = \<lparr>job_id = ''job-1'', job_command_id = ''cmd-1'',
     job_idempotency_key = ''key-1'', job_payload_hash = ''hash-1'', job_target_profile = ''profile'',
     job_document_kind = ''note'', job_status = status, job_attempt_count = attempts,
     job_next_retry_at = next_retry_at, job_lease_owner = '''', job_lease_until = '''',
     job_index_target_id = '''', job_index_document_id = '''', job_index_run_id = '''',
     job_last_error_class = '''', job_last_reconciled_at = '''', job_created_at = iso (sec 0),
     job_updated_at = iso (sec 0)\<rparr>"

definition sample_db :: "delivery_job \<Rightarrow> state_db" where
  "sample_db j = empty_db\<lparr>commands := [sample_command], delivery_jobs := [j]\<rparr>"

lemma sample_db_wf: "job_ok j \<Longrightarrow> job_command_id j = ''cmd-1'' \<Longrightarrow> db_wf (sample_db j)"
  by (simp add: sample_db_def empty_db_def wf_defs sample_command_def command_ok_def)

lemma sample_db_job_wf [simp]: "0 \<le> n \<Longrightarrow> db_wf (sample_db (sample_job st n due))"
  by (rule sample_db_wf) (simp_all add: sample_job_def job_ok_def)

lemma sample_db_get [simp]:
  "get_delivery_job (sample_db (sample_job st n due)) ''job-1'' = Some (sample_job st n due)"
  "get_domain_record (sample_db j) k = None"
  "get_command (sample_db j) ''cmd-1'' = Some sample_command"
  by (simp_all add: get_delivery_job_def sample_db_def sample_job_def get_domain_record_def empty_db_def
      get_command_def sample_command_def)

lemma sample_job_sel [simp]:
  "job_status (sample_job st n due) = st" "job_attempt_count (sample_job st n due) = n"
  "job_next_retry_at (sample_job st n due) = due" "job_lease_owner (sample_job st n due) = ''''"
  "job_lease_until (sample_job st n due) = ''''" "job_id (sample_job st n due) = ''job-1''"
  "job_idempotency_key (sample_job st n due) = ''key-1''"
  by (simp_all add: sample_job_def)

text \<open>A backend whose submissions always end uncertain; its world counts them.\<close>

definition uncertain_backend :: "nat backend" where
  "uncertain_backend = \<lparr>submit = (\<lambda>v (n, db). (Inl (DeliveryOutcomeUncertain ''timeout''), (Suc n, db))),
     find_by_natural_key = (\<lambda>k h. return_act None), backend_status = (\<lambda>a b. return_act None)\<rparr>"

lemma quiet_uncertain [simp]: "quiet uncertain_backend"
  by (simp add: quiet_def uncertain_backend_def handled_def)

lemma uncertain_keeps [simp]: "backend_keeps P uncertain_backend"
  by (simp add: backend_keeps_def uncertain_backend_def)

definition sample_request :: command_request where
  "sample_request = \<lparr>rq_command_id = ''cmd-2'', rq_command_type = ''ingest'', rq_idempotency_key = ''key-2'',
     rq_payload_hash = ''hash-2'',
     rq_result = \<lparr>rspec_decision = ''accepted'', rspec_payload_ref = '''', rspec_domain_versions_written = None,
       rspec_error_class = ''''\<rparr>,
     rq_domain_records = [],
     rq_delivery_jobs = [\<lparr>spec_job_id = ''job-2'', spec_target_profile = ''profile'', spec_document_kind = ''note'',
       spec_idempotency_key = ''key-2'', spec_payload_hash = ''hash-2'', spec_status = ''pending'',
       spec_next_retry_at = ''''\<rparr>],
     rq_validate = None, rq_mutate = None, rq_inbox_event_id = '''', rq_resource_id_hash = '''',
     rq_session_id_hash = '''', rq_input_epoch = '''', rq_lease_owner = ''command-transaction'',
     rq_lease_seconds = 60, rq_inject_failure_at = ''''\<rparr>"

lemma no_callbacks_sample [simp]: "no_callbacks sample_request"
  by (simp add: no_callbacks_def sample_request_def)

definition sample_payload :: "string \<Rightarrow> dict" where
  "sample_payload body = [(''idempotencyKey'', JStr ''key-3''), (''contentHash'', JStr (sha256_ref body)),
     (''payload'', JObj [(''document'', JObj [(''body'', JStr body)])])]"

lemma sample_payload_wf [simp]: "json_wf (JObj (sample_payload body))"
  by (simp add: sample_payload_def)

end
