(* ===== verification/Py_Text.thy ===== *)
theory Py_Text
  imports Py_Json
begin

text \<open>
  The operations of Python's \<open>str\<close> that the lane uses, on code points below 256: \<open>startswith\<close>,
  \<open>in\<close>, \<open>lower\<close>, \<open>split\<close>, \<open>strip\<close> and \<open>int(s)\<close>.
\<close>

section \<open>Texts\<close>

definition starts_with :: "string \<Rightarrow> string \<Rightarrow> bool" where
  "starts_with p s \<longleftrightarrow> take (length p) s = p"

fun contains_text :: "string \<Rightarrow> string \<Rightarrow> bool" where
  "contains_text p [] = (p = [])"
| "contains_text p (c # cs) = (starts_with p (c # cs) \<or> contains_text p cs)"

text \<open>\<open>str.lower()\<close> on code points below 256.\<close>

definition lower_char :: "char \<Rightarrow> char" where
  "lower_char c = (if 65 \<le> code c \<and> code c \<le> 90 \<or> 192 \<le> code c \<and> code c \<le> 222 \<and> code c \<noteq> 215
     then char_of (code c + 32) else c)"

definition py_lower :: "string \<Rightarrow> string" where
  "py_lower s = map lower_char s"

text \<open>\<open>s.split(sep)\<close> for a one-character separator.\<close>

fun split_on :: "char \<Rightarrow> string \<Rightarrow> string list" where
  "split_on sep [] = [[]]"
| "split_on sep (c # cs) =
    (if c = sep then [] # split_on sep cs
     else case split_on sep cs of [] \<Rightarrow> [[c]] | w # ws \<Rightarrow> (c # w) # ws)"

text \<open>\<open>int(s)\<close> of a text, and the line feed.\<close>

definition is_space :: "char \<Rightarrow> bool" where
  "is_space c \<longleftrightarrow> code c \<in> {9, 10, 11, 12, 13, 28, 29, 30, 31, 32, 133, 160}"

definition py_strip :: "string \<Rightarrow> string" where
  "py_strip s = rev (dropWhile is_space (rev (dropWhile is_space s)))"

definition py_int_of :: "string \<Rightarrow> int result" where
  "py_int_of s =
    (let t = py_strip s;
         u = (if starts_with ''-'' t \<or> starts_with ''+'' t then tl t else t);
         parts = split_on (CHR ''_'') u
     in if list_all (\<lambda>p. p \<noteq> [] \<and> list_all is_digit_char p) parts
        then Inr (if starts_with ''-'' t then - int (undigits 0 (concat parts)) else int (undigits 0 (concat parts)))
        else Inl (ValueError ''invalid literal for int() with base 10''))"

definition NL :: string where "NL = [char_of (10::nat)]"

fun int_of_json :: "json \<Rightarrow> int result" where
  "int_of_json (JInt i) = Inr i"
| "int_of_json (JBool b) = Inr (if b then 1 else 0)"
| "int_of_json (JStr s) = py_int_of s"
| "int_of_json _ = Inl (TypeError ''int'')"

text \<open>The code's \<open>int(x or d)\<close>.\<close>

definition int_or :: "json \<Rightarrow> int \<Rightarrow> int result" where
  "int_or v d = (if truthy v then int_of_json v else Inr d)"

lemma starts_with_Nil [simp]: "starts_with p [] \<longleftrightarrow> p = []"
  by (auto simp: starts_with_def)

lemma split_on_plain: "c \<notin> set s \<Longrightarrow> split_on c s = [s]"
  by (induction s) auto

text \<open>Evaluation of the character tests on binary numerals.\<close>

lemma int_code: "int (code c) = of_char c"
  by (simp add: code_def of_char_def horner_sum_simps)

lemma code_le_int: "numeral m \<le> code c \<longleftrightarrow> numeral m \<le> (of_char c :: int)" "code c \<le> numeral m \<longleftrightarrow> (of_char c :: int) \<le> numeral m"
  "code c = numeral m \<longleftrightarrow> (of_char c :: int) = numeral m"
  by (auto simp flip: int_code)

lemma is_space_code [code]:
  "is_space c \<longleftrightarrow> (let i = (of_char c :: int) in 9 \<le> i \<and> i \<le> 13 \<or> 28 \<le> i \<and> i \<le> 32 \<or> i = 133 \<or> i = 160)"
  unfolding is_space_def Let_def code_le_int [symmetric] by auto

lemma lower_char_code [code]:
  "lower_char c = (let i = (of_char c :: int) in
     if 65 \<le> i \<and> i \<le> 90 \<or> 192 \<le> i \<and> i \<le> 222 \<and> i \<noteq> 215 then char_of (i + 32) else c)"
proof -
  have "char_of ((of_char c :: int) + 32) = (char_of (code c + 32) :: char)"
    using char_of_nat [of "code c + 32", where 'a = int] by (simp add: int_code)
  then show ?thesis unfolding lower_char_def Let_def code_le_int by simp
qed

end
