(* ===== verification/Redaction.thy ===== *)
theory Redaction
  imports Py_Text
begin

text \<open>
  The redaction of \<open>redaction.py\<close> and the leak scan of \<open>rag_ingress/server_runtime.py\<close>.  The patterns
  are values of a small type of regular expressions, matched as Python's backtracking matcher does:
  \<open>runs\<close> lists every way to match at a place in the order in which the matcher tries them, so that its
  first element is the match found.  The constructs are those the patterns use.  \<open>IGNORECASE\<close> is
  part of the literals and classes (on code points below 256 it compares lower-cased characters).

  Shown here: a text without a match is kept, a substitution never completes a word that its
  replacement shields, and so the public redaction leaves no local path in any text.
\<close>

section \<open>Regular expressions\<close>

datatype regex =
    Eps
  | One "char \<Rightarrow> bool"
  | Seq regex regex
  | Alt regex regex
  | Star "char \<Rightarrow> bool"
  | Lazy_Star "char \<Rightarrow> bool"
  | Group nat regex
  | Backref nat
  | Word_Boundary

text \<open>A place in a text: what is before it (last character first), what follows, and the groups set so far.\<close>

record cursor =
  cur_before :: string
  cur_rest :: string
  cur_groups :: "(nat \<times> string) list"

definition group :: "cursor \<Rightarrow> nat \<Rightarrow> string" where
  "group c n = (case map_of (cur_groups c) n of Some t \<Rightarrow> t | None \<Rightarrow> [])"

text \<open>A character \<open>\\w\<close> matches: \<open>str.isalnum\<close> or the underscore.\<close>

definition is_word :: "char \<Rightarrow> bool" where
  "is_word c \<longleftrightarrow> (let n = code c in 48 \<le> n \<and> n \<le> 57 \<or> 65 \<le> n \<and> n \<le> 90 \<or> n = 95 \<or> 97 \<le> n \<and> n \<le> 122
     \<or> n \<in> {170, 178, 179, 181, 185, 186, 188, 189, 190} \<or> 192 \<le> n \<and> n \<noteq> 215 \<and> n \<noteq> 247)"

definition word_at :: "string \<Rightarrow> bool" where
  "word_at s = (case s of [] \<Rightarrow> False | c # _ \<Rightarrow> is_word c)"

text \<open>The places reached by repeating a class, the longest first and the shortest first.\<close>

primrec greedy :: "(char \<Rightarrow> bool) \<Rightarrow> (nat \<times> string) list \<Rightarrow> string \<Rightarrow> string \<Rightarrow> cursor list" where
  "greedy p g pre [] = [\<lparr>cur_before = pre, cur_rest = [], cur_groups = g\<rparr>]"
| "greedy p g pre (c # cs) =
    (if p c then greedy p g (c # pre) cs else []) @ [\<lparr>cur_before = pre, cur_rest = c # cs, cur_groups = g\<rparr>]"

primrec reluctant :: "(char \<Rightarrow> bool) \<Rightarrow> (nat \<times> string) list \<Rightarrow> string \<Rightarrow> string \<Rightarrow> cursor list" where
  "reluctant p g pre [] = [\<lparr>cur_before = pre, cur_rest = [], cur_groups = g\<rparr>]"
| "reluctant p g pre (c # cs) =
    \<lparr>cur_before = pre, cur_rest = c # cs, cur_groups = g\<rparr> # (if p c then reluctant p g (c # pre) cs else [])"

text \<open>The characters between two places.\<close>

definition between :: "cursor \<Rightarrow> cursor \<Rightarrow> string" where
  "between c d = take (length (cur_rest c) - length (cur_rest d)) (cur_rest c)"

definition advance :: "nat \<Rightarrow> cursor \<Rightarrow> cursor" where
  "advance n c = c\<lparr>cur_before := rev (take n (cur_rest c)) @ cur_before c, cur_rest := drop n (cur_rest c)\<rparr>"

text \<open>A reference to a group that is not set does not match; case is ignored, as in the pattern that has one.\<close>

primrec runs :: "regex \<Rightarrow> cursor \<Rightarrow> cursor list" where
  "runs Eps c = [c]"
| "runs (One p) c = (case cur_rest c of [] \<Rightarrow> [] | x # _ \<Rightarrow> if p x then [advance 1 c] else [])"
| "runs (Seq r q) c = concat (map (runs q) (runs r c))"
| "runs (Alt r q) c = runs r c @ runs q c"
| "runs (Star p) c = greedy p (cur_groups c) (cur_before c) (cur_rest c)"
| "runs (Lazy_Star p) c = reluctant p (cur_groups c) (cur_before c) (cur_rest c)"
| "runs (Group n r) c = map (\<lambda>d. d\<lparr>cur_groups := (n, between c d) # cur_groups d\<rparr>) (runs r c)"
| "runs (Backref n) c = (case map_of (cur_groups c) n of
     None \<Rightarrow> []
   | Some t \<Rightarrow> if map lower_char (take (length t) (cur_rest c)) = map lower_char t then [advance (length t) c] else [])"
| "runs Word_Boundary c = (if word_at (cur_before c) \<noteq> word_at (cur_rest c) then [c] else [])"

text \<open>
  \<open>pattern.search\<close> and \<open>pattern.sub\<close>: the text is scanned from the left, a match is replaced and the
  scan goes on behind it.  A match of the module's patterns is not empty (shown below), so an empty one is skipped.
\<close>

fun matches_from :: "regex \<Rightarrow> string \<Rightarrow> string \<Rightarrow> bool" where
  "matches_from r pre [] = (runs r \<lparr>cur_before = pre, cur_rest = [], cur_groups = []\<rparr> \<noteq> [])"
| "matches_from r pre (c # cs) =
    (runs r \<lparr>cur_before = pre, cur_rest = c # cs, cur_groups = []\<rparr> \<noteq> [] \<or> matches_from r (c # pre) cs)"

definition re_search :: "regex \<Rightarrow> string \<Rightarrow> bool" where
  "re_search r s = matches_from r [] s"

function sub_from :: "regex \<Rightarrow> (cursor \<Rightarrow> string) \<Rightarrow> string \<Rightarrow> string \<Rightarrow> string" where
  "sub_from r f pre [] = []"
| "sub_from r f pre (c # cs) =
    (case runs r \<lparr>cur_before = pre, cur_rest = c # cs, cur_groups = []\<rparr> of
       [] \<Rightarrow> c # sub_from r f (c # pre) cs
     | m # _ \<Rightarrow> if length (cur_rest m) \<le> length cs then f m @ sub_from r f (cur_before m) (cur_rest m)
                else c # sub_from r f (c # pre) cs)"
  by pat_completeness auto
termination
  by (relation "measure (\<lambda>(r, f, pre, rest). length rest)") auto

definition re_sub :: "regex \<Rightarrow> (cursor \<Rightarrow> string) \<Rightarrow> string \<Rightarrow> string" where
  "re_sub r f s = sub_from r f [] s"

lemma is_word_code [code]:
  "is_word c \<longleftrightarrow> (let n = (of_char c :: int) in 48 \<le> n \<and> n \<le> 57 \<or> 65 \<le> n \<and> n \<le> 90 \<or> n = 95 \<or> 97 \<le> n \<and> n \<le> 122
     \<or> 170 \<le> n \<and> (n = 170 \<or> n = 178 \<or> n = 179 \<or> n = 181 \<or> n = 185 \<or> n = 186 \<or> n = 188 \<or> n = 189 \<or> n = 190
       \<or> 192 \<le> n \<and> n \<noteq> 215 \<and> n \<noteq> 247))"
  unfolding is_word_def Let_def code_le_int [symmetric] by auto

section \<open>Parts of patterns\<close>

primrec literal :: "string \<Rightarrow> regex" where
  "literal [] = Eps"
| "literal (c # cs) = Seq (One (\<lambda>d. d = c)) (literal cs)"

primrec caseless :: "string \<Rightarrow> regex" where
  "caseless [] = Eps"
| "caseless (c # cs) = Seq (One (\<lambda>d. lower_char d = lower_char c)) (caseless cs)"

fun one_of :: "regex list \<Rightarrow> regex" where
  "one_of [] = Alt Eps Eps"
| "one_of [r] = r"
| "one_of (r # rs) = Alt r (one_of rs)"

fun seq :: "regex list \<Rightarrow> regex" where
  "seq [] = Eps"
| "seq [r] = r"
| "seq (r # rs) = Seq r (seq rs)"

definition optional :: "regex \<Rightarrow> regex" where
  "optional r = Alt r Eps"

definition plus :: "(char \<Rightarrow> bool) \<Rightarrow> regex" where
  "plus p = Seq (One p) (Star p)"

primrec at_least :: "nat \<Rightarrow> (char \<Rightarrow> bool) \<Rightarrow> regex" where
  "at_least 0 p = Star p"
| "at_least (Suc n) p = Seq (One p) (at_least n p)"

definition none_of :: "string \<Rightarrow> char \<Rightarrow> bool" where
  "none_of s c \<longleftrightarrow> c \<notin> set s"

definition any_of :: "string \<Rightarrow> char \<Rightarrow> bool" where
  "any_of s c \<longleftrightarrow> c \<in> set s"

definition not_space :: "char \<Rightarrow> bool" where
  "not_space c \<longleftrightarrow> \<not> is_space c"

definition ascii_alnum :: "char \<Rightarrow> bool" where
  "ascii_alnum c \<longleftrightarrow> (let n = code c in 48 \<le> n \<and> n \<le> 57 \<or> 65 \<le> n \<and> n \<le> 90 \<or> 97 \<le> n \<and> n \<le> 122)"

lemma ascii_alnum_code [code]:
  "ascii_alnum c \<longleftrightarrow> (let n = (of_char c :: int) in 48 \<le> n \<and> n \<le> 57 \<or> 65 \<le> n \<and> n \<le> 90 \<or> 97 \<le> n \<and> n \<le> 122)"
  unfolding ascii_alnum_def Let_def code_le_int [symmetric] by auto

definition word_or_hyphen :: "char \<Rightarrow> bool" where
  "word_or_hyphen c \<longleftrightarrow> ascii_alnum c \<or> any_of ''_-'' c"

definition word_or_underscore :: "char \<Rightarrow> bool" where
  "word_or_underscore c \<longleftrightarrow> ascii_alnum c \<or> c = CHR ''_''"

text \<open>The double quote, the apostrophe, the tabulator and the carriage return are written by their code points.\<close>

definition DQ :: char where "DQ = CHR 0x22"
definition SQ :: char where "SQ = CHR 0x27"
definition TAB :: char where "TAB = CHR 0x09"
definition CR :: char where "CR = CHR 0x0D"
definition LF :: char where "LF = CHR 0x0A"

definition path_char :: "char \<Rightarrow> bool" where
  "path_char = none_of [CHR '' '', LF, TAB, SQ, DQ]"

definition secret_value :: regex where
  "secret_value = one_of
    [seq [One (\<lambda>c. c = DQ), Star (\<lambda>c. c \<noteq> DQ), One (\<lambda>c. c = DQ)],
     seq [One (\<lambda>c. c = SQ), Star (\<lambda>c. c \<noteq> SQ), One (\<lambda>c. c = SQ)],
     plus (none_of [CHR '' '', LF, TAB, CHR '','', SQ, DQ, CHR ''}''])]"

text \<open>\<open>\\s*[:=]\\s*\<close>.\<close>

definition assigned :: regex where
  "assigned = seq [Star is_space, One (any_of '':=''), Star is_space]"

section \<open>The patterns\<close>

definition PRIVATE_PATH_RE :: regex where
  "PRIVATE_PATH_RE = seq [literal ''/Users/'', plus path_char, literal ''/.'', plus (\<lambda>c. path_char c \<and> c \<noteq> CHR ''/''),
     literal ''/private/'', plus path_char]"

definition PROVIDER_TRANSCRIPT_PATH_RE :: regex where
  "PROVIDER_TRANSCRIPT_PATH_RE = seq [caseless ''/Users/'', plus path_char, caseless ''/.'',
     Group 1 (one_of [caseless ''claude'', caseless ''gemini'', caseless ''codex'', caseless ''grok'']),
     caseless ''/'', plus path_char]"

definition AGENT_KNOWLEDGE_RUNTIME_PATH_RE :: regex where
  "AGENT_KNOWLEDGE_RUNTIME_PATH_RE = seq [literal ''/Users/'', plus path_char, literal ''/'', One (\<lambda>c. c \<noteq> LF),
     literal ''openclaw/agent-knowledge/'', plus path_char]"

definition LOCAL_USER_PATH_RE :: regex where
  "LOCAL_USER_PATH_RE = Seq (caseless ''/Users/'') (plus not_space)"

definition LOCAL_HOME_PATH_RE :: regex where
  "LOCAL_HOME_PATH_RE = Seq (caseless ''~/'') (plus not_space)"

definition LOCAL_PRIVATE_PATH_RE :: regex where
  "LOCAL_PRIVATE_PATH_RE = Seq (caseless ''/private/'') (plus not_space)"

definition LOCAL_VOLUMES_PATH_RE :: regex where
  "LOCAL_VOLUMES_PATH_RE = Seq (caseless ''/Volumes/'') (plus not_space)"

definition sentinel :: "string \<Rightarrow> char \<Rightarrow> regex" where
  "sentinel start stop = seq [caseless start, Star (\<lambda>c. c \<noteq> stop),
     one_of [caseless ''path'', caseless ''locator'', caseless ''source''], Star (\<lambda>c. c \<noteq> stop), One (\<lambda>c. c = stop)]"

definition PRIVATE_LOCATOR_SENTINEL_RE :: regex where
  "PRIVATE_LOCATOR_SENTINEL_RE = one_of [sentinel ''<private-'' (CHR ''>''), sentinel ''[private-'' (CHR '']'')]"

definition whole_word :: "regex \<Rightarrow> regex" where
  "whole_word r = seq [Word_Boundary, r, Word_Boundary]"

definition PRIVATE_LOCATOR_TERM_RE :: regex where
  "PRIVATE_LOCATOR_TERM_RE = whole_word (caseless ''private_locator'')"

definition DEFAULT_V1_PRIVATE_PATH_PATTERNS :: "regex list" where
  "DEFAULT_V1_PRIVATE_PATH_PATTERNS = [PRIVATE_PATH_RE]"

definition DEFAULT_PRIVATE_PATH_PATTERNS :: "regex list" where
  "DEFAULT_PRIVATE_PATH_PATTERNS = [PRIVATE_PATH_RE, PROVIDER_TRANSCRIPT_PATH_RE, AGENT_KNOWLEDGE_RUNTIME_PATH_RE,
     PRIVATE_LOCATOR_SENTINEL_RE]"

text \<open>\<open>[_-]?\<close>.\<close>

definition separator :: regex where
  "separator = optional (One (any_of ''_-''))"

definition RAW_TRANSCRIPT_TERM_RE :: regex where
  "RAW_TRANSCRIPT_TERM_RE = whole_word (seq [caseless ''raw'', separator, caseless ''transcript'', Star word_or_hyphen])"

definition DATASET_IDS_TERM_RE :: regex where
  "DATASET_IDS_TERM_RE = Alt (whole_word (caseless ''dataset_ids'')) (whole_word (caseless ''datasetId''))"

definition DATASET_ID_TERM_RE :: regex where
  "DATASET_ID_TERM_RE = whole_word (caseless ''dataset_id'')"

definition DOCUMENT_IDS_TERM_RE :: regex where
  "DOCUMENT_IDS_TERM_RE = Alt (whole_word (caseless ''document_ids'')) (whole_word (caseless ''documentId''))"

definition DOCUMENT_ID_TERM_RE :: regex where
  "DOCUMENT_ID_TERM_RE = whole_word (caseless ''document_id'')"

definition AUTHORIZATION_TERM_RE :: regex where
  "AUTHORIZATION_TERM_RE = whole_word (caseless ''Authorization'')"

definition API_KEY_TERM_RE :: regex where
  "API_KEY_TERM_RE = Alt (whole_word (seq [caseless ''api'', separator, caseless ''key'', Star word_or_hyphen]))
     (whole_word (seq [caseless ''apiKey'', Star word_or_hyphen]))"

definition ACCESS_TOKEN_TERM_RE :: regex where
  "ACCESS_TOKEN_TERM_RE = Alt (whole_word (seq [caseless ''access'', separator, caseless ''token'', Star word_or_hyphen]))
     (whole_word (caseless ''token''))"

definition SECRET_ASSIGNMENT_RE :: regex where
  "SECRET_ASSIGNMENT_RE = seq
    [Word_Boundary, optional (seq [caseless ''export'', plus is_space]), Star word_or_underscore,
     Group 1 (one_of (map caseless [''TOKEN'', ''SECRET'', ''API_KEY'', ''PASSWORD'', ''PASSWD''])), Word_Boundary,
     assigned, Group 2 secret_value]"

definition BEARER_RE :: regex where
  "BEARER_RE = seq [caseless ''Bearer'', plus is_space, One ascii_alnum,
     at_least 8 (\<lambda>c. ascii_alnum c \<or> any_of ''._-'' c)]"

definition PUBLIC_BEARER_RE :: regex where
  "PUBLIC_BEARER_RE = seq [whole_word (caseless ''Bearer''), Star is_space, Star not_space]"

definition BASIC_AUTH_RE :: regex where
  "BASIC_AUTH_RE = seq [caseless ''Basic'', plus is_space, at_least 8 (\<lambda>c. ascii_alnum c \<or> any_of ''+/='' c)]"

definition COOKIE_HEADER_RE :: regex where
  "COOKIE_HEADER_RE = seq [Word_Boundary, Group 1 (one_of [caseless ''Cookie'', caseless ''Set-Cookie'']), Word_Boundary,
     assigned, plus (none_of [LF, CR])]"

definition SERIALIZED_COOKIE_HEADER_RE :: regex where
  "SERIALIZED_COOKIE_HEADER_RE = seq
    [Group 1 (seq [One (any_of [DQ, SQ]), one_of [caseless ''Cookie'', caseless ''Set-Cookie''], One (any_of [DQ, SQ]),
       Star is_space, One (\<lambda>c. c = CHR '':''), Star is_space]),
     Group 2 (One (any_of [DQ, SQ])), Group 3 (Lazy_Star (\<lambda>c. c \<noteq> LF)), Group 4 (Backref 2)]"

definition header_value :: "char \<Rightarrow> bool" where
  "header_value = none_of [CHR '' '', LF, TAB, CHR '','', CHR '';'']"

definition AUTH_HEADER_RE :: regex where
  "AUTH_HEADER_RE = seq
    [Word_Boundary,
     Group 1 (one_of (map caseless [''Authorization'', ''X-Api-Key'', ''Api-Key'', ''Cookie'', ''Set-Cookie''])),
     Word_Boundary, assigned,
     Group 2 (one_of [seq [caseless ''Bearer'', plus is_space, plus header_value],
       seq [caseless ''Basic'', plus is_space, plus header_value], plus header_value])]"

definition CREDENTIAL_URL_RE :: regex where
  "CREDENTIAL_URL_RE = seq [literal ''://'', plus (\<lambda>c. not_space c \<and> none_of ''/:@'' c), literal '':'',
     plus (\<lambda>c. not_space c \<and> none_of ''@/'' c), literal ''@'']"

definition LOWER_SECRET_ASSIGNMENT_RE :: regex where
  "LOWER_SECRET_ASSIGNMENT_RE = seq
    [Word_Boundary,
     Group 1 (one_of [caseless ''password'', caseless ''passwd'', caseless ''secret'', caseless ''token'',
       seq [caseless ''api'', separator, caseless ''key'']]), Word_Boundary,
     assigned, Group 2 secret_value]"

section \<open>Redaction\<close>

definition redact_with :: "string \<Rightarrow> regex \<Rightarrow> string \<Rightarrow> string" where
  "redact_with replacement r s = re_sub r (\<lambda>_. replacement) s"

definition header_redacted :: "cursor \<Rightarrow> string" where
  "header_redacted m = group m 1 @ '': <redacted:secret>''"

definition serialized_redacted :: "cursor \<Rightarrow> string" where
  "serialized_redacted m = group m 1 @ group m 2 @ ''<redacted:secret>'' @ group m 4"

definition redact_text :: "string \<Rightarrow> string" where
  "redact_text s =
    (let s1 = fold (redact_with ''<redacted:private-path>'') DEFAULT_V1_PRIVATE_PATH_PATTERNS s;
         s2 = redact_with ''Bearer <redacted:secret>'' BEARER_RE s1
     in redact_with ''<redacted:secret>'' SECRET_ASSIGNMENT_RE s2)"

definition redact_text_v2 :: "string \<Rightarrow> string" where
  "redact_text_v2 s =
    (let s1 = fold (redact_with ''<redacted:private-path>'') DEFAULT_PRIVATE_PATH_PATTERNS s;
         s2 = redact_with ''://<redacted:secret>@'' CREDENTIAL_URL_RE s1;
         s3 = re_sub SERIALIZED_COOKIE_HEADER_RE serialized_redacted s2;
         s4 = re_sub COOKIE_HEADER_RE header_redacted s3;
         s5 = re_sub AUTH_HEADER_RE header_redacted s4;
         s6 = redact_with ''Bearer <redacted:secret>'' BEARER_RE s5;
         s7 = redact_with ''Basic <redacted:secret>'' BASIC_AUTH_RE s6;
         s8 = redact_with ''<redacted:secret>'' SECRET_ASSIGNMENT_RE s7
     in redact_with ''<redacted:secret>'' LOWER_SECRET_ASSIGNMENT_RE s8)"

definition public_replacements :: "(string \<times> regex) list" where
  "public_replacements =
    [(''[redacted_path]'', LOCAL_USER_PATH_RE), (''[redacted_path]'', LOCAL_HOME_PATH_RE),
     (''[redacted_path]'', LOCAL_PRIVATE_PATH_RE), (''[redacted_path]'', LOCAL_VOLUMES_PATH_RE),
     (''credential_header'', AUTHORIZATION_TERM_RE), (''credential_scheme <redacted_secret>'', PUBLIC_BEARER_RE),
     (''credential_key'', API_KEY_TERM_RE), (''credential'', ACCESS_TOKEN_TERM_RE),
     (''dataset_refs'', DATASET_IDS_TERM_RE), (''dataset_ref'', DATASET_ID_TERM_RE),
     (''document_refs'', DOCUMENT_IDS_TERM_RE), (''document_ref'', DOCUMENT_ID_TERM_RE),
     (''redacted_locator'', PRIVATE_LOCATOR_TERM_RE), (''redacted transcript'', RAW_TRANSCRIPT_TERM_RE)]"

definition redact_public_ingress_text :: "string \<Rightarrow> string" where
  "redact_public_ingress_text s = fold (\<lambda>(replacement, r). redact_with replacement r) public_replacements (redact_text_v2 s)"

section \<open>The leak scan\<close>

definition leak_patterns :: "(string \<times> regex) list" where
  "leak_patterns =
    [(''private-path'', PROVIDER_TRANSCRIPT_PATH_RE), (''user-path'', LOCAL_USER_PATH_RE),
     (''home-path'', LOCAL_HOME_PATH_RE), (''private-path'', LOCAL_PRIVATE_PATH_RE),
     (''volumes-path'', LOCAL_VOLUMES_PATH_RE), (''bearer'', BEARER_RE), (''basic-auth'', BASIC_AUTH_RE),
     (''credential-url'', CREDENTIAL_URL_RE), (''secret-assignment'', SECRET_ASSIGNMENT_RE),
     (''secret-assignment'', LOWER_SECRET_ASSIGNMENT_RE)]"

definition public_ingress_leak_violations :: "string \<Rightarrow> string list" where
  "public_ingress_leak_violations s =
    (if s = [] then [] else map fst (filter (\<lambda>(name, r). re_search r s) leak_patterns))"

section \<open>Matches\<close>

lemma advance_rest [simp]: "cur_rest (advance n c) = drop n (cur_rest c)" "cur_groups (advance n c) = cur_groups c"
  by (simp_all add: advance_def)

lemma greedy_suffix: "d \<in> set (greedy p g pre s) \<Longrightarrow> \<exists>m. s = m @ cur_rest d"
  by (induction s arbitrary: pre) (auto split: if_splits, metis append_Cons)

lemma reluctant_suffix: "d \<in> set (reluctant p g pre s) \<Longrightarrow> \<exists>m. s = m @ cur_rest d"
  by (induction s arbitrary: pre) (auto split: if_splits, metis append_Cons)

lemma runs_suffix: "d \<in> set (runs r c) \<Longrightarrow> \<exists>m. cur_rest c = m @ cur_rest d"
proof (induction r arbitrary: c d)
  case (Seq r q)
  then obtain e where e: "e \<in> set (runs r c)" "d \<in> set (runs q e)" by auto
  obtain m m' where "cur_rest c = m @ cur_rest e" "cur_rest e = m' @ cur_rest d"
    using Seq.IH(1) [OF e(1)] Seq.IH(2) [OF e(2)] by blast
  then show ?case by simp
next
  case (Backref n)
  then show ?case by (auto split: option.splits if_splits) (metis append_take_drop_id)
next
  case (One p)
  then show ?case by (cases "cur_rest c") (auto split: if_splits)
next
  case (Group n r)
  then show ?case by fastforce
qed (auto dest: greedy_suffix reluctant_suffix split: if_splits)

text \<open>Expressions that never match the empty text, and those whose matches begin with a character of a class.\<close>

primrec consumes :: "regex \<Rightarrow> bool" where
  "consumes Eps = False"
| "consumes (One p) = True"
| "consumes (Seq r q) = (consumes r \<or> consumes q)"
| "consumes (Alt r q) = (consumes r \<and> consumes q)"
| "consumes (Star p) = False"
| "consumes (Lazy_Star p) = False"
| "consumes (Group n r) = consumes r"
| "consumes (Backref n) = False"
| "consumes Word_Boundary = False"

primrec first_in :: "(char \<Rightarrow> bool) \<Rightarrow> regex \<Rightarrow> bool" where
  "first_in q Eps = True"
| "first_in q (One p) = (\<forall>c. p c \<longrightarrow> q c)"
| "first_in q (Seq r s) = (first_in q r \<and> (consumes r \<or> first_in q s))"
| "first_in q (Alt r s) = (first_in q r \<and> first_in q s)"
| "first_in q (Star p) = (\<forall>c. p c \<longrightarrow> q c)"
| "first_in q (Lazy_Star p) = (\<forall>c. p c \<longrightarrow> q c)"
| "first_in q (Group n r) = first_in q r"
| "first_in q (Backref n) = False"
| "first_in q Word_Boundary = True"

lemma runs_shorter: "d \<in> set (runs r c) \<Longrightarrow> length (cur_rest d) \<le> length (cur_rest c)"
  using runs_suffix [of d r c] by auto

lemma consumes_shorter: "consumes r \<Longrightarrow> d \<in> set (runs r c) \<Longrightarrow> length (cur_rest d) < length (cur_rest c)"
proof (induction r arbitrary: c d)
  case (Seq r q)
  then obtain e where e: "e \<in> set (runs r c)" "d \<in> set (runs q e)" by auto
  then show ?case
    using Seq.IH(1) [OF _ e(1)] Seq.IH(2) [OF _ e(2)] Seq.prems(1) runs_shorter [OF e(1)] runs_shorter [OF e(2)] by auto
next
  case (Group n r)
  then show ?case by fastforce
next
  case (One p)
  then show ?case by (cases "cur_rest c") (auto split: if_splits)
qed auto

lemma greedy_first: "d \<in> set (greedy p g pre s) \<Longrightarrow> length (cur_rest d) < length s \<Longrightarrow> p (hd s)"
  by (cases s) (auto split: if_splits)

lemma reluctant_first: "d \<in> set (reluctant p g pre s) \<Longrightarrow> length (cur_rest d) < length s \<Longrightarrow> p (hd s)"
  by (cases s) (auto split: if_splits)

lemma first_in_hd:
  "first_in q r \<Longrightarrow> d \<in> set (runs r c) \<Longrightarrow> length (cur_rest d) < length (cur_rest c) \<Longrightarrow> q (hd (cur_rest c))"
proof (induction r arbitrary: c d)
  case (Seq r s)
  then obtain e where e: "e \<in> set (runs r c)" "d \<in> set (runs s e)" by auto
  show ?case
  proof (cases "length (cur_rest e) < length (cur_rest c)")
    case True
    then show ?thesis using Seq.IH(1) [OF _ e(1)] Seq.prems(1) by simp
  next
    case False
    then have eq: "cur_rest e = cur_rest c" using runs_suffix [OF e(1)] by auto
    then have "\<not> consumes r" using consumes_shorter [OF _ e(1)] by auto
    then show ?thesis using Seq.IH(2) [OF _ e(2)] Seq.prems eq by simp
  qed
next
  case (Group n r)
  then show ?case by fastforce
next
  case (One p)
  then show ?case by (cases "cur_rest c") (auto split: if_splits)
qed (auto dest: greedy_first reluctant_first split: if_splits)

lemma sub_from_no_match: "\<not> matches_from r pre s \<Longrightarrow> sub_from r f pre s = s"
  by (induction s arbitrary: pre) auto

lemma re_sub_no_match: "\<not> re_search r s \<Longrightarrow> re_sub r f s = s"
  by (simp add: re_search_def re_sub_def sub_from_no_match)

section \<open>Words followed by a visible character\<close>

primrec lead :: "string \<Rightarrow> string \<Rightarrow> bool" where
  "lead [] s = (case s of [] \<Rightarrow> False | x # _ \<Rightarrow> \<not> is_space x)"
| "lead (a # w) s = (case s of [] \<Rightarrow> False | x # xs \<Rightarrow> lower_char x = lower_char a \<and> lead w xs)"

primrec has_lead :: "string \<Rightarrow> string \<Rightarrow> bool" where
  "has_lead w [] = False"
| "has_lead w (c # cs) = (lead w (c # cs) \<or> has_lead w cs)"

abbreviation path_after :: "string \<Rightarrow> regex" where
  "path_after w \<equiv> Seq (caseless w) (plus not_space)"

lemma greedy_nonempty [simp]: "greedy p g pre s \<noteq> []"
  by (cases s) auto

lemma runs_path_after: "runs (path_after w) c \<noteq> [] \<longleftrightarrow> lead w (cur_rest c)"
proof (induction w arbitrary: c)
  case Nil
  then show ?case by (auto simp: plus_def not_space_def split: list.split)
next
  case (Cons a w)
  have "runs (path_after (a # w)) c = (case cur_rest c of [] \<Rightarrow> [] | x # _ \<Rightarrow> if lower_char x = lower_char a
      then runs (path_after w) (advance 1 c) else [])"
    by (auto split: list.split)
  then show ?case using Cons [of "advance 1 c"] by (auto split: list.splits)
qed

lemma lead_Nil [simp]: "\<not> lead w []"
  by (cases w) auto

lemma search_path_after: "re_search (path_after w) s \<longleftrightarrow> has_lead w s"
proof -
  have "matches_from (path_after w) pre s \<longleftrightarrow> has_lead w s" for pre
    by (induction s arbitrary: pre) (auto simp: runs_path_after simp del: runs.simps)
  then show ?thesis by (simp add: re_search_def)
qed

lemma has_lead_append: "has_lead w s \<Longrightarrow> has_lead w (m @ s)"
  by (induction m) auto

text \<open>A replacement is no part of an occurrence of the word: it cannot go on with the word nor start it.\<close>

fun clash :: "string \<Rightarrow> string \<Rightarrow> bool" where
  "clash (a # w) (c # cs) = (lower_char c \<noteq> lower_char a \<or> clash w cs)"
| "clash _ _ = False"

definition shields :: "string \<Rightarrow> string \<Rightarrow> bool" where
  "shields rep w \<longleftrightarrow> w \<noteq> [] \<and> list_all (\<lambda>c. lower_char c \<noteq> lower_char (hd w)) rep
    \<and> list_all (\<lambda>i. clash (drop i w) rep) [0..<length w]"

lemma clash_lead: "clash v rep \<Longrightarrow> \<not> lead v (rep @ x)"
  by (induction v rep rule: clash.induct) auto

lemma shields_lead: "shields rep w \<Longrightarrow> w = u @ v \<Longrightarrow> v \<noteq> [] \<Longrightarrow> \<not> lead v (rep @ x)"
  by (rule clash_lead) (auto simp: shields_def list_all_iff dest: bspec [of _ _ "length u"])

lemma shields_has_lead: "shields rep w \<Longrightarrow> has_lead w (rep @ x) \<Longrightarrow> has_lead w x"
proof -
  assume s: "shields rep w" and h: "has_lead w (rep @ x)"
  obtain a v where w: "w = a # v" using s by (cases w) (auto simp: shields_def)
  have "list_all (\<lambda>c. lower_char c \<noteq> lower_char a) rep" using s w by (simp add: shields_def)
  then show ?thesis using h w by (induction rep) auto
qed

text \<open>The matches of a pattern are not empty and begin with a visible character.\<close>

definition visible :: "regex \<Rightarrow> bool" where
  "visible r \<longleftrightarrow> consumes r \<and> first_in (\<lambda>c. \<not> is_space c) r"

text \<open>A step of the substitution: the character is kept, and then nothing matched there, or a match is replaced.\<close>

lemma sub_from_cases:
  assumes "visible r"
  obtains (kept) "sub_from r f pre (c # cs) = c # sub_from r f (c # pre) cs"
      "runs r \<lparr>cur_before = pre, cur_rest = c # cs, cur_groups = []\<rparr> = []"
  | (replaced) m u where "sub_from r f pre (c # cs) = f m @ sub_from r f (cur_before m) (cur_rest m)"
      "c # cs = u @ cur_rest m" "length (cur_rest m) < length (c # cs)" "\<not> is_space c"
proof (cases "runs r \<lparr>cur_before = pre, cur_rest = c # cs, cur_groups = []\<rparr>")
  case Nil
  then show ?thesis using kept by simp
next
  case (Cons m ms)
  then have m: "m \<in> set (runs r \<lparr>cur_before = pre, cur_rest = c # cs, cur_groups = []\<rparr>)" by simp
  have "length (cur_rest m) < length (c # cs)" using consumes_shorter [OF _ m] assms by (simp add: visible_def)
  moreover from this have "\<not> is_space c" using first_in_hd [OF _ m] assms by (auto simp: visible_def)
  moreover obtain u where "c # cs = u @ cur_rest m" using runs_suffix [OF m] by auto
  moreover have "sub_from r f pre (c # cs) = f m @ sub_from r f (cur_before m) (cur_rest m)"
    using Cons \<open>length (cur_rest m) < length (c # cs)\<close> by simp
  ultimately show ?thesis by (intro replaced)
qed

lemma sub_lead:
  assumes r: "visible r" and s: "shields rep w"
  shows "w = u @ v \<Longrightarrow> lead v (sub_from r (\<lambda>_. rep) pre t) \<Longrightarrow> lead v t"
proof (induction t arbitrary: u v pre)
  case (Cons c cs)
  from r show ?case
  proof (cases rule: sub_from_cases [where f = "\<lambda>_. rep" and pre = pre and c = c and cs = cs])
    case kept
    then show ?thesis using Cons.IH [of "u @ [_]" _ "c # pre"] Cons.prems by (cases v) auto
  next
    case (replaced m x)
    show ?thesis using replaced(1,4) Cons.prems(2) shields_lead [OF s Cons.prems(1)] by (cases v) simp_all
  qed
qed simp

lemma sub_has_lead:
  assumes r: "visible r" and s: "shields rep w"
  shows "has_lead w (sub_from r (\<lambda>_. rep) pre t) \<Longrightarrow> has_lead w t"
proof (induction t arbitrary: pre rule: length_induct)
  case (1 t)
  show ?case
  proof (cases t)
    case Nil
    then show ?thesis using 1 by simp
  next
    case (Cons c cs)
    from r show ?thesis
    proof (cases rule: sub_from_cases [where f = "\<lambda>_. rep" and pre = pre and c = c and cs = cs])
      case kept
      then show ?thesis
        using 1 Cons sub_lead [OF r s, of "[]" w pre t] by auto
    next
      case (replaced m u)
      then have "has_lead w (cur_rest m)"
        using 1 Cons shields_has_lead [OF s] by (metis length_Cons)
      then show ?thesis using replaced(2) Cons has_lead_append by metis
    qed
  qed
qed

lemma sub_kills_lead:
  assumes r: "visible (path_after w)" and s: "shields rep w"
  shows "\<not> has_lead w (sub_from (path_after w) (\<lambda>_. rep) pre t)"
proof (induction t arbitrary: pre rule: length_induct)
  case (1 t)
  show ?case
  proof (cases t)
    case (Cons c cs)
    from r show ?thesis
    proof (cases rule: sub_from_cases [where f = "\<lambda>_. rep" and pre = pre and c = c and cs = cs])
      case kept
      then have "\<not> lead w t" using runs_path_after [of w] Cons by (metis cursor.select_convs(2))
      then have "\<not> lead w (sub_from (path_after w) (\<lambda>_. rep) pre t)" using sub_lead [OF r s, of "[]" w] by auto
      then show ?thesis using kept(1) 1 Cons by auto
    next
      case (replaced m u)
      then show ?thesis using 1 Cons shields_has_lead [OF s] by (metis length_Cons)
    qed
  qed simp
qed

definition harmless :: "string \<Rightarrow> string \<times> regex \<Rightarrow> bool" where
  "harmless w = (\<lambda>(rep, r). visible r \<and> shields rep w)"

lemma fold_keeps_lead_out:
  "list_all (harmless w) rs \<Longrightarrow> \<not> has_lead w t \<Longrightarrow> \<not> has_lead w (fold (\<lambda>(rep, r). redact_with rep r) rs t)"
proof (induction rs arbitrary: t)
  case (Cons x rs)
  then have "\<not> has_lead w (redact_with (fst x) (snd x) t)"
    using sub_has_lead by (auto simp: harmless_def redact_with_def re_sub_def)
  then show ?case using Cons by (simp add: split_def)
qed simp

lemma fold_kills_lead:
  "list_all (harmless w) rs \<Longrightarrow> path_after w \<in> snd ` set rs \<Longrightarrow> \<not> has_lead w (fold (\<lambda>(rep, r). redact_with rep r) rs t)"
proof (induction rs arbitrary: t)
  case (Cons x rs)
  obtain rep r where x: "x = (rep, r)" by (cases x)
  show ?case
  proof (cases "r = path_after w")
    case True
    then have "\<not> has_lead w (redact_with rep r t)"
      using Cons.prems(1) x sub_kills_lead [of w rep] by (simp add: harmless_def redact_with_def re_sub_def)
    then show ?thesis using fold_keeps_lead_out [of w rs] Cons.prems(1) x by simp
  qed (use Cons x in auto)
qed simp

section \<open>No local path survives the public redaction\<close>

lemma lower_space: "is_space c \<Longrightarrow> lower_char c = c"
  by (auto simp: is_space_def lower_char_def)

lemma visible_caseless: "\<not> is_space (lower_char a) \<Longrightarrow> visible (Seq (caseless (a # w)) r)"
  by (auto simp: visible_def) (metis lower_space)+

lemma visible_parts:
  "visible (Alt r q) \<longleftrightarrow> visible r \<and> visible q" "visible (whole_word r) \<longleftrightarrow> visible r"
  "visible (Seq (whole_word r) q) \<longleftrightarrow> visible (Seq r q)"
  by (auto simp: visible_def whole_word_def)

lemma visible_word [simp]: "\<not> is_space (lower_char a) \<Longrightarrow> visible (caseless (a # w))"
  by (auto simp: visible_def) (metis lower_space)+

lemmas public_patterns = LOCAL_USER_PATH_RE_def LOCAL_HOME_PATH_RE_def LOCAL_PRIVATE_PATH_RE_def LOCAL_VOLUMES_PATH_RE_def
  AUTHORIZATION_TERM_RE_def PUBLIC_BEARER_RE_def API_KEY_TERM_RE_def ACCESS_TOKEN_TERM_RE_def DATASET_IDS_TERM_RE_def
  DATASET_ID_TERM_RE_def DOCUMENT_IDS_TERM_RE_def DOCUMENT_ID_TERM_RE_def PRIVATE_LOCATOR_TERM_RE_def RAW_TRANSCRIPT_TERM_RE_def

lemma initials: "list_all (\<lambda>c. \<not> is_space (lower_char c)) ''/~AaBdprt''"
  by code_simp

lemma public_visible: "list_all (visible \<circ> snd) public_replacements"
proof -
  have i: "\<not> is_space (lower_char c)" if "c \<in> set ''/~AaBdprt''" for c using initials that unfolding list_all_iff by blast
  show ?thesis
    by (simp add: public_replacements_def public_patterns visible_parts visible_caseless i del: caseless.simps)
qed

lemma public_shields: "list_all (\<lambda>w. list_all (\<lambda>rep. shields rep w) (map fst public_replacements)) [''/Users/'', ''~/'', ''/private/'', ''/Volumes/'']"
  by code_simp

lemma public_harmless: "w \<in> set [''/Users/'', ''~/'', ''/private/'', ''/Volumes/''] \<Longrightarrow> list_all (harmless w) public_replacements"
  using public_visible public_shields by (simp only: list_all_iff harmless_def) auto

lemma public_kills_lead:
  "w \<in> set [''/Users/'', ''~/'', ''/private/'', ''/Volumes/''] \<Longrightarrow> \<not> re_search (path_after w) (redact_public_ingress_text t)"
  unfolding redact_public_ingress_text_def search_path_after
  by (rule fold_kills_lead [OF public_harmless])
    (auto simp: public_replacements_def LOCAL_USER_PATH_RE_def LOCAL_HOME_PATH_RE_def LOCAL_PRIVATE_PATH_RE_def LOCAL_VOLUMES_PATH_RE_def simp del: caseless.simps)

lemma no_local_path:
  "\<not> re_search LOCAL_USER_PATH_RE (redact_public_ingress_text t)"
  "\<not> re_search LOCAL_HOME_PATH_RE (redact_public_ingress_text t)"
  "\<not> re_search LOCAL_PRIVATE_PATH_RE (redact_public_ingress_text t)"
  "\<not> re_search LOCAL_VOLUMES_PATH_RE (redact_public_ingress_text t)"
  unfolding LOCAL_USER_PATH_RE_def LOCAL_HOME_PATH_RE_def LOCAL_PRIVATE_PATH_RE_def LOCAL_VOLUMES_PATH_RE_def
  by (rule public_kills_lead; simp)+

section \<open>Texts the redactions keep, and where they are not stable\<close>

definition v2_patterns :: "regex list" where
  "v2_patterns = DEFAULT_PRIVATE_PATH_PATTERNS @ [CREDENTIAL_URL_RE, SERIALIZED_COOKIE_HEADER_RE, COOKIE_HEADER_RE, AUTH_HEADER_RE,
     BEARER_RE, BASIC_AUTH_RE, SECRET_ASSIGNMENT_RE, LOWER_SECRET_ASSIGNMENT_RE]"

lemma redact_text_v2_clean: "list_all (\<lambda>r. \<not> re_search r s) v2_patterns \<Longrightarrow> redact_text_v2 s = s"
  by (simp add: v2_patterns_def redact_text_v2_def DEFAULT_PRIVATE_PATH_PATTERNS_def redact_with_def re_sub_no_match)

lemma redact_public_clean:
  "list_all (\<lambda>r. \<not> re_search r s) (v2_patterns @ map snd public_replacements) \<Longrightarrow> redact_public_ingress_text s = s"
proof -
  assume a: "list_all (\<lambda>r. \<not> re_search r s) (v2_patterns @ map snd public_replacements)"
  have "fold (\<lambda>(rep, r). redact_with rep r) rs s = s" if "list_all (\<lambda>r. \<not> re_search r s) (map snd rs)" for rs
    using that by (induction rs) (auto simp: redact_with_def re_sub_no_match)
  then show ?thesis using a by (simp add: redact_public_ingress_text_def redact_text_v2_clean)
qed

lemma leak_scan_iff:
  "public_ingress_leak_violations s = [] \<longleftrightarrow> s = [] \<or> list_all (\<lambda>(name, r). \<not> re_search r s) leak_patterns"
  by (auto simp: public_ingress_leak_violations_def filter_empty_conv list_all_iff)

text \<open>
  The comments of \<open>server_runtime.py\<close> call the public redaction idempotent and equal to the two stages; on these texts it
  is neither, and the scan reports a credential URL that has been redacted.
\<close>

lemma public_redaction_not_idempotent:
  "redact_public_ingress_text ''Basic token'' = ''Basic credential''"
  "redact_public_ingress_text ''Basic credential'' = ''Basic <redacted:secret>''"
  by code_simp+

lemma redacted_url_is_reported:
  "redact_public_ingress_text ''://a:b@'' = ''://<redacted:secret>@''"
  "public_ingress_leak_violations ''://<redacted:secret>@'' = [''credential-url'']"
  by code_simp+

lemma conservative_redaction_not_idempotent:
  "redact_text_v2 (redact_text_v2 (''://passwordsecret://'' @ [SQ] @ ''@'')) \<noteq> redact_text_v2 (''://passwordsecret://'' @ [SQ] @ ''@'')"
  by code_simp

lemma two_stages_differ:
  "redact_public_ingress_text (redact_text_v2 (''://passwordsecret://'' @ [SQ] @ ''@'')) \<noteq>
    redact_public_ingress_text (''://passwordsecret://'' @ [SQ] @ ''@'')"
  by code_simp

end
