(* ===== verification/Ingress_Wire.thy ===== *)
theory Ingress_Wire
  imports State_Db Redaction
begin

text \<open>
  The wire payload of the ingress lane: the document model and wire builder of
  \<open>rag_ingress/rag_ready_document.py\<close>, the event schema of \<open>events.py\<close>, and the validation,
  normalisation and redaction of payloads in \<open>rag_ingress/server_runtime.py\<close>.  A payload is a
  JSON dict.  The definitions that map a redaction over the texts of a payload take it as an
  argument, as \<open>_redact_meta_value\<close> does; \<open>apply_server_redaction\<close> passes the public redaction.
\<close>

section \<open>The document model\<close>

definition INGRESS_SCHEMA_VERSION :: string where "INGRESS_SCHEMA_VERSION = ''rag_ingress_enqueue.v1''"
definition DEFAULT_INGRESS_PAYLOAD_KIND :: string where
  "DEFAULT_INGRESS_PAYLOAD_KIND = ''redacted_rag_ready_document''"
definition DEFAULT_REDACTION_VERSION :: string where "DEFAULT_REDACTION_VERSION = ''redaction.v2''"
definition DEFAULT_CONTENT_TYPE :: string where "DEFAULT_CONTENT_TYPE = ''text/markdown''"

lemmas wire_constants = INGRESS_SCHEMA_VERSION_def DEFAULT_INGRESS_PAYLOAD_KIND_def
  DEFAULT_REDACTION_VERSION_def DEFAULT_CONTENT_TYPE_def

definition SECRET_LIKE_KEY_PATTERNS :: "string list" where
  "SECRET_LIKE_KEY_PATTERNS = [''secret'', ''password'', ''passwd'', ''token'', ''api_key'', ''apikey'', ''bearer'',
     ''credential'', ''cookie'', ''private_key'', ''access_key'', ''client_secret'']"

definition known_target_profiles :: "string list" where
  "known_target_profiles = [''project-knowledge'', ''tool-skill-registry'', ''transcript-memory'']"

definition is_known_target_profile :: "string \<Rightarrow> bool" where
  "is_known_target_profile v \<longleftrightarrow> v \<in> set known_target_profiles"

definition is_secret_like_key :: "string \<Rightarrow> bool" where
  "is_secret_like_key key =
    (let lowered = py_lower key in list_ex (\<lambda>pattern. contains_text pattern lowered) SECRET_LIKE_KEY_PATTERNS)"

definition assert_no_secret_like_metadata :: "dict \<Rightarrow> unit result" where
  "assert_no_secret_like_metadata metadata =
    (case find is_secret_like_key (map fst metadata) of
       None \<Rightarrow> Inr ()
     | Some key \<Rightarrow> Inl (SecretLikeMetadataError (''secret-like metadata key rejected: '' @ key)))"

text \<open>
  Redaction of the values under secret-like keys at every depth of nested dicts; lists are
  kept as they are.
\<close>

primrec redact_secret_like_value :: "json \<Rightarrow> json" where
  "redact_secret_like_value JNull = JNull"
| "redact_secret_like_value (JBool b) = JBool b"
| "redact_secret_like_value (JInt i) = JInt i"
| "redact_secret_like_value (JStr s) = JStr s"
| "redact_secret_like_value (JArr xs) = JArr xs"
| "redact_secret_like_value (JObj d) =
    JObj (map (\<lambda>(k, v). (k, if is_secret_like_key k then JStr ''<redacted>'' else v))
      (map (map_prod id redact_secret_like_value) d))"

definition redact_secret_like_metadata :: "dict \<Rightarrow> dict" where
  "redact_secret_like_metadata metadata =
    map (\<lambda>(k, v). (k, if is_secret_like_key k then JStr ''<redacted>'' else redact_secret_like_value v)) metadata"

definition build_content_hash :: "string \<Rightarrow> string" where
  "build_content_hash body = sha256_ref body"

definition build_idempotency_key :: "string \<Rightarrow> string \<Rightarrow> string \<Rightarrow> string result" where
  "build_idempotency_key source_namespace document_kind content_hash =
    (if source_namespace = '''' then Inl (ValueError ''source_namespace is required for idempotency key'')
     else if document_kind = '''' then Inl (ValueError ''document_kind is required for idempotency key'')
     else if content_hash = '''' then Inl (ValueError ''content_hash is required for idempotency key'')
     else Inr (source_namespace @ '':'' @ document_kind @ '':'' @ content_hash))"

text \<open>The drive-letter pattern \<open>^[A-Za-z]:[\\/]\<close>.\<close>

definition drive_path :: "string \<Rightarrow> bool" where
  "drive_path s = (case s of
     a # b # c # _ \<Rightarrow> (CHR ''A'' \<le> a \<and> a \<le> CHR ''Z'' \<or> CHR ''a'' \<le> a \<and> a \<le> CHR ''z'') \<and> b = CHR '':''
       \<and> (code c = 92 \<or> c = CHR ''/'')
   | _ \<Rightarrow> False)"

definition validate_source_alias :: "string \<Rightarrow> unit result" where
  "validate_source_alias source_alias =
    (if source_alias = '''' then Inl (ValueError ''source_alias is required'')
     else if starts_with ''/'' source_alias \<or> drive_path source_alias
     then Inl (ValueError ''source_alias must not be an absolute path'')
     else if ''..'' \<in> set (split_on (CHR ''/'') source_alias) \<or> ''..'' \<in> set (split_on (char_of (92::nat)) source_alias)
     then Inl (ValueError ''source_alias must not contain path traversal'')
     else Inr ())"

record document_metadata =
  dm_source_workspace :: string
  dm_target_profile :: string
  dm_artifact_kind :: string
  dm_privacy_class :: string
  dm_path_prefix :: string
  dm_extra :: dict

definition to_flat_dict :: "document_metadata \<Rightarrow> dict result" where
  "to_flat_dict md =
    (let flat = [(''source_workspace'', JStr (dm_source_workspace md)), (''target_profile'', JStr (dm_target_profile md)),
           (''artifact_kind'', JStr (dm_artifact_kind md)), (''privacy_class'', JStr (dm_privacy_class md))];
         flat1 = (if dm_path_prefix md \<noteq> '''' then set_item flat ''path_prefix'' (JStr (dm_path_prefix md)) else flat);
         flat2 = fold (\<lambda>(k, v) d. set_item d k v) (dm_extra md) flat1
     in bind_result (assert_no_secret_like_metadata flat2) (\<lambda>_. Inr flat2))"

record rag_document =
  doc_target_profile :: string
  doc_document_kind :: string
  doc_artifact_kind :: string
  doc_source_namespace :: string
  doc_source_alias :: string
  doc_privacy_class :: string
  doc_content_hash :: string
  doc_idempotency_key :: string
  doc_body :: string
  doc_filename :: string
  doc_metadata :: dict
  doc_content_type :: string
  doc_redaction_version :: string

definition build_rag_ready_document ::
    "string \<Rightarrow> string \<Rightarrow> string \<Rightarrow> string \<Rightarrow> string \<Rightarrow> string \<Rightarrow> string \<Rightarrow> dict \<Rightarrow> string \<Rightarrow> string \<Rightarrow> string
      \<Rightarrow> rag_document result" where
  "build_rag_ready_document target_profile document_kind source_namespace source_alias privacy_class body filename
     metadata artifact_kind content_type redaction_version =
    (if target_profile = '''' then Inl (ValueError ''target_profile is required'')
     else if document_kind = '''' then Inl (ValueError ''document_kind is required'')
     else if privacy_class = '''' then Inl (ValueError ''privacy_class is required'')
     else bind_result (validate_source_alias source_alias) (\<lambda>_.
          bind_result (assert_no_secret_like_metadata metadata) (\<lambda>_.
          bind_result (build_idempotency_key source_namespace document_kind (build_content_hash body)) (\<lambda>idempotency_key.
            Inr \<lparr>doc_target_profile = target_profile, doc_document_kind = document_kind,
              doc_artifact_kind = artifact_kind, doc_source_namespace = source_namespace,
              doc_source_alias = source_alias, doc_privacy_class = privacy_class,
              doc_content_hash = build_content_hash body, doc_idempotency_key = idempotency_key,
              doc_body = body, doc_filename = filename, doc_metadata = metadata,
              doc_content_type = content_type, doc_redaction_version = redaction_version\<rparr>))))"

definition string_metadata :: "dict \<Rightarrow> dict" where
  "string_metadata metadata = map (\<lambda>(k, v). (k, JStr (py_str v))) metadata"

definition build_ingress_enqueue_payload :: "rag_document \<Rightarrow> dict \<Rightarrow> string \<Rightarrow> dict" where
  "build_ingress_enqueue_payload document source schema_version =
    [(''schemaVersion'', JStr schema_version),
     (''source'', JObj source),
     (''payload'', JObj
       [(''kind'', JStr (doc_artifact_kind document)),
        (''redactionVersion'', JStr (doc_redaction_version document)),
        (''document'', JObj
          [(''filename'', JStr (doc_filename document)),
           (''contentType'', JStr (doc_content_type document)),
           (''body'', JStr (doc_body document)),
           (''metadata'', JObj (string_metadata (doc_metadata document)))])]),
     (''contentHash'', JStr (doc_content_hash document)),
     (''targetProfile'', JStr (doc_target_profile document)),
     (''kind'', JStr (doc_document_kind document)),
     (''idempotencyKey'', JStr (doc_idempotency_key document))]"

section \<open>Validation\<close>

text \<open>
  \<open>x.get("contentHash", "").startswith("sha256:")\<close>: a missing key reads as the empty string, a
  value that is not a string has no \<open>startswith\<close>.
\<close>

definition content_hash_prefix :: "dict \<Rightarrow> bool result" where
  "content_hash_prefix payload =
    (case map_of payload ''contentHash'' of
       None \<Rightarrow> Inr (starts_with ''sha256:'' '''')
     | Some (JStr s) \<Rightarrow> Inr (starts_with ''sha256:'' s)
     | Some _ \<Rightarrow> Inl (AttributeError ''startswith''))"

definition require :: "bool \<Rightarrow> string \<Rightarrow> unit result" where
  "require b m = (if b then Inr () else Inl (ValueError m))"

definition validate_metadata :: "json \<Rightarrow> unit result" where
  "validate_metadata metadata =
    (case py_or metadata (JObj []) of
       JObj md \<Rightarrow> assert_no_secret_like_metadata md
     | _ \<Rightarrow> Inl (ValueError ''document.metadata must be an object''))"

definition validate_ingress_payload :: "dict \<Rightarrow> unit result" where
  "validate_ingress_payload payload =
    bind_result (require (get_item payload ''schemaVersion'' = JStr INGRESS_SCHEMA_VERSION) ''unsupported ingress schemaVersion'') (\<lambda>_.
    bind_result (require (is_dict (get_item payload ''source'')) ''source is required'') (\<lambda>_.
    bind_result (dict_get (py_or (get_item payload ''payload'') (JObj [])) ''document'') (\<lambda>doc.
    bind_result (dict_get (py_or (get_item payload ''payload'') (JObj [])) ''kind'') (\<lambda>kind.
    bind_result (require (kind = JStr DEFAULT_INGRESS_PAYLOAD_KIND) ''unsupported ingress payload kind'') (\<lambda>_.
    bind_result (dict_get (py_or doc (JObj [])) ''body'') (\<lambda>body.
    bind_result (require (truthy body) ''document.body is required'') (\<lambda>_.
    bind_result (dict_get (py_or doc (JObj [])) ''filename'') (\<lambda>filename.
    bind_result (require (truthy filename) ''document.filename is required'') (\<lambda>_.
    bind_result (content_hash_prefix payload) (\<lambda>hashed.
    bind_result (require hashed ''contentHash must be sha256'') (\<lambda>_.
    bind_result (require (truthy (get_item payload ''targetProfile'')) ''targetProfile is required'') (\<lambda>_.
    bind_result (require (truthy (get_item payload ''kind'')) ''kind is required'') (\<lambda>_.
    bind_result (require (truthy (get_item payload ''idempotencyKey'')) ''idempotencyKey is required'') (\<lambda>_.
    bind_result (dict_get (py_or doc (JObj [])) ''metadata'') validate_metadata))))))))))))))"

definition job_id_for_payload :: "dict \<Rightarrow> string" where
  "job_id_for_payload payload = ''job_'' @ take 24 (sha256_hex (str_or_empty (get_item payload ''idempotencyKey'')))"

text \<open>
  \<open>document_from_ingress_payload\<close>: after validation every subscript of the source succeeds, so
  the parts are read directly.
\<close>

fun dict_of :: "json \<Rightarrow> dict" where
  "dict_of (JObj d) = d"
| "dict_of _ = []"

definition document_from_ingress_payload :: "dict \<Rightarrow> rag_document result" where
  "document_from_ingress_payload payload =
    bind_result (validate_ingress_payload payload) (\<lambda>_.
      (let pkg = dict_of (get_item payload ''payload'');
           document = dict_of (get_item pkg ''document'');
           source = dict_of (get_item payload ''source'');
           metadata0 = dict_of (get_item document ''metadata'');
           source_host = str_or_empty (get_item source ''host'');
           metadata1 = (if source_host \<noteq> '''' then set_default metadata0 ''source_host'' (JStr source_host) else metadata0);
           source_project = str_or_empty (get_item source ''project'');
           metadata2 = (if source_project \<noteq> '''' then set_default metadata1 ''project'' (JStr source_project) else metadata1)
       in Inr \<lparr>doc_target_profile = py_str (get_item payload ''targetProfile''),
            doc_document_kind = py_str (get_item payload ''kind''),
            doc_artifact_kind = py_str (get_item pkg ''kind''),
            doc_source_namespace = py_str (py_or (get_item source ''provider'')
              (py_or (get_item source ''namespace'') (JStr ''ingress''))),
            doc_source_alias = py_str (py_or (get_item source ''source_alias'')
              (py_or (get_item source ''alias'') (JStr ''redacted-ingress-source''))),
            doc_privacy_class = py_str (py_or (get_item metadata0 ''privacy_class'') (JStr ''private'')),
            doc_content_hash = py_str (get_item payload ''contentHash''),
            doc_idempotency_key = py_str (get_item payload ''idempotencyKey''),
            doc_body = py_str (get_item document ''body''),
            doc_filename = py_str (get_item document ''filename''),
            doc_metadata = metadata2,
            doc_content_type = py_str (py_or (get_item document ''contentType'') (JStr ''text/markdown'')),
            doc_redaction_version = py_str (py_or (get_item pkg ''redactionVersion'') (JStr ''redaction.v2''))\<rparr>))"

section \<open>Normalisation and server redaction\<close>

definition normalize_ingest_job_payload :: "dict \<Rightarrow> dict" where
  "normalize_ingest_job_payload message =
    (case get_item message ''payload'' of
       JObj pkg \<Rightarrow>
         (if map_of pkg ''document'' \<noteq> None then message
          else
            [(''schemaVersion'', JStr INGRESS_SCHEMA_VERSION),
             (''source'', py_or (get_item message ''source'') (JObj [])),
             (''payload'', JObj
               [(''kind'', py_or (get_item pkg ''kind'') (JStr DEFAULT_INGRESS_PAYLOAD_KIND)),
                (''redactionVersion'', py_or (get_item pkg ''redactionVersion'') (JStr ''redaction.v2'')),
                (''document'', JObj
                  [(''filename'', get_item pkg ''filename''),
                   (''contentType'', py_or (get_item pkg ''contentType'') (JStr ''text/markdown'')),
                   (''body'', get_item pkg ''body''),
                   (''metadata'', py_or (get_item pkg ''metadata'') (JObj []))])]),
             (''contentHash'', get_item message ''contentHash''),
             (''targetProfile'', get_item message ''targetProfile''),
             (''kind'', get_item message ''kind''),
             (''idempotencyKey'', get_item message ''idempotencyKey'')])
     | _ \<Rightarrow> message)"

primrec redact_meta_value :: "(string \<Rightarrow> string) \<Rightarrow> json \<Rightarrow> json" where
  "redact_meta_value redact JNull = JNull"
| "redact_meta_value redact (JBool b) = JBool b"
| "redact_meta_value redact (JInt i) = JInt i"
| "redact_meta_value redact (JStr s) = JStr (redact s)"
| "redact_meta_value redact (JArr xs) = JArr (map (redact_meta_value redact) xs)"
| "redact_meta_value redact (JObj d) = JObj (map (map_prod id (redact_meta_value redact)) d)"

definition redact_field :: "(string \<Rightarrow> string) \<Rightarrow> string \<Rightarrow> dict \<Rightarrow> dict" where
  "redact_field redact field source =
    (case map_of source field of None \<Rightarrow> source | Some v \<Rightarrow> set_item source field (redact_meta_value redact v))"

definition redact_source :: "(string \<Rightarrow> string) \<Rightarrow> dict \<Rightarrow> dict" where
  "redact_source redact payload =
    (case get_item payload ''source'' of
       JObj source \<Rightarrow>
         set_item payload ''source'' (JObj (redact_field redact ''host'' (redact_field redact ''project'' source)))
     | _ \<Rightarrow> payload)"

text \<open>
  \<open>dict(x)\<close> of a value that is not a dict raises; a list of pairs, which would be read as the
  items of a dict, is not treated.
\<close>

definition as_dict :: "json \<Rightarrow> py_error \<Rightarrow> dict result" where
  "as_dict j e = (case j of JObj d \<Rightarrow> Inr d | _ \<Rightarrow> Inl e)"

definition redact_document :: "(string \<Rightarrow> string) \<Rightarrow> dict \<Rightarrow> dict result" where
  "redact_document redact document =
    (let document1 = set_item document ''body'' (JStr (redact (str_or_empty (get_item document ''body''))));
         document2 = set_item document1 ''filename'' (JStr (redact (str_or_empty (get_item document1 ''filename''))))
     in bind_result (as_dict (py_or (get_item document2 ''metadata'') (JObj [])) (AttributeError ''items'')) (\<lambda>metadata.
        Inr (set_item document2 ''metadata'' (JObj (map (map_prod id (redact_meta_value redact)) metadata)))))"

definition redact_payload :: "(string \<Rightarrow> string) \<Rightarrow> dict \<Rightarrow> dict result" where
  "redact_payload redact payload =
    (let pkg = py_or (get_item payload ''payload'') (JObj [])
     in bind_result (dict_get pkg ''document'') (\<lambda>doc.
        bind_result (as_dict (py_or doc (JObj [])) (case doc of JStr _ \<Rightarrow> ValueError ''dict'' | _ \<Rightarrow> TypeError ''dict'')) (\<lambda>document.
          (let new_payload = redact_source redact payload
           in if document = [] then Inr new_payload
              else bind_result (redact_document redact document) (\<lambda>document'.
                Inr (set_item new_payload ''payload'' (JObj (set_item (dict_of pkg) ''document'' (JObj document')))))))))"

definition apply_server_redaction :: "dict \<Rightarrow> dict result" where
  "apply_server_redaction payload = redact_payload redact_public_ingress_text payload"

section \<open>Events\<close>

definition REQUIRED_FIELDS :: "string list" where
  "REQUIRED_FIELDS = [''content_hash'', ''event_id'', ''event_type'', ''observed_at'', ''privacy_level'', ''project'',
     ''provider'', ''redaction_version'', ''schema_version'', ''session_id_hash'', ''summary'']"

definition FORBIDDEN_FIELDS :: "string list" where
  "FORBIDDEN_FIELDS = [''prompt'', ''raw_prompt'', ''raw_tool_input'', ''raw_tool_output'', ''raw_transcript'', ''transcript'']"

definition SUPPORTED_EVENTS :: "string list" where
  "SUPPORTED_EVENTS = [''session_end'', ''manual_note'', ''user_prompt_seen'', ''tool_use_summary'',
     ''assistant_turn_summary'', ''session_start'']"

text \<open>\<open>value in SUPPORTED_EVENTS\<close>: lists and dicts are not hashable.\<close>

definition in_string_set :: "json \<Rightarrow> string list \<Rightarrow> bool result" where
  "in_string_set v names = (case v of
     JArr _ \<Rightarrow> Inl (TypeError ''unhashable type: list'') | JObj _ \<Rightarrow> Inl (TypeError ''unhashable type: dict'')
   | JStr s \<Rightarrow> Inr (s \<in> set names) | _ \<Rightarrow> Inr False)"

definition validate_event :: "dict \<Rightarrow> unit result" where
  "validate_event event =
    (let missing = filter (\<lambda>f. map_of event f = None) REQUIRED_FIELDS;
         forbidden = filter (\<lambda>f. map_of event f \<noteq> None) FORBIDDEN_FIELDS
     in if missing \<noteq> [] then Inl (EventValidationError (''missing required fields: '' @ join '', '' missing))
        else if forbidden \<noteq> [] then Inl (EventValidationError (''forbidden raw fields: '' @ join '', '' forbidden))
        else if get_item event ''schema_version'' \<noteq> JStr ''agent_knowledge_event.v1''
        then Inl (EventValidationError ''unsupported schema_version'')
        else bind_result (in_string_set (get_item event ''event_type'') SUPPORTED_EVENTS) (\<lambda>supported.
          if \<not> supported
          then Inl (EventValidationError (''unsupported event_type: '' @ py_str (get_item event ''event_type'')))
          else if \<not> starts_with ''sha256:'' (py_str (get_item event ''session_id_hash''))
          then Inl (EventValidationError ''session_id_hash must be sha256'')
          else if \<not> starts_with ''sha256:'' (py_str (get_item event ''content_hash''))
          then Inl (EventValidationError ''content_hash must be sha256'')
          else Inr ()))"

section \<open>What validation guarantees\<close>

lemma require_Inr_iff [simp]: "require b m = Inr u \<longleftrightarrow> b"
  by (simp add: require_def)

lemma dict_get_Inr_iff: "dict_get j k = Inr v \<longleftrightarrow> (\<exists>d. j = JObj d \<and> v = get_item d k)"
  by (cases j) auto

lemma py_str_nonempty: "truthy j \<Longrightarrow> py_str j \<noteq> []"
  by (cases j) (auto simp: py_str_def show_int_def)

lemma str_or_empty_truthy: "truthy j \<Longrightarrow> str_or_empty j = py_str j \<and> str_or_empty j \<noteq> []"
  by (simp add: str_or_empty_def py_str_nonempty)

lemma truthy_py_or: "get_item (dict_of (py_or j (JObj []))) k = get_item (dict_of j) k"
  by (cases j) (auto simp: py_or_def get_item_def)

text \<open>A payload passes exactly when every part the lane reads is there and no metadata key looks secret.\<close>

definition valid_wire :: "dict \<Rightarrow> bool" where
  "valid_wire payload \<longleftrightarrow>
    get_item payload ''schemaVersion'' = JStr INGRESS_SCHEMA_VERSION
    \<and> (\<exists>src. get_item payload ''source'' = JObj src)
    \<and> (\<exists>pkg doc h. get_item payload ''payload'' = JObj pkg \<and> get_item pkg ''document'' = JObj doc
      \<and> get_item pkg ''kind'' = JStr DEFAULT_INGRESS_PAYLOAD_KIND
      \<and> truthy (get_item doc ''body'') \<and> truthy (get_item doc ''filename'')
      \<and> get_item payload ''contentHash'' = JStr h \<and> starts_with ''sha256:'' h
      \<and> (truthy (get_item doc ''metadata'') \<longrightarrow> is_dict (get_item doc ''metadata''))
      \<and> list_all (\<lambda>k. \<not> is_secret_like_key k) (map fst (dict_of (get_item doc ''metadata''))))
    \<and> truthy (get_item payload ''targetProfile'') \<and> truthy (get_item payload ''kind'')
    \<and> truthy (get_item payload ''idempotencyKey'')"

lemma assert_no_secret_Inr_iff:
  "assert_no_secret_like_metadata md = Inr u \<longleftrightarrow> list_all (\<lambda>k. \<not> is_secret_like_key k) (map fst md)"
  by (induction md) (auto simp: assert_no_secret_like_metadata_def split: option.splits)

lemma validate_metadata_Inr_iff:
  "validate_metadata m = Inr u \<longleftrightarrow> (truthy m \<longrightarrow> is_dict m)
    \<and> list_all (\<lambda>k. \<not> is_secret_like_key k) (map fst (dict_of m))"
  by (cases m) (auto simp: validate_metadata_def py_or_def assert_no_secret_Inr_iff)

lemma content_hash_prefix_True_iff:
  "content_hash_prefix p = Inr True \<longleftrightarrow> (\<exists>h. get_item p ''contentHash'' = JStr h \<and> starts_with ''sha256:'' h)"
  by (auto simp: content_hash_prefix_def get_item_def starts_with_def split: option.splits json.splits)

lemma py_or_empty_dict: "py_or j (JObj []) = JObj d \<Longrightarrow> get_item d k = v \<Longrightarrow> v \<noteq> JNull \<Longrightarrow> j = JObj d"
  by (auto simp: py_or_def get_item_def split: if_splits)

lemma validate_ingress_payload_iff: "validate_ingress_payload p = Inr u \<longleftrightarrow> valid_wire p"
proof
  assume v: "validate_ingress_payload p = Inr u"
  then obtain pkg doc where
    pkg: "py_or (get_item p ''payload'') (JObj []) = JObj pkg" "get_item pkg ''kind'' = JStr DEFAULT_INGRESS_PAYLOAD_KIND"
    and doc: "py_or (get_item pkg ''document'') (JObj []) = JObj doc" "truthy (get_item doc ''body'')"
      "truthy (get_item doc ''filename'')"
    and h: "content_hash_prefix p = Inr True"
    and m: "validate_metadata (get_item doc ''metadata'') = Inr u"
    and rest: "get_item p ''schemaVersion'' = JStr INGRESS_SCHEMA_VERSION" "is_dict (get_item p ''source'')"
      "truthy (get_item p ''targetProfile'')" "truthy (get_item p ''kind'')" "truthy (get_item p ''idempotencyKey'')"
    by (auto simp: validate_ingress_payload_def bind_result_Inr_iff dict_get_Inr_iff)
  have "get_item p ''payload'' = JObj pkg" using py_or_empty_dict [OF pkg] by simp
  moreover have "get_item pkg ''document'' = JObj doc"
    using doc by (intro py_or_empty_dict [OF doc(1) refl, of "''body''"]) auto
  moreover obtain src where "get_item p ''source'' = JObj src" using rest(2) by (cases "get_item p ''source''") auto
  ultimately show "valid_wire p"
    using pkg doc h m rest unfolding valid_wire_def content_hash_prefix_True_iff validate_metadata_Inr_iff by blast
next
  assume v: "valid_wire p"
  then obtain pkg doc where pkg: "get_item p ''payload'' = JObj pkg" and doc: "get_item pkg ''document'' = JObj doc"
    and body: "truthy (get_item doc ''body'')"
    unfolding valid_wire_def by blast
  have "pkg \<noteq> []" "doc \<noteq> []" using doc body by (auto simp: get_item_def)
  moreover have "content_hash_prefix p = Inr True" using v by (auto simp: content_hash_prefix_True_iff valid_wire_def)
  ultimately show "validate_ingress_payload p = Inr u"
    using v pkg doc
    by (auto simp: valid_wire_def validate_ingress_payload_def bind_result_Inr_iff dict_get_Inr_iff
        py_or_def validate_metadata_Inr_iff)
qed

lemma valid_wire_keys:
  assumes "valid_wire p"
  shows "str_or_empty (get_item p ''idempotencyKey'') \<noteq> ''''" "str_or_empty (get_item p ''contentHash'') \<noteq> ''''"
    "py_str (get_item p ''idempotencyKey'') = str_or_empty (get_item p ''idempotencyKey'')"
    "py_str (get_item p ''contentHash'') = str_or_empty (get_item p ''contentHash'')"
proof -
  obtain h where "get_item p ''contentHash'' = JStr h" "starts_with ''sha256:'' h"
    using assms unfolding valid_wire_def by blast
  moreover from this have "h \<noteq> ''''" by auto
  ultimately show "str_or_empty (get_item p ''contentHash'') \<noteq> ''''"
      "py_str (get_item p ''contentHash'') = str_or_empty (get_item p ''contentHash'')"
    by (simp_all add: str_or_empty_def py_str_def)
  show "str_or_empty (get_item p ''idempotencyKey'') \<noteq> ''''"
      "py_str (get_item p ''idempotencyKey'') = str_or_empty (get_item p ''idempotencyKey'')"
    using str_or_empty_truthy [of "get_item p ''idempotencyKey''"] assms unfolding valid_wire_def by auto
qed


section \<open>Normalisation and redaction are idempotent\<close>

lemma normalize_idem: "normalize_ingest_job_payload (normalize_ingest_job_payload m) = normalize_ingest_job_payload m"
  by (auto simp: normalize_ingest_job_payload_def get_item_def split: json.split option.split)

lemma normalize_nested:
  "get_item m ''payload'' = JObj pkg \<Longrightarrow> map_of pkg ''document'' \<noteq> None \<Longrightarrow> normalize_ingest_job_payload m = m"
  by (simp add: normalize_ingest_job_payload_def)

text \<open>A flat message: its payload is a dict that is not nested.\<close>

definition flat_message :: "dict \<Rightarrow> bool" where
  "flat_message m \<longleftrightarrow> (\<exists>pkg. get_item m ''payload'' = JObj pkg \<and> map_of pkg ''document'' = None)"

lemma json_wf_normalize: "json_wf (JObj m) \<Longrightarrow> json_wf (JObj (normalize_ingest_job_payload m))"
proof -
  assume m: "json_wf (JObj m)"
  have i: "json_wf (get_item m k)" for k using json_wf_item [OF m] .
  have p: "json_wf (get_item pkg k)" if "get_item m ''payload'' = JObj pkg" for pkg k
    using i [of "''payload''"] that json_wf_item [of pkg k] by simp
  show ?thesis
    using m i p by (auto simp: normalize_ingest_job_payload_def py_or_def split: json.split)
qed

lemma normalize_flat_differs:
  assumes "flat_message m" "json_wf (JObj m)"
  shows "\<not> json_eq (JObj (normalize_ingest_job_payload m)) (JObj m)"
proof
  assume e: "json_eq (JObj (normalize_ingest_job_payload m)) (JObj m)"
  obtain pkg where pkg: "get_item m ''payload'' = JObj pkg" "map_of pkg ''document'' = None"
    using assms(1) by (auto simp: flat_message_def)
  obtain pkg' doc where pkg': "get_item (normalize_ingest_job_payload m) ''payload'' = JObj pkg'"
      "get_item pkg' ''document'' = JObj doc"
    using pkg by (simp add: normalize_ingest_job_payload_def get_item_def)
  note wf = json_wf_normalize [OF assms(2)] assms(2)
  have "json_eq (JObj pkg') (JObj pkg)" using json_eq_items [OF wf e, of "''payload''"] pkg pkg' by simp
  then have "json_eq (get_item pkg' ''document'') (get_item pkg ''document'')"
    using json_eq_items json_wf_item [OF wf(1), of "''payload''"] json_wf_item [OF wf(2), of "''payload''"] pkg pkg' by metis
  then show False using pkg'(2) pkg(2) by (simp add: json_eq_def get_item_def)
qed

lemma redact_meta_value_idem:
  "(\<And>s. redact (redact s) = redact s) \<Longrightarrow> redact_meta_value redact (redact_meta_value redact v) = redact_meta_value redact v"
  by (induction v) (force simp: map_idI)+

lemma redact_secret_idem: "redact_secret_like_value (redact_secret_like_value v) = redact_secret_like_value v"
  by (induction v) (force split: prod.splits)+

section \<open>Building a payload and reading the document back\<close>

lemma map_fst_string_metadata [simp]: "map fst (string_metadata md) = map fst md"
  by (simp add: string_metadata_def split_def comp_def)

lemma get_item_simps [simp]:
  "get_item [] k = JNull"
  "get_item ((k', v) # d) k = (if k = k' then v else get_item d k)"
  by (simp_all add: get_item_def)

lemma built_document:
  assumes "build_rag_ready_document tp dk ns sa pc body fn md ak ct rv = Inr doc"
  shows "doc_body doc = body \<and> doc_filename doc = fn \<and> doc_artifact_kind doc = ak \<and> doc_content_type doc = ct
    \<and> doc_redaction_version doc = rv \<and> doc_metadata doc = md \<and> doc_target_profile doc = tp \<and> doc_document_kind doc = dk
    \<and> doc_content_hash doc = sha256_ref body \<and> doc_idempotency_key doc = ns @ '':'' @ dk @ '':'' @ sha256_ref body
    \<and> tp \<noteq> '''' \<and> dk \<noteq> '''' \<and> ns \<noteq> '''' \<and> list_all (\<lambda>k. \<not> is_secret_like_key k) (map fst md)"
  using assms
  by (auto simp: build_rag_ready_document_def bind_result_Inr_iff build_idempotency_key_def build_content_hash_def
      assert_no_secret_Inr_iff split: if_splits)

lemma starts_with_sha256_ref [simp]: "starts_with ''sha256:'' (sha256_ref s)"
  by (simp add: starts_with_def sha256_ref_def)

lemma built_payload_valid:
  assumes "build_rag_ready_document tp dk ns sa pc body fn md DEFAULT_INGRESS_PAYLOAD_KIND ct rv = Inr doc"
    and "body \<noteq> ''''" "fn \<noteq> ''''"
  shows "valid_wire (build_ingress_enqueue_payload doc src INGRESS_SCHEMA_VERSION)"
  using built_document [OF assms(1)] assms(2,3)
  by (simp add: valid_wire_def build_ingress_enqueue_payload_def)

lemma set_default_keeps: "map_of d k = Some v \<Longrightarrow> map_of (set_default d k' v') k = Some v"
  by (auto simp: set_default_def split: option.split)

lemma py_str_JStr [simp]: "py_str (JStr s) = s"
  by (simp add: py_str_def)

lemma document_round_trip:
  assumes b: "build_rag_ready_document tp dk ns sa pc body fn md DEFAULT_INGRESS_PAYLOAD_KIND ct rv = Inr doc"
    and "body \<noteq> ''''" "fn \<noteq> ''''" "ct \<noteq> ''''" "rv \<noteq> ''''"
  shows "\<exists>doc'. document_from_ingress_payload (build_ingress_enqueue_payload doc src INGRESS_SCHEMA_VERSION) = Inr doc'
    \<and> doc_target_profile doc' = tp \<and> doc_document_kind doc' = dk \<and> doc_artifact_kind doc' = DEFAULT_INGRESS_PAYLOAD_KIND
    \<and> doc_content_hash doc' = sha256_ref body \<and> doc_idempotency_key doc' = doc_idempotency_key doc
    \<and> doc_body doc' = body \<and> doc_filename doc' = fn \<and> doc_content_type doc' = ct \<and> doc_redaction_version doc' = rv
    \<and> (\<forall>k v. map_of md k = Some v \<longrightarrow> map_of (doc_metadata doc') k = Some (JStr (py_str v)))"
proof -
  let ?p = "build_ingress_enqueue_payload doc src INGRESS_SCHEMA_VERSION"
  have v: "validate_ingress_payload ?p = Inr ()"
    using built_payload_valid [OF b assms(2,3)] by (simp add: validate_ingress_payload_iff)
  have m: "map_of (string_metadata md) k = Some (JStr (py_str v))" if "map_of md k = Some v" for k v
    using that by (induction md) (auto simp: string_metadata_def)
  show ?thesis
    using built_document [OF b] v m assms(4,5)
    by (auto simp: document_from_ingress_payload_def build_ingress_enqueue_payload_def Let_def py_or_def
        set_default_keeps)
qed

text \<open>What an accepted event carries.\<close>

lemma validate_event_keys:
  "validate_event ev = Inr u \<Longrightarrow>
    (\<forall>f \<in> set REQUIRED_FIELDS. map_of ev f \<noteq> None) \<and> (\<forall>f \<in> set FORBIDDEN_FIELDS. map_of ev f = None)
    \<and> (\<exists>t \<in> set SUPPORTED_EVENTS. get_item ev ''event_type'' = JStr t)
    \<and> starts_with ''sha256:'' (py_str (get_item ev ''content_hash''))
    \<and> starts_with ''sha256:'' (py_str (get_item ev ''session_id_hash''))"
  by (auto simp: validate_event_def Let_def bind_result_Inr_iff in_string_set_def filter_empty_conv
      split: if_splits json.splits)

section \<open>Redacting a payload with an idempotent redaction is idempotent\<close>

lemma get_item_set_item [simp]: "get_item (set_item d k v) k' = (if k' = k then v else get_item d k')"
  by (induction d k v rule: set_item.induct) auto

lemma map_of_set_item: "map_of (set_item d k v) k' = (if k' = k then Some v else map_of d k')"
  by (induction d k v rule: set_item.induct) auto

lemma set_item_same: "map_of d k = Some v \<Longrightarrow> set_item d k v = d"
  by (induction d k v rule: set_item.induct) auto

lemma set_item_not_Nil [simp]: "set_item d k v \<noteq> []"
  by (induction d k v rule: set_item.induct) auto

lemma redact_items_idem:
  "(\<And>s. r (r s) = r s) \<Longrightarrow>
    map (map_prod id (redact_meta_value r)) (map (map_prod id (redact_meta_value r)) md) =
    map (map_prod id (redact_meta_value r)) md"
  using redact_meta_value_idem [of r] by (auto simp: map_prod_def)

lemma redact_document_idem:
  assumes idem: "\<And>s. r (r s) = r s" and "redact_document r d = Inr d'"
  shows "redact_document r d' = Inr d'"
proof -
  obtain md where md: "d' = set_item (set_item (set_item d ''body'' (JStr (r (str_or_empty (get_item d ''body'')))))
      ''filename'' (JStr (r (str_or_empty (get_item d ''filename'')))))
      ''metadata'' (JObj (map (map_prod id (redact_meta_value r)) md))"
    using assms(2) by (auto simp: redact_document_def Let_def bind_result_Inr_iff)
  have s: "r (str_or_empty (JStr (r x))) = r x" for x
    using idem [of x] by (cases "r x = []") (auto simp: str_or_empty_def)
  have m: "as_dict (py_or (JObj xs) (JObj [])) e = Inr xs" for xs e
    by (simp add: as_dict_def py_or_def)
  show ?thesis
    by (simp add: md redact_document_def Let_def s m redact_items_idem [OF idem] set_item_same map_of_set_item
        del: map_map)
qed

lemma redact_field_idem: "(\<And>s. r (r s) = r s) \<Longrightarrow> redact_field r f (redact_field r f s) = redact_field r f s"
  by (auto simp: redact_field_def map_of_set_item redact_meta_value_idem set_item_same split: option.split)

lemma redact_fields_idem:
  assumes "\<And>s. r (r s) = r s"
  shows "redact_field r f (redact_field r g (redact_field r f (redact_field r g s))) =
    redact_field r f (redact_field r g s)"
proof (cases "f = g")
  case True
  then show ?thesis by (simp add: redact_field_idem [OF assms])
next
  case False
  let ?t = "redact_field r f (redact_field r g s)"
  have "map_of ?t g = map_of (redact_field r g s) g"
    using False by (auto simp: redact_field_def map_of_set_item split: option.split)
  then have "redact_field r g ?t = ?t"
    using redact_meta_value_idem [OF assms]
    by (auto simp: redact_field_def map_of_set_item set_item_same split: option.splits if_splits)
  then show ?thesis by (simp add: redact_field_idem [OF assms])
qed

lemma redact_source_idem:
  assumes "\<And>s. r (r s) = r s"
  shows "redact_source r (redact_source r p) = redact_source r p"
proof (cases "get_item p ''source''")
  case (JObj s)
  then show ?thesis
    by (simp add: redact_source_def redact_fields_idem [OF assms, of "''host''" "''project''" s]
        set_item_same map_of_set_item)
qed (simp_all add: redact_source_def)

lemma redact_source_frame: "k \<noteq> ''source'' \<Longrightarrow> get_item (redact_source r p) k = get_item p k"
  by (auto simp: redact_source_def split: json.split)

lemma redact_source_set_payload:
  "redact_source r p = p \<Longrightarrow> redact_source r (set_item p ''payload'' v) = set_item p ''payload'' v"
proof -
  assume p: "redact_source r p = p"
  show ?thesis
  proof (cases "get_item p ''source''")
    case (JObj s)
    then have "set_item p ''source'' (JObj (redact_field r ''host'' (redact_field r ''project'' s))) = p"
      using p by (simp add: redact_source_def)
    then have "map_of p ''source'' = Some (JObj (redact_field r ''host'' (redact_field r ''project'' s)))"
      using map_of_set_item [of p "''source''" _ "''source''"] by metis
    then show ?thesis using JObj
      by (simp add: redact_source_def set_item_same map_of_set_item)
  qed (simp_all add: redact_source_def)
qed

lemma redact_payload_idem:
  assumes idem: "\<And>s. r (r s) = r s" and p': "redact_payload r p = Inr p'"
  shows "redact_payload r p' = Inr p'"
proof -
  let ?pkg = "py_or (get_item p ''payload'') (JObj [])" and ?q = "redact_source r p"
  obtain pk document where pk: "?pkg = JObj pk"
    and d: "py_or (get_item pk ''document'') (JObj []) = JObj document"
    and out: "document = [] \<and> p' = ?q \<or> (\<exists>document'. document \<noteq> [] \<and> redact_document r document = Inr document'
        \<and> p' = set_item ?q ''payload'' (JObj (set_item pk ''document'' (JObj document'))))"
    using p' by (auto simp: redact_payload_def Let_def bind_result_Inr_iff dict_get_Inr_iff as_dict_def
        split: if_splits json.splits)
  have q: "redact_source r ?q = ?q" by (rule redact_source_idem [OF idem])
  from out show ?thesis
  proof
    assume "document = [] \<and> p' = ?q"
    then show ?thesis
      using pk d q by (simp add: redact_payload_def Let_def redact_source_frame as_dict_def)
  next
    assume "\<exists>document'. document \<noteq> [] \<and> redact_document r document = Inr document'
        \<and> p' = set_item ?q ''payload'' (JObj (set_item pk ''document'' (JObj document')))"
    then obtain document' where doc: "redact_document r document = Inr document'"
      and p'': "p' = set_item ?q ''payload'' (JObj (set_item pk ''document'' (JObj document')))" by blast
    have "document' \<noteq> []" using doc by (auto simp: redact_document_def Let_def bind_result_Inr_iff)
    then show ?thesis
      using redact_document_idem [OF idem doc] redact_source_set_payload [OF q]
      by (simp add: p'' redact_payload_def Let_def py_or_def as_dict_def set_item_same map_of_set_item)
  qed
qed

section \<open>What the public redaction of a payload leaves\<close>

lemma redaction_frame:
  "apply_server_redaction p = Inr p' \<Longrightarrow> k \<noteq> ''source'' \<Longrightarrow> k \<noteq> ''payload'' \<Longrightarrow> get_item p' k = get_item p k"
  by (auto simp: apply_server_redaction_def redact_payload_def Let_def bind_result_Inr_iff redact_source_frame split: if_splits)

lemma redacted_document:
  assumes "apply_server_redaction p = Inr p'" and "document_from_ingress_payload p' = Inr document"
  shows "\<exists>b n. doc_body document = redact_public_ingress_text b \<and> doc_filename document = redact_public_ingress_text n"
proof -
  let ?r = redact_public_ingress_text and ?q = "redact_source redact_public_ingress_text p"
  have v: "valid_wire p'" using assms(2) by (simp add: document_from_ingress_payload_def bind_result_Inr_iff validate_ingress_payload_iff)
  then obtain pkg doc0 where wire: "get_item p' ''payload'' = JObj pkg" "get_item pkg ''document'' = JObj doc0" "truthy (get_item doc0 ''body'')"
    unfolding valid_wire_def by blast
  then have ne: "pkg \<noteq> []" "doc0 \<noteq> []" by auto
  obtain pk doc where pk: "py_or (get_item p ''payload'') (JObj []) = JObj pk" "py_or (get_item pk ''document'') (JObj []) = JObj doc"
    and out: "doc = [] \<and> p' = ?q
      \<or> (\<exists>doc'. doc \<noteq> [] \<and> redact_document ?r doc = Inr doc' \<and> p' = set_item ?q ''payload'' (JObj (set_item pk ''document'' (JObj doc'))))"
    using assms(1) by (auto simp: apply_server_redaction_def redact_payload_def Let_def bind_result_Inr_iff dict_get_Inr_iff as_dict_def
        split: if_splits json.splits)
  have "doc \<noteq> []" using out wire ne pk by (auto simp: redact_source_frame py_or_def)
  then obtain doc' where doc': "redact_document ?r doc = Inr doc'" "get_item p' ''payload'' = JObj (set_item pk ''document'' (JObj doc'))"
    using out by auto
  obtain b n where "get_item doc' ''body'' = JStr (?r b)" "get_item doc' ''filename'' = JStr (?r n)"
    using doc'(1) by (auto simp: redact_document_def Let_def bind_result_Inr_iff)
  moreover have "doc_body document = py_str (get_item doc' ''body'')" "doc_filename document = py_str (get_item doc' ''filename'')"
    using assms(2) doc'(2) by (auto simp: document_from_ingress_payload_def bind_result_Inr_iff Let_def)
  ultimately show ?thesis by auto
qed

end
