(* ===== verification/File_Queue.thy ===== *)
theory File_Queue
  imports Ingress_Wire
begin

text \<open>
  The two directory queues of the ingress host: the event spool of \<open>spool.py\<close> and the document
  job queue of \<open>rag_ingress/server_runtime.py\<close>, with the drain of one job.  Both keep one JSON
  file per item in one of four directories and move it with \<open>os.replace\<close>.  The file system is
  modelled with the path resolution the code depends on: directories, regular files with text
  and modification time, \<open>..\<close>, absolute names and embedded NUL characters; permissions and
  symbolic links are left out, and a directory holds no directory whose name ends in \<open>.json\<close>.
  Times are integers in one fixed unit.
\<close>

section \<open>The file system\<close>

type_synonym path = "string list"

record file_node =
  file_text :: string
  file_mtime :: int

record file_system =
  fs_dirs :: "path list"
  fs_files :: "(path \<times> file_node) list"

type_synonym 'a io = "(file_system, 'a) action"

text \<open>
  \<open>base / name\<close> of \<open>pathlib\<close>: empty components and dots are dropped, an absolute name discards
  the base.  Double dots stay and are resolved by the file system.
\<close>

definition path_join :: "path \<Rightarrow> string \<Rightarrow> path" where
  "path_join base s =
    (let parts = filter (\<lambda>c. c \<noteq> '''' \<and> c \<noteq> ''.'') (split_on (CHR ''/'') s)
     in if starts_with ''/'' s then parts else base @ parts)"

fun walk :: "file_system \<Rightarrow> path \<Rightarrow> path \<Rightarrow> path result" where
  "walk fs cur [] = Inr cur"
| "walk fs cur (c # cs) =
    (if cur \<in> set (fs_dirs fs) then walk fs (if c = ''..'' then butlast cur else cur @ [c]) cs
     else if map_of (fs_files fs) cur \<noteq> None then Inl (NotADirectoryError (join ''/'' cur))
     else Inl (FileNotFoundError (join ''/'' cur)))"

definition resolve_path :: "file_system \<Rightarrow> path \<Rightarrow> path result" where
  "resolve_path fs p =
    (if list_ex (\<lambda>c. CHR 0x00 \<in> set c) p then Inl (ValueError ''embedded null byte'') else walk fs [] p)"

definition path_exists :: "file_system \<Rightarrow> path \<Rightarrow> bool" where
  "path_exists fs p =
    (case resolve_path fs p of Inl _ \<Rightarrow> False | Inr q \<Rightarrow> q \<in> set (fs_dirs fs) \<or> map_of (fs_files fs) q \<noteq> None)"

definition fs_put :: "path \<Rightarrow> file_node \<Rightarrow> file_system \<Rightarrow> file_system" where
  "fs_put p f fs = fs\<lparr>fs_files := (p, f) # filter (\<lambda>e. fst e \<noteq> p) (fs_files fs)\<rparr>"

definition fs_drop :: "path \<Rightarrow> file_system \<Rightarrow> file_system" where
  "fs_drop p fs = fs\<lparr>fs_files := filter (\<lambda>e. fst e \<noteq> p) (fs_files fs)\<rparr>"

text \<open>\<open>os.open(p, O_WRONLY | O_CREAT | O_EXCL)\<close>: the new empty file.\<close>

definition os_open_excl :: "path \<Rightarrow> int \<Rightarrow> path io" where
  "os_open_excl p now fs =
    (case resolve_path fs p of
       Inl e \<Rightarrow> (Inl e, fs)
     | Inr q \<Rightarrow>
         if q \<in> set (fs_dirs fs) \<or> map_of (fs_files fs) q \<noteq> None then (Inl (FileExistsError (join ''/'' p)), fs)
         else (Inr q, fs_put q \<lparr>file_text = '''', file_mtime = now\<rparr> fs))"

definition os_replace :: "path \<Rightarrow> path \<Rightarrow> unit io" where
  "os_replace src dst fs =
    (case resolve_path fs src of
       Inl e \<Rightarrow> (Inl e, fs)
     | Inr s \<Rightarrow>
         (case map_of (fs_files fs) s of
            None \<Rightarrow> (Inl (FileNotFoundError (join ''/'' src)), fs)
          | Some f \<Rightarrow>
              (case resolve_path fs dst of
                 Inl e \<Rightarrow> (Inl e, fs)
               | Inr d \<Rightarrow>
                   if d \<in> set (fs_dirs fs) then (Inl (IsADirectoryError (join ''/'' dst)), fs)
                   else (Inr (), fs_put d f (fs_drop s fs)))))"

text \<open>\<open>(directory).glob("*.json")\<close>: the names of the matching entries.\<close>

definition ends_with :: "string \<Rightarrow> string \<Rightarrow> bool" where
  "ends_with p s \<longleftrightarrow> starts_with (rev p) (rev s)"

definition glob_json :: "file_system \<Rightarrow> path \<Rightarrow> string list" where
  "glob_json fs d =
    remdups (map last (filter (\<lambda>p. p \<noteq> [] \<and> butlast p = d \<and> ends_with ''.json'' (last p)) (map fst (fs_files fs))))"

section \<open>The queue operations\<close>

definition SUBDIRS :: "string list" where
  "SUBDIRS = [''pending'', ''processing'', ''acked'', ''quarantine'']"

definition find_existing :: "path \<Rightarrow> string \<Rightarrow> file_system \<Rightarrow> path option" where
  "find_existing root name fs = find (path_exists fs) (map (\<lambda>subdir. path_join (root @ [subdir]) name) SUBDIRS)"

text \<open>
  The body of \<open>enqueue\<close> after the lookup, the same in both classes: create the temporary file,
  write and sync it, move it over the final name.  \<open>fault\<close> is the exception the writes raise, if
  they do; the temporary file is then removed and the exception raised again.
\<close>

definition write_temp_then_move :: "path \<Rightarrow> string \<Rightarrow> json \<Rightarrow> int \<Rightarrow> py_error option \<Rightarrow> path io" where
  "write_temp_then_move root name value now fault =
    (let final_path = path_join (root @ [''pending'']) name;
         temp_path = path_join (root @ [''pending'']) (''.'' @ name @ ''.tmp'')
     in bind_act (os_open_excl temp_path now) (\<lambda>t fs.
          (case fault of
             Some e \<Rightarrow> (Inl e, fs_drop t fs)
           | None \<Rightarrow>
               (let text = json_dump_sorted value @ [char_of (10::nat)]
                in case os_replace temp_path final_path (fs_put t \<lparr>file_text = text, file_mtime = now\<rparr> fs) of
                     (Inl e, fs') \<Rightarrow> (Inl e, fs_drop t fs')
                   | (Inr _, fs') \<Rightarrow> (Inr final_path, fs')))))"

definition claim_first :: "path \<Rightarrow> string \<Rightarrow> path io" where
  "claim_first root empty_message fs =
    (case sort (glob_json fs (root @ [''pending''])) of
       [] \<Rightarrow> (Inl (FileNotFoundError empty_message), fs)
     | name # _ \<Rightarrow>
         bind_act (os_replace (root @ [''pending'', name]) (root @ [''processing'', name]))
           (\<lambda>_. return_act (root @ [''processing'', name])) fs)"

definition move_to :: "path \<Rightarrow> string \<Rightarrow> path \<Rightarrow> path io" where
  "move_to root subdir source =
    bind_act (os_replace source (root @ [subdir, last source])) (\<lambda>_. return_act (root @ [subdir, last source]))"

definition depth_counts :: "path \<Rightarrow> file_system \<Rightarrow> (string \<times> nat) list" where
  "depth_counts root fs = map (\<lambda>name. (name, length (glob_json fs (root @ [name])))) SUBDIRS"

subsection \<open>\<open>Spool\<close>\<close>

definition spool_enqueue :: "path \<Rightarrow> dict \<Rightarrow> int \<Rightarrow> py_error option \<Rightarrow> path io" where
  "spool_enqueue root event now fault fs =
    (case validate_event event of
       Inl e \<Rightarrow> (Inl e, fs)
     | Inr _ \<Rightarrow>
         (let name = py_str (get_item event ''event_id'') @ ''.json''
          in case find_existing root name fs of
               Some existing \<Rightarrow> (Inr existing, fs)
             | None \<Rightarrow> write_temp_then_move root name (JObj event) now fault fs))"

definition spool_claim_next :: "path \<Rightarrow> path io" where
  "spool_claim_next root = claim_first root ''no pending spool events''"

definition spool_ack :: "path \<Rightarrow> path \<Rightarrow> path io" where
  "spool_ack root = move_to root ''acked''"

definition spool_quarantine :: "path \<Rightarrow> path \<Rightarrow> path io" where
  "spool_quarantine root = move_to root ''quarantine''"

subsection \<open>\<open>IngressJobQueue\<close>\<close>

record ingress_job =
  ij_job_id :: string
  ij_path :: path
  ij_status :: string

definition status_for_path :: "path \<Rightarrow> string" where
  "status_for_path p =
    (let parent = (case rev p of _ # d # _ \<Rightarrow> d | _ \<Rightarrow> '''') in if parent = ''pending'' then ''queued'' else parent)"

definition job_enqueue :: "path \<Rightarrow> dict \<Rightarrow> int \<Rightarrow> py_error option \<Rightarrow> ingress_job io" where
  "job_enqueue root payload now fault fs =
    (case validate_ingress_payload payload of
       Inl e \<Rightarrow> (Inl e, fs)
     | Inr _ \<Rightarrow>
         (let job_id = job_id_for_payload payload;
              filename = job_id @ ''.json''
          in case find_existing root filename fs of
               Some existing \<Rightarrow> (Inr \<lparr>ij_job_id = job_id, ij_path = existing, ij_status = status_for_path existing\<rparr>, fs)
             | None \<Rightarrow>
                 bind_act (write_temp_then_move root filename (JObj payload) now fault)
                   (\<lambda>final_path. return_act \<lparr>ij_job_id = job_id, ij_path = final_path, ij_status = ''queued''\<rparr>) fs))"

definition job_claim_next :: "path \<Rightarrow> path io" where
  "job_claim_next root = claim_first root ''no pending ingress jobs''"

definition job_ack :: "path \<Rightarrow> path \<Rightarrow> path io" where
  "job_ack root = move_to root ''acked''"

definition job_quarantine :: "path \<Rightarrow> path \<Rightarrow> path io" where
  "job_quarantine root = move_to root ''quarantine''"

fun gc_loop :: "path \<Rightarrow> int \<Rightarrow> int \<Rightarrow> string list \<Rightarrow> nat \<Rightarrow> nat io" where
  "gc_loop dir max_age now [] deleted fs = (Inr deleted, fs)"
| "gc_loop dir max_age now (name # names) deleted fs =
    (case map_of (fs_files fs) (dir @ [name]) of
       None \<Rightarrow> (Inl (FileNotFoundError (join ''/'' (dir @ [name]))), fs)
     | Some f \<Rightarrow>
         if max_age \<le> now - file_mtime f
         then gc_loop dir max_age now names (Suc deleted) (fs_drop (dir @ [name]) fs)
         else gc_loop dir max_age now names deleted fs)"

definition collect_garbage :: "path \<Rightarrow> string \<Rightarrow> int \<Rightarrow> int \<Rightarrow> nat io" where
  "collect_garbage root subdir max_age now fs =
    (if subdir \<notin> {''acked'', ''quarantine''} then (Inl (ValueError ''GC is allowed only for acked or quarantine jobs''), fs)
     else gc_loop (root @ [subdir]) max_age now (glob_json fs (root @ [subdir])) 0 fs)"

section \<open>Draining one job\<close>

datatype drain_answer =
    Submitted string path string
  | Quarantined string path

text \<open>\<open>path.stem\<close>: the name without its last suffix.\<close>

definition path_stem :: "path \<Rightarrow> string" where
  "path_stem p =
    (let tail = takeWhile (\<lambda>c. c \<noteq> CHR ''.'') (rev (last p)); stem = take (length (last p) - length tail - 1) (last p)
     in if CHR ''.'' \<in> set (last p) \<and> stem \<noteq> '''' \<and> tail \<noteq> '''' then stem else last p)"

text \<open>\<open>json.loads\<close>, and the first \<open>payload.get\<close> of the validation, which needs a dict.\<close>

definition payload_of_text :: "string \<Rightarrow> dict result" where
  "payload_of_text text =
    (case json_loads text of
       None \<Rightarrow> Inl (JSONDecodeError '''')
     | Some (JObj d) \<Rightarrow> Inr d
     | Some _ \<Rightarrow> Inl (AttributeError ''get''))"

definition read_payload :: "path \<Rightarrow> file_system \<Rightarrow> dict result" where
  "read_payload p fs =
    bind_result (resolve_path fs p) (\<lambda>q.
      (case map_of (fs_files fs) q of
         None \<Rightarrow> Inl (FileNotFoundError (join ''/'' p))
       | Some f \<Rightarrow> payload_of_text (file_text f)))"

text \<open>
  The backend is a function of the document: the status of its submit result, or the exception it
  raises.  Whatever fails between the claim and the acknowledgement sends the job to quarantine.
\<close>

definition drain_one_ingress_job :: "path \<Rightarrow> (rag_document \<Rightarrow> string result) \<Rightarrow> drain_answer io" where
  "drain_one_ingress_job root submit_document =
    bind_act (job_claim_next root) (\<lambda>claimed fs.
      (case bind_result (read_payload claimed fs) (\<lambda>payload.
              bind_result (document_from_ingress_payload payload) submit_document) of
         Inr status \<Rightarrow>
           (case job_ack root claimed fs of
              (Inr acked, fs') \<Rightarrow> (Inr (Submitted (path_stem claimed) acked status), fs')
            | (Inl _, fs') \<Rightarrow>
                bind_act (job_quarantine root claimed) (\<lambda>q. return_act (Quarantined (path_stem claimed) q)) fs')
       | Inl _ \<Rightarrow>
           bind_act (job_quarantine root claimed) (\<lambda>q. return_act (Quarantined (path_stem claimed) q)) fs))"

section \<open>Paths inside a queue\<close>

definition plain_name :: "string \<Rightarrow> bool" where
  "plain_name n \<longleftrightarrow> n \<noteq> '''' \<and> n \<noteq> ''.'' \<and> n \<noteq> ''..'' \<and> CHR ''/'' \<notin> set n \<and> CHR 0x00 \<notin> set n"

definition queue_root :: "path \<Rightarrow> file_system \<Rightarrow> bool" where
  "queue_root root fs \<longleftrightarrow>
    list_all plain_name root \<and> (\<forall>i \<le> length root. take i root \<in> set (fs_dirs fs))
    \<and> (\<forall>d \<in> set SUBDIRS. root @ [d] \<in> set (fs_dirs fs) \<and> (\<forall>n. root @ [d, n] \<notin> set (fs_dirs fs)))"

lemma path_join_plain [simp]: "plain_name n \<Longrightarrow> path_join base n = base @ [n]"
  by (cases n) (auto simp: path_join_def plain_name_def split_on_plain starts_with_def)

lemma walk_plain:
  "''..'' \<notin> set cs \<Longrightarrow> (\<And>i. i < length cs \<Longrightarrow> cur @ take i cs \<in> set (fs_dirs fs)) \<Longrightarrow> walk fs cur cs = Inr (cur @ cs)"
proof (induction cs arbitrary: cur)
  case (Cons c cs)
  have "cur \<in> set (fs_dirs fs)" using Cons.prems(2) [of 0] by simp
  moreover have "cur @ [c] @ take i cs \<in> set (fs_dirs fs)" if "i < length cs" for i
    using Cons.prems(2) [of "Suc i"] that by simp
  ultimately show ?case using Cons.IH [of "cur @ [c]"] Cons.prems(1) by auto
qed simp

lemma SUBDIRS_plain: "d \<in> set SUBDIRS \<Longrightarrow> plain_name d"
  by (auto simp: SUBDIRS_def plain_name_def)

lemma resolve_plain:
  assumes "list_all plain_name p" "\<And>i. i < length p \<Longrightarrow> take i p \<in> set (fs_dirs fs)"
  shows "resolve_path fs p = Inr p"
proof -
  have "walk fs [] p = Inr ([] @ p)"
    using assms by (intro walk_plain) (auto simp: plain_name_def list_all_iff)
  then show ?thesis
    using assms(1) by (auto simp: resolve_path_def plain_name_def list_all_iff list_ex_iff)
qed

lemma resolve_entry [simp]:
  assumes "queue_root root fs" "d \<in> set SUBDIRS" "plain_name n"
  shows "resolve_path fs (root @ [d, n]) = Inr (root @ [d, n])"
proof (rule resolve_plain)
  show "list_all plain_name (root @ [d, n])"
    using assms SUBDIRS_plain by (auto simp: queue_root_def)
  show "take i (root @ [d, n]) \<in> set (fs_dirs fs)" if "i < length (root @ [d, n])" for i
  proof (cases "i \<le> length root")
    case False
    then have "i = Suc (length root)" using that by simp
    then show ?thesis using assms by (simp add: queue_root_def)
  qed (use assms in \<open>simp add: queue_root_def\<close>)
qed

lemma map_of_filter_keys: "map_of (filter (\<lambda>e. fst e \<noteq> p) xs) q = (if q = p then None else map_of xs q)"
  by (induction xs) auto

lemma fs_put_simps [simp]:
  "fs_dirs (fs_put p f fs) = fs_dirs fs"
  "map_of (fs_files (fs_put p f fs)) q = (if q = p then Some f else map_of (fs_files fs) q)"
  "fs_dirs (fs_drop p fs) = fs_dirs fs"
  "map_of (fs_files (fs_drop p fs)) q = (if q = p then None else map_of (fs_files fs) q)"
  by (simp_all add: fs_put_def fs_drop_def map_of_filter_keys)

section \<open>The abstract queue\<close>

text \<open>
  What a queue promises: every item, known by its file name, is at one of four places with a
  content that never changes, and moves from pending through processing to acked or quarantine;
  the pending item with the least name is taken first.
\<close>

type_synonym queue_view = "string \<Rightarrow> (string \<times> file_node) option"

inductive queue_moves :: "queue_view \<Rightarrow> queue_view \<Rightarrow> bool" where
  arrive: "v n = None \<Longrightarrow> queue_moves v (v(n \<mapsto> (''pending'', f)))"
| take: "v n = Some (''pending'', f) \<Longrightarrow> (\<And>m g. v m = Some (''pending'', g) \<Longrightarrow> n \<le> m) \<Longrightarrow>
    queue_moves v (v(n \<mapsto> (''processing'', f)))"
| settle: "v n = Some (''processing'', f) \<Longrightarrow> d \<in> {''acked'', ''quarantine''} \<Longrightarrow> queue_moves v (v(n \<mapsto> (d, f)))"

definition place_rank :: "string \<Rightarrow> nat" where
  "place_rank d = (if d = ''pending'' then 0 else if d = ''processing'' then 1 else 2)"

lemma place_rank_simps [simp]:
  "place_rank ''pending'' = 0" "place_rank ''processing'' = 1" "place_rank ''acked'' = 2" "place_rank ''quarantine'' = 2"
  by (simp_all add: place_rank_def)

lemma queue_moves_keep:
  assumes "queue_moves v v'" "v n = Some (d, f)"
  shows "\<exists>d'. v' n = Some (d', f) \<and> place_rank d \<le> place_rank d'"
  using assms(1)
proof cases
  case (arrive m g)
  then show ?thesis using assms(2) by (cases "m = n") simp_all
next
  case (take m g)
  then show ?thesis using assms(2) by (cases "m = n") simp_all
next
  case (settle m g d')
  then have "place_rank d' = 2" by auto
  then show ?thesis using settle assms(2) by (cases "m = n") simp_all
qed

lemma queue_runs_keep:
  "queue_moves\<^sup>*\<^sup>* v v' \<Longrightarrow> v n = Some (d, f) \<Longrightarrow> \<exists>d'. v' n = Some (d', f) \<and> place_rank d \<le> place_rank d'"
proof (induction rule: rtranclp_induct)
  case (step v' v'')
  then show ?case using queue_moves_keep by (meson order_trans)
qed auto

definition queue_view_of :: "path \<Rightarrow> file_system \<Rightarrow> queue_view" where
  "queue_view_of root fs n =
    (case find (\<lambda>d. map_of (fs_files fs) (root @ [d, n]) \<noteq> None) SUBDIRS of
       None \<Rightarrow> None
     | Some d \<Rightarrow> Some (d, the (map_of (fs_files fs) (root @ [d, n]))))"

definition queue_ok :: "path \<Rightarrow> file_system \<Rightarrow> bool" where
  "queue_ok root fs \<longleftrightarrow> queue_root root fs
    \<and> (\<forall>d \<in> set SUBDIRS. \<forall>n. map_of (fs_files fs) (root @ [d, n]) \<noteq> None \<longrightarrow>
        plain_name n \<and> ends_with ''.json'' n
        \<and> (\<forall>d' \<in> set SUBDIRS. map_of (fs_files fs) (root @ [d', n]) \<noteq> None \<longrightarrow> d' = d))"

lemma queue_ok_root: "queue_ok root fs \<Longrightarrow> queue_root root fs"
  by (simp add: queue_ok_def)

lemma find_SomeD: "find p xs = Some x \<Longrightarrow> x \<in> set xs \<and> p x"
  by (induction xs) (auto split: if_splits)

lemma view_None_iff:
  "queue_view_of root fs n = None \<longleftrightarrow> (\<forall>d \<in> set SUBDIRS. map_of (fs_files fs) (root @ [d, n]) = None)"
  by (auto simp: queue_view_of_def find_None_iff split: option.splits dest!: find_SomeD)

lemma view_Some_iff:
  assumes "queue_ok root fs"
  shows "queue_view_of root fs n = Some (d, f) \<longleftrightarrow> d \<in> set SUBDIRS \<and> map_of (fs_files fs) (root @ [d, n]) = Some f"
proof
  assume "queue_view_of root fs n = Some (d, f)"
  then show "d \<in> set SUBDIRS \<and> map_of (fs_files fs) (root @ [d, n]) = Some f"
    by (auto simp: queue_view_of_def split: option.splits dest!: find_SomeD)
next
  assume r: "d \<in> set SUBDIRS \<and> map_of (fs_files fs) (root @ [d, n]) = Some f"
  then have "queue_view_of root fs n \<noteq> None" by (auto simp: view_None_iff)
  then obtain d' f' where v: "queue_view_of root fs n = Some (d', f')" by auto
  then have "d' \<in> set SUBDIRS \<and> map_of (fs_files fs) (root @ [d', n]) = Some f'"
    by (auto simp: queue_view_of_def split: option.splits dest!: find_SomeD)
  moreover then have "d' = d" using assms r by (auto simp: queue_ok_def)
  ultimately show "queue_view_of root fs n = Some (d, f)" using r v by simp
qed

text \<open>
  The one way the files of a queue change: the item \<open>n\<close> is afterwards at \<open>d\<close> and nowhere else, and
  nothing else has changed.
\<close>

definition placed :: "path \<Rightarrow> string \<Rightarrow> string \<Rightarrow> file_node \<Rightarrow> file_system \<Rightarrow> file_system \<Rightarrow> bool" where
  "placed root n d f fs fs' \<longleftrightarrow> fs_dirs fs' = fs_dirs fs
    \<and> (\<forall>q. map_of (fs_files fs') q =
        (if q = root @ [d, n] then Some f else if \<exists>d' \<in> set SUBDIRS. q = root @ [d', n] then None
         else map_of (fs_files fs) q))"

lemma placed_lookup:
  "placed root n d f fs fs' \<Longrightarrow> d' \<in> set SUBDIRS \<Longrightarrow> map_of (fs_files fs') (root @ [d', m]) =
    (if m = n then if d' = d then Some f else None else map_of (fs_files fs) (root @ [d', m]))"
  by (auto simp: placed_def)

lemma placed_ok:
  assumes "placed root n d f fs fs'" "queue_ok root fs" "d \<in> set SUBDIRS" "plain_name n" "ends_with ''.json'' n"
  shows "queue_ok root fs'"
proof -
  have "queue_root root fs'"
    using assms(1) queue_ok_root [OF assms(2)] by (simp add: placed_def queue_root_def)
  then show ?thesis
    using assms by (auto simp: queue_ok_def placed_lookup split: if_splits)
qed

lemma placed_view:
  assumes "placed root n d f fs fs'" "queue_ok root fs" "d \<in> set SUBDIRS" "plain_name n" "ends_with ''.json'' n"
  shows "queue_view_of root fs' = (queue_view_of root fs)(n \<mapsto> (d, f))"
proof
  fix m
  have ok: "queue_ok root fs'" by (rule placed_ok [OF assms])
  show "queue_view_of root fs' m = ((queue_view_of root fs)(n \<mapsto> (d, f))) m"
  proof (cases "m = n")
    case True
    then show ?thesis using assms by (simp add: view_Some_iff [OF ok] placed_lookup)
  next
    case False
    then have "queue_view_of root fs' m = Some x \<longleftrightarrow> queue_view_of root fs m = Some x" for x
      using assms by (cases x) (simp add: view_Some_iff view_Some_iff [OF ok] placed_lookup cong: conj_cong)
    then have "queue_view_of root fs' m = queue_view_of root fs m"
      by (metis option.exhaust)
    with False show ?thesis by simp
  qed
qed

section \<open>The operations move items\<close>

lemma entry_eq_iff [simp]: "root @ [d, n] = root @ [d', m] \<longleftrightarrow> d = d' \<and> n = m"
  by simp

lemma os_replace_entry:
  assumes ok: "queue_ok root fs" and d: "d \<in> set SUBDIRS" "d' \<in> set SUBDIRS" "d' \<noteq> d" and n: "plain_name n"
  shows "(\<exists>e. os_replace (root @ [d, n]) (root @ [d', n]) fs = (Inl e, fs) \<and> map_of (fs_files fs) (root @ [d, n]) = None)
    \<or> (\<exists>f fs'. os_replace (root @ [d, n]) (root @ [d', n]) fs = (Inr (), fs')
        \<and> queue_view_of root fs n = Some (d, f) \<and> placed root n d' f fs fs')"
proof (cases "map_of (fs_files fs) (root @ [d, n])")
  case None
  then show ?thesis using d n queue_ok_root [OF ok] by (simp add: os_replace_def)
next
  case (Some f)
  have "root @ [d', n] \<notin> set (fs_dirs fs)"
    using d queue_ok_root [OF ok] by (simp add: queue_root_def)
  then have "os_replace (root @ [d, n]) (root @ [d', n]) fs = (Inr (), fs_put (root @ [d', n]) f (fs_drop (root @ [d, n]) fs))"
    using Some d n queue_ok_root [OF ok] by (simp add: os_replace_def)
  moreover have "map_of (fs_files fs) (root @ [d'', n]) = None" if "d'' \<in> set SUBDIRS" "d'' \<noteq> d" for d''
    using that ok Some d unfolding queue_ok_def by blast
  then have "placed root n d' f fs (fs_put (root @ [d', n]) f (fs_drop (root @ [d, n]) fs))"
    using d by (auto simp: placed_def)
  ultimately show ?thesis using Some d by (simp add: view_Some_iff [OF ok])
qed

lemma in_glob_json: "n \<in> set (glob_json fs d) \<longleftrightarrow> d @ [n] \<in> fst ` set (fs_files fs) \<and> ends_with ''.json'' n"
proof
  assume "n \<in> set (glob_json fs d)"
  then obtain p where p: "p \<in> set (map fst (fs_files fs))" "p \<noteq> []" "butlast p = d" "last p = n" "ends_with ''.json'' n"
    unfolding glob_json_def by auto
  then have "p = d @ [n]" using append_butlast_last_id [of p] by simp
  then show "d @ [n] \<in> fst ` set (fs_files fs) \<and> ends_with ''.json'' n" using p by simp
next
  assume r: "d @ [n] \<in> fst ` set (fs_files fs) \<and> ends_with ''.json'' n"
  show "n \<in> set (glob_json fs d)"
    unfolding glob_json_def set_remdups set_map using r by (intro image_eqI [where x = "d @ [n]"]) simp_all
qed

lemma claim_first_cases:
  assumes ok: "queue_ok root fs"
  shows "((\<forall>n f. queue_view_of root fs n \<noteq> Some (''pending'', f)) \<and> claim_first root m fs = (Inl (FileNotFoundError m), fs))
    \<or> (\<exists>n f fs'. queue_view_of root fs n = Some (''pending'', f)
        \<and> (\<forall>k g. queue_view_of root fs k = Some (''pending'', g) \<longrightarrow> n \<le> k)
        \<and> claim_first root m fs = (Inr (root @ [''processing'', n]), fs') \<and> placed root n ''processing'' f fs fs')"
proof -
  let ?names = "sort (glob_json fs (root @ [''pending'']))"
  have pend: "''pending'' \<in> set SUBDIRS" "''processing'' \<in> set SUBDIRS" by (simp_all add: SUBDIRS_def)
  have names: "n \<in> set ?names \<longleftrightarrow> (\<exists>f. queue_view_of root fs n = Some (''pending'', f))" for n
  proof -
    have "n \<in> set ?names \<longleftrightarrow> root @ [''pending'', n] \<in> fst ` set (fs_files fs) \<and> ends_with ''.json'' n"
      using in_glob_json [of n fs "root @ [''pending'']"] by simp
    also have "\<dots> \<longleftrightarrow> map_of (fs_files fs) (root @ [''pending'', n]) \<noteq> None"
      using ok pend by (auto simp: queue_ok_def map_of_eq_None_iff)
    finally show ?thesis using pend by (auto simp: view_Some_iff [OF ok])
  qed
  show ?thesis
  proof (cases ?names)
    case Nil
    then show ?thesis using names by (auto simp: claim_first_def)
  next
    case (Cons n ns)
    then obtain f where f: "queue_view_of root fs n = Some (''pending'', f)" using names [of n] by auto
    then have plain: "plain_name n" and l: "map_of (fs_files fs) (root @ [''pending'', n]) \<noteq> None"
      using ok pend by (auto simp: view_Some_iff [OF ok] queue_ok_def)
    have least: "n \<le> k" if "queue_view_of root fs k = Some (''pending'', g)" for k g
    proof -
      have "k \<in> set (n # ns)" using names [of k] that Cons by auto
      moreover have "sorted (n # ns)" using Cons by (metis sorted_sort)
      ultimately show ?thesis by auto
    qed
    obtain fs' where "os_replace (root @ [''pending'', n]) (root @ [''processing'', n]) fs = (Inr (), fs')"
        "placed root n ''processing'' f fs fs'"
      using os_replace_entry [OF ok pend _ plain] l f by auto
    then show ?thesis using f least Cons by (auto simp: claim_first_def bind_act_def)
  qed
qed

lemma move_to_cases:
  assumes ok: "queue_ok root fs" and "d \<in> {''acked'', ''quarantine''}" and n: "plain_name n"
  shows "(\<exists>e. move_to root d (root @ [''processing'', n]) fs = (Inl e, fs) \<and> (\<forall>f. queue_view_of root fs n \<noteq> Some (''processing'', f)))
    \<or> (\<exists>f fs'. queue_view_of root fs n = Some (''processing'', f)
        \<and> move_to root d (root @ [''processing'', n]) fs = (Inr (root @ [d, n]), fs') \<and> placed root n d f fs fs')"
proof -
  have "''processing'' \<in> set SUBDIRS" "d \<in> set SUBDIRS" "d \<noteq> ''processing''"
    using assms(2) by (auto simp: SUBDIRS_def)
  from os_replace_entry [OF ok this n] show ?thesis
    by (auto simp: move_to_def bind_act_def view_Some_iff [OF ok])
qed

lemma plain_temp: "plain_name n \<Longrightarrow> plain_name (''.'' @ n @ ''.tmp'')"
  by (auto simp: plain_name_def)

lemma temp_not_json: "\<not> ends_with ''.json'' (''.'' @ n @ ''.tmp'')"
  by (simp add: ends_with_def starts_with_def)

lemma path_exists_entry:
  "queue_root root fs \<Longrightarrow> d \<in> set SUBDIRS \<Longrightarrow> plain_name n \<Longrightarrow>
    path_exists fs (root @ [d, n]) \<longleftrightarrow> map_of (fs_files fs) (root @ [d, n]) \<noteq> None"
  by (simp add: path_exists_def) (simp add: queue_root_def)

lemma find_existing_view:
  assumes "queue_ok root fs" "plain_name n"
  shows "find_existing root n fs = map_option (\<lambda>(d, f). root @ [d, n]) (queue_view_of root fs n)"
proof -
  have "find (path_exists fs) (map (\<lambda>d. root @ [d, n]) ds) =
      map_option (\<lambda>d. root @ [d, n]) (find (\<lambda>d. map_of (fs_files fs) (root @ [d, n]) \<noteq> None) ds)"
    if "set ds \<subseteq> set SUBDIRS" for ds
    using that path_exists_entry [OF queue_ok_root [OF assms(1)] _ assms(2)] by (induction ds) auto
  then show ?thesis
    using assms(2) by (simp add: find_existing_def queue_view_of_def split: option.split)
qed

lemma fs_drop_put_new: "map_of (fs_files fs) p = None \<Longrightarrow> fs_drop p (fs_put p f fs) = fs"
  by (cases fs) (auto simp: fs_drop_def fs_put_def map_of_eq_None_iff intro!: filter_True)

lemma write_temp_then_move_cases:
  assumes ok: "queue_ok root fs" and n: "plain_name n" and new: "queue_view_of root fs n = None"
  shows "write_temp_then_move root n value now (Some e) fs = (Inl e, fs)"
    and "\<exists>fs'. write_temp_then_move root n value now None fs = (Inr (root @ [''pending'', n]), fs')
      \<and> placed root n ''pending'' \<lparr>file_text = json_dump_sorted value @ [char_of (10::nat)], file_mtime = now\<rparr> fs fs'"
proof -
  let ?t = "root @ [''pending'', ''.'' @ n @ ''.tmp'']" and ?p = "root @ [''pending'', n]"
  have pend: "''pending'' \<in> set SUBDIRS" by (simp add: SUBDIRS_def)
  have root: "queue_root root g" if "fs_dirs g = fs_dirs fs" for g
    using that queue_ok_root [OF ok] by (simp add: queue_root_def)
  have t: "map_of (fs_files fs) ?t = None"
    using ok pend temp_not_json [of n] unfolding queue_ok_def by blast
  have dirs: "?t \<notin> set (fs_dirs fs)" "?p \<notin> set (fs_dirs fs)"
    using queue_ok_root [OF ok] pend by (simp_all add: queue_root_def)
  have open_excl: "os_open_excl ?t now fs = (Inr ?t, fs_put ?t \<lparr>file_text = '''', file_mtime = now\<rparr> fs)"
    using t dirs root [of fs] pend plain_temp [OF n] by (simp add: os_open_excl_def)
  have join: "path_join (root @ [''pending'']) n = ?p" "path_join (root @ [''pending'']) (''.'' @ n @ ''.tmp'') = ?t"
    using n plain_temp [OF n] by (simp_all del: append.simps)
  show "write_temp_then_move root n value now (Some e) fs = (Inl e, fs)"
    unfolding write_temp_then_move_def Let_def join bind_act_def open_excl
    using t by (simp add: fs_drop_put_new)
  let ?f = "\<lparr>file_text = json_dump_sorted value @ [char_of (10::nat)], file_mtime = now\<rparr>"
  let ?g = "fs_put ?t ?f (fs_put ?t \<lparr>file_text = '''', file_mtime = now\<rparr> fs)"
  let ?fs' = "fs_put ?p ?f (fs_drop ?t ?g)"
  have "os_replace ?t ?p ?g = (Inr (), ?fs')"
    using root [of ?g] pend n plain_temp [OF n] dirs by (simp add: os_replace_def)
  moreover have "placed root n ''pending'' ?f fs ?fs'"
    using t new by (auto simp: placed_def view_None_iff)
  ultimately show "\<exists>fs'. write_temp_then_move root n value now None fs = (Inr ?p, fs') \<and> placed root n ''pending'' ?f fs fs'"
    unfolding write_temp_then_move_def Let_def join bind_act_def open_excl by simp
qed

lemma hex_digit_plain: "d < 16 \<Longrightarrow> hex_digit d \<noteq> CHR ''/'' \<and> hex_digit d \<noteq> CHR 0x00"
proof -
  assume "d < 16"
  then have "48 \<le> code (hex_digit d)" by (simp add: hex_digit_def)
  then show ?thesis by (auto simp: code_def)
qed

lemma sha256_hex_plain: "c \<in> set (sha256_hex s) \<Longrightarrow> c \<noteq> CHR ''/'' \<and> c \<noteq> CHR 0x00"
  by (auto simp: sha256_hex_def hex_word_def hex_digit_plain)

lemma job_file_plain: "plain_name (job_id_for_payload payload @ ''.json'')"
  by (auto simp: plain_name_def job_id_for_payload_def dest!: in_set_takeD sha256_hex_plain)

lemma ends_with_json [simp]: "ends_with ''.json'' (n @ ''.json'')"
  by (simp add: ends_with_def starts_with_def)

section \<open>The queues as abstract queues\<close>

lemma places [simp]:
  "''pending'' \<in> set SUBDIRS" "''processing'' \<in> set SUBDIRS" "''acked'' \<in> set SUBDIRS" "''quarantine'' \<in> set SUBDIRS"
  by (simp_all add: SUBDIRS_def)

lemma view_entry:
  "queue_ok root fs \<Longrightarrow> queue_view_of root fs n = Some (d, f) \<Longrightarrow> plain_name n \<and> ends_with ''.json'' n \<and> d \<in> set SUBDIRS"
  unfolding view_Some_iff by (auto simp: queue_ok_def)

lemma placed_trans: "d \<in> set SUBDIRS \<Longrightarrow> placed root n d f fs fs1 \<Longrightarrow> placed root n d' f' fs1 fs2 \<Longrightarrow> placed root n d' f' fs fs2"
  by (auto simp: placed_def)

text \<open>A step of an operation: nothing, or one move of the abstract queue; the queue stays sound.\<close>

definition sound_step :: "path \<Rightarrow> file_system \<Rightarrow> file_system \<Rightarrow> bool" where
  "sound_step root fs fs' \<longleftrightarrow> queue_ok root fs' \<and> queue_moves\<^sup>*\<^sup>* (queue_view_of root fs) (queue_view_of root fs')"

lemma sound_stay [simp]: "sound_step root fs fs \<longleftrightarrow> queue_ok root fs"
  by (simp add: sound_step_def)

lemma sound_arrive:
  assumes "queue_ok root fs" "plain_name n" "ends_with ''.json'' n" "queue_view_of root fs n = None"
    and "placed root n ''pending'' f fs fs'"
  shows "sound_step root fs fs'"
proof -
  have "queue_view_of root fs' = (queue_view_of root fs)(n \<mapsto> (''pending'', f))"
    by (rule placed_view [OF assms(5,1) _ assms(2,3)]) simp
  moreover have "queue_ok root fs'" by (rule placed_ok [OF assms(5,1) _ assms(2,3)]) simp
  ultimately show ?thesis
    using queue_moves.arrive [of "queue_view_of root fs" n f] assms(4) by (simp add: sound_step_def r_into_rtranclp)
qed

lemma sound_take:
  assumes "queue_ok root fs" "queue_view_of root fs n = Some (''pending'', f)"
    and "\<forall>k g. queue_view_of root fs k = Some (''pending'', g) \<longrightarrow> n \<le> k"
    and "placed root n ''processing'' f fs fs'"
  shows "sound_step root fs fs'"
proof -
  note e = view_entry [OF assms(1,2)]
  have "queue_view_of root fs' = (queue_view_of root fs)(n \<mapsto> (''processing'', f))"
    by (rule placed_view [OF assms(4,1)]) (use e in simp_all)
  moreover have "queue_ok root fs'" by (rule placed_ok [OF assms(4,1)]) (use e in simp_all)
  ultimately show ?thesis
    using queue_moves.take [of "queue_view_of root fs" n f] assms(2,3) by (simp add: sound_step_def r_into_rtranclp)
qed

lemma sound_settle:
  assumes "queue_ok root fs" "queue_view_of root fs n = Some (''processing'', f)" "d \<in> {''acked'', ''quarantine''}"
    and "placed root n d f fs fs'"
  shows "sound_step root fs fs'"
proof -
  note e = view_entry [OF assms(1,2)]
  have d: "d \<in> set SUBDIRS" using assms(3) by (auto simp: SUBDIRS_def)
  have "queue_view_of root fs' = (queue_view_of root fs)(n \<mapsto> (d, f))"
    by (rule placed_view [OF assms(4,1) d]) (use e in simp_all)
  moreover have "queue_ok root fs'" by (rule placed_ok [OF assms(4,1) d]) (use e in simp_all)
  ultimately show ?thesis
    using queue_moves.settle [of "queue_view_of root fs" n f d] assms(2,3) by (simp add: sound_step_def r_into_rtranclp)
qed

text \<open>What both \<open>enqueue\<close> methods do with a valid item.\<close>

lemma store_cases:
  assumes "queue_ok root fs" "plain_name n"
  obtains (known) d f where "queue_view_of root fs n = Some (d, f)" "find_existing root n fs = Some (root @ [d, n])"
  | (failed) e where "fault = Some e" "queue_view_of root fs n = None" "find_existing root n fs = None"
      "write_temp_then_move root n item now fault fs = (Inl e, fs)"
  | (stored) fs' where "fault = None" "queue_view_of root fs n = None" "find_existing root n fs = None"
      "write_temp_then_move root n item now fault fs = (Inr (root @ [''pending'', n]), fs')"
      "placed root n ''pending'' \<lparr>file_text = json_dump_sorted item @ [char_of (10::nat)], file_mtime = now\<rparr> fs fs'"
proof (cases "queue_view_of root fs n")
  case None
  then show ?thesis
    using failed stored write_temp_then_move_cases [OF assms None, of item now] find_existing_view [OF assms]
    by (cases fault) auto
next
  case (Some p)
  then show ?thesis using known find_existing_view [OF assms] by (cases p) simp
qed

lemma spool_enqueue_sound:
  assumes "queue_ok root fs" "plain_name (py_str (get_item event ''event_id'') @ ''.json'')"
  shows "sound_step root fs (snd (spool_enqueue root event now fault fs))"
proof (cases "validate_event event")
  case (Inr u)
  from assms show ?thesis
  proof (cases rule: store_cases [where item = "JObj event" and now = now and fault = fault])
    case (stored fs')
    then show ?thesis using sound_arrive [OF assms _ stored(2,5)] Inr by (simp add: spool_enqueue_def)
  qed (use assms Inr in \<open>simp_all add: spool_enqueue_def\<close>)
qed (use assms in \<open>simp add: spool_enqueue_def\<close>)

lemma job_enqueue_sound:
  assumes "queue_ok root fs"
  shows "sound_step root fs (snd (job_enqueue root payload now fault fs))"
proof (cases "validate_ingress_payload payload")
  case (Inr u)
  from assms job_file_plain [of payload] show ?thesis
  proof (cases rule: store_cases [where item = "JObj payload" and now = now and fault = fault])
    case (stored fs')
    then show ?thesis using sound_arrive [OF assms job_file_plain _ stored(2,5)] Inr by (simp add: job_enqueue_def Let_def)
  qed (use assms Inr in \<open>simp_all add: job_enqueue_def Let_def\<close>)
qed (use assms in \<open>simp add: job_enqueue_def\<close>)

lemma claim_first_sound: "queue_ok root fs \<Longrightarrow> sound_step root fs (snd (claim_first root m fs))"
  using claim_first_cases [of root fs m] sound_take [of root fs] by force

lemma move_to_sound:
  assumes "queue_ok root fs" "d \<in> {''acked'', ''quarantine''}" "plain_name n"
  shows "sound_step root fs (snd (move_to root d (root @ [''processing'', n]) fs))"
  using move_to_cases [OF assms] assms(1) sound_settle [OF assms(1) _ assms(2)] by force

text \<open>The drain of one job: the least pending one, acknowledged when its document was submitted and quarantined otherwise.\<close>

definition verdict :: "(rag_document \<Rightarrow> string result) \<Rightarrow> string \<Rightarrow> string result" where
  "verdict submit_document text =
    bind_result (payload_of_text text) (\<lambda>payload. bind_result (document_from_ingress_payload payload) submit_document)"

lemma placed_twice:
  assumes ok: "queue_ok root fs" and v: "queue_view_of root fs n = Some (d0, f)"
    and p: "placed root n d1 f fs fs1" "placed root n d2 f fs1 fs2" and d: "d1 \<in> set SUBDIRS" "d2 \<in> set SUBDIRS"
  shows "queue_view_of root fs2 = (queue_view_of root fs)(n \<mapsto> (d2, f))"
proof -
  note e = view_entry [OF ok v]
  have "queue_ok root fs1" by (rule placed_ok [OF p(1) ok d(1)]) (use e in simp_all)
  then show ?thesis using placed_view [OF p(2) _ d(2)] placed_view [OF p(1) ok d(1)] e by simp
qed

lemma drain_one_cases:
  assumes ok: "queue_ok root fs"
  obtains (empty) "\<forall>n f. queue_view_of root fs n \<noteq> Some (''pending'', f)"
      "drain_one_ingress_job root submit fs = (Inl (FileNotFoundError ''no pending ingress jobs''), fs)"
  | (acked) n f status fs1 fs' where "queue_view_of root fs n = Some (''pending'', f)"
      "\<forall>k g. queue_view_of root fs k = Some (''pending'', g) \<longrightarrow> n \<le> k" "verdict submit (file_text f) = Inr status"
      "drain_one_ingress_job root submit fs = (Inr (Submitted (path_stem [n]) (root @ [''acked'', n]) status), fs')"
      "placed root n ''processing'' f fs fs1" "placed root n ''acked'' f fs1 fs'"
  | (quarantined) n f e fs1 fs' where "queue_view_of root fs n = Some (''pending'', f)"
      "\<forall>k g. queue_view_of root fs k = Some (''pending'', g) \<longrightarrow> n \<le> k" "verdict submit (file_text f) = Inl e"
      "drain_one_ingress_job root submit fs = (Inr (Quarantined (path_stem [n]) (root @ [''quarantine'', n])), fs')"
      "placed root n ''processing'' f fs fs1" "placed root n ''quarantine'' f fs1 fs'"
proof -
  note c = claim_first_cases [OF ok, of "''no pending ingress jobs''"]
  show ?thesis
  proof (cases "\<forall>n f. queue_view_of root fs n \<noteq> Some (''pending'', f)")
    case True
    then show ?thesis using c empty by (auto simp: drain_one_ingress_job_def job_claim_next_def bind_act_def)
  next
    case False
    then obtain n f fs1 where n: "queue_view_of root fs n = Some (''pending'', f)"
        "\<forall>k g. queue_view_of root fs k = Some (''pending'', g) \<longrightarrow> n \<le> k"
      and claim: "job_claim_next root fs = (Inr (root @ [''processing'', n]), fs1)"
      and p: "placed root n ''processing'' f fs fs1" using c unfolding job_claim_next_def by blast
    note e = view_entry [OF ok n(1)]
    have ok1: "queue_ok root fs1" by (rule placed_ok [OF p ok]) (use e in simp_all)
    have v1: "queue_view_of root fs1 n = Some (''processing'', f)"
      using placed_view [OF p ok] e by simp
    have read: "read_payload (root @ [''processing'', n]) fs1 = payload_of_text (file_text f)"
      using queue_ok_root [OF ok1] e v1 by (simp add: read_payload_def view_Some_iff [OF ok1])
    have move: "\<exists>fs'. move_to root d (root @ [''processing'', n]) fs1 = (Inr (root @ [d, n]), fs') \<and> placed root n d f fs1 fs'"
      if "d \<in> {''acked'', ''quarantine''}" for d
      using move_to_cases [OF ok1 that, of n] e v1 by auto
    have stem: "path_stem (root @ [''processing'', n]) = path_stem [n]" by (simp add: path_stem_def Let_def)
    show ?thesis
    proof (cases "verdict submit (file_text f)")
      case (Inr status)
      obtain fs' where m: "move_to root ''acked'' (root @ [''processing'', n]) fs1 = (Inr (root @ [''acked'', n]), fs')"
          "placed root n ''acked'' f fs1 fs'" using move [of "''acked''"] by auto
      show ?thesis
        using acked [OF n Inr _ p m(2)] Inr claim m(1)
        by (simp add: drain_one_ingress_job_def bind_act_def read stem job_ack_def flip: verdict_def)
    next
      case (Inl e')
      obtain fs' where m: "move_to root ''quarantine'' (root @ [''processing'', n]) fs1 = (Inr (root @ [''quarantine'', n]), fs')"
          "placed root n ''quarantine'' f fs1 fs'" using move [of "''quarantine''"] by auto
      show ?thesis
        using quarantined [OF n Inl _ p m(2)] Inl claim m(1)
        by (simp add: drain_one_ingress_job_def bind_act_def read stem job_quarantine_def flip: verdict_def)
    qed
  qed
qed

lemma drain_one_sound:
  assumes ok: "queue_ok root fs"
  shows "sound_step root fs (snd (drain_one_ingress_job root submit fs))"
proof -
  have two: "sound_step root fs fs'"
    if "queue_view_of root fs n = Some (''pending'', f)" "\<forall>k g. queue_view_of root fs k = Some (''pending'', g) \<longrightarrow> n \<le> k"
      "d \<in> {''acked'', ''quarantine''}" "placed root n ''processing'' f fs fs1" "placed root n d f fs1 fs'" for n f d fs1 fs'
  proof -
    note e = view_entry [OF ok that(1)]
    have one: "sound_step root fs fs1" by (rule sound_take [OF ok that(1,2,4)])
    have "queue_view_of root fs1 n = Some (''processing'', f)"
      using placed_view [OF that(4) ok] e by simp
    from sound_settle [OF _ this that(3,5)] one show ?thesis
      by (auto simp: sound_step_def)
  qed
  show ?thesis
    using ok
  proof (cases rule: drain_one_cases [where submit = submit])
    case (acked n f status fs1 fs')
    then show ?thesis using two [of n f "''acked''"] by simp
  next
    case (quarantined n f e fs1 fs')
    then show ?thesis using two [of n f "''quarantine''"] by simp
  qed (use ok in simp)
qed

section \<open>The contract of a durable queue\<close>

text \<open>
  A queue is durable when every admissible call keeps it sound and moves items only the way the
  abstract queue allows.  Then no run of calls loses, alters or moves back an accepted item.
\<close>

locale durable_queue =
  fixes sound :: "'s \<Rightarrow> bool" and view :: "'s \<Rightarrow> queue_view" and admissible :: "'c \<Rightarrow> bool" and call :: "'c \<Rightarrow> 's \<Rightarrow> 's"
  assumes call_sound: "admissible c \<Longrightarrow> sound s \<Longrightarrow> sound (call c s)"
    and call_moves: "admissible c \<Longrightarrow> sound s \<Longrightarrow> queue_moves\<^sup>*\<^sup>* (view s) (view (call c s))"
begin

lemma run_sound: "list_all admissible cs \<Longrightarrow> sound s \<Longrightarrow> sound (fold call cs s)"
  by (induction cs arbitrary: s) (auto intro: call_sound)

lemma run_refines: "list_all admissible cs \<Longrightarrow> sound s \<Longrightarrow> queue_moves\<^sup>*\<^sup>* (view s) (view (fold call cs s))"
proof (induction cs arbitrary: s)
  case (Cons c cs)
  then have "queue_moves\<^sup>*\<^sup>* (view (call c s)) (view (fold call cs (call c s)))" using call_sound by simp
  with Cons.prems show ?case using call_moves [of c s] by simp
qed simp

lemma never_lost:
  "list_all admissible cs \<Longrightarrow> sound s \<Longrightarrow> view s n = Some (d, f) \<Longrightarrow>
    \<exists>d'. view (fold call cs s) n = Some (d', f) \<and> place_rank d \<le> place_rank d'"
  using queue_runs_keep run_refines by blast

end

datatype 'i queue_call =
    Offer 'i int "py_error option"
  | Claim
  | Ack string
  | Quarantine string

datatype job_call =
    Call "dict queue_call"
  | Drain "rag_document \<Rightarrow> string result"

text \<open>The caller acknowledges or quarantines a path \<open>claim_next\<close> returned.\<close>

definition spool_call :: "path \<Rightarrow> dict queue_call \<Rightarrow> file_system \<Rightarrow> file_system" where
  "spool_call root c fs =
    (case c of
       Offer event now fault \<Rightarrow> snd (spool_enqueue root event now fault fs)
     | Claim \<Rightarrow> snd (spool_claim_next root fs)
     | Ack n \<Rightarrow> snd (spool_ack root (root @ [''processing'', n]) fs)
     | Quarantine n \<Rightarrow> snd (spool_quarantine root (root @ [''processing'', n]) fs))"

definition queue_call_of :: "path \<Rightarrow> dict queue_call \<Rightarrow> file_system \<Rightarrow> file_system" where
  "queue_call_of root c fs =
    (case c of
       Offer payload now fault \<Rightarrow> snd (job_enqueue root payload now fault fs)
     | Claim \<Rightarrow> snd (job_claim_next root fs)
     | Ack n \<Rightarrow> snd (job_ack root (root @ [''processing'', n]) fs)
     | Quarantine n \<Rightarrow> snd (job_quarantine root (root @ [''processing'', n]) fs))"

definition job_queue_call :: "path \<Rightarrow> job_call \<Rightarrow> file_system \<Rightarrow> file_system" where
  "job_queue_call root c fs =
    (case c of Call c' \<Rightarrow> queue_call_of root c' fs | Drain submit \<Rightarrow> snd (drain_one_ingress_job root submit fs))"

definition spool_admissible :: "dict queue_call \<Rightarrow> bool" where
  "spool_admissible c =
    (case c of
       Offer event _ _ \<Rightarrow> plain_name (py_str (get_item event ''event_id'') @ ''.json'')
     | Claim \<Rightarrow> True
     | Ack n \<Rightarrow> plain_name n
     | Quarantine n \<Rightarrow> plain_name n)"

definition job_admissible :: "job_call \<Rightarrow> bool" where
  "job_admissible c =
    (case c of Call (Ack n) \<Rightarrow> plain_name n | Call (Quarantine n) \<Rightarrow> plain_name n | _ \<Rightarrow> True)"

lemma spool_call_sound: "spool_admissible c \<Longrightarrow> queue_ok root fs \<Longrightarrow> sound_step root fs (spool_call root c fs)"
  by (cases c) (simp_all add: spool_admissible_def spool_call_def spool_enqueue_sound spool_claim_next_def
      claim_first_sound spool_ack_def spool_quarantine_def move_to_sound)

lemma job_queue_call_sound: "job_admissible c \<Longrightarrow> queue_ok root fs \<Longrightarrow> sound_step root fs (job_queue_call root c fs)"
proof (cases c)
  case (Call c')
  then show "job_admissible c \<Longrightarrow> queue_ok root fs \<Longrightarrow> ?thesis"
    by (cases c') (simp_all add: job_admissible_def job_queue_call_def queue_call_of_def job_enqueue_sound job_claim_next_def
        claim_first_sound job_ack_def job_quarantine_def move_to_sound)
qed (simp add: job_queue_call_def drain_one_sound)

interpretation event_spool: durable_queue "queue_ok root" "queue_view_of root" spool_admissible "spool_call root"
  by unfold_locales (use spool_call_sound in \<open>auto simp: sound_step_def\<close>)

interpretation job_queue: durable_queue "queue_ok root" "queue_view_of root" job_admissible "job_queue_call root"
  by unfold_locales (use job_queue_call_sound in \<open>auto simp: sound_step_def\<close>)

section \<open>Garbage collection\<close>

lemma gc_loop_spec:
  assumes "distinct names" "\<forall>n \<in> set names. map_of (fs_files fs) (dir @ [n]) \<noteq> None"
  shows "\<exists>fs'. gc_loop dir max_age now names k fs =
      (Inr (k + length (filter (\<lambda>n. max_age \<le> now - file_mtime (the (map_of (fs_files fs) (dir @ [n])))) names)), fs')
    \<and> fs_dirs fs' = fs_dirs fs
    \<and> (\<forall>q. map_of (fs_files fs') q =
        (if \<exists>n \<in> set names. q = dir @ [n] \<and> max_age \<le> now - file_mtime (the (map_of (fs_files fs) q)) then None
         else map_of (fs_files fs) q))"
  using assms
proof (induction names arbitrary: fs k)
  case (Cons n names)
  obtain f where f: "map_of (fs_files fs) (dir @ [n]) = Some f" using Cons.prems by auto
  let ?g = "if max_age \<le> now - file_mtime f then fs_drop (dir @ [n]) fs else fs"
  have same: "map_of (fs_files ?g) (dir @ [m]) = map_of (fs_files fs) (dir @ [m])" if "m \<in> set names" for m
    using that Cons.prems by auto
  then have "\<forall>m \<in> set names. map_of (fs_files ?g) (dir @ [m]) \<noteq> None"
    using Cons.prems by simp
  from Cons.IH [OF _ this, of "if max_age \<le> now - file_mtime f then Suc k else k"] Cons.prems
  obtain fs' where fs': "gc_loop dir max_age now names (if max_age \<le> now - file_mtime f then Suc k else k) ?g =
      (Inr ((if max_age \<le> now - file_mtime f then Suc k else k) +
        length (filter (\<lambda>m. max_age \<le> now - file_mtime (the (map_of (fs_files ?g) (dir @ [m])))) names)), fs')"
    "fs_dirs fs' = fs_dirs ?g"
    "\<forall>q. map_of (fs_files fs') q =
        (if \<exists>m \<in> set names. q = dir @ [m] \<and> max_age \<le> now - file_mtime (the (map_of (fs_files ?g) q)) then None
         else map_of (fs_files ?g) q)" by auto
  have "filter (\<lambda>m. max_age \<le> now - file_mtime (the (map_of (fs_files ?g) (dir @ [m])))) names =
      filter (\<lambda>m. max_age \<le> now - file_mtime (the (map_of (fs_files fs) (dir @ [m])))) names"
    using same by (intro filter_cong) auto
  then show ?case
    using fs' f same by (cases "max_age \<le> now - file_mtime f") (auto simp del: fs_put_simps(2))
qed simp

lemma collect_garbage_spec:
  assumes ok: "queue_ok root fs" and d: "d \<in> {''acked'', ''quarantine''}"
  shows "\<exists>k fs'. collect_garbage root d max_age now fs = (Inr k, fs') \<and> queue_ok root fs'
    \<and> k = card {n. \<exists>f. queue_view_of root fs n = Some (d, f) \<and> max_age \<le> now - file_mtime f}
    \<and> (\<forall>n. queue_view_of root fs' n = (case queue_view_of root fs n of
          Some (d', f) \<Rightarrow> if d' = d \<and> max_age \<le> now - file_mtime f then None else Some (d', f)
        | None \<Rightarrow> None))"
proof -
  let ?names = "glob_json fs (root @ [d])" and ?old = "\<lambda>f. max_age \<le> now - file_mtime f"
  have dS: "d \<in> set SUBDIRS" using d by (auto simp: SUBDIRS_def)
  have names: "n \<in> set ?names \<longleftrightarrow> (\<exists>f. queue_view_of root fs n = Some (d, f))" for n
    using in_glob_json [of n fs "root @ [d]"] ok dS map_of_eq_None_iff [of "fs_files fs" "root @ [d, n]"]
    by (auto simp: view_Some_iff [OF ok] queue_ok_def)
  have look: "map_of (fs_files fs) ((root @ [d]) @ [n]) = Some f" if "queue_view_of root fs n = Some (d, f)" for n f
    using that by (simp add: view_Some_iff [OF ok])
  have dn: "distinct ?names" by (simp add: glob_json_def)
  have "\<forall>n \<in> set ?names. map_of (fs_files fs) ((root @ [d]) @ [n]) \<noteq> None" using names look by fastforce
  from gc_loop_spec [OF dn this, of max_age now 0] obtain fs' where
    run: "gc_loop (root @ [d]) max_age now ?names 0 fs =
      (Inr (length (filter (\<lambda>n. ?old (the (map_of (fs_files fs) ((root @ [d]) @ [n])))) ?names)), fs')"
    and dirs: "fs_dirs fs' = fs_dirs fs"
    and files: "\<And>q. map_of (fs_files fs') q =
        (if \<exists>n \<in> set ?names. q = (root @ [d]) @ [n] \<and> ?old (the (map_of (fs_files fs) q)) then None
         else map_of (fs_files fs) q)" by auto
  have "set (filter (\<lambda>n. ?old (the (map_of (fs_files fs) ((root @ [d]) @ [n])))) ?names) =
      {n. \<exists>f. queue_view_of root fs n = Some (d, f) \<and> ?old f}"
    using names look by fastforce
  then have count: "length (filter (\<lambda>n. ?old (the (map_of (fs_files fs) ((root @ [d]) @ [n])))) ?names) =
      card {n. \<exists>f. queue_view_of root fs n = Some (d, f) \<and> ?old f}"
    using distinct_card [OF distinct_filter [OF dn]] by metis
  have lookup: "map_of (fs_files fs') (root @ [d', n]) =
      (if d' = d \<and> n \<in> set ?names \<and> ?old (the (map_of (fs_files fs) (root @ [d', n]))) then None
       else map_of (fs_files fs) (root @ [d', n]))" for d' n
    using files [of "root @ [d', n]"] by auto
  have ok': "queue_ok root fs'"
    using ok dirs unfolding queue_ok_def queue_root_def lookup by auto
  have "queue_view_of root fs' n = (case queue_view_of root fs n of
          Some (d', f) \<Rightarrow> if d' = d \<and> ?old f then None else Some (d', f) | None \<Rightarrow> None)" for n
  proof (cases "queue_view_of root fs n")
    case None
    then have "queue_view_of root fs' n = None" unfolding view_None_iff lookup by simp
    with None show ?thesis by simp
  next
    case (Some p)
    obtain d' f where p: "p = (d', f)" by force
    have l: "d' \<in> set SUBDIRS" "map_of (fs_files fs) (root @ [d', n]) = Some f"
      using Some p by (simp_all add: view_Some_iff [OF ok])
    have other: "map_of (fs_files fs) (root @ [d'', n]) = None" if "d'' \<in> set SUBDIRS" "d'' \<noteq> d'" for d''
      using that ok l unfolding queue_ok_def by blast
    show ?thesis
    proof (cases "d' = d \<and> ?old f")
      case True
      then have "n \<in> set ?names" using names Some p by auto
      then have "queue_view_of root fs' n = None"
        using True l other by (auto simp: view_None_iff lookup)
      with True show ?thesis using Some p by simp
    next
      case False
      then have "queue_view_of root fs' n = Some (d', f)"
        using l by (auto simp: view_Some_iff [OF ok'] lookup)
      with False show ?thesis using Some p by simp
    qed
  qed
  then show ?thesis using run count ok' d by (auto simp: collect_garbage_def)
qed

section \<open>Accepting a job\<close>

lemma status_for_path_entry [simp]:
  "status_for_path (root @ [d, n]) = (if d = ''pending'' then ''queued'' else d)"
  by (simp add: status_for_path_def)

text \<open>An accepted job is in the queue, and offering it again changes nothing and answers the same.\<close>

lemma job_enqueue_accepted:
  assumes ok: "queue_ok root fs" and acc: "job_enqueue root payload now fault fs = (Inr j, fs')"
  shows "\<exists>d f. queue_view_of root fs' (job_id_for_payload payload @ ''.json'') = Some (d, f)
    \<and> j = \<lparr>ij_job_id = job_id_for_payload payload, ij_path = root @ [d, job_id_for_payload payload @ ''.json''],
        ij_status = (if d = ''pending'' then ''queued'' else d)\<rparr>
    \<and> (fs' = fs \<or> d = ''pending'' \<and> file_text f = json_dump_sorted (JObj payload) @ [char_of (10::nat)])"
proof -
  let ?n = "job_id_for_payload payload @ ''.json''"
  obtain u where v: "validate_ingress_payload payload = Inr u"
    using acc by (cases "validate_ingress_payload payload") (simp_all add: job_enqueue_def)
  from ok job_file_plain [of payload] show ?thesis
  proof (cases rule: store_cases [where item = "JObj payload" and now = now and fault = fault])
    case (known d f)
    then show ?thesis using acc v by (auto simp: job_enqueue_def Let_def)
  next
    case (failed e)
    then show ?thesis using acc v by (simp add: job_enqueue_def Let_def bind_act_def)
  next
    case (stored fs'')
    have "queue_view_of root fs'' ?n = Some (''pending'', \<lparr>file_text = json_dump_sorted (JObj payload) @ [char_of (10::nat)], file_mtime = now\<rparr>)"
      using placed_view [OF stored(5) ok _ job_file_plain] by simp
    then show ?thesis using stored acc v by (auto simp: job_enqueue_def Let_def bind_act_def)
  qed
qed

lemma job_enqueue_again:
  assumes ok: "queue_ok root fs" and acc: "job_enqueue root payload now fault fs = (Inr j, fs')"
  shows "job_enqueue root payload now' fault' fs' = (Inr j, fs')"
proof -
  obtain u where v: "validate_ingress_payload payload = Inr u"
    using acc by (cases "validate_ingress_payload payload") (simp_all add: job_enqueue_def)
  have ok': "queue_ok root fs'" using job_enqueue_sound [OF ok, of payload now fault] acc by (simp add: sound_step_def)
  obtain d f where "queue_view_of root fs' (job_id_for_payload payload @ ''.json'') = Some (d, f)"
    "j = \<lparr>ij_job_id = job_id_for_payload payload, ij_path = root @ [d, job_id_for_payload payload @ ''.json''],
        ij_status = (if d = ''pending'' then ''queued'' else d)\<rparr>"
    using job_enqueue_accepted [OF assms] by blast
  then show ?thesis using v by (simp add: job_enqueue_def Let_def find_existing_view [OF ok' job_file_plain])
qed

lemma payload_of_stored_text:
  "json_wf (JObj d) \<Longrightarrow> json_canon (JObj d) = JObj d' \<Longrightarrow>
    payload_of_text (json_dump_sorted (JObj d) @ [char_of (10::nat)]) = Inr d'"
  by (simp only: payload_of_text_def json_loads_dump_sorted option.case json.case)

text \<open>
  A temporary file that a crash left behind (created, never moved) makes every later offer of the
  same item fail, although the queue does not have it.
\<close>

lemma stale_temp_blocks:
  assumes "queue_root root fs" "validate_ingress_payload payload = Inr u" "n = job_id_for_payload payload @ ''.json''"
    and "\<forall>d \<in> set SUBDIRS. map_of (fs_files fs) (root @ [d, n]) = None"
    and "map_of (fs_files fs) (root @ [''pending'', ''.'' @ n @ ''.tmp'']) \<noteq> None"
  shows "\<exists>m. job_enqueue root payload now fault fs = (Inl (FileExistsError m), fs)"
proof -
  have n: "plain_name n" using assms(3) job_file_plain by simp
  have "\<not> path_exists fs (root @ [d, n])" if "d \<in> set SUBDIRS" for d
    using that assms(4) path_exists_entry [OF assms(1) that n] by simp
  then have "find_existing root n fs = None"
    using n by (auto simp: find_existing_def find_None_iff)
  moreover have t: "path_join (root @ [''pending'']) (''.'' @ n @ ''.tmp'') = root @ [''pending'', ''.'' @ n @ ''.tmp'']" (is "_ = ?t")
    using plain_temp [OF n] by (simp del: append.simps)
  moreover have "os_open_excl ?t now fs = (Inl (FileExistsError (join ''/'' ?t)), fs)"
    using assms(5) resolve_entry [OF assms(1) _ plain_temp [OF n]] by (simp add: os_open_excl_def)
  then have "write_temp_then_move root n (JObj payload) now fault fs = (Inl (FileExistsError (join ''/'' ?t)), fs)"
    unfolding write_temp_then_move_def Let_def bind_act_def t by simp
  ultimately show ?thesis
    using assms(2,3) by (simp add: job_enqueue_def Let_def bind_act_def)
qed

end
