(* ===== verification/Ingress_Http.thy ===== *)
theory Ingress_Http
  imports File_Queue
begin

text \<open>
  The HTTP front of the ingress host: \<open>RagIngressRuntime\<close> and the request handler of
  \<open>rag_ingress/server_runtime.py\<close>.  A request is its path, its \<open>Content-Length\<close> header and the
  function that reads and decodes that many bytes of the body; the answer is a status code with
  a JSON body, or the exception that escapes the handler.  The shadow hook of the runtime is an
  action on a world of its own.  Sockets, logging and the command line are not modelled.
\<close>

section \<open>The runtime\<close>

definition MAX_REQUEST_BYTES :: int where "MAX_REQUEST_BYTES = 2000000"

record 'w runtime =
  rt_event_spool :: path
  rt_job_queue :: path
  rt_inbox_shadow :: "(dict \<Rightarrow> ingress_job \<Rightarrow> ('w, unit) action) option"

type_synonym 'w host = "file_system \<times> 'w"

definition counts_json :: "(string \<times> nat) list \<Rightarrow> json" where
  "counts_json cs = JObj (map (map_prod id (\<lambda>k. JInt (int k))) cs)"

definition health :: "'w runtime \<Rightarrow> file_system \<Rightarrow> dict" where
  "health rt fs =
    [(''status'', JStr ''ok''),
     (''event_spool'', counts_json (depth_counts (rt_event_spool rt) fs)),
     (''ingress_queue'', counts_json (depth_counts (rt_job_queue rt) fs))]"

definition enqueue_event :: "'w runtime \<Rightarrow> dict \<Rightarrow> int \<Rightarrow> py_error option \<Rightarrow> ('w host, dict) action" where
  "enqueue_event rt event now fault h =
    (case spool_enqueue (rt_event_spool rt) event now fault (fst h) of
       (Inl e, fs) \<Rightarrow> (Inl e, (fs, snd h))
     | (Inr p, fs) \<Rightarrow>
         (Inr [(''accepted'', JBool True), (''status'', JStr (status_for_path p)), (''eventId'', get_item event ''event_id'')],
          (fs, snd h)))"

text \<open>The shadow hook runs after the job is stored; what it raises is dropped.\<close>

definition enqueue_document :: "'w runtime \<Rightarrow> dict \<Rightarrow> int \<Rightarrow> py_error option \<Rightarrow> ('w host, dict) action" where
  "enqueue_document rt payload now fault h =
    (case job_enqueue (rt_job_queue rt) payload now fault (fst h) of
       (Inl e, fs) \<Rightarrow> (Inl e, (fs, snd h))
     | (Inr job, fs) \<Rightarrow>
         (let w = (case rt_inbox_shadow rt of None \<Rightarrow> snd h | Some shadow \<Rightarrow> snd (shadow payload job (snd h)))
          in (Inr [(''accepted'', JBool True), (''status'', JStr (ij_status job)), (''jobId'', JStr (ij_job_id job))],
              (fs, w))))"

section \<open>The request handler\<close>

definition read_json :: "string option \<Rightarrow> (int \<Rightarrow> string result) \<Rightarrow> dict result" where
  "read_json content_length read_body =
    bind_result (py_int_of (case content_length of None \<Rightarrow> ''0'' | Some s \<Rightarrow> if s = '''' then ''0'' else s)) (\<lambda>length.
      if length \<le> 0 then Inl (ValueError ''request body is required'')
      else if length > MAX_REQUEST_BYTES then Inl (ValueError ''request body is too large'')
      else bind_result (read_body length) (\<lambda>text.
        (case json_loads text of
           None \<Rightarrow> Inl (JSONDecodeError '''')
         | Some (JObj d) \<Rightarrow> Inr d
         | Some _ \<Rightarrow> Inl (ValueError ''request JSON must be an object''))))"

text \<open>The classes the handler catches: \<open>ValueError\<close> with its subclasses.\<close>

fun value_error_class :: "py_error \<Rightarrow> string option" where
  "value_error_class (ValueError _) = Some ''ValueError''"
| "value_error_class (SecretLikeMetadataError _) = Some ''SecretLikeMetadataError''"
| "value_error_class (EventValidationError _) = Some ''EventValidationError''"
| "value_error_class (JSONDecodeError _) = Some ''JSONDecodeError''"
| "value_error_class (UnicodeDecodeError _) = Some ''UnicodeDecodeError''"
| "value_error_class _ = None"

definition do_GET :: "'w runtime \<Rightarrow> string \<Rightarrow> 'w host \<Rightarrow> int \<times> dict" where
  "do_GET rt path h =
    (if path = ''/healthz'' then (200, health rt (fst h))
     else (404, [(''accepted'', JBool False), (''status'', JStr ''not_found'')]))"

definition do_POST :: "'w runtime \<Rightarrow> string \<Rightarrow> string option \<Rightarrow> (int \<Rightarrow> string result) \<Rightarrow> int \<Rightarrow> py_error option
    \<Rightarrow> ('w host, int \<times> dict) action" where
  "do_POST rt path content_length read_body now fault h =
    (let answer =
       (case read_json content_length read_body of
          Inl e \<Rightarrow> (Inl e, h)
        | Inr payload \<Rightarrow>
            if path = ''/v1/events'' then bind_act (enqueue_event rt payload now fault) (\<lambda>b. return_act (202, b)) h
            else if path = ''/v1/ingest/enqueue'' then bind_act (enqueue_document rt payload now fault) (\<lambda>b. return_act (202, b)) h
            else (Inr (404, [(''accepted'', JBool False), (''status'', JStr ''not_found'')]), h))
     in case answer of
          (Inr r, h') \<Rightarrow> (Inr r, h')
        | (Inl e, h') \<Rightarrow>
            (case value_error_class e of
               None \<Rightarrow> (Inl e, h')
             | Some c \<Rightarrow> (Inr (400, [(''accepted'', JBool False), (''status'', JStr ''rejected''), (''error'', JStr c)]), h')))"

definition serve_bind_check :: "string \<Rightarrow> bool \<Rightarrow> unit result" where
  "serve_bind_check host allow_non_loopback =
    (if \<not> allow_non_loopback \<and> host \<notin> {''127.0.0.1'', ''localhost'', ''::1''}
     then Inl (ValueError ''rag-ingress-queue must bind loopback unless explicitly fronted by a reviewed proxy'')
     else Inr ())"

section \<open>What an answer means\<close>

text \<open>A document that is not stored leaves the queue as it was; the shadow hook cannot undo a stored one.\<close>

lemma job_enqueue_Inl:
  assumes "queue_ok root fs" "job_enqueue root payload now fault fs = (Inl e, fs')"
  shows "fs' = fs"
proof (cases "validate_ingress_payload payload")
  case (Inr u)
  from assms(1) job_file_plain [of payload] show ?thesis
  proof (cases rule: store_cases [where item = "JObj payload" and now = now and fault = fault])
  qed (use assms(2) Inr in \<open>simp_all add: job_enqueue_def Let_def bind_act_def\<close>)
qed (use assms in \<open>simp add: job_enqueue_def\<close>)

lemma post_document_answer:
  assumes ok: "queue_ok (rt_job_queue rt) fs"
    and run: "do_POST rt ''/v1/ingest/enqueue'' len body now fault (fs, w) = (r, (fs', w'))"
  shows "(\<exists>payload d f. read_json len body = Inr payload \<and> valid_wire payload
      \<and> r = Inr (202, [(''accepted'', JBool True), (''status'', JStr (if d = ''pending'' then ''queued'' else d)),
          (''jobId'', JStr (job_id_for_payload payload))])
      \<and> queue_view_of (rt_job_queue rt) fs' (job_id_for_payload payload @ ''.json'') = Some (d, f))
    \<or> (fs', w') = (fs, w) \<and> (\<forall>code b. r = Inr (code, b) \<longrightarrow> code = 400)"
proof (cases "read_json len body")
  case (Inl e)
  then show ?thesis using run by (auto simp: do_POST_def split: option.splits)
next
  case (Inr payload)
  obtain res fs1 where job: "job_enqueue (rt_job_queue rt) payload now fault fs = (res, fs1)" by force
  show ?thesis
  proof (cases res)
    case (Inl e)
    then have "fs1 = fs" using job job_enqueue_Inl [OF ok] by simp
    then show ?thesis
      using run Inr Inl job by (auto simp: do_POST_def enqueue_document_def bind_act_def split: option.splits)
  next
    case res: (Inr j)
    have "valid_wire payload"
      using job res validate_ingress_payload_iff [of payload "()"]
      by (cases "validate_ingress_payload payload") (simp_all add: job_enqueue_def)
    moreover obtain d f where "queue_view_of (rt_job_queue rt) fs1 (job_id_for_payload payload @ ''.json'') = Some (d, f)"
      "ij_status j = (if d = ''pending'' then ''queued'' else d)" "ij_job_id j = job_id_for_payload payload"
      using job_enqueue_accepted [OF ok, of payload now fault j fs1] job res by auto
    ultimately show ?thesis
      using run Inr res job by (auto simp: do_POST_def enqueue_document_def bind_act_def Let_def)
  qed
qed

text \<open>The handler reads a body only when its declared length is positive and within the limit.\<close>

lemma read_json_bounded:
  "(\<And>n. 0 < n \<Longrightarrow> n \<le> MAX_REQUEST_BYTES \<Longrightarrow> body n = body' n) \<Longrightarrow> read_json len body = read_json len body'"
  by (auto simp: read_json_def intro!: arg_cong2 [where f = bind_result])


section \<open>Names that leave the spool\<close>

text \<open>
  The event id becomes part of a path unchecked.  An id that starts with a dot component and climbs
  makes the spool write a file outside its directory and report success.
\<close>

definition host_dirs :: "path list" where
  "host_dirs = [[], [''spool''], [''spool'', ''pending''], [''spool'', ''processing''], [''spool'', ''acked''],
     [''spool'', ''quarantine'']]"

definition climbing_event :: dict where
  "climbing_event = map (\<lambda>k. (k, JStr (if k = ''event_id'' then ''./../../x'' else if k = ''schema_version'' then ''agent_knowledge_event.v1''
     else if k = ''event_type'' then ''manual_note'' else ''sha256:0''))) REQUIRED_FIELDS"

lemma climbing_event_valid: "validate_event climbing_event = Inr ()"
  by (simp add: climbing_event_def validate_event_def REQUIRED_FIELDS_def FORBIDDEN_FIELDS_def SUPPORTED_EVENTS_def
      in_string_set_def get_item_def starts_with_def py_str_def)

theorem spool_escape:
  "\<exists>r fs'. spool_enqueue [''spool''] climbing_event now None \<lparr>fs_dirs = host_dirs, fs_files = []\<rparr> = (Inr r, fs')
    \<and> queue_ok [''spool''] \<lparr>fs_dirs = host_dirs, fs_files = []\<rparr>
    \<and> map_of (fs_files fs') [''x.json''] \<noteq> None \<and> (\<forall>n. queue_view_of [''spool''] fs' n = None)"
proof -
  let ?fs = "\<lparr>fs_dirs = host_dirs, fs_files = []\<rparr>" and ?f = "\<lambda>t. \<lparr>file_text = t, file_mtime = now\<rparr>"
  let ?text = "json_dump_sorted (JObj climbing_event) @ [char_of (10::nat)]"
  have id: "py_str (get_item climbing_event ''event_id'') = ''./../../x''"
    by (simp add: climbing_event_def REQUIRED_FIELDS_def get_item_def py_str_def)
  have p: "path_join (base @ [d]) ''./../../x.json'' = base @ [d, ''..'', ''..'', ''x.json'']"
    "path_join (base @ [d]) ''../../../x.json.tmp'' = base @ [d, ''..'', ''..'', ''..'', ''x.json.tmp'']" for base d
    by (simp_all add: path_join_def starts_with_def)
  have r: "resolve_path \<lparr>fs_dirs = host_dirs, fs_files = g\<rparr> [''spool'', d, ''..'', ''..'', ''x.json''] = Inr [''x.json'']"
    "resolve_path \<lparr>fs_dirs = host_dirs, fs_files = g\<rparr> [''spool'', ''pending'', ''..'', ''..'', ''..'', ''x.json.tmp''] = Inr [''x.json.tmp'']"
    if "d \<in> set SUBDIRS" for d g
    using that by (auto simp: resolve_path_def host_dirs_def SUBDIRS_def)
  have none: "find_existing [''spool''] ''./../../x.json'' ?fs = None"
    using p(1) [of "[''spool'']"] r(1) [of _ "[]"]
    by (auto simp: find_existing_def find_None_iff path_exists_def host_dirs_def)
  have run: "write_temp_then_move [''spool''] ''./../../x.json'' (JObj climbing_event) now None ?fs =
      (Inr [''spool'', ''pending'', ''..'', ''..'', ''x.json''],
       \<lparr>fs_dirs = host_dirs, fs_files = [([''x.json''], ?f ?text)]\<rparr>)"
    using p [of "[''spool'']" "''pending''"] r [of "''pending''"]
    by (simp add: write_temp_then_move_def Let_def bind_act_def os_open_excl_def os_replace_def fs_put_def fs_drop_def host_dirs_def)
  have "spool_enqueue [''spool''] climbing_event now None ?fs =
      (Inr [''spool'', ''pending'', ''..'', ''..'', ''x.json''], \<lparr>fs_dirs = host_dirs, fs_files = [([''x.json''], ?f ?text)]\<rparr>)"
    using none run by (simp add: spool_enqueue_def climbing_event_valid id)
  moreover have "queue_ok [''spool''] ?fs"
    by (auto simp: queue_ok_def queue_root_def host_dirs_def SUBDIRS_def plain_name_def le_Suc_eq)
  ultimately show ?thesis by (simp add: view_None_iff)
qed

text \<open>A content hash that is not a text escapes the handler: the client gets no answer.\<close>

lemma validate_hash_type:
  assumes "valid_wire p"
  shows "validate_ingress_payload (set_item p ''contentHash'' JNull) = Inl (AttributeError ''startswith'')"
proof -
  let ?q = "set_item p ''contentHash'' JNull"
  obtain src pkg doc where q: "get_item p ''payload'' = JObj pkg" "get_item pkg ''document'' = JObj doc" "get_item p ''source'' = JObj src"
    and rest: "get_item p ''schemaVersion'' = JStr INGRESS_SCHEMA_VERSION" "get_item pkg ''kind'' = JStr DEFAULT_INGRESS_PAYLOAD_KIND"
      "truthy (get_item doc ''body'')" "truthy (get_item doc ''filename'')"
    using assms unfolding valid_wire_def by blast
  then have "pkg \<noteq> []" "doc \<noteq> []" by (auto simp: get_item_def)
  moreover have "content_hash_prefix ?q = Inl (AttributeError ''startswith'')"
    by (simp add: content_hash_prefix_def map_of_set_item)
  ultimately show ?thesis
    using q rest by (simp add: validate_ingress_payload_def py_or_def require_def)
qed

theorem post_null_hash_escapes:
  assumes "valid_wire p" "read_json len body = Inr (set_item p ''contentHash'' JNull)"
  shows "do_POST rt ''/v1/ingest/enqueue'' len body now fault h = (Inl (AttributeError ''startswith''), h)"
  using assms validate_hash_type [OF assms(1)]
  by (cases h) (simp add: do_POST_def enqueue_document_def job_enqueue_def bind_act_def)

end
