(* ===== verification/Backfill.thy ===== *)
theory Backfill
  imports Command_Tx Ingress_Wire
begin

text \<open>
  Accepting ingress payloads into the state database: the dry-run planner and the readiness
  reports of \<open>rag_ingress/backfill.py\<close>, and the live application of payloads of
  \<open>rag_ingress/backfill_apply.py\<close>.  A live application runs several transactions, each of which
  commits on its own.  Each database method reads the clock and draws an identifier of its own; a
  \<open>reading\<close> holds what one application saw.
\<close>

section \<open>The planner\<close>

record readiness_report =
  rr_cutover_status :: string
  rr_blockers :: "dict list"
  rr_planned_rows :: "dict list"
  rr_quarantine :: "dict list"
  rr_replay :: "dict list"
  rr_rollback_owner :: string
  rr_required_evidence :: "string list"

definition build_readiness_report ::
    "dict list \<Rightarrow> dict list \<Rightarrow> dict list \<Rightarrow> dict list \<Rightarrow> string list \<Rightarrow> string \<Rightarrow> readiness_report" where
  "build_readiness_report planned_rows quarantine replay blockers required_evidence rollback_owner =
    \<lparr>rr_cutover_status = (if blockers \<noteq> [] then ''cutover_blocked'' else ''migration_ready_pending_approval''),
     rr_blockers = blockers, rr_planned_rows = planned_rows, rr_quarantine = quarantine, rr_replay = replay,
     rr_rollback_owner = rollback_owner, rr_required_evidence = required_evidence\<rparr>"

record seen_record =
  seen_payload_hash :: string
  seen_job_id :: string

definition seen_existing :: "string \<Rightarrow> seen_record \<Rightarrow> existing_record" where
  "seen_existing idempotency_key s = \<lparr>ex_accept_outcome = ''accepted'', ex_outcome = '''', ex_status = '''',
     ex_idempotency_key = idempotency_key, ex_payload_hash = seen_payload_hash s\<rparr>"

record plan_state =
  ps_seen :: "(string \<times> seen_record) list"
  ps_planned_rows :: "dict list"
  ps_quarantine :: "dict list"
  ps_replay :: "dict list"
  ps_blockers :: "dict list"

definition planned_row :: "dict \<Rightarrow> string \<Rightarrow> dict" where
  "planned_row payload event_id =
    (let idempotency_key = JStr (py_str (get_item payload ''idempotencyKey''));
         payload_hash = JStr (py_str (get_item payload ''contentHash''));
         job_id = job_id_for_payload payload
     in [(''inbox_event'', JObj [(''event_id'', JStr event_id), (''idempotency_key'', idempotency_key),
           (''payload_hash'', payload_hash), (''accept_outcome'', JStr ''accepted'')]),
         (''command'', JObj [(''command_id'', JStr (''cmd_'' @ job_id)), (''command_type'', JStr ''transcript_ingest''),
           (''idempotency_key'', idempotency_key), (''payload_hash'', payload_hash)]),
         (''domain_record'', JObj [(''domain_record_id'', JStr (''domain_'' @ job_id)),
           (''domain_kind'', JStr ''delivery_projection''), (''lifecycle_status'', JStr ''prepared''),
           (''payload_hash'', payload_hash)]),
         (''delivery_job'', JObj [(''job_id'', JStr job_id), (''idempotency_key'', idempotency_key),
           (''payload_hash'', payload_hash), (''target_profile'', JStr (py_str (get_item payload ''targetProfile''))),
           (''document_kind'', JStr (py_str (get_item payload ''kind'')))])])"

definition plan_one :: "nat \<Rightarrow> dict \<Rightarrow> plan_state \<Rightarrow> plan_state result" where
  "plan_one index payload st =
    bind_result (validate_ingress_payload payload) (\<lambda>_.
      (let idempotency_key = py_str (get_item payload ''idempotencyKey'');
           payload_hash = py_str (get_item payload ''contentHash'');
           existing = map_of (ps_seen st) idempotency_key;
           event_id = ''backfill_'' @ job_id_for_payload payload @ ''_'' @ show_nat index
       in bind_result (classify_idempotency (map_option (seen_existing idempotency_key) existing) idempotency_key payload_hash)
         (\<lambda>decision.
           if outcome decision = ACCEPTED
           then Inr (st\<lparr>ps_planned_rows := ps_planned_rows st @ [planned_row payload event_id],
             ps_seen := (idempotency_key, \<lparr>seen_payload_hash = payload_hash, seen_job_id = job_id_for_payload payload\<rparr>)
               # ps_seen st\<rparr>)
           else if outcome decision = DUPLICATE
           then Inr (st\<lparr>ps_replay := ps_replay st @ [[(''event_id'', JStr event_id), (''outcome'', JStr ''duplicate''),
             (''idempotency_key'', JStr idempotency_key),
             (''converges_to_job_id'', JStr (case existing of None \<Rightarrow> '''' | Some s \<Rightarrow> seen_job_id s))]]\<rparr>)
           else Inr (st\<lparr>ps_quarantine := ps_quarantine st @ [[(''event_id'', JStr event_id), (''outcome'', JStr ''conflict''),
               (''idempotency_key'', JStr idempotency_key), (''reason'', JStr (reason decision))]],
             ps_blockers := ps_blockers st @ [[(''code'', JStr ''idempotency_conflict''), (''severity'', JStr ''blocking''),
               (''idempotency_key'', JStr idempotency_key)]]\<rparr>))))"

fun plan_loop :: "nat \<Rightarrow> dict list \<Rightarrow> plan_state \<Rightarrow> plan_state result" where
  "plan_loop index [] st = Inr st"
| "plan_loop index (payload # payloads) st = bind_result (plan_one index payload st) (plan_loop (Suc index) payloads)"

definition empty_plan :: plan_state where
  "empty_plan = \<lparr>ps_seen = [], ps_planned_rows = [], ps_quarantine = [], ps_replay = [], ps_blockers = []\<rparr>"

definition plan_backfill_from_payloads :: "dict list \<Rightarrow> readiness_report result" where
  "plan_backfill_from_payloads payloads =
    bind_result (plan_loop 0 payloads empty_plan) (\<lambda>st.
      Inr (build_readiness_report (ps_planned_rows st) (ps_quarantine st) (ps_replay st) (ps_blockers st)
        [''fixture_payloads'', ''dry_run_no_mutation''] ''neurons''))"

section \<open>Delivery readiness\<close>

definition DEFAULT_PROJECTION_FRESHNESS_SECONDS :: int where "DEFAULT_PROJECTION_FRESHNESS_SECONDS = 3600"

definition projection_is_stale :: "string \<Rightarrow> datetime \<Rightarrow> int \<Rightarrow> bool" where
  "projection_is_stale v now freshness_seconds =
    (if v = '''' then True
     else case fromisoformat v of
       None \<Rightarrow> True
     | Some parsed \<Rightarrow> int (us_of now) - int (us_of parsed) > freshness_seconds * 1000000)"

definition blocker :: "string \<Rightarrow> string \<Rightarrow> dict" where
  "blocker kind job = [(''code'', JStr kind), (''severity'', JStr ''blocking''), (''job_id'', JStr job)]"

definition row_blockers :: "delivery_job \<Rightarrow> datetime \<Rightarrow> int \<Rightarrow> dict list" where
  "row_blockers row now freshness =
    (if job_status row = ''replayable'' then [blocker ''replayable_unresolved'' (job_id row)] else [])
    @ (if job_status row = ''failed_retryable'' then [blocker ''async_fail_unresolved'' (job_id row)] else [])
    @ (if job_status row = ''quarantined'' then [blocker ''quarantined_unresolved'' (job_id row)] else [])
    @ (if projection_is_stale (job_last_reconciled_at row) now freshness then [blocker ''stale_projection'' (job_id row)] else [])"

definition evaluate_delivery_readiness :: "delivery_job list \<Rightarrow> datetime \<Rightarrow> int \<Rightarrow> readiness_report" where
  "evaluate_delivery_readiness rows now freshness =
    build_readiness_report []
      (map (\<lambda>row. [(''job_id'', JStr (job_id row)), (''outcome'', JStr ''quarantined'')])
        (filter (\<lambda>row. job_status row = ''quarantined'') rows))
      (map (\<lambda>row. [(''job_id'', JStr (job_id row)), (''outcome'', JStr ''replayable'')])
        (filter (\<lambda>row. job_status row = ''replayable'') rows))
      (concat (map (\<lambda>row. row_blockers row now freshness) rows))
      [''fresh_projection'', ''operator_replay_packet''] ''neurons''"

definition state_db_counts :: "state_db \<Rightarrow> (string \<times> nat) list" where
  "state_db_counts db =
    [(''inbox_events'', length (inbox_events db)), (''commands'', length (commands db)),
     (''domain_records'', length (domain_records db)), (''command_results'', length (command_results db)),
     (''delivery_jobs'', length (delivery_jobs db))]"

section \<open>The live application\<close>

record reading =
  rd_inbox :: datetime
  rd_command :: datetime
  rd_payload :: datetime
  rd_fresh :: string

definition apply_new :: "dict \<Rightarrow> reading \<Rightarrow> (state_db, string) action" where
  "apply_new payload rd =
    (let idempotency_key = py_str (get_item payload ''idempotencyKey'');
         payload_hash = py_str (get_item payload ''contentHash'');
         job = job_id_for_payload payload
     in bind_act (transact (record_inbox_shadow payload '''' (''backfill_'' @ job) '''' (rd_inbox rd))) (\<lambda>decision.
        if outcome decision = CONFLICT then return_act ''conflict''
        else if outcome decision = DUPLICATE then return_act ''already_present''
        else
          bind_act (transact (consume_inbox_with_command (''backfill_'' @ job) (''cmd_'' @ job) ''transcript_ingest''
            idempotency_key payload_hash (simple_result ''completed'' '''')
            [\<lparr>dspec_id = ''domain_'' @ job, dspec_kind = ''delivery_projection'', dspec_lifecycle_status = ''prepared'',
              dspec_resource_id_hash = '''', dspec_session_id_hash = '''', dspec_payload_hash = payload_hash,
              dspec_payload_ref = '''', dspec_projection = None\<rparr>]
            [\<lparr>spec_job_id = job, spec_target_profile = py_str (get_item payload ''targetProfile''),
              spec_document_kind = py_str (get_item payload ''kind''), spec_idempotency_key = idempotency_key,
              spec_payload_hash = payload_hash, spec_status = ''pending'', spec_next_retry_at = ''''\<rparr>]
            '''' '''' '''' (rd_command rd) '''' (rd_fresh rd))) (\<lambda>transaction.
          if ctr_status transaction = ''quarantined'' then return_act ''conflict''
          else bind_act (transact (record_delivery_payload payload (rd_payload rd))) (\<lambda>r.
            return_act (if r = ''conflict'' then ''conflict'' else ''applied'')))))"

definition apply_one :: "dict \<Rightarrow> reading \<Rightarrow> (state_db, string) action" where
  "apply_one payload rd db =
    (case validate_ingress_payload payload of
       Inl e \<Rightarrow> (Inl e, db)
     | Inr _ \<Rightarrow>
         (case row_with cmd_idempotency_key (py_str (get_item payload ''idempotencyKey'')) (commands db) of
            Some existing_command \<Rightarrow>
              (if cmd_payload_hash existing_command \<noteq> py_str (get_item payload ''contentHash'') then (Inr ''conflict'', db)
               else bind_act (transact (record_delivery_payload payload (rd_payload rd))) (\<lambda>r.
                 return_act (if r = ''conflict'' then ''conflict'' else ''already_present'')) db)
          | None \<Rightarrow> apply_new payload rd db))"

record apply_counts =
  ac_applied :: nat
  ac_already_present :: nat
  ac_conflict :: nat

fun apply_loop :: "(dict \<times> reading) list \<Rightarrow> apply_counts \<Rightarrow> (state_db, apply_counts) action" where
  "apply_loop [] counts = return_act counts"
| "apply_loop ((payload, rd) # rest) counts =
    bind_act (apply_one payload rd) (\<lambda>outcome.
      apply_loop rest
        (if outcome = ''applied'' then counts\<lparr>ac_applied := Suc (ac_applied counts)\<rparr>
         else if outcome = ''conflict'' then counts\<lparr>ac_conflict := Suc (ac_conflict counts)\<rparr>
         else counts\<lparr>ac_already_present := Suc (ac_already_present counts)\<rparr>))"

record apply_report =
  ar_dry_run :: bool
  ar_payload_count :: nat
  ar_planned_count :: nat
  ar_duplicate_count :: nat
  ar_conflict_count :: nat
  ar_blocker_count :: nat
  ar_applied_count :: nat
  ar_already_present_count :: nat
  ar_cutover_status :: string
  ar_mutation_performed :: bool

definition apply_backfill_to_state_db :: "(dict \<times> reading) list \<Rightarrow> bool \<Rightarrow> (state_db, apply_report) action" where
  "apply_backfill_to_state_db payloads dry_run =
    (if dry_run then (\<lambda>db.
       (case plan_backfill_from_payloads (map fst payloads) of
          Inl e \<Rightarrow> (Inl e, db)
        | Inr plan \<Rightarrow>
            (Inr \<lparr>ar_dry_run = True, ar_payload_count = length payloads, ar_planned_count = length (rr_planned_rows plan),
               ar_duplicate_count = length (rr_replay plan), ar_conflict_count = length (rr_quarantine plan),
               ar_blocker_count = length (rr_blockers plan), ar_applied_count = 0, ar_already_present_count = 0,
               ar_cutover_status = rr_cutover_status plan, ar_mutation_performed = False\<rparr>, db)))
     else bind_act (apply_loop payloads \<lparr>ac_applied = 0, ac_already_present = 0, ac_conflict = 0\<rparr>) (\<lambda>c.
       return_act \<lparr>ar_dry_run = False, ar_payload_count = length payloads, ar_planned_count = ac_applied c,
         ar_duplicate_count = ac_already_present c, ar_conflict_count = ac_conflict c, ar_blocker_count = ac_conflict c,
         ar_applied_count = ac_applied c, ar_already_present_count = ac_already_present c,
         ar_cutover_status = (if ac_conflict c \<noteq> 0 then ''cutover_blocked'' else ''migration_ready_pending_approval''),
         ar_mutation_performed = (ac_applied c \<noteq> 0)\<rparr>))"

section \<open>What a payload has after it was applied\<close>

definition pkey :: "dict \<Rightarrow> string" where
  "pkey payload = py_str (get_item payload ''idempotencyKey'')"

definition phash :: "dict \<Rightarrow> string" where
  "phash payload = py_str (get_item payload ''contentHash'')"

definition job_tag :: "string \<Rightarrow> string" where
  "job_tag k = ''job_'' @ take 24 (sha256_hex k)"

lemma valid_payload:
  assumes "valid_wire payload"
  shows "str_or_empty (get_item payload ''idempotencyKey'') = pkey payload" "pkey payload \<noteq> ''''"
    "str_or_empty (get_item payload ''contentHash'') = phash payload" "phash payload \<noteq> ''''"
    "job_id_for_payload payload = job_tag (pkey payload)" "truthy (get_item payload ''idempotencyKey'')"
    "truthy (get_item payload ''contentHash'')"
proof -
  have "truthy (get_item payload ''idempotencyKey'')" using assms by (simp add: valid_wire_def)
  moreover obtain h where "get_item payload ''contentHash'' = JStr h" "starts_with ''sha256:'' h"
    using assms by (auto simp: valid_wire_def)
  moreover from this have "h \<noteq> ''''" by auto
  ultimately show "str_or_empty (get_item payload ''idempotencyKey'') = pkey payload" "pkey payload \<noteq> ''''"
    "str_or_empty (get_item payload ''contentHash'') = phash payload" "phash payload \<noteq> ''''"
    "job_id_for_payload payload = job_tag (pkey payload)" "truthy (get_item payload ''idempotencyKey'')"
    "truthy (get_item payload ''contentHash'')"
    using str_or_empty_truthy [of "get_item payload ''idempotencyKey''"]
    by (simp_all add: pkey_def phash_def job_tag_def job_id_for_payload_def str_or_empty_def)
qed

text \<open>
  The candidate database after payloads were applied to an empty one: \<open>seen\<close> holds the hash of
  every key applied, \<open>used\<close> the identifiers drawn; every row belongs to one of these keys.
\<close>

definition synced :: "(string \<times> string) list \<Rightarrow> string set \<Rightarrow> state_db \<Rightarrow> bool" where
  "synced seen used db \<longleftrightarrow>
    (\<forall>k. map_option cmd_payload_hash (row_with cmd_idempotency_key k (commands db)) = map_of seen k)
    \<and> (\<forall>k. map_option pl_payload_hash (row_with pl_idempotency_key k (delivery_payloads db)) = map_of seen k)
    \<and> (\<forall>ev \<in> set (inbox_events db). \<exists>k \<in> fst ` set seen. ev_event_id ev = ''backfill_'' @ job_tag k \<and> ev_idempotency_key ev = k)
    \<and> (\<forall>c \<in> set (commands db). cmd_id c = ''cmd_'' @ job_tag (cmd_idempotency_key c))
    \<and> (\<forall>j \<in> set (delivery_jobs db). job_idempotency_key j \<in> fst ` set seen \<and> job_id j = job_tag (job_idempotency_key j))
    \<and> (\<forall>d \<in> set (domain_records db). \<exists>k \<in> fst ` set seen. dom_id d = ''domain_'' @ job_tag k)
    \<and> (\<forall>r \<in> set (command_results db). \<exists>u \<in> used. res_id r = ''cmdres_'' @ u)"

lemma syncedD:
  assumes "synced seen used db"
  shows "map_option cmd_payload_hash (row_with cmd_idempotency_key k (commands db)) = map_of seen k"
    "map_option pl_payload_hash (row_with pl_idempotency_key k (delivery_payloads db)) = map_of seen k"
    "ev \<in> set (inbox_events db) \<Longrightarrow> \<exists>k \<in> fst ` set seen. ev_event_id ev = ''backfill_'' @ job_tag k \<and> ev_idempotency_key ev = k"
    "c \<in> set (commands db) \<Longrightarrow> cmd_id c = ''cmd_'' @ job_tag (cmd_idempotency_key c)"
    "j \<in> set (delivery_jobs db) \<Longrightarrow> job_idempotency_key j \<in> fst ` set seen \<and> job_id j = job_tag (job_idempotency_key j)"
    "d \<in> set (domain_records db) \<Longrightarrow> \<exists>k \<in> fst ` set seen. dom_id d = ''domain_'' @ job_tag k"
    "r \<in> set (command_results db) \<Longrightarrow> \<exists>u \<in> used. res_id r = ''cmdres_'' @ u"
  using assms by (simp_all add: synced_def)

lemma synced_empty: "synced [] {} empty_db"
  by (simp add: synced_def empty_db_def)

lemma foldl_max_ge: "x \<in> set (v # vs) \<Longrightarrow> (x :: int) \<le> foldl max v vs"
proof (induction vs arbitrary: v x)
  case (Cons w ws)
  have "max v w \<le> foldl max (max v w) ws" by (rule Cons.IH) simp
  then show ?case using Cons.IH [of x "max v w"] Cons.prems by auto
qed simp

lemma next_version_fresh:
  "d \<in> set (domain_records db) \<Longrightarrow> dom_resource_id_hash d = r \<Longrightarrow> dom_kind d = k \<Longrightarrow>
    dom_version d < next_domain_record_version r k db"
proof -
  assume *: "d \<in> set (domain_records db)" "dom_resource_id_hash d = r" "dom_kind d = k"
  let ?vs = "map dom_version (filter (\<lambda>d. dom_resource_id_hash d = r \<and> dom_kind d = k) (domain_records db))"
  have "dom_version d \<in> set ?vs" using * by auto
  then show ?thesis
    using foldl_max_ge [of "dom_version d"] by (cases ?vs) (auto simp: next_domain_record_version_def)
qed

lemma row_none_notin: "row_with key k rows = None \<Longrightarrow> k \<notin> key ` set rows"
  by (simp add: row_with_None_iff)

lemma first_by_none: "(\<And>r. r \<in> set rows \<Longrightarrow> \<not> p r) \<Longrightarrow> first_by c p rows = None"
  by (simp add: first_by_def)

lemma classify_new: "k \<noteq> '''' \<Longrightarrow> h \<noteq> '''' \<Longrightarrow> classify_idempotency None k h = Inr (decide ACCEPTED ''new_idempotency_key'')"
  by (simp add: classify_idempotency_def)

lemma synced_fresh:
  assumes "synced seen used db" "k \<notin> fst ` set seen" "inj_on job_tag (insert k (fst ` set seen))"
  shows "row_with cmd_idempotency_key k (commands db) = None" "row_with pl_idempotency_key k (delivery_payloads db) = None"
    "k \<notin> cmd_idempotency_key ` set (commands db)" "''cmd_'' @ job_tag k \<notin> cmd_id ` set (commands db)"
    "''backfill_'' @ job_tag k \<notin> ev_event_id ` set (inbox_events db)" "k \<notin> ev_idempotency_key ` set (inbox_events db)"
    "job_tag k \<notin> job_id ` set (delivery_jobs db)" "k \<notin> job_idempotency_key ` set (delivery_jobs db)"
    "''domain_'' @ job_tag k \<notin> dom_id ` set (domain_records db)"
proof -
  have none: "map_of seen k = None" using assms(2) by (simp add: map_of_eq_None_iff)
  show "row_with cmd_idempotency_key k (commands db) = None" "row_with pl_idempotency_key k (delivery_payloads db) = None"
    using syncedD(1,2) [OF assms(1), of k] none by simp_all
  then show "k \<notin> cmd_idempotency_key ` set (commands db)" by (simp add: row_with_None_iff)
  have other: "k' \<noteq> k \<and> job_tag k' \<noteq> job_tag k" if "k' \<in> fst ` set seen" for k'
    using that assms(2,3) by (metis inj_onD insertI1 insertI2)
  have "cmd_idempotency_key c \<in> fst ` set seen" if "c \<in> set (commands db)" for c
  proof -
    have "row_with cmd_idempotency_key (cmd_idempotency_key c) (commands db) \<noteq> None"
      using that by (auto simp: row_with_None_iff)
    then show ?thesis
      using syncedD(1) [OF assms(1), of "cmd_idempotency_key c"] by (metis map_of_eq_None_iff option.map_disc_iff)
  qed
  then show "''cmd_'' @ job_tag k \<notin> cmd_id ` set (commands db)"
    using syncedD(4) [OF assms(1)] other by force
  show "''backfill_'' @ job_tag k \<notin> ev_event_id ` set (inbox_events db)" "k \<notin> ev_idempotency_key ` set (inbox_events db)"
    using syncedD(3) [OF assms(1)] other by force+
  show "job_tag k \<notin> job_id ` set (delivery_jobs db)" "k \<notin> job_idempotency_key ` set (delivery_jobs db)"
    using syncedD(5) [OF assms(1)] other by force+
  show "''domain_'' @ job_tag k \<notin> dom_id ` set (domain_records db)"
    using syncedD(6) [OF assms(1)] other by force
qed

lemma record_inbox_new:
  assumes "synced seen used db" "valid_wire p" "pkey p \<notin> fst ` set seen" "inj_on job_tag (insert (pkey p) (fst ` set seen))"
  shows "\<exists>ev d. record_inbox_shadow p '''' (''backfill_'' @ job_tag (pkey p)) '''' now db = Inr (d, db\<lparr>inbox_events := inbox_events db @ [ev]\<rparr>)
    \<and> outcome d = ACCEPTED \<and> ev_event_id ev = ''backfill_'' @ job_tag (pkey p) \<and> ev_idempotency_key ev = pkey p \<and> ev_consumed_by ev = ''''"
proof -
  note v = valid_payload [OF assms(2)]
  note n = synced_fresh [OF assms(1,3,4)]
  have "first_by ev_created_at (\<lambda>ev. ev_idempotency_key ev = pkey p) (inbox_events db) = None"
    using n(6) by (intro first_by_none) (metis imageI)
  then have "record_inbox_shadow p '''' (''backfill_'' @ job_tag (pkey p)) '''' now db =
      Inr (decide ACCEPTED ''new_idempotency_key'', db\<lparr>inbox_events := inbox_events db @
        [\<lparr>ev_event_id = ''backfill_'' @ job_tag (pkey p), ev_idempotency_key = pkey p, ev_payload_hash = phash p,
          ev_source = json_dumps (py_or (get_item p ''source'') (JObj [])), ev_kind = str_or_empty (get_item p ''kind''),
          ev_target_profile = str_or_empty (py_or (get_item p ''targetProfile'') (get_item p ''target_profile'')),
          ev_payload_ref = '''', ev_received_at = iso now, ev_persisted_at = iso now, ev_accept_outcome = ACCEPTED,
          ev_consumed_by = '''', ev_consumed_at = '''', ev_outcome_reason = ''new_idempotency_key'',
          ev_created_at = iso now, ev_updated_at = iso now\<rparr>]\<rparr>)"
    using v n(5) by (simp add: record_inbox_shadow_def py_or_def [of "get_item p ''idempotencyKey''"]
        py_or_def [of "get_item p ''contentHash''"] Let_def classify_new insert_inbox_event_def str_or_def)
  then show ?thesis by (intro exI conjI, assumption) simp_all
qed


lemma consume_appended:
  assumes "ev_event_id ev = e" "ev_consumed_by ev = ''''" "e \<notin> ev_event_id ` set evs"
  shows "consume_inbox_event e c stamp (db\<lparr>inbox_events := evs @ [ev]\<rparr>) =
    Inr (db\<lparr>inbox_events := evs @ [ev\<lparr>ev_consumed_by := c, ev_consumed_at := stamp, ev_updated_at := stamp\<rparr>]\<rparr>)"
proof -
  have no: "\<not> (ev_event_id x = e \<and> ev_consumed_by x = '''')" if "x \<in> set evs" for x using assms(3) that by auto
  then have "filter (\<lambda>x. ev_event_id x = e \<and> ev_consumed_by x = '''') evs = []" by (simp add: filter_empty_conv)
  moreover have "map (\<lambda>x. if ev_event_id x = e \<and> ev_consumed_by x = '''' then x\<lparr>ev_consumed_by := c, ev_consumed_at := stamp,
      ev_updated_at := stamp\<rparr> else x) evs = evs" using no by (intro map_idI) auto
  ultimately show ?thesis using assms(1,2) by (simp add: consume_inbox_event_def)
qed

lemma execute_new:
  assumes "synced seen used db0" "db = db0\<lparr>inbox_events := inbox_events db0 @ [ev]\<rparr>"
    and ev: "ev_event_id ev = ''backfill_'' @ job_tag k" "ev_consumed_by ev = ''''"
    and k: "k \<notin> fst ` set seen" "inj_on job_tag (insert k (fst ` set seen))" "k \<noteq> ''''" "h \<noteq> ''''"
    and fresh: "fresh \<notin> used" "dt_add now 60 = Inr until"
  shows "\<exists>r db'. consume_inbox_with_command (''backfill_'' @ job_tag k) (''cmd_'' @ job_tag k) ''transcript_ingest'' k h
      (simple_result ''completed'' '''') [\<lparr>dspec_id = ''domain_'' @ job_tag k, dspec_kind = ''delivery_projection'',
        dspec_lifecycle_status = ''prepared'', dspec_resource_id_hash = '''', dspec_session_id_hash = '''',
        dspec_payload_hash = h, dspec_payload_ref = '''', dspec_projection = None\<rparr>]
      [\<lparr>spec_job_id = job_tag k, spec_target_profile = tp, spec_document_kind = kd, spec_idempotency_key = k,
        spec_payload_hash = h, spec_status = ''pending'', spec_next_retry_at = ''''\<rparr>] '''' '''' '''' now '''' fresh db
    = Inr (r, db') \<and> ctr_status r = ''completed'' \<and> delivery_payloads db' = delivery_payloads db0
    \<and> (\<exists>c j d rs ev'. commands db' = commands db0 @ [c] \<and> cmd_id c = ''cmd_'' @ job_tag k \<and> cmd_idempotency_key c = k \<and> cmd_payload_hash c = h
      \<and> delivery_jobs db' = delivery_jobs db0 @ [j] \<and> job_id j = job_tag k \<and> job_idempotency_key j = k
      \<and> domain_records db' = domain_records db0 @ [d] \<and> dom_id d = ''domain_'' @ job_tag k
      \<and> command_results db' = command_results db0 @ [rs] \<and> res_id rs = ''cmdres_'' @ fresh
      \<and> inbox_events db' = inbox_events db0 @ [ev'] \<and> ev_event_id ev' = ev_event_id ev \<and> ev_idempotency_key ev' = ev_idempotency_key ev)"
proof -
  note n = synced_fresh [OF assms(1) k(1,2)]
  let ?stamp = "iso now" and ?cid = "''cmd_'' @ job_tag k"
  let ?spec = "\<lparr>spec_job_id = job_tag k, spec_target_profile = tp, spec_document_kind = kd, spec_idempotency_key = k,
        spec_payload_hash = h, spec_status = ''pending'', spec_next_retry_at = ''''\<rparr>"
  let ?dspec = "\<lparr>dspec_id = ''domain_'' @ job_tag k, dspec_kind = ''delivery_projection'',
        dspec_lifecycle_status = ''prepared'', dspec_resource_id_hash = '''', dspec_session_id_hash = '''',
        dspec_payload_hash = h, dspec_payload_ref = '''', dspec_projection = None\<rparr>"
  let ?c = "\<lambda>st. \<lparr>cmd_id = ?cid, cmd_type = ''transcript_ingest'', cmd_resource_id_hash = '''', cmd_session_id_hash = '''',
         cmd_idempotency_key = k, cmd_payload_hash = h, cmd_input_epoch = '''', cmd_status = st, cmd_lease_owner = ''command-transaction'',
         cmd_lease_until = iso until, cmd_attempt_count = 1, cmd_last_error_class = '''',
         cmd_created_at = ?stamp, cmd_updated_at = ?stamp\<rparr>"
  let ?ev = "ev\<lparr>ev_consumed_by := ?cid, ev_consumed_at := ?stamp, ev_updated_at := ?stamp\<rparr>"
  let ?db = "\<lambda>st. db0\<lparr>commands := commands db0 @ [?c st], inbox_events := inbox_events db0 @ [?ev]\<rparr>"
  have start: "db\<lparr>commands := commands db @ [x]\<rparr> = db0\<lparr>commands := commands db0 @ [x], inbox_events := inbox_events db0 @ [ev]\<rparr>" for x
    by (simp add: assms(2))
  have up: "update_where cmd_id ?cid f (commands db0) = commands db0" for f
    using n(4) by (rule update_where_absent)
  have status: "set_command_status ?cid st' ?stamp (?db st\<lparr>domain_records := ds, command_results := rs, delivery_jobs := js\<rparr>) =
      ?db st'\<lparr>domain_records := ds, command_results := rs, delivery_jobs := js\<rparr>" for st st' ds rs js
    using up by (simp add: set_command_status_def update_command_def update_where_def)
  have validated: "set_command_status ?cid ''validated'' ?stamp (?db ''claimed'') = ?db ''validated''"
    using status [where st' = "''validated''" and st = "''claimed''" and ds = "domain_records db0" and rs = "command_results db0" and js = "delivery_jobs db0"] by simp
  have "find_delivery_job_by_idempotency_key (?db st) k = None" for st
    using n(8) unfolding find_delivery_job_by_idempotency_key_def by (intro first_by_none) (simp, metis imageI)
  then have plan: "plan_delivery_jobs (?db st) [?spec] = Inr \<lparr>plan_to_insert = [?spec], plan_duplicate_job_ids = [], plan_conflict = None\<rparr>" for st
    using k by (simp add: plan_delivery_jobs_def classify_new outcome_defs)
  let ?v = "next_domain_record_version '''' ''delivery_projection'' db0"
  let ?d = "\<lparr>dom_id = ''domain_'' @ job_tag k, dom_command_id = ?cid, dom_resource_id_hash = '''', dom_session_id_hash = '''',
      dom_kind = ''delivery_projection'', dom_lifecycle_status = ''prepared'', dom_version = ?v, dom_payload_hash = h,
      dom_payload_ref = '''', dom_projection_json = json_dumps (JObj []), dom_created_at = ?stamp, dom_updated_at = ?stamp\<rparr>"
  have "dom_version_key ?d \<notin> dom_version_key ` set (domain_records db0)"
    using next_version_fresh [of _ db0 "''''" "''delivery_projection''"] by (force simp: dom_version_key_def)
  then have domain: "\<exists>vs. insert_domain_records [?dspec] ?stamp ?cid (?db st) = Inr (vs, ?db st\<lparr>domain_records := domain_records db0 @ [?d]\<rparr>)" for st
    using n(9) by (simp add: insert_domain_record_def insert_domain_row_def next_domain_record_version_def Let_def)
  obtain vs where vs: "insert_domain_records [?dspec] ?stamp ?cid (?db ''validated'') =
      Inr (vs, ?db ''validated''\<lparr>domain_records := domain_records db0 @ [?d]\<rparr>)" using domain by blast
  let ?rspec = "final_result (simple_result ''completed'' '''') None vs"
  let ?r = "\<lparr>res_id = ''cmdres_'' @ fresh, res_command_id = ?cid, res_decision = rspec_decision ?rspec,
       res_payload_ref = rspec_payload_ref ?rspec,
       res_domain_versions_written = json_dumps (JObj (case rspec_domain_versions_written ?rspec of None \<Rightarrow> [] | Some d \<Rightarrow> d)),
       res_error_class = rspec_error_class ?rspec, res_created_at = ?stamp\<rparr>"
  have "''cmdres_'' @ fresh \<notin> res_id ` set (command_results db0)"
    using syncedD(7) [OF assms(1)] fresh(1) by force
  then have result: "insert_command_result ?cid ?rspec ?stamp fresh (?db st\<lparr>domain_records := ds\<rparr>) =
      Inr (?db st\<lparr>domain_records := ds, command_results := command_results db0 @ [?r]\<rparr>)" for st ds
    by (simp add: insert_command_result_def insert_result_row_def)
  let ?j = "\<lparr>job_id = job_tag k, job_command_id = ?cid, job_idempotency_key = k, job_payload_hash = h,
       job_target_profile = tp, job_document_kind = kd, job_status = ''pending'', job_attempt_count = 0, job_next_retry_at = '''',
       job_lease_owner = '''', job_lease_until = '''', job_index_target_id = '''', job_index_document_id = '''', job_index_run_id = '''',
       job_last_error_class = '''', job_last_reconciled_at = '''', job_created_at = ?stamp, job_updated_at = ?stamp\<rparr>"
  have jobs: "insert_delivery_jobs [?spec] ?stamp ?cid (?db st\<lparr>domain_records := ds, command_results := rs\<rparr>) =
      Inr (?db st\<lparr>domain_records := ds, command_results := rs, delivery_jobs := delivery_jobs db0 @ [?j]\<rparr>)" for st ds rs
    using n(7,8) by (simp add: insert_delivery_job_def insert_job_row_def)
  have consume: "consume_inbox_event (''backfill_'' @ job_tag k) ?cid ?stamp (db\<lparr>commands := commands db @ [?c ''claimed'']\<rparr>) =
      Inr (?db ''claimed'')"
    unfolding start by (rule consume_appended [OF ev n(5)])
  have claim: "insert_command (?c ''claimed'') db = Inr (db\<lparr>commands := commands db @ [?c ''claimed'']\<rparr>)"
    using n(3,4) by (simp add: insert_command_def assms(2))
  let ?db' = "?db ''completed''\<lparr>domain_records := domain_records db0 @ [?d], command_results := command_results db0 @ [?r],
      delivery_jobs := delivery_jobs db0 @ [?j]\<rparr>"
  have run: "consume_inbox_with_command (''backfill_'' @ job_tag k) ?cid ''transcript_ingest'' k h
      (simple_result ''completed'' '''') [?dspec] [?spec] '''' '''' '''' now '''' fresh db =
    Inr (transaction_result ?cid ''completed'' [job_tag k], ?db')"
    unfolding consume_inbox_with_command_def execute_def
    using fresh(2)
    by (simp add: tx_claim_def claim consume tx_validate_def tx_deliver_def tx_write_def validated plan vs result jobs status
        maybe_fail_def Let_def del: insert_domain_records.simps insert_delivery_jobs.simps append_Cons)
  show ?thesis
    by (rule exI [where x = "transaction_result ?cid ''completed'' [job_tag k]"], rule exI [where x = ?db'],
        simp only: run, simp add: transaction_result_def)
qed

lemma apply_one_new:
  assumes s: "synced seen used db" and p: "valid_wire p"
    and k: "pkey p \<notin> fst ` set seen" "inj_on job_tag (insert (pkey p) (fst ` set seen))"
    and fresh: "rd_fresh rd \<notin> used" "dt_add (rd_command rd) 60 = Inr until"
  shows "\<exists>db'. apply_one p rd db = (Inr ''applied'', db') \<and> synced ((pkey p, phash p) # seen) (insert (rd_fresh rd) used) db'"
proof -
  note v = valid_payload [OF p] and n = synced_fresh [OF s k]
  have valid: "validate_ingress_payload p = Inr ()" using p by (simp add: validate_ingress_payload_iff)
  obtain ev d where inbox: "record_inbox_shadow p '''' (''backfill_'' @ job_tag (pkey p)) '''' (rd_inbox rd) db =
      Inr (d, db\<lparr>inbox_events := inbox_events db @ [ev]\<rparr>)" "outcome d = ACCEPTED"
    and ev: "ev_event_id ev = ''backfill_'' @ job_tag (pkey p)" "ev_consumed_by ev = ''''" "ev_idempotency_key ev = pkey p"
    using record_inbox_new [OF s p k] by blast
  obtain r db1 c j dm rs ev' where run: "consume_inbox_with_command (''backfill_'' @ job_tag (pkey p)) (''cmd_'' @ job_tag (pkey p)) ''transcript_ingest''
        (pkey p) (phash p) (simple_result ''completed'' '''') [\<lparr>dspec_id = ''domain_'' @ job_tag (pkey p), dspec_kind = ''delivery_projection'',
        dspec_lifecycle_status = ''prepared'', dspec_resource_id_hash = '''', dspec_session_id_hash = '''',
        dspec_payload_hash = phash p, dspec_payload_ref = '''', dspec_projection = None\<rparr>]
      [\<lparr>spec_job_id = job_tag (pkey p), spec_target_profile = py_str (get_item p ''targetProfile''),
        spec_document_kind = py_str (get_item p ''kind''), spec_idempotency_key = pkey p,
        spec_payload_hash = phash p, spec_status = ''pending'', spec_next_retry_at = ''''\<rparr>] '''' '''' '''' (rd_command rd) '''' (rd_fresh rd)
        (db\<lparr>inbox_events := inbox_events db @ [ev]\<rparr>) = Inr (r, db1)"
    and r: "ctr_status r = ''completed''" "delivery_payloads db1 = delivery_payloads db"
    and rows: "commands db1 = commands db @ [c]" "cmd_id c = ''cmd_'' @ job_tag (pkey p)" "cmd_idempotency_key c = pkey p" "cmd_payload_hash c = phash p"
      "delivery_jobs db1 = delivery_jobs db @ [j]" "job_id j = job_tag (pkey p)" "job_idempotency_key j = pkey p"
      "domain_records db1 = domain_records db @ [dm]" "dom_id dm = ''domain_'' @ job_tag (pkey p)"
      "command_results db1 = command_results db @ [rs]" "res_id rs = ''cmdres_'' @ rd_fresh rd"
      "inbox_events db1 = inbox_events db @ [ev']" "ev_event_id ev' = ''backfill_'' @ job_tag (pkey p)" "ev_idempotency_key ev' = pkey p"
    using execute_new [OF s refl ev(1,2) k v(2,4) fresh] ev by metis
  let ?row = "\<lparr>pl_idempotency_key = pkey p, pl_payload_hash = phash p, pl_payload_json = json_dumps (JObj p), pl_recorded_at = iso (rd_payload rd)\<rparr>"
  have pay: "record_delivery_payload p (rd_payload rd) db1 = Inr (''recorded'', db1\<lparr>delivery_payloads := delivery_payloads db1 @ [?row]\<rparr>)"
    using n(2) row_none_notin [OF n(2)] v r by (simp add: record_delivery_payload_def Let_def insert_payload_row_def)
  have "apply_new p rd db = (Inr ''applied'', db1\<lparr>delivery_payloads := delivery_payloads db1 @ [?row]\<rparr>)"
    unfolding apply_new_def Let_def pkey_def [symmetric] phash_def [symmetric] v(5)
    using inbox run r(1) pay by (simp add: bind_act_def outcome_defs del: append_Cons)
  then have "apply_one p rd db = (Inr ''applied'', db1\<lparr>delivery_payloads := delivery_payloads db1 @ [?row]\<rparr>)"
    using valid n(1) by (simp add: apply_one_def flip: pkey_def)
  moreover have "map_option cmd_payload_hash (row_with cmd_idempotency_key k (commands db @ [c])) = map_of ((pkey p, phash p) # seen) k" for k
    using syncedD(1) [OF s, of k] n(1) rows by (cases "row_with cmd_idempotency_key k (commands db)") (auto simp: row_with_append)
  moreover have "map_option pl_payload_hash (row_with pl_idempotency_key k (delivery_payloads db @ [?row])) = map_of ((pkey p, phash p) # seen) k" for k
    using syncedD(2) [OF s, of k] n(2) by (cases "row_with pl_idempotency_key k (delivery_payloads db)") (auto simp: row_with_append)
  ultimately show ?thesis
    using syncedD(3-7) [OF s] rows r(2) by (simp add: synced_def)
qed

lemma apply_one_known:
  assumes s: "synced seen used db" and p: "valid_wire p" and k: "map_of seen (pkey p) = Some h"
  shows "apply_one p rd db = (Inr (if h = phash p then ''already_present'' else ''conflict''), db)"
proof -
  note v = valid_payload [OF p]
  obtain c pl where "row_with cmd_idempotency_key (pkey p) (commands db) = Some c" "cmd_payload_hash c = h"
    "row_with pl_idempotency_key (pkey p) (delivery_payloads db) = Some pl" "pl_payload_hash pl = h"
    using syncedD(1,2) [OF s, of "pkey p"] k by auto
  then show ?thesis
    using p v by (simp add: apply_one_def validate_ingress_payload_iff [THEN iffD2, of p "()"] record_delivery_payload_def bind_act_def Let_def
        flip: pkey_def phash_def)
qed

section \<open>The dry run predicts the application\<close>

definition plan_hashes :: "plan_state \<Rightarrow> (string \<times> string) list" where
  "plan_hashes st = map (map_prod id seen_payload_hash) (ps_seen st)"

lemma plan_hashes_lookup: "map_of (plan_hashes st) k = map_option seen_payload_hash (map_of (ps_seen st) k)"
  using map_of_map [of seen_payload_hash "ps_seen st"] by (simp add: plan_hashes_def map_prod_def)

lemma plan_hashes_simps [simp]:
  "plan_hashes (st\<lparr>ps_seen := (k, e) # ps_seen st'\<rparr>) = (k, seen_payload_hash e) # plan_hashes st'"
  "plan_hashes (ps_planned_rows_update f st) = plan_hashes st" "plan_hashes (ps_replay_update f st) = plan_hashes st"
  "plan_hashes (ps_quarantine_update f st) = plan_hashes st" "plan_hashes (ps_blockers_update f st) = plan_hashes st"
  by (simp_all add: plan_hashes_def)

lemma plan_one_cases:
  assumes "valid_wire p"
  shows "\<exists>st'. plan_one i p st = Inr st' \<and>
    (case map_of (plan_hashes st) (pkey p) of
       None \<Rightarrow> plan_hashes st' = (pkey p, phash p) # plan_hashes st \<and> length (ps_planned_rows st') = Suc (length (ps_planned_rows st))
         \<and> ps_replay st' = ps_replay st \<and> ps_quarantine st' = ps_quarantine st \<and> ps_blockers st' = ps_blockers st
     | Some h \<Rightarrow> plan_hashes st' = plan_hashes st \<and> ps_planned_rows st' = ps_planned_rows st
         \<and> (if h = phash p then length (ps_replay st') = Suc (length (ps_replay st)) \<and> ps_quarantine st' = ps_quarantine st \<and> ps_blockers st' = ps_blockers st
            else ps_replay st' = ps_replay st \<and> length (ps_quarantine st') = Suc (length (ps_quarantine st))
              \<and> length (ps_blockers st') = Suc (length (ps_blockers st))))"
proof -
  note v = valid_payload [OF assms]
  have valid: "validate_ingress_payload p = Inr ()" using assms by (simp add: validate_ingress_payload_iff)
  show ?thesis
    using v(2,4) valid
    by (cases "map_of (ps_seen st) (pkey p)")
      (simp_all add: plan_one_def Let_def plan_hashes_lookup classify_idempotency_def seen_existing_def str_or_def
        TERMINAL_PRESERVED_OUTCOMES_def outcome_defs decide_def flip: pkey_def phash_def)
qed

definition counts_match :: "plan_state \<Rightarrow> apply_counts \<Rightarrow> bool" where
  "counts_match st c \<longleftrightarrow> ac_applied c = length (ps_planned_rows st) \<and> ac_already_present c = length (ps_replay st)
    \<and> ac_conflict c = length (ps_quarantine st) \<and> length (ps_blockers st) = length (ps_quarantine st)"

lemma loops_agree:
  assumes "synced (plan_hashes st) used db" "counts_match st c"
    and "list_all valid_wire (map fst prs)" "inj_on job_tag (fst ` set (plan_hashes st) \<union> pkey ` set (map fst prs))"
    and "distinct (map (rd_fresh \<circ> snd) prs)" "used \<inter> (rd_fresh \<circ> snd) ` set prs = {}"
    and "\<forall>pr \<in> set prs. \<exists>u. dt_add (rd_command (snd pr)) 60 = Inr u"
  shows "\<exists>st' c' db'. plan_loop i (map fst prs) st = Inr st' \<and> apply_loop prs c db = (Inr c', db') \<and> counts_match st' c'"
  using assms
proof (induction prs arbitrary: st c db used i)
  case (Cons pr prs)
  obtain p rd where pr: "pr = (p, rd)" by force
  have p: "valid_wire p" using Cons.prems(3) pr by simp
  obtain st' where st': "plan_one i p st = Inr st'" using plan_one_cases [OF p] by blast
  show ?case
  proof (cases "map_of (plan_hashes st) (pkey p)")
    case None
    have k: "pkey p \<notin> fst ` set (plan_hashes st)" using None by (simp add: map_of_eq_None_iff)
    have inj: "inj_on job_tag (insert (pkey p) (fst ` set (plan_hashes st)))"
      by (rule inj_on_subset [OF Cons.prems(4)]) (auto simp: pr)
    obtain u where u: "dt_add (rd_command rd) 60 = Inr u" using Cons.prems(7) pr by auto
    have "rd_fresh rd \<notin> used" using Cons.prems(6) pr by auto
    then obtain db' where run: "apply_one p rd db = (Inr ''applied'', db')"
      and s: "synced ((pkey p, phash p) # plan_hashes st) (insert (rd_fresh rd) used) db'"
      using apply_one_new [OF Cons.prems(1) p k inj _ u] by blast
    have st'': "plan_hashes st' = (pkey p, phash p) # plan_hashes st" "counts_match st' (c\<lparr>ac_applied := Suc (ac_applied c)\<rparr>)"
      using plan_one_cases [OF p, of i st] st' None Cons.prems(2) by (auto simp: counts_match_def)
    have "inj_on job_tag (fst ` set (plan_hashes st') \<union> pkey ` set (map fst prs))"
      by (rule inj_on_subset [OF Cons.prems(4)]) (auto simp: pr st'')
    with Cons.IH [of st' "insert (rd_fresh rd) used" db' "c\<lparr>ac_applied := Suc (ac_applied c)\<rparr>" "Suc i"]
    show ?thesis using Cons.prems st'' s st' run by (auto simp: pr bind_act_def)
  next
    case (Some h)
    let ?c = "if h = phash p then c\<lparr>ac_already_present := Suc (ac_already_present c)\<rparr> else c\<lparr>ac_conflict := Suc (ac_conflict c)\<rparr>"
    have st'': "plan_hashes st' = plan_hashes st" "counts_match st' ?c"
      using plan_one_cases [OF p, of i st] st' Some Cons.prems(2) by (auto simp: counts_match_def split: if_splits)
    have "inj_on job_tag (fst ` set (plan_hashes st') \<union> pkey ` set (map fst prs))"
      by (rule inj_on_subset [OF Cons.prems(4)]) (auto simp: pr st'')
    with Cons.IH [of st' used db ?c "Suc i"]
    show ?thesis using Cons.prems st'' st' apply_one_known [OF Cons.prems(1) p Some, of rd] by (auto simp: pr bind_act_def)
  qed
qed simp

text \<open>On an empty candidate the dry run and the live run report the same numbers.\<close>

lemma dry_run_predicts:
  assumes "list_all valid_wire (map fst prs)" "inj_on job_tag (pkey ` set (map fst prs))"
    and "distinct (map (rd_fresh \<circ> snd) prs)" "\<forall>pr \<in> set prs. \<exists>u. dt_add (rd_command (snd pr)) 60 = Inr u"
  shows "\<exists>dry live db'. apply_backfill_to_state_db prs True empty_db = (Inr dry, empty_db)
    \<and> apply_backfill_to_state_db prs False empty_db = (Inr live, db')
    \<and> ar_planned_count dry = ar_applied_count live \<and> ar_duplicate_count dry = ar_already_present_count live
    \<and> ar_conflict_count dry = ar_conflict_count live \<and> ar_blocker_count dry = ar_blocker_count live
    \<and> ar_cutover_status dry = ar_cutover_status live"
proof -
  have e: "plan_hashes empty_plan = []" "counts_match empty_plan \<lparr>ac_applied = 0, ac_already_present = 0, ac_conflict = 0\<rparr>"
    by (simp_all add: plan_hashes_def empty_plan_def counts_match_def)
  obtain st' c' db' where run: "plan_loop 0 (map fst prs) empty_plan = Inr st'"
      "apply_loop prs \<lparr>ac_applied = 0, ac_already_present = 0, ac_conflict = 0\<rparr> empty_db = (Inr c', db')"
    and m: "counts_match st' c'"
    using loops_agree [of empty_plan "{}" empty_db "\<lparr>ac_applied = 0, ac_already_present = 0, ac_conflict = 0\<rparr>" prs 0] e synced_empty assms by auto
  have "apply_backfill_to_state_db prs True empty_db = (Inr \<lparr>ar_dry_run = True, ar_payload_count = length prs,
      ar_planned_count = length (ps_planned_rows st'), ar_duplicate_count = length (ps_replay st'),
      ar_conflict_count = length (ps_quarantine st'), ar_blocker_count = length (ps_blockers st'), ar_applied_count = 0,
      ar_already_present_count = 0, ar_cutover_status = (if ps_blockers st' \<noteq> [] then ''cutover_blocked'' else ''migration_ready_pending_approval''),
      ar_mutation_performed = False\<rparr>, empty_db)"
    by (simp add: apply_backfill_to_state_db_def plan_backfill_from_payloads_def run build_readiness_report_def)
  moreover have "apply_backfill_to_state_db prs False empty_db = (Inr \<lparr>ar_dry_run = False, ar_payload_count = length prs,
      ar_planned_count = ac_applied c', ar_duplicate_count = ac_already_present c', ar_conflict_count = ac_conflict c',
      ar_blocker_count = ac_conflict c', ar_applied_count = ac_applied c', ar_already_present_count = ac_already_present c',
      ar_cutover_status = (if ac_conflict c' \<noteq> 0 then ''cutover_blocked'' else ''migration_ready_pending_approval''),
      ar_mutation_performed = (ac_applied c' \<noteq> 0)\<rparr>, db')"
    by (simp add: apply_backfill_to_state_db_def run bind_act_def)
  ultimately show ?thesis using m by (auto simp: counts_match_def)
qed

section \<open>What the application of one payload guarantees\<close>

definition command_key :: "command_row \<Rightarrow> string \<times> string" where
  "command_key c = (cmd_idempotency_key c, cmd_payload_hash c)"

lemma command_key_status [simp]:
  "map command_key (commands (set_command_status c st stamp db)) = map command_key (commands db)"
  "map command_key (commands (fail_command_status c st e stamp db)) = map command_key (commands db)"
  by (simp_all add: set_command_status_def fail_command_status_def update_command_def command_key_def map_update_where)

lemma tx_write_commands:
  "tx_write rq now fresh plan db = Inr (r, db') \<Longrightarrow> no_callbacks rq \<Longrightarrow> map command_key (commands db') = map command_key (commands db)"
  by (auto simp: tx_write_def no_callbacks_def Let_def bind_result_Inr_iff
      dest!: insert_domain_records_frame insert_command_result_frame insert_delivery_jobs_frame)

lemma tx_deliver_commands:
  "tx_deliver rq now fresh db = Inr (r, db') \<Longrightarrow> no_callbacks rq \<Longrightarrow> map command_key (commands db') = map command_key (commands db)"
  by (auto simp: tx_deliver_def Let_def bind_result_Inr_iff split: if_splits
      dest!: insert_command_result_frame tx_write_commands)

lemma execute_commands:
  "execute rq now fresh db = Inr (r, db') \<Longrightarrow> no_callbacks rq \<Longrightarrow>
    map command_key (commands db') = map command_key (commands db) @ [(rq_idempotency_key rq, rq_payload_hash rq)]"
  by (auto simp: execute_def tx_claim_def tx_validate_def no_callbacks_def Let_def bind_result_Inr_iff insert_command_def
      consume_inbox_event_def command_key_def [of "\<lparr>cmd_id = _, cmd_type = _, cmd_resource_id_hash = _, cmd_session_id_hash = _,
         cmd_idempotency_key = _, cmd_payload_hash = _, cmd_input_epoch = _, cmd_status = _, cmd_lease_owner = _,
         cmd_lease_until = _, cmd_attempt_count = _, cmd_last_error_class = _, cmd_created_at = _, cmd_updated_at = _\<rparr>"]
      split: if_splits dest!: tx_deliver_commands [unfolded no_callbacks_def])

lemma row_with_command_key:
  "map_option command_key (row_with cmd_idempotency_key k cs) = find (\<lambda>p. fst p = k) (map command_key cs)"
  by (induction cs) (auto simp: command_key_def)

text \<open>A payload the database has accepted: its command, its delivery job and its body are there, with its hash.\<close>

definition accepted_in :: "state_db \<Rightarrow> dict \<Rightarrow> bool" where
  "accepted_in db p \<longleftrightarrow>
    (\<exists>c. row_with cmd_idempotency_key (pkey p) (commands db) = Some c \<and> cmd_payload_hash c = phash p)
    \<and> (\<exists>j \<in> set (delivery_jobs db). job_idempotency_key j = pkey p \<and> job_payload_hash j = phash p)
    \<and> (\<exists>row. row_with pl_idempotency_key (pkey p) (delivery_payloads db) = Some row \<and> pl_payload_hash row = phash p)"

lemma find_append_last: "find q xs = None \<Longrightarrow> q x \<Longrightarrow> find q (xs @ [x]) = Some x"
  by (induction xs) (auto split: if_splits)

text \<open>The request that the application of a payload makes.\<close>

definition backfill_request :: "dict \<Rightarrow> command_request" where
  "backfill_request p = \<lparr>rq_command_id = ''cmd_'' @ job_id_for_payload p, rq_command_type = ''transcript_ingest'',
      rq_idempotency_key = pkey p, rq_payload_hash = phash p, rq_result = simple_result ''completed'' '''',
      rq_domain_records = [\<lparr>dspec_id = ''domain_'' @ job_id_for_payload p, dspec_kind = ''delivery_projection'',
        dspec_lifecycle_status = ''prepared'', dspec_resource_id_hash = '''', dspec_session_id_hash = '''',
        dspec_payload_hash = phash p, dspec_payload_ref = '''', dspec_projection = None\<rparr>],
      rq_delivery_jobs = [\<lparr>spec_job_id = job_id_for_payload p, spec_target_profile = py_str (get_item p ''targetProfile''),
        spec_document_kind = py_str (get_item p ''kind''), spec_idempotency_key = pkey p,
        spec_payload_hash = phash p, spec_status = ''pending'', spec_next_retry_at = ''''\<rparr>],
      rq_validate = None, rq_mutate = None, rq_inbox_event_id = ''backfill_'' @ job_id_for_payload p, rq_resource_id_hash = '''',
      rq_session_id_hash = '''', rq_input_epoch = '''', rq_lease_owner = ''command-transaction'', rq_lease_seconds = 60,
      rq_inject_failure_at = ''''\<rparr>"

lemma apply_new_alt:
  "apply_new p rd =
    bind_act (transact (record_inbox_shadow p '''' (''backfill_'' @ job_id_for_payload p) '''' (rd_inbox rd))) (\<lambda>decision.
      if outcome decision = CONFLICT then return_act ''conflict''
      else if outcome decision = DUPLICATE then return_act ''already_present''
      else bind_act (transact (execute (backfill_request p) (rd_command rd) (rd_fresh rd))) (\<lambda>transaction.
        if ctr_status transaction = ''quarantined'' then return_act ''conflict''
        else bind_act (transact (record_delivery_payload p (rd_payload rd))) (\<lambda>r.
          return_act (if r = ''conflict'' then ''conflict'' else ''applied''))))"
  unfolding apply_new_def Let_def backfill_request_def consume_inbox_with_command_def pkey_def phash_def by (rule refl)

lemma record_inbox_shadow_frame:
  "record_inbox_shadow p ref e fresh now db = Inr (d, db') \<Longrightarrow>
    commands db' = commands db \<and> delivery_jobs db' = delivery_jobs db \<and> delivery_payloads db' = delivery_payloads db"
  by (auto simp: record_inbox_shadow_def Let_def bind_result_Inr_iff insert_inbox_event_def split: if_splits)

lemma recorded_payload:
  assumes "record_delivery_payload p now db = Inr (r, db')" "valid_wire p"
  shows "commands db' = commands db \<and> delivery_jobs db' = delivery_jobs db
    \<and> (r \<noteq> ''conflict'' \<longrightarrow> (\<exists>row. row_with pl_idempotency_key (pkey p) (delivery_payloads db') = Some row \<and> pl_payload_hash row = phash p))"
  using assms(1) valid_payload [OF assms(2)]
  by (auto simp: record_delivery_payload_def Let_def bind_result_Inr_iff insert_payload_row_def row_with_append
      split: option.splits if_splits)

lemma apply_one_applied:
  assumes "apply_one p rd db = (Inr ''applied'', db')"
  shows "valid_wire p \<and> accepted_in db' p"
proof -
  have v: "valid_wire p" and none: "row_with cmd_idempotency_key (pkey p) (commands db) = None"
    and new: "apply_new p rd db = (Inr ''applied'', db')"
    using assms by (auto simp: apply_one_def validate_ingress_payload_iff bind_act_def
        split: sum.splits option.splits if_splits prod.splits simp flip: pkey_def)
  obtain d db1 r db2 o' where s1: "record_inbox_shadow p '''' (''backfill_'' @ job_id_for_payload p) '''' (rd_inbox rd) db = Inr (d, db1)"
    and s2: "execute (backfill_request p) (rd_command rd) (rd_fresh rd) db1 = Inr (r, db2)" "ctr_status r \<noteq> ''quarantined''"
    and s3: "record_delivery_payload p (rd_payload rd) db2 = Inr (o', db')" "o' \<noteq> ''conflict''"
    using new by (auto simp: apply_new_alt bind_act_def transact_def split: sum.splits prod.splits if_splits)
  have nc: "no_callbacks (backfill_request p)" by (simp add: no_callbacks_def backfill_request_def)
  have keys: "map command_key (commands db2) = map command_key (commands db) @ [(pkey p, phash p)]"
    using execute_commands [OF s2(1) nc] record_inbox_shadow_frame [OF s1] by (simp add: backfill_request_def)
  have "find (\<lambda>q. fst q = pkey p) (map command_key (commands db)) = None"
    using row_with_command_key [of "pkey p" "commands db"] none by simp
  then have "map_option command_key (row_with cmd_idempotency_key (pkey p) (commands db2)) = Some (pkey p, phash p)"
    unfolding row_with_command_key keys by (simp add: find_append_last)
  then obtain c where c: "row_with cmd_idempotency_key (pkey p) (commands db2) = Some c" "cmd_payload_hash c = phash p"
    by (auto simp: command_key_def)
  obtain j where j: "j \<in> set (delivery_jobs db2)" "job_idempotency_key j = pkey p" "job_payload_hash j = phash p"
    using execute_commits [OF s2(1) nc] s2(2) by (auto simp: committed_def backfill_request_def job_of_spec_def)
  show ?thesis using v c j recorded_payload [OF s3(1) v] s3(2) by (auto simp: accepted_in_def)
qed

lemma accepted_apply_again:
  assumes "accepted_in db p" "valid_wire p"
  shows "apply_one p rd db = (Inr ''already_present'', db)"
  using assms valid_payload [OF assms(2)]
  by (auto simp: accepted_in_def apply_one_def validate_ingress_payload_iff [THEN iffD2, of p "()"] record_delivery_payload_def
      bind_act_def Let_def simp flip: pkey_def phash_def)

lemma apply_one_conflict:
  assumes "valid_wire p" "row_with cmd_idempotency_key (pkey p) (commands db) = Some c" "cmd_payload_hash c \<noteq> phash p"
  shows "apply_one p rd db = (Inr ''conflict'', db)"
  using assms by (simp add: apply_one_def validate_ingress_payload_iff [THEN iffD2, of p "()"] flip: pkey_def phash_def)

text \<open>
  An application that stopped after its inbox event was recorded cannot be repeated: the event's
  identifier is fixed by the payload, so the next attempt runs into the primary key, for ever.
\<close>

lemma apply_after_crash:
  assumes "valid_wire p" "row_with cmd_idempotency_key (pkey p) (commands db) = None"
    and "''backfill_'' @ job_id_for_payload p \<in> ev_event_id ` set (inbox_events db)"
  shows "\<exists>m. apply_one p rd db = (Inl (IntegrityError m), db)"
proof -
  note v = valid_payload [OF assms(1)]
  let ?e = "first_by ev_created_at (\<lambda>ev. ev_idempotency_key ev = pkey p) (inbox_events db)"
  have py: "str_or_empty (py_or (get_item p ''idempotencyKey'') j) = pkey p" "str_or_empty (py_or (get_item p ''contentHash'') j) = phash p" for j
    using v by (simp_all add: py_or_def)
  obtain d where "classify_idempotency (map_option inbox_existing ?e) (pkey p) (phash p) = Inr d"
    using classify_total [OF v(2,4)] by blast
  then have "\<exists>m. record_inbox_shadow p '''' (''backfill_'' @ job_id_for_payload p) '''' (rd_inbox rd) db = Inl (IntegrityError m)"
    using assms(3) v(2,4) by (simp add: record_inbox_shadow_def py Let_def insert_inbox_event_def str_or_def)
  then show ?thesis
    using assms(1,2) by (auto simp: apply_one_def apply_new_alt bind_act_def validate_ingress_payload_iff [THEN iffD2, of p "()"] simp flip: pkey_def)
qed

text \<open>
  An inbox event that another writer recorded for the same payload is answered \<open>already_present\<close>,
  although there is neither a command nor a delivery job nor a stored payload.
\<close>

lemma apply_after_shadow:
  assumes "valid_wire p" "row_with cmd_idempotency_key (pkey p) (commands db) = None"
    and "''backfill_'' @ job_id_for_payload p \<notin> ev_event_id ` set (inbox_events db)"
    and "first_by ev_created_at (\<lambda>ev. ev_idempotency_key ev = pkey p) (inbox_events db) = Some ev"
      "ev_accept_outcome ev = ACCEPTED" "ev_payload_hash ev = phash p"
  shows "\<exists>db'. apply_one p rd db = (Inr ''already_present'', db') \<and> commands db' = commands db
    \<and> delivery_jobs db' = delivery_jobs db \<and> delivery_payloads db' = delivery_payloads db"
proof -
  note v = valid_payload [OF assms(1)]
  have py: "str_or_empty (py_or (get_item p ''idempotencyKey'') j) = pkey p" "str_or_empty (py_or (get_item p ''contentHash'') j) = phash p" for j
    using v by (simp_all add: py_or_def)
  have "ev_idempotency_key ev = pkey p" using first_by_SomeD [OF assms(4)] by simp
  then have c: "classify_idempotency (Some (inbox_existing ev)) (pkey p) (phash p) = Inr (decide DUPLICATE ''same_key_same_payload_hash'')"
    using assms(5,6) v(2,4) by (simp add: classify_idempotency_def inbox_existing_def str_or_def TERMINAL_PRESERVED_OUTCOMES_def outcome_defs)
  then obtain db' where r: "record_inbox_shadow p '''' (''backfill_'' @ job_id_for_payload p) '''' (rd_inbox rd) db =
      Inr (decide DUPLICATE ''same_key_same_payload_hash'', db')"
    using assms(3,4) v(2,4) by (simp add: record_inbox_shadow_def py Let_def insert_inbox_event_def str_or_def)
  then have "apply_one p rd db = (Inr ''already_present'', db')"
    using assms(1,2) by (simp add: apply_one_def apply_new_alt bind_act_def outcome_defs validate_ingress_payload_iff [THEN iffD2, of p "()"] flip: pkey_def)
  with record_inbox_shadow_frame [OF r] show ?thesis by blast
qed

lemma apply_one_wf:
  assumes "db_wf db" "json_wf (JObj p)"
  shows "db_wf (snd (apply_one p rd db))"
proof -
  have keep: "callbacks_keep db_wf (backfill_request p)" by (simp add: callbacks_keep_def backfill_request_def)
  have pay: "db_wf (snd (transact (record_delivery_payload p t) db'))" if "db_wf db'" for t db'
    by (rule transact_preserves [where P = db_wf], erule record_delivery_payload_wf) (use that assms(2) in simp_all)
  have body: "db_wf (snd (bind_act (transact (record_delivery_payload p t)) (\<lambda>r. return_act (f r)) db'))" if "db_wf db'" for t f db'
    by (rule bind_act_preserves [where P = db_wf]) (simp_all add: pay that)
  have command: "db_wf (snd (bind_act (transact (execute (backfill_request p) t u)) g db'))"
    if "db_wf db'" "\<And>x db''. db_wf db'' \<Longrightarrow> db_wf (snd (g x db''))" for t u g db'
    by (rule bind_act_preserves [where P = db_wf], rule transact_preserves [where P = db_wf], erule execute_wf)
      (use that keep in simp_all)
  have "db_wf (snd (apply_new p rd db))"
    unfolding apply_new_alt
  proof (rule bind_act_preserves [where P = db_wf])
    show "db_wf (snd (transact (record_inbox_shadow p '''' (''backfill_'' @ job_id_for_payload p) '''' (rd_inbox rd)) db))"
      by (rule transact_preserves [where P = db_wf], erule record_inbox_shadow_wf) (use assms(1) in simp_all)
  qed (simp add: command body)
  then show ?thesis
    using assms(1) body [of db "rd_payload rd" "\<lambda>r. if r = ''conflict'' then ''conflict'' else ''already_present''"]
    by (simp add: apply_one_def split: sum.split option.split)
qed

end
