(* ===== verification/State_Sink.thy ===== *)
theory State_Sink
  imports Backfill File_Queue
begin

text \<open>
  The server-side sink \<open>StateDBIngressSink\<close> of \<open>rag_ingress/state_sink.py\<close>, which accepts one payload
  at a time into the state database, with the write-only journal of \<open>rag_ingress/ingress_journal.py\<close>
  it may carry, and the projection record of \<open>rag_ingress/domain_state.py\<close>.  The sink's state holds
  the file system of the journal, the database and the three failure counters.
\<close>

section \<open>The journal\<close>

definition knowledge_id_of :: "dict \<Rightarrow> string result" where
  "knowledge_id_of payload =
    bind_result (dict_get (py_or (get_item payload ''payload'') (JObj [])) ''document'') (\<lambda>doc.
    bind_result (dict_get (py_or doc (JObj [])) ''metadata'') (\<lambda>metadata.
    bind_result (dict_get (py_or metadata (JObj [])) ''knowledge_id'') (\<lambda>v. Inr (str_or_empty v))))"

definition entry_name :: "string \<Rightarrow> string" where
  "entry_name knowledge_id = ''entry_'' @ take 24 (sha256_hex knowledge_id) @ ''.json''"

text \<open>\<open>os.open(p, O_WRONLY | O_CREAT | O_TRUNC)\<close>: an empty file, new or emptied.\<close>

definition os_open_trunc :: "path \<Rightarrow> int \<Rightarrow> path io" where
  "os_open_trunc p now fs =
    (case resolve_path fs p of
       Inl e \<Rightarrow> (Inl e, fs)
     | Inr q \<Rightarrow>
         if q \<in> set (fs_dirs fs) then (Inl (IsADirectoryError (join ''/'' p)), fs)
         else (Inr q, fs_put q \<lparr>file_text = '''', file_mtime = now\<rparr> fs))"

definition journal_record :: "path \<Rightarrow> dict \<Rightarrow> int \<Rightarrow> py_error option \<Rightarrow> bool io" where
  "journal_record root payload now fault fs =
    (case knowledge_id_of payload of
       Inl e \<Rightarrow> (Inl e, fs)
     | Inr knowledge_id \<Rightarrow>
         if knowledge_id = '''' then (Inr False, fs)
         else
           (let final_path = root @ [entry_name knowledge_id]; temp_path = root @ [''.'' @ entry_name knowledge_id @ ''.tmp'']
            in bind_act (os_open_trunc temp_path now) (\<lambda>t fs1.
              (case fault of
                 Some e \<Rightarrow> (Inl e, fs_drop t fs1)
               | None \<Rightarrow>
                   (case os_replace temp_path final_path (fs_put t \<lparr>file_text = json_dumps (JObj payload), file_mtime = now\<rparr> fs1) of
                      (Inl e, fs2) \<Rightarrow> (Inl e, fs_drop t fs2)
                    | (Inr _, fs2) \<Rightarrow> (Inr True, fs2)))) fs))"

definition journal_get :: "path \<Rightarrow> string \<Rightarrow> file_system \<Rightarrow> dict option" where
  "journal_get root knowledge_id fs =
    (if knowledge_id = '''' then None
     else if \<not> path_exists fs (root @ [entry_name knowledge_id]) then None
     else case resolve_path fs (root @ [entry_name knowledge_id]) of
       Inl _ \<Rightarrow> None
     | Inr q \<Rightarrow>
         (case map_of (fs_files fs) q of
            None \<Rightarrow> None
          | Some f \<Rightarrow> (case json_loads (file_text f) of Some (JObj d) \<Rightarrow> Some d | _ \<Rightarrow> None)))"

definition journal_count :: "path \<Rightarrow> file_system \<Rightarrow> nat" where
  "journal_count root fs = length (filter (starts_with ''entry_'') (glob_json fs root))"

section \<open>The sink\<close>

definition build_state_sink_enqueue_payload ::
    "dict \<Rightarrow> string \<Rightarrow> string \<Rightarrow> dict \<Rightarrow> string \<Rightarrow> string \<Rightarrow> string \<Rightarrow> string \<Rightarrow> dict" where
  "build_state_sink_enqueue_payload source filename body metadata content_hash target_profile kind idempotency_key =
    [(''schemaVersion'', JStr INGRESS_SCHEMA_VERSION),
     (''source'', JObj source),
     (''payload'', JObj
       [(''kind'', JStr DEFAULT_INGRESS_PAYLOAD_KIND),
        (''redactionVersion'', JStr DEFAULT_REDACTION_VERSION),
        (''document'', JObj
          [(''filename'', JStr filename),
           (''contentType'', JStr DEFAULT_CONTENT_TYPE),
           (''body'', JStr body),
           (''metadata'', JObj (string_metadata metadata))])]),
     (''contentHash'', JStr content_hash),
     (''targetProfile'', JStr target_profile),
     (''kind'', JStr kind),
     (''idempotencyKey'', JStr idempotency_key)]"

record sink =
  sk_fs :: file_system
  sk_db :: state_db
  sk_journal_fail_count :: nat
  sk_dual_write_fail_count :: nat
  sk_dual_write_conflict_count :: nat

record sink_answer =
  sa_job_id :: string
  sa_status :: string
  sa_already_present :: bool

text \<open>What the writes of one call meet: the clock and draws of the database, the time and fault of the journal.\<close>

record sink_call =
  sc_reading :: reading
  sc_now :: int
  sc_fault :: "py_error option"

definition record_journal :: "path option \<Rightarrow> dict \<Rightarrow> sink_call \<Rightarrow> sink \<Rightarrow> sink" where
  "record_journal journal request_body call s =
    (case journal of
       None \<Rightarrow> s
     | Some root \<Rightarrow>
         (case journal_record root request_body (sc_now call) (sc_fault call) (sk_fs s) of
            (Inr True, fs) \<Rightarrow> s\<lparr>sk_fs := fs\<rparr>
          | (_, fs) \<Rightarrow> s\<lparr>sk_fs := fs, sk_journal_fail_count := Suc (sk_journal_fail_count s)\<rparr>))"

definition accept_payload :: "path option \<Rightarrow> dict \<Rightarrow> sink_call \<Rightarrow> (sink, sink_answer) action" where
  "accept_payload journal payload call s =
    (case validate_ingress_payload payload of
       Inl e \<Rightarrow> (Inl e, s)
     | Inr _ \<Rightarrow>
         (let s1 = record_journal journal payload call s
          in case apply_backfill_to_state_db [(payload, sc_reading call)] False (sk_db s1) of
               (Inl e, db) \<Rightarrow>
                 (Inl (RuntimeError ''state db accept failed''),
                  s1\<lparr>sk_db := db, sk_dual_write_fail_count := Suc (sk_dual_write_fail_count s1)\<rparr>)
             | (Inr report, db) \<Rightarrow>
                 (let s2 = s1\<lparr>sk_db := db,
                    sk_dual_write_conflict_count := sk_dual_write_conflict_count s1 + ar_conflict_count report\<rparr>
                  in if ar_conflict_count report \<noteq> 0 then (Inl (RuntimeError ''state db accept rejected: conflict''), s2)
                     else (Inr \<lparr>sa_job_id = job_id_for_payload payload, sa_status = ''queued'',
                        sa_already_present = (ar_already_present_count report \<noteq> 0)\<rparr>, s2))))"

definition sink_enqueue_document ::
    "path option \<Rightarrow> dict \<Rightarrow> string \<Rightarrow> string \<Rightarrow> dict \<Rightarrow> string \<Rightarrow> string \<Rightarrow> string \<Rightarrow> string \<Rightarrow> sink_call
      \<Rightarrow> (sink, sink_answer) action" where
  "sink_enqueue_document journal source filename body metadata content_hash target_profile kind idempotency_key call =
    accept_payload journal (build_state_sink_enqueue_payload source filename body metadata content_hash target_profile kind
      idempotency_key) call"

definition authority_shadow_report :: "(path option \<times> bool \<times> sink) option \<Rightarrow> (string \<times> nat) list option" where
  "authority_shadow_report client =
    (case client of
       None \<Rightarrow> None
     | Some (journal, has_state_db, s) \<Rightarrow>
         if journal = None \<and> \<not> has_state_db then None
         else Some [(''journal_fail_count'', sk_journal_fail_count s),
           (''dual_write_fail_count'', sk_dual_write_fail_count s),
           (''dual_write_conflict_count'', sk_dual_write_conflict_count s)])"

definition build_delivery_projection_record ::
    "string \<Rightarrow> string \<Rightarrow> string \<Rightarrow> string \<Rightarrow> string \<Rightarrow> string \<Rightarrow> string \<Rightarrow> string \<Rightarrow> domain_record_spec" where
  "build_delivery_projection_record domain_record_id resource_id_hash lifecycle_status payload_hash target_profile document_kind
     session_id_hash payload_ref =
    \<lparr>dspec_id = domain_record_id, dspec_kind = ''delivery_projection'', dspec_lifecycle_status = lifecycle_status,
     dspec_resource_id_hash = resource_id_hash, dspec_session_id_hash = session_id_hash, dspec_payload_hash = payload_hash,
     dspec_payload_ref = payload_ref,
     dspec_projection = Some [(''target_profile'', JStr target_profile), (''document_kind'', JStr document_kind)]\<rparr>"

section \<open>What acceptance means\<close>

lemma record_journal_db [simp]: "sk_db (record_journal journal p call s) = sk_db s"
  by (auto simp: record_journal_def split: option.split prod.split sum.split bool.split)

text \<open>The report of a one-payload application, by the outcome of the payload.\<close>

lemma apply_single:
  "apply_backfill_to_state_db [(p, rd)] False db =
    (case apply_one p rd db of
       (Inl e, db') \<Rightarrow> (Inl e, db')
     | (Inr out, db') \<Rightarrow>
         (let a = (if out = ''applied'' then 1 else 0); c = (if out = ''conflict'' then 1 else 0);
              d = (if out = ''applied'' \<or> out = ''conflict'' then 0 else 1)
          in (Inr \<lparr>ar_dry_run = False, ar_payload_count = 1, ar_planned_count = a, ar_duplicate_count = d, ar_conflict_count = c,
               ar_blocker_count = c, ar_applied_count = a, ar_already_present_count = d,
               ar_cutover_status = (if c \<noteq> 0 then ''cutover_blocked'' else ''migration_ready_pending_approval''),
               ar_mutation_performed = (a \<noteq> 0)\<rparr>, db')))"
  by (simp add: apply_backfill_to_state_db_def bind_act_def split: prod.split sum.split)

lemma accept_payload_cases:
  obtains (invalid) e where "\<not> valid_wire p" "accept_payload journal p call s = (Inl e, s)"
  | (failed) e db' where "valid_wire p" "apply_one p (sc_reading call) (sk_db s) = (Inl e, db')"
      "\<exists>s'. accept_payload journal p call s = (Inl (RuntimeError ''state db accept failed''), s') \<and> sk_db s' = db'"
  | (conflict) db' where "valid_wire p" "apply_one p (sc_reading call) (sk_db s) = (Inr ''conflict'', db')"
      "\<exists>s'. accept_payload journal p call s = (Inl (RuntimeError ''state db accept rejected: conflict''), s') \<and> sk_db s' = db'"
  | (accepted) out db' where "valid_wire p" "apply_one p (sc_reading call) (sk_db s) = (Inr out, db')" "out \<noteq> ''conflict''"
      "\<exists>s'. accept_payload journal p call s = (Inr \<lparr>sa_job_id = job_id_for_payload p, sa_status = ''queued'',
          sa_already_present = (out \<noteq> ''applied'')\<rparr>, s') \<and> sk_db s' = db'"
proof (cases "validate_ingress_payload p")
  case (Inl e)
  then have "\<not> valid_wire p" using validate_ingress_payload_iff [of p "()"] by auto
  with Inl invalid show ?thesis by (simp add: accept_payload_def)
next
  case (Inr u)
  then have v: "valid_wire p" using validate_ingress_payload_iff by blast
  obtain res db' where r: "apply_one p (sc_reading call) (sk_db s) = (res, db')" by force
  show ?thesis
  proof (cases res)
    case (Inl e)
    then show ?thesis using failed [OF v] Inr r by (simp add: accept_payload_def apply_single Let_def)
  next
    case out: (Inr out)
    then show ?thesis
      using conflict [OF v] accepted [OF v] Inr r
      by (cases "out = ''conflict''") (simp_all add: accept_payload_def apply_single Let_def)
  qed
qed

text \<open>The journal is best effort: whether and how it records never changes the answer or the database.\<close>

lemma accept_ignores_journal:
  "fst (accept_payload journal p call s) = fst (accept_payload journal' p (call\<lparr>sc_now := n, sc_fault := f\<rparr>) s)
    \<and> sk_db (snd (accept_payload journal p call s)) = sk_db (snd (accept_payload journal' p (call\<lparr>sc_now := n, sc_fault := f\<rparr>) s))"
  by (auto simp: accept_payload_def apply_single Let_def split: sum.split prod.split)

lemma accepted_answer:
  assumes "accept_payload journal p call s = (Inr a, s')"
  shows "sa_job_id a = job_id_for_payload p \<and> (\<not> sa_already_present a \<longrightarrow> accepted_in (sk_db s') p)"
  by (cases rule: accept_payload_cases [of p journal call s])
    (use assms apply_one_applied in \<open>auto split: if_splits\<close>)

section \<open>The journal gives back what it recorded\<close>

definition journal_root :: "path \<Rightarrow> file_system \<Rightarrow> bool" where
  "journal_root root fs \<longleftrightarrow> list_all plain_name root \<and> (\<forall>i \<le> length root. take i root \<in> set (fs_dirs fs))
    \<and> (\<forall>n. root @ [n] \<notin> set (fs_dirs fs))"

lemma resolve_in_journal:
  "journal_root root fs \<Longrightarrow> plain_name n \<Longrightarrow> resolve_path fs (root @ [n]) = Inr (root @ [n])"
  by (rule resolve_plain) (auto simp: journal_root_def)

lemma entry_name_plain: "plain_name (entry_name k)"
  by (auto simp: entry_name_def plain_name_def dest!: in_set_takeD sha256_hex_plain)

lemma temp_name_neq: "''.'' @ n @ ''.tmp'' \<noteq> entry_name k"
  by (simp add: entry_name_def)

lemma journal_record_done:
  assumes root: "journal_root root fs" and k: "knowledge_id_of p = Inr k" "k \<noteq> ''''"
  shows "\<exists>fs'. journal_record root p now None fs = (Inr True, fs') \<and> fs_dirs fs' = fs_dirs fs
    \<and> map_of (fs_files fs') (root @ [entry_name k]) = Some \<lparr>file_text = json_dumps (JObj p), file_mtime = now\<rparr>
    \<and> (\<forall>q. q \<noteq> root @ [entry_name k] \<longrightarrow> q \<noteq> root @ [''.'' @ entry_name k @ ''.tmp''] \<longrightarrow>
        map_of (fs_files fs') q = map_of (fs_files fs) q)"
proof -
  let ?t = "root @ [''.'' @ entry_name k @ ''.tmp'']" and ?p = "root @ [entry_name k]"
  let ?f = "\<lparr>file_text = json_dumps (JObj p), file_mtime = now\<rparr>"
  let ?g = "fs_put ?t ?f (fs_put ?t \<lparr>file_text = '''', file_mtime = now\<rparr> fs)"
  have plain: "plain_name (''.'' @ entry_name k @ ''.tmp'')" by (rule plain_temp [OF entry_name_plain])
  have root': "journal_root root ?g" using root by (simp add: journal_root_def)
  have dirs: "?t \<notin> set (fs_dirs fs)" "?p \<notin> set (fs_dirs fs)" using root by (simp_all add: journal_root_def)
  have open_trunc: "os_open_trunc ?t now fs = (Inr ?t, fs_put ?t \<lparr>file_text = '''', file_mtime = now\<rparr> fs)"
    using dirs resolve_in_journal [OF root plain] by (simp add: os_open_trunc_def)
  have replace: "os_replace ?t ?p ?g = (Inr (), fs_put ?p ?f (fs_drop ?t ?g))"
    using dirs resolve_in_journal [OF root' plain] resolve_in_journal [OF root' entry_name_plain] by (simp add: os_replace_def)
  have "journal_record root p now None fs = (Inr True, fs_put ?p ?f (fs_drop ?t ?g))"
    unfolding journal_record_def Let_def bind_act_def k(1) using k(2) open_trunc replace by simp
  then show ?thesis using temp_name_neq by auto
qed

lemma journal_get_recorded:
  assumes root: "journal_root root fs" and p: "json_wf (JObj p)" "json_canon (JObj p) = JObj p'"
    and k: "knowledge_id_of p = Inr k" "k \<noteq> ''''" and run: "journal_record root p now None fs = (Inr True, fs')"
  shows "journal_get root k fs' = Some p'"
proof -
  from journal_record_done [OF root k, of now] run have fs': "fs_dirs fs' = fs_dirs fs"
    "map_of (fs_files fs') (root @ [entry_name k]) = Some \<lparr>file_text = json_dumps (JObj p), file_mtime = now\<rparr>" by auto
  then have "journal_root root fs'" using root by (simp add: journal_root_def)
  then show ?thesis
    using fs' k(2) p json_loads_dumps [OF p(1)] resolve_in_journal [OF _ entry_name_plain]
    by (simp add: journal_get_def path_exists_def del: json_canon.simps)
qed

text \<open>Entries of other knowledge ids, with another digest, stay as they were.\<close>

lemma journal_get_other:
  assumes root: "journal_root root fs" and k: "knowledge_id_of p = Inr k" "k \<noteq> ''''" "entry_name k' \<noteq> entry_name k"
    and run: "journal_record root p now None fs = (Inr True, fs')"
  shows "journal_get root k' fs' = journal_get root k' fs"
proof -
  have "root @ [entry_name k'] \<noteq> root @ [''.'' @ entry_name k @ ''.tmp'']" using temp_name_neq [of "entry_name k" k'] by simp
  then have fs': "fs_dirs fs' = fs_dirs fs" "map_of (fs_files fs') (root @ [entry_name k']) = map_of (fs_files fs) (root @ [entry_name k'])"
    using journal_record_done [OF root k(1,2), of now] run k(3) by auto
  then have "journal_root root fs'" using root by (simp add: journal_root_def)
  then show ?thesis
    using fs' resolve_in_journal [OF root entry_name_plain] resolve_in_journal [OF _ entry_name_plain, of root fs']
    by (simp add: journal_get_def path_exists_def)
qed

end
