(* ===== verification/Worker.thy ===== *)
theory Worker
  imports State_Sink Delivery
begin

text \<open>
  The queue worker of \<open>rag_ingress/shadow_worker.py\<close>: the observer log \<open>IngestStateStore\<close>, the
  processing of one payload with either kind of backend, the handling of one broker message with
  its acknowledgement, the record of a poison message and the fetch loop.  The state of a worker is
  the world of its backend, the canonical database and the observer table.  The clock
  texts, the identifiers drawn and what the broker hands out are arguments.  Handlers run one after the other; other workers act on the database
  inside the calls of the backend.
\<close>

section \<open>The observer log\<close>

record log_row =
  lg_idempotency_key :: string
  lg_content_hash :: string
  lg_document_kind :: string
  lg_target_profile :: string
  lg_status :: string
  lg_dataset_ref :: string
  lg_document_ref :: string
  lg_delivered :: bool
  lg_recorded_at :: string
  lg_updated_at :: string

text \<open>\<open>INSERT \<dots> ON CONFLICT(idempotency_key) DO UPDATE\<close>: the identity columns of a known key stay.\<close>

definition store_record :: "log_row \<Rightarrow> log_row list \<Rightarrow> log_row list" where
  "store_record r rows =
    (if lg_idempotency_key r \<in> lg_idempotency_key ` set rows
     then update_where lg_idempotency_key (lg_idempotency_key r) (\<lambda>old. old\<lparr>lg_status := lg_status r,
       lg_dataset_ref := lg_dataset_ref r, lg_document_ref := lg_document_ref r, lg_delivered := lg_delivered r,
       lg_updated_at := lg_updated_at r\<rparr>) rows
     else rows @ [r])"

definition store_counts :: "log_row list \<Rightarrow> (string \<times> nat) list" where
  "store_counts rows = map (\<lambda>s. (s, length (filter (\<lambda>r. lg_status r = s) rows))) (remdups (map lg_status rows))"

definition get_delivered :: "string \<Rightarrow> log_row list \<Rightarrow> (string \<times> string) option" where
  "get_delivered idempotency_key rows =
    map_option (\<lambda>r. (lg_dataset_ref r, lg_document_ref r))
      (find (\<lambda>r. lg_idempotency_key r = idempotency_key \<and> lg_delivered r \<and> lg_document_ref r \<noteq> '''') rows)"

section \<open>Processing a payload\<close>

record shadow_result =
  sr_status :: string
  sr_idempotency_key :: string
  sr_content_hash_present :: bool
  sr_delivered :: bool
  sr_dataset_ref :: string
  sr_document_ref :: string

record 'w index_adapter =
  ia_find_by_natural_key :: "string \<Rightarrow> string \<Rightarrow> string \<Rightarrow> ('w, (string \<times> string) option) action"
  ia_submit_document :: "rag_document \<Rightarrow> ('w, string \<times> string) action"

datatype 'w sink_backend =
    NoBackend
  | CouchDB "'w backend"
  | Adapter "'w index_adapter"

record 'w worker =
  wk_world :: 'w
  wk_db :: state_db
  wk_log :: "log_row list"

record process_call =
  pc_reading :: reading
  pc_clock :: clock
  pc_fresh :: string
  pc_iso1 :: string
  pc_iso2 :: string

primrec wire_payload_is_conservatively_redacted :: "json \<Rightarrow> bool" where
  "wire_payload_is_conservatively_redacted JNull = True"
| "wire_payload_is_conservatively_redacted (JBool b) = True"
| "wire_payload_is_conservatively_redacted (JInt i) = True"
| "wire_payload_is_conservatively_redacted (JStr s) = (redact_text_v2 s = s)"
| "wire_payload_is_conservatively_redacted (JArr xs) = list_all id (map wire_payload_is_conservatively_redacted xs)"
| "wire_payload_is_conservatively_redacted (JObj d) =
    list_all (\<lambda>(k, ok). redact_text_v2 k = k \<and> ok) (map (map_prod id wire_payload_is_conservatively_redacted) d)"

definition log_of :: "string \<Rightarrow> rag_document \<Rightarrow> string \<Rightarrow> string \<Rightarrow> string \<Rightarrow> bool \<Rightarrow> string \<Rightarrow> log_row" where
  "log_of ik document status dataset_ref document_ref delivered now_iso =
    \<lparr>lg_idempotency_key = ik, lg_content_hash = doc_content_hash document,
     lg_document_kind = doc_document_kind document, lg_target_profile = doc_target_profile document,
     lg_status = status, lg_dataset_ref = dataset_ref, lg_document_ref = document_ref, lg_delivered = delivered,
     lg_recorded_at = now_iso, lg_updated_at = now_iso\<rparr>"

definition put_log :: "log_row \<Rightarrow> ('w worker, unit) action" where
  "put_log r s = (Inr (), s\<lparr>wk_log := store_record r (wk_log s)\<rparr>)"

definition result_of :: "string \<Rightarrow> rag_document \<Rightarrow> string \<Rightarrow> bool \<Rightarrow> string \<Rightarrow> string \<Rightarrow> shadow_result" where
  "result_of ik document status delivered dataset_ref document_ref =
    \<lparr>sr_status = status, sr_idempotency_key = ik,
     sr_content_hash_present = (doc_content_hash document \<noteq> ''''), sr_delivered = delivered,
     sr_dataset_ref = dataset_ref, sr_document_ref = document_ref\<rparr>"

text \<open>A sink on the canonical database without a journal, and the executor on the worker's environment.\<close>

definition sink_accept :: "dict \<Rightarrow> reading \<Rightarrow> ('w worker, sink_answer) action" where
  "sink_accept payload rd s =
    (case accept_payload None payload \<lparr>sc_reading = rd, sc_now = 0, sc_fault = None\<rparr>
        \<lparr>sk_fs = \<lparr>fs_dirs = [], fs_files = []\<rparr>, sk_db = wk_db s, sk_journal_fail_count = 0,
         sk_dual_write_fail_count = 0, sk_dual_write_conflict_count = 0\<rparr> of
       (r, sk) \<Rightarrow> (r, s\<lparr>wk_db := sk_db sk\<rparr>))"

definition run_executor :: "'w backend \<Rightarrow> string \<Rightarrow> string \<Rightarrow> process_call \<Rightarrow> ('w worker, receipt) action" where
  "run_executor be lease_owner job pc s =
    (case execute_once_with_receipt be (delivery_executor lease_owner 600) job (pc_clock pc) 5 (pc_fresh pc) (wk_world s, wk_db s) of
       (r, (w, db)) \<Rightarrow> (r, s\<lparr>wk_world := w, wk_db := db\<rparr>))"

definition on_world :: "('w, 'a) action \<Rightarrow> ('w worker, 'a) action" where
  "on_world m s = (case m (wk_world s) of (r, w) \<Rightarrow> (r, s\<lparr>wk_world := w\<rparr>))"

text \<open>What the executor's receipt leads to.\<close>

definition settle_receipt :: "rag_document \<Rightarrow> string \<Rightarrow> process_call \<Rightarrow> receipt \<Rightarrow> ('w worker, shadow_result) action" where
  "settle_receipt document job pc receipt s =
    (if rcpt_status receipt = ''quarantined''
     then bind_act (put_log (log_of (doc_idempotency_key document) document ''quarantined_delivery'' '''' '''' False (pc_iso2 pc)))
       (\<lambda>_. return_act (result_of (doc_idempotency_key document) document ''quarantined_delivery'' False '''' '''')) s
     else if rcpt_status receipt \<noteq> ''succeeded''
     then (case get_delivery_job (wk_db s) job of
         None \<Rightarrow> (Inl (RuntimeError (''canonical delivery did not succeed: '' @ rcpt_status receipt)), s)
       | Some current \<Rightarrow>
           (let deadline = str_or (job_next_retry_at current) (job_lease_until current)
            in if deadline \<noteq> '''' then (Inl (DeliveryDeferred job deadline), s)
               else (Inl (RuntimeError (''canonical delivery did not succeed: '' @ rcpt_status receipt)), s)))
     else (case get_delivery_job (wk_db s) job of
         None \<Rightarrow> (Inl (RuntimeError ''canonical delivery proof is missing''), s)
       | Some row \<Rightarrow>
           (let shadow_status = (if rcpt_submit_attempted receipt then ''delivered'' else ''deduplicated'')
            in bind_act (put_log (log_of (doc_idempotency_key document) document shadow_status (job_index_target_id row) (job_index_document_id row) True (pc_iso2 pc)))
              (\<lambda>_. return_act (result_of (doc_idempotency_key document) document shadow_status True (job_index_target_id row) (job_index_document_id row))) s)))"

definition process_couchdb ::
    "bool \<Rightarrow> 'w backend \<Rightarrow> bool \<Rightarrow> string \<Rightarrow> process_call \<Rightarrow> dict \<Rightarrow> rag_document \<Rightarrow> ('w worker, shadow_result) action" where
  "process_couchdb canonical_state be deliver lease_owner pc payload document =
    (if \<not> canonical_state then raise_act (RuntimeError ''canonical state db is disabled for the legacy delivery mode'')
     else if \<not> wire_payload_is_conservatively_redacted (JObj payload)
     then bind_act (put_log (log_of (doc_idempotency_key document) document ''quarantined_wire_redaction'' '''' '''' False (pc_iso1 pc)))
       (\<lambda>_. return_act (result_of (doc_idempotency_key document) document ''quarantined_wire_redaction'' False '''' ''''))
     else bind_act (sink_accept payload (pc_reading pc)) (\<lambda>accepted.
       bind_act (if sa_already_present accepted then return_act ()
           else put_log (log_of (doc_idempotency_key document) document ''received'' '''' '''' False (pc_iso1 pc))) (\<lambda>_.
       if \<not> deliver
       then bind_act (put_log (log_of (doc_idempotency_key document) document ''observed_no_deliver'' '''' '''' False (pc_iso2 pc)))
         (\<lambda>_. return_act (result_of (doc_idempotency_key document) document ''observed_no_deliver'' False '''' ''''))
       else bind_act (run_executor be lease_owner (sa_job_id accepted) pc)
         (settle_receipt document (sa_job_id accepted) pc))))"

text \<open>The direct mode: redact, deduplicate, scan for leaks, submit.\<close>

definition existing_delivery :: "'w index_adapter \<Rightarrow> string \<Rightarrow> rag_document \<Rightarrow> ('w worker, (string \<times> string) option) action" where
  "existing_delivery ia ik document s =
    (case get_delivered ik (wk_log s) of
       Some refs \<Rightarrow> (Inr (Some refs), s)
     | None \<Rightarrow> on_world (ia_find_by_natural_key ia (doc_target_profile document) ik (doc_content_hash document)) s)"

definition submit_direct :: "'w index_adapter option \<Rightarrow> process_call \<Rightarrow> string \<Rightarrow> rag_document \<Rightarrow> ('w worker, shadow_result) action" where
  "submit_direct target pc ik document =
    bind_act (put_log (log_of ik document ''received'' '''' '''' False (pc_iso1 pc))) (\<lambda>_.
      if public_ingress_leak_violations (doc_body document) \<noteq> []
      then bind_act (put_log (log_of ik document ''quarantined_leak'' '''' '''' False (pc_iso2 pc)))
        (\<lambda>_. return_act (result_of ik document ''quarantined_leak'' False '''' ''''))
      else case target of
        None \<Rightarrow> bind_act (put_log (log_of ik document ''observed_no_deliver'' '''' '''' False (pc_iso2 pc)))
          (\<lambda>_. return_act (result_of ik document ''observed_no_deliver'' False '''' ''''))
      | Some ia \<Rightarrow> bind_act (on_world (ia_submit_document ia document)) (\<lambda>(dataset_ref, document_ref).
          bind_act (put_log (log_of ik document ''delivered'' dataset_ref document_ref True (pc_iso2 pc)))
            (\<lambda>_. return_act (result_of ik document ''delivered'' True dataset_ref document_ref))))"

definition process_direct :: "'w index_adapter option \<Rightarrow> process_call \<Rightarrow> dict \<Rightarrow> string \<Rightarrow> ('w worker, shadow_result) action" where
  "process_direct target pc payload ik s =
    (case bind_result (apply_server_redaction payload) document_from_ingress_payload of
       Inl e \<Rightarrow> (Inl e, s)
     | Inr redacted \<Rightarrow>
         bind_act (case target of None \<Rightarrow> return_act None | Some ia \<Rightarrow> existing_delivery ia ik redacted) (\<lambda>existing.
           (case existing of
              Some (dataset_ref, document_ref) \<Rightarrow>
                bind_act (put_log (log_of ik redacted ''delivered'' dataset_ref document_ref True (pc_iso1 pc)))
                  (\<lambda>_. return_act (result_of ik redacted ''deduplicated'' True dataset_ref document_ref))
            | None \<Rightarrow> submit_direct target pc ik redacted)) s)"

definition process_payload ::
    "bool \<Rightarrow> 'w sink_backend \<Rightarrow> bool \<Rightarrow> string \<Rightarrow> process_call \<Rightarrow> dict \<Rightarrow> ('w worker, shadow_result) action" where
  "process_payload canonical_state be deliver lease_owner pc message s =
    (let payload = normalize_ingest_job_payload message
     in case document_from_ingress_payload payload of
          Inl e \<Rightarrow> (Inl e, s)
        | Inr document \<Rightarrow>
            (case be of
               CouchDB b \<Rightarrow> process_couchdb canonical_state b deliver lease_owner pc payload document s
             | Adapter ia \<Rightarrow> process_direct (if deliver then Some ia else None) pc payload (doc_idempotency_key document) s
             | NoBackend \<Rightarrow> process_direct None pc payload (doc_idempotency_key document) s))"


section \<open>Handling a message\<close>

text \<open>
  A message of the broker: its decoded text (or the decoding error) and the two numbers of its
  metadata, which may be unreadable.
\<close>

record message =
  msg_text :: "string result"
  msg_num_delivered :: "int option"
  msg_sequence :: "int option"

datatype broker_reply =
    Acked
  | Nak
  | NakDelay int

definition num_delivered :: "message \<Rightarrow> int" where
  "num_delivered msg = (case msg_num_delivered msg of Some n \<Rightarrow> n | None \<Rightarrow> 1)"

definition message_json :: "message \<Rightarrow> json result" where
  "message_json msg =
    bind_result (msg_text msg) (\<lambda>text. case json_loads text of None \<Rightarrow> Inl (JSONDecodeError '''') | Some j \<Rightarrow> Inr j)"

definition poison_row :: "string \<Rightarrow> string \<Rightarrow> string \<Rightarrow> string \<Rightarrow> string \<Rightarrow> log_row" where
  "poison_row key content_hash document_kind target_profile now_iso =
    \<lparr>lg_idempotency_key = key, lg_content_hash = content_hash, lg_document_kind = document_kind,
     lg_target_profile = target_profile, lg_status = ''quarantined_max_deliver'', lg_dataset_ref = '''', lg_document_ref = '''',
     lg_delivered = False, lg_recorded_at = now_iso, lg_updated_at = now_iso\<rparr>"

text \<open>The canonical part: the job of the message, if there is one, is quarantined first.\<close>

definition quarantine_job :: "string \<Rightarrow> dict \<Rightarrow> datetime \<Rightarrow> string \<Rightarrow> ('w worker, unit) action" where
  "quarantine_job key payload now now_iso s =
    (case row_with job_idempotency_key key (delivery_jobs (wk_db s)) of
       None \<Rightarrow> (Inr (), s)
     | Some job \<Rightarrow>
         if (case get_delivery_payload (wk_db s) key of None \<Rightarrow> True | Some retained \<Rightarrow> \<not> json_eq (JObj retained) (JObj payload))
         then (Inl (RuntimeError ''transport_quarantine_payload_identity''), s)
         else (case quarantine_transport_delivery (job_id job) (job_updated_at job) now (wk_db s) of
             Inl e \<Rightarrow> (Inl e, s)
           | Inr (_, db) \<Rightarrow>
               (case get_delivery_job db (job_id job) of
                  None \<Rightarrow> (Inl (RuntimeError ''transport_quarantine_not_terminal''), s\<lparr>wk_db := db\<rparr>)
                | Some current \<Rightarrow>
                    if job_status current \<notin> {''succeeded'', ''quarantined''}
                    then (Inl (RuntimeError ''transport_quarantine_not_terminal''), s\<lparr>wk_db := db\<rparr>)
                    else if job_status current = ''quarantined''
                    then put_log (poison_row key (job_payload_hash job) (job_document_kind job) (job_target_profile job) now_iso)
                      (s\<lparr>wk_db := db\<rparr>)
                    else (Inr (), s\<lparr>wk_db := db\<rparr>))))"

definition record_poison :: "bool \<Rightarrow> message \<Rightarrow> datetime \<Rightarrow> string \<Rightarrow> ('w worker, unit) action" where
  "record_poison canonical_state msg now now_iso =
    bind_act
      (case message_json msg of
         Inr (JObj payload) \<Rightarrow>
           if canonical_state \<and> truthy (get_item payload ''idempotencyKey'')
           then quarantine_job (py_str (get_item payload ''idempotencyKey'')) payload now now_iso
           else return_act ()
       | _ \<Rightarrow> return_act ())
      (\<lambda>_. put_log (poison_row (''poison:'' @ show_int (case msg_sequence msg of Some n \<Rightarrow> n | None \<Rightarrow> 0))
        '''' ''unknown'' ''unknown'' now_iso))"

record handle_call =
  hc_process :: process_call
  hc_now :: datetime
  hc_iso :: string

text \<open>
  \<open>delay_seconds\<close> in microseconds: until the deadline, at least a hundredth of a second.  A
  deadline that cannot be read raises inside the exception handler and leaves it.
\<close>

definition delay_us :: "string \<Rightarrow> datetime \<Rightarrow> int result" where
  "delay_us next_retry_at now =
    (case fromisoformat next_retry_at of
       None \<Rightarrow> Inl (ValueError ''Invalid isoformat string'')
     | Some deadline \<Rightarrow> Inr (max (int (us_of deadline) - int (us_of now)) 10000))"

definition process_message ::
    "bool \<Rightarrow> 'w sink_backend \<Rightarrow> bool \<Rightarrow> string \<Rightarrow> process_call \<Rightarrow> message \<Rightarrow> ('w worker, shadow_result) action" where
  "process_message canonical_state be deliver lease_owner pc msg s =
    (case message_json msg of
       Inl e \<Rightarrow> (Inl e, s)
     | Inr (JObj payload) \<Rightarrow> process_payload canonical_state be deliver lease_owner pc payload s
     | Inr _ \<Rightarrow> (Inl (AttributeError ''get''), s))"

definition handle_msg ::
    "bool \<Rightarrow> 'w sink_backend \<Rightarrow> bool \<Rightarrow> int \<Rightarrow> string \<Rightarrow> handle_call \<Rightarrow> message \<Rightarrow> ('w worker, string \<times> broker_reply) action" where
  "handle_msg canonical_state be deliver max_deliver lease_owner hc msg s =
    (case process_message canonical_state be deliver lease_owner (hc_process hc) msg s of
       (Inr res, s') \<Rightarrow> (Inr (sr_status res, Acked), s')
     | (Inl (DeliveryDeferred job next_retry_at), s') \<Rightarrow>
         (case delay_us next_retry_at (hc_now hc) of
            Inl e \<Rightarrow> (Inl e, s')
          | Inr d \<Rightarrow> (Inr (''nak'', NakDelay d), s'))
     | (Inl e, s') \<Rightarrow>
         if num_delivered msg \<ge> max_deliver
         then (case record_poison canonical_state msg (hc_now hc) (hc_iso hc) s' of
             (Inl _, s'') \<Rightarrow> (Inr (''nak'', NakDelay 60000000), s'')
           | (Inr _, s'') \<Rightarrow> (Inr (''quarantined_max_deliver'', Acked), s''))
         else (Inr (''nak'', Nak), s'))"

section \<open>The fetch loop\<close>

text \<open>
  One turn of the loop meets a pressure verdict and a fetch, which gives at most as many messages
  as were asked for, or raises when none came in time.  The loop is run on the turns of a schedule; a
  schedule that ends before the loop does leaves it running.
\<close>

record turn =
  tn_open :: bool
  tn_fetch :: "nat \<Rightarrow> (message \<times> handle_call) list option"

type_synonym 'w handler = "nat \<Rightarrow> handle_call \<Rightarrow> message \<Rightarrow> ('w worker, string \<times> broker_reply) action"

fun handle_batch :: "'w handler \<Rightarrow> nat \<Rightarrow> (message \<times> handle_call) list \<Rightarrow> ('w worker, string list) action" where
  "handle_batch h n [] = return_act []"
| "handle_batch h n ((msg, hc) # rest) =
    bind_act (h n hc msg) (\<lambda>(st, _). bind_act (handle_batch h (Suc n) rest) (\<lambda>sts. return_act (st # sts)))"

datatype loop_end = Stopped | StillRunning

fun consume_loop ::
    "'w handler \<Rightarrow> nat option \<Rightarrow> nat \<Rightarrow> turn list \<Rightarrow> nat \<Rightarrow> string list \<Rightarrow> ('w worker, loop_end \<times> nat \<times> string list) action" where
  "consume_loop h max_messages fetch_batch turns processed results =
    (if (case max_messages of None \<Rightarrow> False | Some m \<Rightarrow> processed \<ge> m) then return_act (Stopped, processed, results)
     else case turns of
       [] \<Rightarrow> return_act (StillRunning, processed, results)
     | turn # rest \<Rightarrow>
         if \<not> tn_open turn then consume_loop h max_messages fetch_batch rest processed results
         else
           (let remaining = (case max_messages of None \<Rightarrow> fetch_batch | Some m \<Rightarrow> min fetch_batch (m - processed))
            in case tn_fetch turn (max remaining 1) of
                 None \<Rightarrow>
                   if max_messages \<noteq> None then return_act (Stopped, processed, results)
                   else consume_loop h max_messages fetch_batch rest processed results
               | Some msgs \<Rightarrow>
                   bind_act (handle_batch h (length results) msgs) (\<lambda>statuses.
                     consume_loop h max_messages fetch_batch rest
                       (processed + length (filter (\<lambda>st. st \<noteq> ''nak'') statuses)) (results @ statuses))))"

declare consume_loop.simps [simp del]

definition handler_lease_owner :: "string \<Rightarrow> (string \<Rightarrow> nat \<Rightarrow> string) option \<Rightarrow> nat \<Rightarrow> string" where
  "handler_lease_owner base factory n =
    (case factory of Some f \<Rightarrow> f base (Suc n) | None \<Rightarrow> base @ '':handle-'' @ show_nat (Suc n))"

definition run_consume ::
    "string \<Rightarrow> bool \<Rightarrow> bool \<Rightarrow> 'w sink_backend \<Rightarrow> bool \<Rightarrow> nat option \<Rightarrow> int \<Rightarrow> int \<Rightarrow> string
      \<Rightarrow> (string \<Rightarrow> nat \<Rightarrow> string) option \<Rightarrow> turn list \<Rightarrow> ('w worker, loop_end \<times> nat \<times> string list) action" where
  "run_consume stream allow_live canonical_state be deliver max_messages max_deliver fetch_batch lease_owner factory turns =
    (if stream = ''RAG_INGRESS_QUEUE'' \<and> \<not> allow_live
     then raise_act (ValueError ''shadow worker must not consume the live RAG_INGRESS_QUEUE stream'')
     else consume_loop
       (\<lambda>n hc msg. handle_msg canonical_state be deliver max_deliver (handler_lease_owner lease_owner factory n) hc msg)
       max_messages (nat (max fetch_batch 1)) turns 0 [])"

section \<open>The pressure gate and the synthetic event\<close>

text \<open>
  The verdict of a status answer: only the ASCII letters matter for the comparison with \<open>OPEN\<close>.
  Every failure to read it leaves the gate open.
\<close>

definition ascii_upper :: "char \<Rightarrow> char" where
  "ascii_upper c = (if 97 \<le> code c \<and> code c \<le> 122 then char_of (code c - 32) else c)"

definition pressure_verdict :: "json option \<Rightarrow> bool" where
  "pressure_verdict answer =
    (case answer of
       None \<Rightarrow> True
     | Some data \<Rightarrow>
         (case bind_result (dict_get data ''target'') (\<lambda>target.
                 bind_result (if truthy target then Inr target else bind_result (dict_get data ''queue'') (\<lambda>q. Inr (py_or q data))) (\<lambda>node.
                 bind_result (dict_get (py_or node (JObj [])) ''pressure'') (\<lambda>p. Inr (py_str (py_or p (JStr ''OPEN''))))))
          of Inl _ \<Rightarrow> True
           | Inr pressure \<Rightarrow> map ascii_upper pressure = ''OPEN''))"

record pressure_state =
  pr_ts :: int
  pr_open :: bool

definition pressure_check :: "int \<Rightarrow> int \<Rightarrow> json option \<Rightarrow> pressure_state \<Rightarrow> bool \<times> pressure_state" where
  "pressure_check ttl now answer st =
    (if now - pr_ts st < ttl then (pr_open st, st)
     else (let verdict = pressure_verdict answer in (verdict, \<lparr>pr_ts = now, pr_open = verdict\<rparr>)))"

definition synthetic_body :: "string \<Rightarrow> string" where
  "synthetic_body tag =
    ''---'' @ NL @ ''schema_version: agent_knowledge_document.v2'' @ NL @ ''result_type: conversation_chunk'' @ NL
    @ ''provider: claude'' @ NL @ ''project: '' @ tag @ NL @ ''privacy_level: private'' @ NL @ ''---'' @ NL @ NL
    @ ''# G1 shadow NATS smoke ('' @ tag @ '')'' @ NL @ NL
    @ ''Synthetic content for the isolated RAG_INGRESS_SHADOW smoke. No real ''
    @ ''transcript content. Deleted after run=DONE.'' @ NL"

definition build_synthetic_event :: "string \<Rightarrow> dict" where
  "build_synthetic_event tag =
    [(''schemaVersion'', JStr ''rag_ingress_enqueue.v1''),
     (''kind'', JStr ''conversation_chunk''),
     (''contentHash'', JStr (''sha256:'' @ sha256_hex (synthetic_body tag))),
     (''idempotencyKey'', JStr tag),
     (''targetProfile'', JStr ''index-transcript-memory''),
     (''source'', JObj [(''provider'', JStr ''claude''), (''project'', JStr tag), (''host'', JStr ''shadow''), (''producer'', JStr ''g1-smoke'')]),
     (''payload'', JObj
       [(''kind'', JStr ''redacted_rag_ready_document''),
        (''redactionVersion'', JStr ''redaction.v2''),
        (''document'', JObj
          [(''contentType'', JStr ''text/markdown''),
           (''filename'', JStr (tag @ ''.md'')),
           (''body'', JStr (synthetic_body tag)),
           (''metadata'', JObj [(''schema_version'', JStr ''agent_knowledge_document.v2''),
             (''result_type'', JStr ''conversation_chunk''), (''provider'', JStr ''claude''), (''project'', JStr tag),
             (''privacy_level'', JStr ''private'')])])])]"

lemma synthetic_event_valid: "tag \<noteq> '''' \<Longrightarrow> valid_wire (build_synthetic_event tag)"
proof -
  assume "tag \<noteq> ''''"
  moreover have "synthetic_body tag \<noteq> ''''" by (simp add: synthetic_body_def)
  moreover have "list_all (\<lambda>k. \<not> is_secret_like_key k) [''schema_version'', ''result_type'', ''provider'', ''project'', ''privacy_level'']"
    by code_simp
  ultimately show ?thesis
    by (simp add: valid_wire_def build_synthetic_event_def wire_constants starts_with_def)
qed

section \<open>The observer log\<close>

lemma store_record_get:
  "\<exists>row. row_with lg_idempotency_key (lg_idempotency_key r) (store_record r rows) = Some row
    \<and> lg_status row = lg_status r \<and> lg_delivered row = lg_delivered r
    \<and> lg_dataset_ref row = lg_dataset_ref r \<and> lg_document_ref row = lg_document_ref r"
proof (cases "lg_idempotency_key r \<in> lg_idempotency_key ` set rows")
  case True
  then obtain old where "row_with lg_idempotency_key (lg_idempotency_key r) rows = Some old"
    using row_with_None_iff [of lg_idempotency_key "lg_idempotency_key r" rows] by auto
  then show ?thesis using True by (simp add: store_record_def row_with_update_where)
next
  case False
  then have "row_with lg_idempotency_key (lg_idempotency_key r) rows = None" by (simp add: row_with_None_iff)
  then show ?thesis using False by (simp add: store_record_def row_with_append)
qed

lemma store_record_in: "\<exists>row \<in> set (store_record r rows). lg_idempotency_key row = lg_idempotency_key r \<and> lg_status row = lg_status r"
  using store_record_get [of r rows] by (auto dest: row_with_SomeD)

lemma store_record_distinct:
  "distinct (map lg_idempotency_key rows) \<Longrightarrow> distinct (map lg_idempotency_key (store_record r rows))"
  by (auto simp: store_record_def map_update_where)

lemma get_delivered_row:
  assumes "distinct (map lg_idempotency_key rows)" "row_with lg_idempotency_key k rows = Some row"
    and "lg_delivered row" "lg_document_ref row \<noteq> ''''"
  shows "get_delivered k rows = Some (lg_dataset_ref row, lg_document_ref row)"
  using assms
proof (induction rows)
  case (Cons x xs)
  show ?case
  proof (cases "lg_idempotency_key x = k")
    case False
    then show ?thesis using Cons by (auto simp: get_delivered_def)
  qed (use Cons.prems in \<open>simp add: get_delivered_def\<close>)
qed simp

section \<open>Delivered means succeeded\<close>

lemma complete_sets_status:
  assumes "complete_delivery_with_evidence job own st a b c err o' now fresh db = Inr (True, db')"
  shows "\<exists>j. get_delivery_job db' job = Some j \<and> job_status j = st"
proof -
  obtain row where row: "get_delivery_job db job = Some row" and
    audit: "audit_corrected_attempt row st a b c err fresh now
      (update_job job (\<lambda>j. j\<lparr>job_status := st, job_index_target_id := a, job_index_document_id := b, job_index_run_id := c,
        job_last_error_class := err, job_last_reconciled_at := iso (case o' of None \<Rightarrow> now | Some t \<Rightarrow> t),
        job_lease_owner := '''', job_lease_until := '''', job_updated_at := iso now\<rparr>) db) = Inr db'"
    using assms by (auto simp: complete_delivery_with_evidence_def Let_def bind_result_Inr_iff split: if_splits)
  have keep: "job_keeping (\<lambda>j. j\<lparr>job_status := st, job_index_target_id := a, job_index_document_id := b, job_index_run_id := c,
        job_last_error_class := err, job_last_reconciled_at := t, job_lease_owner := '''', job_lease_until := '''', job_updated_at := u\<rparr>)"
    "job_keeping (\<lambda>j. j\<lparr>job_attempt_count := job_attempt_count j + 1\<rparr>)" for t u
    by (simp_all add: job_keeping_def)
  have frame: "get_delivery_job (db\<lparr>command_results := rs\<rparr>) k = get_delivery_job db k" for db k rs
    by (simp add: get_delivery_job_def)
  show ?thesis
    using audit row
    by (auto simp: frame audit_corrected_attempt_def Let_def bind_result_Inr_iff insert_result_row_def get_delivery_job_update keep
        get_delivery_job_result_row split: if_splits)
qed

lemma record_outcome_succeeded:
  assumes "record_outcome ex job now ma fresh answer db = Inr (r, db')" "rcpt_status r = ''succeeded''"
  shows "\<exists>j. get_delivery_job db' job = Some j \<and> job_status j = ''succeeded''"
proof -
  have attempt: "record_replayable_attempt job own now ma n db \<noteq> Inr (''succeeded'', db')"
    "record_failed_retryable_attempt job a b c e own o' now ma n db \<noteq> Inr (''succeeded'', db')" for own n a b c e o'
    by (auto simp: record_replayable_attempt_def record_failed_retryable_attempt_def Let_def bind_result_Inr_iff
        outcome_defs)
  from assms show ?thesis
    by (auto simp: record_outcome_def Let_def bind_result_Inr_iff mk_receipt_def attempt
        split: sum.splits py_error.splits if_splits dest: complete_sets_status)
qed

lemma executor_succeeded:
  assumes "execute_once_with_receipt be ex job ck ma fresh (w, db) = (Inr r, (w', db'))" "rcpt_status r = ''succeeded''"
  shows "\<exists>j. get_delivery_job db' job = Some j \<and> job_status j = ''succeeded''"
proof -
  have recorded: "\<exists>j. get_delivery_job db' job = Some j \<and> job_status j = ''succeeded''"
    if "on_db (record_outcome ex job t ma fresh answer) e = (Inr r, (w', db'))" for t answer e
    using that assms(2) record_outcome_succeeded by (auto simp: on_db_def split: prod.splits sum.splits)
  have submit: "\<exists>j. get_delivery_job db' job = Some j \<and> job_status j = ''succeeded''"
    if "submit_and_record be ex job row ck ma fresh e = (Inr r, (w', db'))" for row e
    using that assms(2) recorded
    by (auto simp: submit_and_record_def bind_act_def mk_receipt_def split: prod.splits sum.splits if_splits)
  show ?thesis
    using assms submit
    by (auto simp: execute_once_with_receipt_def bind_act_def mk_receipt_def Let_def split: prod.splits sum.splits if_splits option.splits)
qed

lemma put_log_sel [simp]: "put_log r s = (Inr (), s\<lparr>wk_log := store_record r (wk_log s)\<rparr>)"
  by (simp add: put_log_def)

lemma settle_delivered:
  assumes "settle_receipt document job pc receipt s = (Inr res, s')" "sr_delivered res"
  shows "rcpt_status receipt = ''succeeded'' \<and> wk_db s' = wk_db s"
  using assms by (auto simp: settle_receipt_def bind_act_def Let_def result_of_def split: if_splits option.splits)

lemma couchdb_delivered:
  assumes "process_couchdb can be deliver own pc payload document s = (Inr res, s')" "sr_delivered res"
  shows "\<exists>j. get_delivery_job (wk_db s') (job_id_for_payload payload) = Some j \<and> job_status j = ''succeeded''"
proof -
  obtain a s1 s2 r s3 where acc: "sink_accept payload (pc_reading pc) s = (Inr a, s1)"
    and run: "run_executor be own (sa_job_id a) pc s2 = (Inr r, s3)"
    and fin: "settle_receipt document (sa_job_id a) pc r s3 = (Inr res, s')"
    using assms by (auto simp: process_couchdb_def bind_act_def result_of_def split: if_splits prod.splits sum.splits)
  have "sa_job_id a = job_id_for_payload payload"
    using acc accepted_answer by (auto simp: sink_accept_def split: prod.splits)
  moreover have "\<exists>j. get_delivery_job (wk_db s3) (sa_job_id a) = Some j \<and> job_status j = ''succeeded''"
    using run executor_succeeded settle_delivered [OF fin assms(2)] by (fastforce simp: run_executor_def split: prod.splits)
  ultimately show ?thesis using settle_delivered [OF fin assms(2)] by simp
qed

text \<open>The answer of the canonical mode: its status is in the log, and a delivered status is a succeeded job.\<close>

lemma couchdb_answer:
  assumes "process_couchdb can be deliver own pc payload document s = (Inr res, s')"
  shows "(\<exists>row \<in> set (wk_log s'). lg_idempotency_key row = doc_idempotency_key document \<and> lg_status row = sr_status res)
    \<and> (sr_status res \<in> {''delivered'', ''deduplicated''} \<and> sr_delivered res
      \<or> sr_status res \<in> {''quarantined_wire_redaction'', ''quarantined_delivery''} \<and> \<not> sr_delivered res
      \<or> sr_status res = ''observed_no_deliver'' \<and> \<not> deliver \<and> \<not> sr_delivered res)"
proof -
  have log: "\<exists>row \<in> set (store_record (log_of (doc_idempotency_key document) document st a b d t) rows).
      lg_idempotency_key row = doc_idempotency_key document \<and> lg_status row = st" for st a b d t rows
    using store_record_in [of "log_of (doc_idempotency_key document) document st a b d t" rows] by (simp add: log_of_def)
  have fin: ?thesis if "settle_receipt document job pc r s2 = (Inr res, s')" for job r s2
    using that log by (auto simp: settle_receipt_def bind_act_def Let_def result_of_def split: if_splits option.splits)
  show ?thesis
    using assms fin log by (auto simp: process_couchdb_def bind_act_def result_of_def split: if_splits prod.splits sum.splits)
qed

text \<open>A payload that the conservative redaction would change reaches neither the database nor the backend.\<close>

lemma couchdb_unredacted:
  assumes "\<not> wire_payload_is_conservatively_redacted (JObj payload)"
    and "process_couchdb can be deliver own pc payload document s = (r, s')"
  shows "wk_db s' = wk_db s \<and> wk_world s' = wk_world s \<and> (\<forall>res. r = Inr res \<longrightarrow> \<not> sr_delivered res)"
  using assms by (auto simp: process_couchdb_def bind_act_def result_of_def split: if_splits)

section \<open>Direct delivery\<close>

text \<open>Only a redacted body without a leak reaches the adapter.\<close>

lemma direct_submits_clean:
  assumes "\<And>document t. doc_body document = redact_public_ingress_text t \<Longrightarrow> public_ingress_leak_violations (doc_body document) = []
      \<Longrightarrow> ia_submit_document ia document = f document"
  shows "process_direct (Some ia) pc payload ik s = process_direct (Some (ia\<lparr>ia_submit_document := f\<rparr>)) pc payload ik s"
proof (cases "bind_result (apply_server_redaction payload) document_from_ingress_payload")
  case (Inr document)
  then obtain b where b: "doc_body document = redact_public_ingress_text b" using redacted_document unfolding bind_result_Inr_iff by blast
  have "submit_direct (Some ia) pc ik document = submit_direct (Some (ia\<lparr>ia_submit_document := f\<rparr>)) pc ik document"
    using assms [OF b] by (simp add: submit_direct_def)
  moreover have "existing_delivery ia ik document = existing_delivery (ia\<lparr>ia_submit_document := f\<rparr>) ik document"
    by (rule ext) (simp add: existing_delivery_def split: option.split)
  ultimately show ?thesis by (simp add: process_direct_def Inr)
qed (simp add: process_direct_def)

text \<open>A delivered document is not submitted again when its message comes back.\<close>

lemma direct_redelivery:
  assumes "distinct (map lg_idempotency_key (wk_log s))"
    and "process_direct (Some ia) pc payload ik s = (Inr res, s')" "sr_delivered res" "sr_document_ref res \<noteq> ''''"
  shows "\<exists>res' s''. process_direct (Some ia') pc' payload ik s' = (Inr res', s'') \<and> sr_status res' = ''deduplicated''
    \<and> sr_dataset_ref res' = sr_dataset_ref res \<and> sr_document_ref res' = sr_document_ref res \<and> wk_world s'' = wk_world s'"
proof -
  obtain red where red: "bind_result (apply_server_redaction payload) document_from_ingress_payload = Inr red"
    using assms(2) by (auto simp: process_direct_def split: sum.splits)
  obtain r t rows where r: "lg_idempotency_key r = ik" "lg_delivered r" "lg_dataset_ref r = sr_dataset_ref res"
      "lg_document_ref r = sr_document_ref res" "wk_log s' = store_record r rows" "distinct (map lg_idempotency_key rows)"
  proof -
    have log: "wk_log (snd (existing_delivery ia ik red s)) = wk_log s"
      by (auto simp: existing_delivery_def on_world_def split: option.split prod.split)
    obtain ex s1 where ex: "existing_delivery ia ik red s = (Inr ex, s1)"
      using assms(2) red by (auto simp: process_direct_def bind_act_def split: prod.splits sum.splits)
    then have s1: "distinct (map lg_idempotency_key (wk_log s1))" using log assms(1) by simp
    show ?thesis
    proof (cases ex)
      case (Some refs)
      then show ?thesis
        using that [of "log_of ik red ''delivered'' (fst refs) (snd refs) True (pc_iso1 pc)" "wk_log s1"] assms(2) red ex s1
        by (cases refs) (auto simp: process_direct_def bind_act_def log_of_def result_of_def)
    next
      case None
      then have sub: "submit_direct (Some ia) pc ik red s1 = (Inr res, s')"
        using assms(2) red ex by (simp add: process_direct_def bind_act_def)
      let ?s = "s1\<lparr>wk_log := store_record (log_of ik red ''received'' '''' '''' False (pc_iso1 pc)) (wk_log s1)\<rparr>"
      obtain a b s2 where "on_world (ia_submit_document ia red) ?s = (Inr (a, b), s2)" "res = result_of ik red ''delivered'' True a b"
          "wk_log s' = store_record (log_of ik red ''delivered'' a b True (pc_iso2 pc)) (wk_log s2)"
        using sub assms(3) by (auto simp: submit_direct_def bind_act_def result_of_def split: if_splits prod.splits sum.splits)
      moreover from this have "wk_log s2 = wk_log ?s" by (auto simp: on_world_def split: prod.splits)
      ultimately show ?thesis
        using that [of "log_of ik red ''delivered'' a b True (pc_iso2 pc)" "wk_log s2"] s1
        by (auto simp: log_of_def result_of_def store_record_distinct)
    qed
  qed
  obtain row where "row_with lg_idempotency_key ik (wk_log s') = Some row" "lg_delivered row"
      "lg_dataset_ref row = sr_dataset_ref res" "lg_document_ref row = sr_document_ref res"
    using store_record_get [of r rows] r by auto
  then have "get_delivered ik (wk_log s') = Some (sr_dataset_ref res, sr_document_ref res)"
    using get_delivered_row [of "wk_log s'" ik row] store_record_distinct [OF r(6)] r(5) assms(4) by simp
  then show ?thesis
    using red by (simp add: process_direct_def bind_act_def existing_delivery_def result_of_def)
qed

section \<open>Acknowledgement\<close>

definition poison_key :: "message \<Rightarrow> string" where
  "poison_key msg = ''poison:'' @ show_int (case msg_sequence msg of Some n \<Rightarrow> n | None \<Rightarrow> 0)"

definition settled_failure :: "py_error \<Rightarrow> bool" where
  "settled_failure e = (case e of DeliveryDeferred _ _ \<Rightarrow> False | _ \<Rightarrow> True)"

text \<open>What \<open>handle_msg\<close> does, by the outcome of the processing.\<close>

lemma handle_msg_cases:
  obtains (processed) res s1 where "process_message can be deliver own (hc_process hc) msg s = (Inr res, s1)"
      "handle_msg can be deliver md own hc msg s = (Inr (sr_status res, Acked), s1)"
  | (deferred) job due s1 where "process_message can be deliver own (hc_process hc) msg s = (Inl (DeliveryDeferred job due), s1)"
      "handle_msg can be deliver md own hc msg s =
        (case delay_us due (hc_now hc) of Inl e \<Rightarrow> (Inl e, s1) | Inr d \<Rightarrow> (Inr (''nak'', NakDelay d), s1))"
  | (retry) e s1 where "process_message can be deliver own (hc_process hc) msg s = (Inl e, s1)" "settled_failure e"
      "num_delivered msg < md" "handle_msg can be deliver md own hc msg s = (Inr (''nak'', Nak), s1)"
  | (poison) e s1 s2 where "process_message can be deliver own (hc_process hc) msg s = (Inl e, s1)" "settled_failure e"
      "num_delivered msg \<ge> md" "record_poison can msg (hc_now hc) (hc_iso hc) s1 = (Inr (), s2)"
      "handle_msg can be deliver md own hc msg s = (Inr (''quarantined_max_deliver'', Acked), s2)"
  | (unrecorded) e e' s1 s2 where "process_message can be deliver own (hc_process hc) msg s = (Inl e, s1)" "settled_failure e"
      "num_delivered msg \<ge> md" "record_poison can msg (hc_now hc) (hc_iso hc) s1 = (Inl e', s2)"
      "handle_msg can be deliver md own hc msg s = (Inr (''nak'', NakDelay 60000000), s2)"
proof -
  obtain r s1 where r: "process_message can be deliver own (hc_process hc) msg s = (r, s1)" by force
  show ?thesis
  proof (cases r)
    case (Inr res)
    then show ?thesis using processed r by (simp add: handle_msg_def)
  next
    case (Inl e)
    show ?thesis
    proof (cases "settled_failure e")
      case False
      then obtain job due where "e = DeliveryDeferred job due" by (auto simp: settled_failure_def split: py_error.splits)
      then show ?thesis using deferred r Inl by (simp add: handle_msg_def)
    next
      case True
      obtain q s2 where q: "record_poison can msg (hc_now hc) (hc_iso hc) s1 = (q, s2)" by force
      have h: "handle_msg can be deliver md own hc msg s = (if num_delivered msg \<ge> md
          then (case q of Inl _ \<Rightarrow> (Inr (''nak'', NakDelay 60000000), s2) | Inr _ \<Rightarrow> (Inr (''quarantined_max_deliver'', Acked), s2))
          else (Inr (''nak'', Nak), s1))"
        using True r Inl q by (simp add: handle_msg_def settled_failure_def split: py_error.splits sum.split)
      show ?thesis
        using retry [OF r [unfolded Inl] True] poison [OF r [unfolded Inl] True] unrecorded [OF r [unfolded Inl] True] h q
        by (cases "num_delivered msg \<ge> md"; cases q) auto
    qed
  qed
qed

lemma process_message_Inr:
  assumes "process_message can be deliver own pc msg s = (Inr res, s')"
  shows "\<exists>payload. message_json msg = Inr (JObj payload) \<and> process_payload can be deliver own pc payload s = (Inr res, s')"
  using assms by (auto simp: process_message_def split: sum.splits json.splits)

lemma process_payload_couchdb:
  assumes "process_payload can (CouchDB b) deliver own pc payload s = (r, s')" "r = Inr res"
  shows "\<exists>document. document_from_ingress_payload (normalize_ingest_job_payload payload) = Inr document
    \<and> process_couchdb can b deliver own pc (normalize_ingest_job_payload payload) document s = (Inr res, s')"
  using assms by (auto simp: process_payload_def Let_def split: sum.splits)

lemma record_poison_row:
  assumes "record_poison can msg now now_iso s = (Inr (), s')"
  shows "\<exists>s1. s' = s1\<lparr>wk_log := store_record (poison_row (poison_key msg) '''' ''unknown'' ''unknown'' now_iso) (wk_log s1)\<rparr>"
  using assms by (auto simp: record_poison_def bind_act_def poison_key_def split: prod.splits sum.splits)

text \<open>
  A canonical worker acknowledges a message only when it is delivered and the job has succeeded, when
  it is quarantined or observed in the log, or when its poison row is recorded.
\<close>

lemma acked_evidence:
  assumes "handle_msg can (CouchDB b) deliver md own hc msg s = (Inr (st, Acked), s')"
  shows "(\<exists>payload document. message_json msg = Inr (JObj payload)
      \<and> document_from_ingress_payload (normalize_ingest_job_payload payload) = Inr document
      \<and> (\<exists>row \<in> set (wk_log s'). lg_idempotency_key row = doc_idempotency_key document \<and> lg_status row = st)
      \<and> (st \<in> {''delivered'', ''deduplicated''}
          \<and> (\<exists>j. get_delivery_job (wk_db s') (job_id_for_payload (normalize_ingest_job_payload payload)) = Some j \<and> job_status j = ''succeeded'')
        \<or> st \<in> {''quarantined_wire_redaction'', ''quarantined_delivery''}
        \<or> st = ''observed_no_deliver'' \<and> \<not> deliver))
    \<or> st = ''quarantined_max_deliver'' \<and> num_delivered msg \<ge> md
      \<and> (\<exists>row \<in> set (wk_log s'). lg_idempotency_key row = poison_key msg \<and> lg_status row = ''quarantined_max_deliver'')"
proof (cases rule: handle_msg_cases [of can "CouchDB b" deliver own hc msg s md])
  case (processed res s1)
  then have eq: "st = sr_status res" "s1 = s'" using assms by simp_all
  obtain payload where p: "message_json msg = Inr (JObj payload)"
    "process_payload can (CouchDB b) deliver own (hc_process hc) payload s = (Inr res, s')"
    using process_message_Inr processed(1) eq(2) by blast
  then obtain document where d: "document_from_ingress_payload (normalize_ingest_job_payload payload) = Inr document"
    and run: "process_couchdb can b deliver own (hc_process hc) (normalize_ingest_job_payload payload) document s = (Inr res, s')"
    using process_payload_couchdb by blast
  show ?thesis using couchdb_answer [OF run] couchdb_delivered [OF run] p(1) d eq(1) by blast
next
  case (poison e s1 s2)
  then have "s' = s2" "st = ''quarantined_max_deliver''" using assms by simp_all
  then show ?thesis using poison(3) record_poison_row [OF poison(4)] store_record_in by (fastforce simp: poison_row_def)
qed (use assms in \<open>auto split: sum.splits\<close>)

text \<open>Only the delivery budget or a success removes a message: before it is used up, a failure keeps it in the queue.\<close>

lemma failure_keeps_message:
  assumes "process_message can be deliver own (hc_process hc) msg s = (Inl e, s1)" "num_delivered msg < md"
  shows "handle_msg can be deliver md own hc msg s \<noteq> (Inr (st, Acked), s')"
  by (cases rule: handle_msg_cases [of can be deliver own hc msg s md]) (use assms in \<open>auto split: sum.splits\<close>)

text \<open>
  A flat message whose job exists cannot be recorded as poison: the retained payload is the
  normalised one, which differs from the message, so the message comes back for ever.
\<close>

lemma flat_poison_fails:
  assumes flat: "flat_message m" "json_wf (JObj m)" and msg: "message_json msg = Inr (JObj m)"
    and key: "truthy (get_item m ''idempotencyKey'')"
    and job: "row_with job_idempotency_key (py_str (get_item m ''idempotencyKey'')) (delivery_jobs (wk_db s)) = Some j"
    and kept: "get_delivery_payload (wk_db s) (py_str (get_item m ''idempotencyKey'')) = Some p"
      "json_eq (JObj p) (JObj (normalize_ingest_job_payload m))"
  shows "record_poison True msg now now_iso s = (Inl (RuntimeError ''transport_quarantine_payload_identity''), s)"
proof -
  have "\<not> json_eq (JObj p) (JObj m)"
    using normalize_flat_differs [OF flat] kept(2) by (auto simp: json_eq_def)
  then show ?thesis
    using msg key job kept(1) by (simp add: record_poison_def quarantine_job_def bind_act_def)
qed

section \<open>The loop counts and stops\<close>

lemma handle_batch_length: "handle_batch h n msgs s = (Inr sts, s') \<Longrightarrow> length sts = length msgs"
  by (induction h n msgs arbitrary: s sts rule: handle_batch.induct) (auto simp: bind_act_def split: prod.splits sum.splits)

definition fetch_bounded :: "turn list \<Rightarrow> bool" where
  "fetch_bounded turns \<longleftrightarrow> (\<forall>t \<in> set turns. \<forall>n msgs. tn_fetch t n = Some msgs \<longrightarrow> length msgs \<le> n)"

abbreviation settled_count :: "string list \<Rightarrow> nat" where
  "settled_count sts \<equiv> length (filter (\<lambda>st. st \<noteq> ''nak'') sts)"

lemma consume_loop_counts:
  assumes "consume_loop h max_messages batch turns (settled_count results) results s = (Inr (e, p, rs), s')"
    and "fetch_bounded turns" "0 < batch"
    and "\<And>m. max_messages = Some m \<Longrightarrow> settled_count results \<le> m"
  shows "p = settled_count rs \<and> (\<forall>m. max_messages = Some m \<longrightarrow> p \<le> m)"
  using assms
proof (induction turns arbitrary: results s)
  case Nil
  then show ?case by (auto simp: consume_loop.simps [of _ _ _ "[]"] split: if_splits option.splits)
next
  case (Cons t turns)
  have b: "fetch_bounded turns" using Cons.prems(2) by (simp add: fetch_bounded_def)
  show ?case
  proof (cases "case max_messages of None \<Rightarrow> False | Some m \<Rightarrow> settled_count results \<ge> m")
    case True
    then show ?thesis
      using Cons.prems(1,4) by (auto simp: consume_loop.simps [of _ _ _ "t # turns"] split: option.splits)
  next
    case go: False
    show ?thesis
    proof (cases "tn_open t")
      case False
      then show ?thesis
        using Cons.IH [OF _ b Cons.prems(3,4), of s] Cons.prems(1) go
        by (auto simp: consume_loop.simps [of _ _ _ "t # turns"])
    next
      case True
      let ?n = "max (case max_messages of None \<Rightarrow> batch | Some m \<Rightarrow> min batch (m - settled_count results)) 1"
      show ?thesis
      proof (cases "tn_fetch t ?n")
        case None
        then show ?thesis
          using Cons.IH [OF _ b Cons.prems(3,4), of s] Cons.prems(1,4) go True
          by (auto simp: consume_loop.simps [of _ _ _ "t # turns"] Let_def split: if_splits)
      next
        case (Some msgs)
        obtain sts s1 where sts: "handle_batch h (length results) msgs s = (Inr sts, s1)"
          and rest: "consume_loop h max_messages batch turns (settled_count (results @ sts)) (results @ sts) s1 = (Inr (e, p, rs), s')"
          using Cons.prems(1) go True Some
          by (auto simp: consume_loop.simps [of _ _ _ "t # turns"] Let_def bind_act_def split: prod.splits sum.splits)
        have "settled_count (results @ sts) \<le> m" if m: "max_messages = Some m" for m
        proof -
          have "length sts \<le> ?n" using handle_batch_length [OF sts] Some Cons.prems(2) by (auto simp: fetch_bounded_def)
          then have "length sts \<le> m - settled_count results" "settled_count results < m" using go m Cons.prems(3) by auto
          then show ?thesis using length_filter_le [of "\<lambda>st. st \<noteq> ''nak''" sts] by (simp only: filter_append length_append)
        qed
        then show ?thesis by (rule Cons.IH [OF rest b Cons.prems(3)])
      qed
    qed
  qed
qed

end
