(* ===== verification/Ledger_Items.thy ===== *)
theory Ledger_Items
  imports Ingress_Wire
begin

text \<open>
  The queued documents of the legacy ledger: the tables \<open>knowledge_items\<close> and
  \<open>transcript_chunks\<close> of \<open>ledger.py\<close>, the projection of a queued
  row (\<open>ledger_base.py\<close>), and the dispositions of \<open>ledger_ingress_mixin.py\<close>, which are
  compare-and-set updates of one queued row.  A text column is never NULL here: the schema gives \<open>''\<close> as
  default and the queries treat both alike.  A disposition first reads the row for its metadata and
  then updates it in a second transaction; the file permissions it sets afterwards are left out.
\<close>

section \<open>Tables\<close>

text \<open>A REAL cell: a decimal, its digits as an integer and the number of them after the point.\<close>

datatype decimal = Decimal int nat

record knowledge_item =
  ki_knowledge_id :: string
  ki_content_hash :: string
  ki_provider :: string
  ki_project :: string
  ki_domain :: string
  ki_type :: string
  ki_session_id_hash :: string
  ki_observed_at :: string
  ki_ingested_at :: string
  ki_updated_at :: string
  ki_privacy_level :: string
  ki_index_target_id :: string
  ki_index_document_id :: string
  ki_ingress_target_profile :: string
  ki_ingress_job_id :: string
  ki_queued_at :: string
  ki_title :: string
  ki_summary :: string
  ki_source_event_ids :: string
  ki_redaction_version :: string
  ki_confidence :: string
  ki_supersedes :: string
  ki_valid_until :: string
  ki_evidence_status :: string
  ki_coverage_status :: string
  ki_coverage_gap_count :: int
  ki_coverage_duplicate_count :: int
  ki_source_manifest_hash :: string
  ki_source_chunk_count :: int
  ki_index_run_id :: string
  ki_index_progress :: decimal
  ki_indexed_at :: string
  ki_disabled_at :: string
  ki_authorization_status :: string
  ki_status :: string
  ki_metadata_json :: string

record transcript_chunk =
  tc_chunk_id :: string
  tc_knowledge_id :: string
  tc_session_id_hash :: string
  tc_provider :: string
  tc_project :: string
  tc_turn_start_index :: int
  tc_turn_end_index :: int
  tc_part_index :: int
  tc_part_count :: int
  tc_char_start :: int
  tc_char_end :: int
  tc_content_hash :: string
  tc_redacted_text :: string
  tc_source_status :: string
  tc_redaction_version :: string
  tc_created_at :: string
  tc_updated_at :: string

record ledger =
  ledger_items :: "knowledge_item list"
  ledger_chunks :: "transcript_chunk list"

definition get_by_knowledge_id :: "string \<Rightarrow> ledger \<Rightarrow> knowledge_item option" where
  "get_by_knowledge_id knowledge_id led = row_with ki_knowledge_id knowledge_id (ledger_items led)"

definition get_transcript_chunk_by_knowledge_id :: "string \<Rightarrow> ledger \<Rightarrow> transcript_chunk option" where
  "get_transcript_chunk_by_knowledge_id knowledge_id led = row_with tc_knowledge_id knowledge_id (ledger_chunks led)"

section \<open>Metadata and the projection of a queued row\<close>

definition load_metadata_json :: "string \<Rightarrow> dict" where
  "load_metadata_json text =
    (case json_loads (if text = '''' then ''{}'' else text) of
       Some (JObj parsed) \<Rightarrow> map (map_prod id (\<lambda>item. JStr (py_str item))) parsed
     | _ \<Rightarrow> [])"

record queued_document =
  qd_knowledge_id :: string
  qd_document_type :: string
  qd_provider :: string
  qd_project :: string
  qd_content_hash :: string
  qd_target_profile :: string
  qd_ingress_job_id :: string
  qd_updated_at :: string
  qd_session_id_hash :: string
  qd_metadata :: dict

definition chunk_defaults :: "knowledge_item \<Rightarrow> transcript_chunk option \<Rightarrow> dict \<Rightarrow> dict" where
  "chunk_defaults row chunk metadata =
    (case chunk of
       None \<Rightarrow> metadata
     | Some c \<Rightarrow>
         (let m1 = set_default metadata ''chunk_id'' (JStr (tc_chunk_id c));
              m2 = set_default m1 ''session_id_hash'' (JStr (tc_session_id_hash c));
              m3 = set_default m2 ''provider'' (JStr (str_or (tc_provider c) (ki_provider row)))
          in set_default m3 ''project'' (JStr (str_or (tc_project c) (ki_project row)))))"

definition queued_document_projection :: "knowledge_item \<Rightarrow> transcript_chunk option \<Rightarrow> queued_document" where
  "queued_document_projection row chunk =
    (let m0 = chunk_defaults row chunk (load_metadata_json (ki_metadata_json row));
         m1 = set_default m0 ''knowledge_id'' (JStr (ki_knowledge_id row));
         m2 = set_default m1 ''provider'' (JStr (ki_provider row));
         m3 = set_default m2 ''project'' (JStr (ki_project row));
         metadata = set_default m3 ''session_id_hash'' (JStr (ki_session_id_hash row))
     in \<lparr>qd_knowledge_id = ki_knowledge_id row, qd_document_type = ki_type row, qd_provider = ki_provider row,
         qd_project = ki_project row, qd_content_hash = ki_content_hash row,
         qd_target_profile = ki_ingress_target_profile row, qd_ingress_job_id = ki_ingress_job_id row,
         qd_updated_at = ki_updated_at row,
         qd_session_id_hash = str_or (ki_session_id_hash row) (str_or_empty (get_item metadata ''session_id_hash'')),
         qd_metadata = metadata\<rparr>)"

definition queued_for :: "string \<Rightarrow> string \<Rightarrow> knowledge_item \<Rightarrow> bool" where
  "queued_for document_type target_profile row \<longleftrightarrow>
    ki_type row = document_type \<and> ki_status row = ''queued'' \<and> ki_ingress_target_profile row = target_profile
    \<and> ki_ingress_job_id row \<noteq> ''''"

definition list_queued_documents :: "string \<Rightarrow> string \<Rightarrow> int \<Rightarrow> ledger \<Rightarrow> queued_document list" where
  "list_queued_documents document_type target_profile limit led =
    map (\<lambda>row. queued_document_projection row
        (if document_type = ''conversation_chunk'' then row_with tc_knowledge_id (ki_knowledge_id row) (ledger_chunks led) else None))
      (take (nat (max limit 1)) (sort_key ki_queued_at (filter (queued_for document_type target_profile) (ledger_items led))))"

section \<open>Dispositions\<close>

text \<open>What the caller read of a row and expects to find still there.\<close>

record expectation =
  ex_knowledge_id :: string
  ex_target_profile :: string
  ex_ingress_job_id :: string
  ex_updated_at :: string

definition as_expected :: "expectation \<Rightarrow> knowledge_item \<Rightarrow> bool" where
  "as_expected ex row \<longleftrightarrow>
    ki_knowledge_id row = ex_knowledge_id ex \<and> ki_status row = ''queued''
    \<and> ki_ingress_target_profile row = ex_target_profile ex \<and> ki_ingress_job_id row = ex_ingress_job_id ex
    \<and> ki_updated_at row = ex_updated_at ex"

text \<open>\<open>UPDATE knowledge_items SET \<dots> WHERE \<dots>\<close> with the test \<open>rowcount == 1\<close>.\<close>

definition update_expected :: "expectation \<Rightarrow> (knowledge_item \<Rightarrow> knowledge_item) \<Rightarrow> ledger \<Rightarrow> bool \<times> ledger" where
  "update_expected ex f led =
    (length (filter (as_expected ex) (ledger_items led)) = 1,
     led\<lparr>ledger_items := map (\<lambda>row. if as_expected ex row then f row else row) (ledger_items led)\<rparr>)"

definition item_metadata :: "string \<Rightarrow> ledger \<Rightarrow> dict" where
  "item_metadata knowledge_id led =
    load_metadata_json (case get_by_knowledge_id knowledge_id led of None \<Rightarrow> ''{}'' | Some item \<Rightarrow> str_or (ki_metadata_json item) ''{}'')"

definition mark_quarantined_if_queued :: "string \<Rightarrow> string \<Rightarrow> string \<Rightarrow> expectation \<Rightarrow> string \<Rightarrow> (ledger, bool) action" where
  "mark_quarantined_if_queued why disposition_action run_bucket ex now led =
    (let m1 = set_item (item_metadata (ex_knowledge_id ex) led) ''m5_disposition_status'' (JStr ''quarantined'');
         m2 = set_item m1 ''m5_disposition_action'' (JStr disposition_action);
         m3 = set_item m2 ''m5_disposition_reason'' (JStr why);
         m4 = (if run_bucket \<noteq> '''' then set_item m3 ''m5_backend_run_bucket'' (JStr run_bucket) else m3);
         metadata = set_item m4 ''m5_disposition_at'' (JStr now);
         old_run = (case get_by_knowledge_id (ex_knowledge_id ex) led of None \<Rightarrow> '''' | Some item \<Rightarrow> ki_index_run_id item);
         (updated, led') = update_expected ex (\<lambda>row. row\<lparr>ki_status := ''quarantined'',
           ki_metadata_json := json_dumps_raw (JObj metadata), ki_index_run_id := str_or run_bucket old_run,
           ki_indexed_at := '''', ki_updated_at := now\<rparr>) led
     in (Inr updated, led'))"

definition mark_replay_requested_if_queued :: "string \<Rightarrow> expectation \<Rightarrow> string \<Rightarrow> (ledger, bool) action" where
  "mark_replay_requested_if_queued why ex now led =
    (let m1 = set_item (item_metadata (ex_knowledge_id ex) led) ''m5_disposition_status'' (JStr ''replay_requested'');
         m2 = set_item m1 ''m5_disposition_action'' (JStr ''replay_missing'');
         m3 = set_item m2 ''m5_disposition_reason'' (JStr why);
         m4 = set_item m3 ''m5_disposition_at'' (JStr now)
     in case int_or (get_item m4 ''m5_replay_attempt'') 0 of
          Inl e \<Rightarrow> (Inl e, led)
        | Inr attempt \<Rightarrow>
            (let metadata = set_item m4 ''m5_replay_attempt'' (JInt (attempt + 1));
                 (updated, led') = update_expected ex (\<lambda>row. row\<lparr>ki_metadata_json := json_dumps_raw (JObj metadata),
                   ki_index_run_id := ''QUEUED'', ki_index_progress := Decimal 0 0, ki_index_document_id := '''', ki_indexed_at := '''',
                   ki_queued_at := now, ki_updated_at := now\<rparr>) led
             in (Inr updated, led')))"

definition delivered_metadata :: "string \<Rightarrow> string \<Rightarrow> dict \<Rightarrow> dict" where
  "delivered_metadata why now metadata =
    (let m1 = set_item metadata ''m5_disposition_status'' (JStr ''replay_delivered'');
         m2 = set_item m1 ''m5_disposition_action'' (JStr ''replay_missing'');
         m3 = set_item m2 ''m5_disposition_reason'' (JStr why)
     in set_item m3 ''m6_replay_delivered_at'' (JStr now))"

definition mark_replay_delivered_if_queued :: "string \<Rightarrow> string \<Rightarrow> expectation \<Rightarrow> string \<Rightarrow> (ledger, bool) action" where
  "mark_replay_delivered_if_queued why new_job_id ex now led =
    (let metadata = delivered_metadata why now (item_metadata (ex_knowledge_id ex) led);
         (updated, led') = update_expected ex (\<lambda>row. row\<lparr>ki_metadata_json := json_dumps_raw (JObj metadata),
           ki_ingress_job_id := new_job_id, ki_index_run_id := ''QUEUED'', ki_index_progress := Decimal 0 0,
           ki_index_document_id := '''', ki_indexed_at := '''', ki_queued_at := now, ki_updated_at := now\<rparr>) led
     in (Inr updated, led'))"

definition mark_done_via_dedupe_if_queued ::
    "string \<Rightarrow> string \<Rightarrow> string \<Rightarrow> int \<Rightarrow> expectation \<Rightarrow> string \<Rightarrow> (ledger, bool) action" where
  "mark_done_via_dedupe_if_queued why dataset_id canonical_document_id duplicate_doc_count ex now led =
    (let m1 = set_item (item_metadata (ex_knowledge_id ex) led) ''m5_disposition_status'' (JStr ''deduped'');
         m2 = set_item m1 ''m5_disposition_action'' (JStr ''duplicate_done'');
         m3 = set_item m2 ''m5_disposition_reason'' (JStr why);
         m4 = set_item m3 ''m5_disposition_at'' (JStr now);
         m5 = set_item m4 ''m5_dedupe_canonical_selected'' (JBool True);
         metadata = set_item m5 ''m5_dedupe_duplicate_doc_count'' (JInt duplicate_doc_count);
         (updated, led') = update_expected ex (\<lambda>row. row\<lparr>ki_status := ''indexed'',
           ki_metadata_json := json_dumps_raw (JObj metadata), ki_index_target_id := dataset_id,
           ki_index_document_id := canonical_document_id, ki_index_run_id := ''DONE'', ki_index_progress := Decimal 1 0,
           ki_ingress_target_profile := '''', ki_ingress_job_id := '''', ki_queued_at := '''', ki_indexed_at := now,
           ki_updated_at := now\<rparr>) led
     in (Inr updated, led'))"

section \<open>Counts\<close>

definition bump :: "string \<Rightarrow> (string \<times> nat) list \<Rightarrow> (string \<times> nat) list" where
  "bump k counts =
    (case map_of counts k of None \<Rightarrow> counts @ [(k, 1)] | Some n \<Rightarrow> map (\<lambda>(k', m). if k' = k then (k, Suc n) else (k', m)) counts)"

definition counted :: "string list \<Rightarrow> (string \<times> nat) list" where
  "counted keys = sort_key fst (fold bump keys [])"

definition count_m5_dispositions :: "string \<Rightarrow> ledger \<Rightarrow> nat \<times> (string \<times> nat) list \<times> (string \<times> nat) list" where
  "count_m5_dispositions document_type led =
    (let metadatas = map (\<lambda>row. load_metadata_json (str_or (ki_metadata_json row) ''{}''))
           (filter (\<lambda>row. ki_type row = document_type) (ledger_items led));
         marked = filter (\<lambda>m. str_or_empty (get_item m ''m5_disposition_status'') \<noteq> '''') metadatas
     in (length marked, counted (map (\<lambda>m. str_or_empty (get_item m ''m5_disposition_status'')) marked),
         counted (map (\<lambda>m. str_or (str_or_empty (get_item m ''m5_disposition_action'')) ''unknown'') marked)))"

definition count_m5_quarantined_dispositions ::
    "string \<Rightarrow> string \<Rightarrow> ledger \<Rightarrow> nat \<times> (string \<times> nat) list \<times> (string \<times> nat) list" where
  "count_m5_quarantined_dispositions document_type target_profile led =
    (let metadatas = map (\<lambda>row. load_metadata_json (str_or (ki_metadata_json row) ''{}''))
           (filter (\<lambda>row. ki_type row = document_type \<and> ki_status row = ''quarantined''
              \<and> ki_ingress_target_profile row = target_profile) (ledger_items led));
         action = (\<lambda>m. str_or (str_or_empty (get_item m ''m5_disposition_action'')) ''unknown'')
     in (length metadatas, counted (map action metadatas),
         counted (map (\<lambda>m. action m @ '':'' @ str_or (str_or_empty (get_item m ''m5_backend_run_bucket'')) ''-'') metadatas)))"

section \<open>Compare and set\<close>

definition ledger_ok :: "ledger \<Rightarrow> bool" where
  "ledger_ok led \<longleftrightarrow> distinct (map ki_knowledge_id (ledger_items led)) \<and> distinct (map tc_knowledge_id (ledger_chunks led))"

definition still_expected :: "expectation \<Rightarrow> ledger \<Rightarrow> bool" where
  "still_expected ex led \<longleftrightarrow> (\<exists>row \<in> set (ledger_items led). as_expected ex row)"

definition put_item :: "string \<Rightarrow> knowledge_item \<Rightarrow> ledger \<Rightarrow> ledger" where
  "put_item k row led = led\<lparr>ledger_items := update_where ki_knowledge_id k (\<lambda>_. row) (ledger_items led)\<rparr>"

lemma still_expected_iff:
  assumes "ledger_ok led"
  shows "still_expected ex led \<longleftrightarrow> (\<exists>row. get_by_knowledge_id (ex_knowledge_id ex) led = Some row \<and> as_expected ex row)"
  using assms row_with_eqI [of ki_knowledge_id "ledger_items led"]
    row_with_SomeD [of ki_knowledge_id "ex_knowledge_id ex" "ledger_items led"]
  by (fastforce simp: still_expected_def ledger_ok_def get_by_knowledge_id_def as_expected_def)

lemma update_expected_closed: "\<not> still_expected ex led \<Longrightarrow> update_expected ex f led = (False, led)"
proof -
  assume "\<not> still_expected ex led"
  then have "filter (as_expected ex) (ledger_items led) = []"
    "map (\<lambda>row. if as_expected ex row then f row else row) (ledger_items led) = ledger_items led"
    by (auto simp: still_expected_def filter_empty_conv intro: map_idI)
  then show ?thesis by (simp add: update_expected_def)
qed

lemma update_rows_expected:
  assumes "distinct (map ki_knowledge_id rows)" "row \<in> set rows" "as_expected ex row"
  shows "filter (as_expected ex) rows = [row]
    \<and> map (\<lambda>r. if as_expected ex r then f r else r) rows = update_where ki_knowledge_id (ex_knowledge_id ex) (\<lambda>_. f row) rows"
  using assms
proof (induction rows)
  case (Cons r rows)
  have key: "ki_knowledge_id row = ex_knowledge_id ex" using Cons.prems(3) by (simp add: as_expected_def)
  show ?case
  proof (cases "r = row")
    case True
    then have new: "ex_knowledge_id ex \<notin> ki_knowledge_id ` set rows" using Cons.prems(1) key by simp
    then have "\<forall>r \<in> set rows. \<not> as_expected ex r" by (auto simp: as_expected_def image_iff)
    then have "filter (as_expected ex) rows = []" "map (\<lambda>r. if as_expected ex r then f r else r) rows = rows"
      by (simp_all add: filter_empty_conv map_idI)
    then show ?thesis using Cons.prems(3) True key new by (simp add: update_where_absent)
  next
    case False
    then have "\<not> as_expected ex r" "ki_knowledge_id r \<noteq> ex_knowledge_id ex"
      using Cons.prems(1,2) key by (auto simp: as_expected_def image_iff)
    then show ?thesis using Cons False by simp
  qed
qed simp

lemma update_expected_open:
  assumes "ledger_ok led" "get_by_knowledge_id (ex_knowledge_id ex) led = Some row" "as_expected ex row"
  shows "update_expected ex f led = (True, put_item (ex_knowledge_id ex) (f row) led)"
  using update_rows_expected [of "ledger_items led" row ex f] assms row_with_SomeD [of ki_knowledge_id "ex_knowledge_id ex" "ledger_items led" row]
  by (simp add: update_expected_def ledger_ok_def get_by_knowledge_id_def put_item_def)

lemma get_put_item:
  assumes "ki_knowledge_id row = k"
  shows "get_by_knowledge_id k' (put_item k row led) =
    (if k' = k then map_option (\<lambda>_. row) (get_by_knowledge_id k led) else get_by_knowledge_id k' led)"
proof -
  have "row_with ki_knowledge_id k' (update_where ki_knowledge_id k (\<lambda>_. row) rows) =
      (if k' = k then map_option (\<lambda>_. row) (row_with ki_knowledge_id k rows) else row_with ki_knowledge_id k' rows)" for rows
    using assms by (induction rows) auto
  then show ?thesis by (simp add: get_by_knowledge_id_def put_item_def)
qed

lemma put_item_ok: "ledger_ok led \<Longrightarrow> ki_knowledge_id row = k \<Longrightarrow> ledger_ok (put_item k row led)"
proof -
  assume ok: "ledger_ok led" and k: "ki_knowledge_id row = k"
  have "map ki_knowledge_id (update_where ki_knowledge_id k (\<lambda>_. row) rows) = map ki_knowledge_id rows" for rows
    using k by (induction rows) auto
  with ok show ?thesis by (simp add: ledger_ok_def put_item_def)
qed

fun attempts ::
    "('a \<Rightarrow> expectation \<Rightarrow> string \<Rightarrow> (ledger, bool) action) \<Rightarrow> expectation \<Rightarrow> ('a \<times> string) list \<Rightarrow> ledger \<Rightarrow> bool result list" where
  "attempts mark ex [] led = []"
| "attempts mark ex ((a, now) # rest) led = (case mark a ex now led of (r, led') \<Rightarrow> r # attempts mark ex rest led')"

text \<open>
  The contract of a disposition: it changes the ledger only when it is granted, it is granted only
  for a row that is as expected, and it then replaces that one row by one that carries the new time.
\<close>

locale queued_cas =
  fixes mark :: "'a \<Rightarrow> expectation \<Rightarrow> string \<Rightarrow> (ledger, bool) action"
  assumes refused: "ledger_ok led \<Longrightarrow> mark a ex now led = (r, led') \<Longrightarrow> r \<noteq> Inr True \<Longrightarrow> led' = led"
    and granted: "ledger_ok led \<Longrightarrow> mark a ex now led = (Inr True, led') \<Longrightarrow>
      \<exists>row row'. get_by_knowledge_id (ex_knowledge_id ex) led = Some row \<and> as_expected ex row
        \<and> ki_knowledge_id row' = ex_knowledge_id ex \<and> ki_updated_at row' = now \<and> led' = put_item (ex_knowledge_id ex) row' led"
begin

lemma keeps_ok: "ledger_ok led \<Longrightarrow> mark a ex now led = (r, led') \<Longrightarrow> ledger_ok led'"
  using refused granted put_item_ok by (cases "r = Inr True") blast+

lemma keeps_others:
  "ledger_ok led \<Longrightarrow> mark a ex now led = (r, led') \<Longrightarrow> k \<noteq> ex_knowledge_id ex \<Longrightarrow>
    get_by_knowledge_id k led' = get_by_knowledge_id k led"
  using refused granted get_put_item by (cases "r = Inr True") metis+

lemma granted_open: "ledger_ok led \<Longrightarrow> mark a ex now led = (Inr True, led') \<Longrightarrow> still_expected ex led"
  using granted still_expected_iff by blast

lemma granted_closes:
  assumes ok: "ledger_ok led" and m: "mark a ex now led = (Inr True, led')" and now: "now \<noteq> ex_updated_at ex"
  shows "\<not> still_expected ex led'"
proof -
  obtain row row' where r: "get_by_knowledge_id (ex_knowledge_id ex) led = Some row" "ki_knowledge_id row' = ex_knowledge_id ex"
    "ki_updated_at row' = now" "led' = put_item (ex_knowledge_id ex) row' led" using granted [OF ok m] by blast
  then show ?thesis
    using now still_expected_iff [OF keeps_ok [OF ok m]] by (auto simp: get_put_item as_expected_def)
qed

lemma none_granted: "ledger_ok led \<Longrightarrow> \<not> still_expected ex led \<Longrightarrow> Inr True \<notin> set (attempts mark ex as led)"
proof (induction "as")
  case (Cons a "as")
  obtain x now where a: "a = (x, now)" by force
  obtain r led' where m: "mark x ex now led = (r, led')" by force
  then have "r \<noteq> Inr True" using granted_open Cons.prems by blast
  moreover from this have "led' = led" using refused [OF Cons.prems(1) m] by blast
  ultimately show ?case using Cons m a by simp
qed simp

lemma at_most_one:
  assumes "ledger_ok led" "\<forall>(a, now) \<in> set as. now \<noteq> ex_updated_at ex"
  shows "length (filter (\<lambda>r. r = Inr True) (attempts mark ex as led)) \<le> 1"
  using assms
proof (induction "as" arbitrary: led)
  case (Cons a "as")
  obtain x now where a: "a = (x, now)" by force
  obtain r led' where m: "mark x ex now led = (r, led')" by force
  note ok = keeps_ok [OF Cons.prems(1) m]
  show ?case
  proof (cases "r = Inr True")
    case True
    then have "\<not> still_expected ex led'" using granted_closes [OF Cons.prems(1)] m Cons.prems(2) a by auto
    then have "filter (\<lambda>r. r = Inr True) (attempts mark ex as led') = []"
      using none_granted [OF ok, of ex "as"] by (auto simp: filter_empty_conv)
    then show ?thesis using m a by simp
  next
    case False
    then show ?thesis using Cons.IH [OF ok] Cons.prems(2) m a by simp
  qed
qed simp

end

text \<open>The four dispositions of the operator.\<close>

datatype disposition =
    Quarantined_As string string string
  | Replay_Requested string
  | Replay_Delivered string string
  | Deduped string string string int

definition dispose :: "disposition \<Rightarrow> expectation \<Rightarrow> string \<Rightarrow> (ledger, bool) action" where
  "dispose d =
    (case d of
       Quarantined_As why act bucket \<Rightarrow> mark_quarantined_if_queued why act bucket
     | Replay_Requested why \<Rightarrow> mark_replay_requested_if_queued why
     | Replay_Delivered why job \<Rightarrow> mark_replay_delivered_if_queued why job
     | Deduped why dataset document n \<Rightarrow> mark_done_via_dedupe_if_queued why dataset document n)"

text \<open>Each of them is one update of the expected row, or raises before it.\<close>

lemma one_update:
  assumes "m = (case update_expected ex f led of (u, led') \<Rightarrow> (Inr u, led'))"
    and "\<And>row. ki_knowledge_id (f row) = ki_knowledge_id row" "\<And>row. ki_updated_at (f row) = now"
  shows "(\<exists>e. m = (Inl e, led)) \<or> (\<exists>f. m = (case update_expected ex f led of (u, led') \<Rightarrow> (Inr u, led'))
        \<and> (\<forall>row. ki_knowledge_id (f row) = ki_knowledge_id row \<and> ki_updated_at (f row) = now))"
  using assms by blast

lemma dispose_update:
  "(\<exists>e. dispose d ex now led = (Inl e, led))
    \<or> (\<exists>f. dispose d ex now led = (case update_expected ex f led of (u, led') \<Rightarrow> (Inr u, led'))
        \<and> (\<forall>row. ki_knowledge_id (f row) = ki_knowledge_id row \<and> ki_updated_at (f row) = now))"
proof (cases d)
  case (Quarantined_As why act bucket)
  show ?thesis
    unfolding Quarantined_As dispose_def disposition.case mark_quarantined_if_queued_def Let_def by (rule one_update, rule refl) simp_all
next
  case (Replay_Requested why)
  let ?m = "set_item (set_item (set_item (set_item (item_metadata (ex_knowledge_id ex) led) ''m5_disposition_status'' (JStr ''replay_requested''))
    ''m5_disposition_action'' (JStr ''replay_missing'')) ''m5_disposition_reason'' (JStr why)) ''m5_disposition_at'' (JStr now)"
  show ?thesis
  proof (cases "int_or (get_item ?m ''m5_replay_attempt'') 0")
    case (Inl e)
    then show ?thesis unfolding Replay_Requested dispose_def disposition.case mark_replay_requested_if_queued_def Let_def by simp
  next
    case (Inr n)
    show ?thesis
      unfolding Replay_Requested dispose_def disposition.case mark_replay_requested_if_queued_def Let_def Inr sum.case
      by (rule one_update, rule refl) simp_all
  qed
next
  case (Replay_Delivered why job)
  show ?thesis
    unfolding Replay_Delivered dispose_def disposition.case mark_replay_delivered_if_queued_def Let_def by (rule one_update, rule refl) simp_all
next
  case (Deduped why dataset document n)
  show ?thesis
    unfolding Deduped dispose_def disposition.case mark_done_via_dedupe_if_queued_def Let_def by (rule one_update, rule refl) simp_all
qed

interpretation dispositions: queued_cas dispose
proof unfold_locales
  fix led led' and d :: disposition and ex now r
  assume ok: "ledger_ok led" and run: "dispose d ex now led = (r, led')"
  show "led' = led" if "r \<noteq> Inr True"
    using dispose_update [of d ex now led] run that update_expected_closed [of ex led] update_expected_open [OF ok, of ex] still_expected_iff [OF ok, of ex]
    by (cases "still_expected ex led") (auto split: prod.splits)
next
  fix led led' and d :: disposition and ex now
  assume ok: "ledger_ok led" and run: "dispose d ex now led = (Inr True, led')"
  have "still_expected ex led"
    using dispose_update [of d ex now led] run update_expected_closed [of ex led] by (cases "still_expected ex led") (auto split: prod.splits)
  then obtain row where row: "get_by_knowledge_id (ex_knowledge_id ex) led = Some row" "as_expected ex row"
    using still_expected_iff [OF ok] by blast
  from dispose_update [of d ex now led] run obtain f
    where "dispose d ex now led = (case update_expected ex f led of (u, led') \<Rightarrow> (Inr u, led'))"
      "\<forall>row. ki_knowledge_id (f row) = ki_knowledge_id row \<and> ki_updated_at (f row) = now" by auto
  then show "\<exists>row row'. get_by_knowledge_id (ex_knowledge_id ex) led = Some row \<and> as_expected ex row
        \<and> ki_knowledge_id row' = ex_knowledge_id ex \<and> ki_updated_at row' = now \<and> led' = put_item (ex_knowledge_id ex) row' led"
    using row run update_expected_open [OF ok row, of f] by (intro exI [of _ row] exI [of _ "f row"]) (auto simp: as_expected_def)
qed

section \<open>Metadata read back\<close>

lemma set_item_keys: "fst ` set (set_item d k v) = insert k (fst ` set d)"
  by (induction d k v rule: set_item.induct) auto

lemma distinct_set_item: "distinct (map fst d) \<Longrightarrow> distinct (map fst (set_item d k v))"
  by (induction d k v rule: set_item.induct) (auto simp: set_item_keys)

lemma distinct_dict_of_pairs: "distinct (map fst (dict_of_pairs ps))"
proof -
  have "distinct (map fst d) \<Longrightarrow> distinct (map fst (foldl (\<lambda>d (k, v). set_item d k v) d ps))" for d
    by (induction ps arbitrary: d) (auto simp: distinct_set_item)
  then show ?thesis by (simp add: dict_of_pairs_def)
qed

lemma json_loads_distinct: "json_loads s = Some (JObj d) \<Longrightarrow> distinct (map fst d)"
  by (cases "skip_ws s")
    (auto simp: json_loads_def distinct_dict_of_pairs scan_int_def split: option.splits if_splits list.splits)

lemma load_metadata_wf: "json_wf (JObj (load_metadata_json t))"
  using json_loads_distinct [of t] json_loads_distinct [of "''{}''"]
  by (auto simp: load_metadata_json_def comp_def list_all_iff split: option.split json.split)

lemma json_wf_set_item: "json_wf (JObj d) \<Longrightarrow> json_wf v \<Longrightarrow> json_wf (JObj (set_item d k v))"
proof -
  assume d: "json_wf (JObj d)" and v: "json_wf v"
  have "list_all json_wf (map snd d) \<Longrightarrow> list_all json_wf (map snd (set_item d k v))"
    using v by (induction d k v rule: set_item.induct) auto
  with d show ?thesis by (simp add: distinct_set_item list_all_iff)
qed

lemma load_dumped_item:
  assumes wf: "json_wf (JObj d)" and v: "get_item d k = JStr s"
  shows "get_item (load_metadata_json (json_dumps_raw (JObj d))) k = JStr s"
proof -
  obtain d' where c: "json_canon (JObj d) = JObj d'" by simp
  have l: "json_loads (json_dumps_raw (JObj d)) = Some (JObj d')" using json_loads_dumps_raw [OF wf] c by simp
  have ne: "json_dumps_raw (JObj d) \<noteq> ''''" by (simp add: json_dumps_raw_def)
  have i: "get_item d' k = JStr s" using get_item_canon [OF wf c, of k] v by simp
  have "get_item (map (map_prod id (\<lambda>item. JStr (py_str item))) e) k = JStr s" if "get_item e k = JStr s" for e
    using that by (induction e) (auto split: if_splits)
  then show ?thesis using l ne i by (simp add: load_metadata_json_def)
qed

lemma set_default_item: "get_item d k = JStr s \<Longrightarrow> get_item (set_default d k' v) k = JStr s"
proof -
  assume "get_item d k = JStr s"
  then have "map_of d k = Some (JStr s)" by (auto simp: get_item_def split: option.splits)
  then show ?thesis using set_default_keeps by (simp add: get_item_def)
qed

lemma projection_item:
  "get_item (load_metadata_json (ki_metadata_json row)) k = JStr s \<Longrightarrow>
    get_item (qd_metadata (queued_document_projection row chunk)) k = JStr s"
  by (cases chunk) (simp_all add: queued_document_projection_def chunk_defaults_def Let_def set_default_item)

end
