(* ===== verification/Replay.thy ===== *)
theory Replay
  imports Ledger_Items State_Sink Ingress_Http
begin

text \<open>
  The replay seam of \<open>rag_ingress/replay_delivery.py\<close>: it selects the queued rows that carry the mark
  \<open>replay_requested\<close>, builds a wire payload for each, from the journal or from the stored chunk, posts
  it and records the new job in the ledger.  The ingress client is an argument: an action on its world and on the
  ledger, which other processes may change while it runs.  The clock is a function of the row's position.
\<close>

section \<open>Payloads\<close>

definition REPLAY_REQUESTED_STATUS :: string where "REPLAY_REQUESTED_STATUS = ''replay_requested''"
definition REPLAY_TRANSPORT_KIND :: string where "REPLAY_TRANSPORT_KIND = ''conversation_chunk''"

definition validate_replay_payload :: "dict \<Rightarrow> unit result" where
  "validate_replay_payload payload =
    bind_result (require (get_item payload ''schemaVersion'' = JStr INGRESS_SCHEMA_VERSION) ''invalid schemaVersion'') (\<lambda>_.
    bind_result (require (str_or_empty (get_item payload ''targetProfile'') \<noteq> '''') ''targetProfile is required'') (\<lambda>_.
    bind_result (require (get_item payload ''kind'' = JStr REPLAY_TRANSPORT_KIND) ''invalid replay kind'') (\<lambda>_.
    bind_result (require (str_or_empty (get_item payload ''idempotencyKey'') \<noteq> '''') ''idempotencyKey is required'') (\<lambda>_.
    bind_result (dict_get (py_or (get_item payload ''payload'') (JObj [])) ''document'') (\<lambda>doc.
    (let document = py_or doc (JObj []) in
    bind_result (dict_get document ''body'') (\<lambda>body.
    (case body of
       JStr b \<Rightarrow>
         bind_result (require (b \<noteq> '''') ''document body is required'') (\<lambda>_.
         bind_result (dict_get document ''filename'') (\<lambda>filename.
         bind_result (require (str_or_empty filename \<noteq> '''') ''document filename is required'') (\<lambda>_.
         bind_result (dict_get document ''contentType'') (\<lambda>content_type.
         bind_result (require (str_or_empty content_type = DEFAULT_CONTENT_TYPE) ''invalid contentType'') (\<lambda>_.
         bind_result (dict_get document ''metadata'') (\<lambda>metadata.
         bind_result (require (is_dict metadata) ''document metadata is required'') (\<lambda>_.
         bind_result (dict_get (py_or (get_item payload ''payload'') (JObj [])) ''kind'') (\<lambda>kind.
         bind_result (require (kind = JStr DEFAULT_INGRESS_PAYLOAD_KIND) ''invalid payload kind'') (\<lambda>_.
         bind_result (dict_get (py_or (get_item payload ''payload'') (JObj [])) ''redactionVersion'') (\<lambda>rv.
         bind_result (require (rv = JStr DEFAULT_REDACTION_VERSION) ''invalid redactionVersion'') (\<lambda>_.
         require (get_item payload ''contentHash'' = JStr (build_content_hash b)) ''contentHash mismatch'')))))))))))
     | _ \<Rightarrow> Inl (ValueError ''document body is required'')))))))))"

definition chunk_text :: "(transcript_chunk \<Rightarrow> string) \<Rightarrow> transcript_chunk option \<Rightarrow> string" where
  "chunk_text field chunk = (case chunk of None \<Rightarrow> '''' | Some c \<Rightarrow> field c)"

text \<open>\<open>str(chunk.get(k) or "")\<close> of an integer column: a zero gives the empty text.\<close>

definition chunk_number :: "(transcript_chunk \<Rightarrow> int) \<Rightarrow> transcript_chunk option \<Rightarrow> string" where
  "chunk_number field chunk = (case chunk of None \<Rightarrow> '''' | Some c \<Rightarrow> if field c = 0 then '''' else show_int (field c))"

definition row_chunk_id :: "queued_document \<Rightarrow> transcript_chunk option \<Rightarrow> string" where
  "row_chunk_id row chunk = str_or (str_or_empty (get_item (qd_metadata row) ''chunk_id'')) (chunk_text tc_chunk_id chunk)"

definition row_session :: "queued_document \<Rightarrow> transcript_chunk option \<Rightarrow> string" where
  "row_session row chunk = str_or (qd_session_id_hash row) (chunk_text tc_session_id_hash chunk)"

definition replay_attempt :: "queued_document \<Rightarrow> int result" where
  "replay_attempt row = int_or (get_item (qd_metadata row) ''m5_replay_attempt'') 1"

fun map_result :: "('a \<Rightarrow> 'b result) \<Rightarrow> 'a list \<Rightarrow> 'b list result" where
  "map_result f [] = Inr []"
| "map_result f (x # xs) = bind_result (f x) (\<lambda>y. bind_result (map_result f xs) (\<lambda>ys. Inr (y # ys)))"

definition replay_candidate_digest :: "(queued_document \<times> transcript_chunk option) list \<Rightarrow> string result" where
  "replay_candidate_digest selected =
    bind_result (map_result (\<lambda>(row, _). bind_result (replay_attempt row) (\<lambda>attempt.
        Inr (JObj [(''knowledge_id'', JStr (qd_knowledge_id row)), (''ingress_job_id'', JStr (qd_ingress_job_id row)),
          (''target_profile'', JStr (qd_target_profile row)), (''updated_at'', JStr (qd_updated_at row)),
          (''replay_attempt'', JInt attempt)]))) selected)
      (\<lambda>payload. Inr (''sha256:'' @ sha256_hex (json_dumps (JArr payload))))"

definition reconstruct_body :: "string \<Rightarrow> string \<Rightarrow> string \<Rightarrow> string \<Rightarrow> string \<Rightarrow> string \<Rightarrow> string" where
  "reconstruct_body provider project session_id_hash knowledge_id chunk_id redacted_text =
    join NL
      [''---'', ''schema_version: agent_knowledge_document.v2'', ''result_type: conversation_chunk'',
       ''provider: '' @ provider, ''project: '' @ project, ''---'', '''',
       ''# Conversation Chunk (m6 replay reconstruction)'', '''', ''## Context'', '''',
       ''- provider: '' @ provider, ''- project: '' @ project, ''- session_id_hash: '' @ session_id_hash,
       ''- knowledge_id: '' @ knowledge_id, ''- chunk_id: '' @ chunk_id,
       ''- currentness: historical_conversation_memory'', ''- reconstruction: m6_replay_best_effort'', '''',
       ''## Chunk Text'', '''', redacted_text, ''''] @ NL"

definition reconstruct_replay_payload :: "queued_document \<Rightarrow> transcript_chunk option \<Rightarrow> int \<Rightarrow> string \<Rightarrow> dict" where
  "reconstruct_replay_payload row chunk attempt target_profile =
    (let knowledge_id = qd_knowledge_id row; chunk_id = row_chunk_id row chunk; provider = qd_provider row;
         project = qd_project row; session_id_hash = row_session row chunk;
         redaction_version = str_or (chunk_text tc_redaction_version chunk) ''redaction.v2'';
         body = reconstruct_body provider project session_id_hash knowledge_id chunk_id (chunk_text tc_redacted_text chunk)
     in [(''schemaVersion'', JStr INGRESS_SCHEMA_VERSION),
         (''source'', JObj [(''host'', JStr ''mac_mini''), (''producer'', JStr ''m6-replay-delivery''), (''provider'', JStr provider),
           (''project'', JStr project)]),
         (''payload'', JObj
           [(''kind'', JStr DEFAULT_INGRESS_PAYLOAD_KIND), (''redactionVersion'', JStr redaction_version),
            (''document'', JObj
              [(''filename'', JStr (''conversation_chunk_'' @ chunk_id @ ''.replay.'' @ show_int attempt @ ''.md'')),
               (''contentType'', JStr ''text/markdown''), (''body'', JStr body),
               (''metadata'', JObj
                 [(''type'', JStr ''conversation_chunk''), (''result_type'', JStr ''conversation_chunk''),
                  (''knowledge_id'', JStr knowledge_id), (''chunk_id'', JStr chunk_id), (''provider'', JStr provider),
                  (''project'', JStr project), (''session_id_hash'', JStr session_id_hash),
                  (''turn_start_index'', JStr (chunk_number tc_turn_start_index chunk)),
                  (''turn_end_index'', JStr (chunk_number tc_turn_end_index chunk)),
                  (''part_index'', JStr (chunk_number tc_part_index chunk)), (''part_count'', JStr (chunk_number tc_part_count chunk)),
                  (''char_start'', JStr (chunk_number tc_char_start chunk)), (''char_end'', JStr (chunk_number tc_char_end chunk)),
                  (''redaction_version'', JStr redaction_version), (''source_status'', JStr (chunk_text tc_source_status chunk)),
                  (''privacy_level'', JStr ''private''), (''m6_replay_reconstructed'', JStr ''true''),
                  (''m6_replay_attempt'', JStr (show_int attempt))])])]),
         (''contentHash'', JStr (''sha256:'' @ sha256_hex body)),
         (''targetProfile'', JStr (str_or (qd_target_profile row) target_profile)),
         (''kind'', JStr REPLAY_TRANSPORT_KIND),
         (''idempotencyKey'', JStr (knowledge_id @ '':replay.'' @ show_int attempt))])"

text \<open>\<open>json.loads(json.dumps(entry))\<close> copies the entry; only the key of the copy is set.\<close>

definition journal_replay_payload :: "dict \<Rightarrow> string \<Rightarrow> int \<Rightarrow> dict" where
  "journal_replay_payload entry knowledge_id attempt =
    (case json_loads (json_print \<lparr>sep_spaced = True, ensure_ascii = True\<rparr> (JObj entry)) of
       Some (JObj payload) \<Rightarrow> set_item payload ''idempotencyKey'' (JStr (knowledge_id @ '':replay.'' @ show_int attempt))
     | _ \<Rightarrow> entry)"

section \<open>Selection\<close>

definition select_replay_rows :: "string \<Rightarrow> int \<Rightarrow> ledger \<Rightarrow> (queued_document \<times> transcript_chunk option) list" where
  "select_replay_rows target_profile limit led =
    map (\<lambda>row. (row, get_transcript_chunk_by_knowledge_id (qd_knowledge_id row) led))
      (filter (\<lambda>row. str_or_empty (get_item (qd_metadata row) ''m5_disposition_status'') = REPLAY_REQUESTED_STATUS)
        (list_queued_documents ''conversation_chunk'' target_profile limit led))"

definition replay_key_incomplete :: "queued_document \<Rightarrow> transcript_chunk option \<Rightarrow> bool" where
  "replay_key_incomplete row chunk \<longleftrightarrow>
    \<not> (qd_knowledge_id row \<noteq> '''' \<and> row_chunk_id row chunk \<noteq> '''' \<and> row_session row chunk \<noteq> '''')"

section \<open>The run\<close>

record replay_counts =
  rc_delivered :: nat
  rc_rejected :: nat
  rc_race_skipped :: nat
  rc_remote_enqueue :: nat
  rc_unreachable_stop :: bool

type_synonym candidate = "queued_document \<times> transcript_chunk option \<times> dict option"

definition candidate_payload :: "string \<Rightarrow> int \<Rightarrow> candidate \<Rightarrow> dict" where
  "candidate_payload target_profile attempt c =
    (case c of (row, chunk, entry) \<Rightarrow>
      (case entry of
         Some e \<Rightarrow> journal_replay_payload e (qd_knowledge_id row) attempt
       | None \<Rightarrow> reconstruct_replay_payload row chunk attempt target_profile))"

definition expect_row :: "queued_document \<Rightarrow> expectation" where
  "expect_row row = \<lparr>ex_knowledge_id = qd_knowledge_id row, ex_target_profile = qd_target_profile row,
     ex_ingress_job_id = qd_ingress_job_id row, ex_updated_at = qd_updated_at row\<rparr>"

definition is_unreachable :: "py_error \<Rightarrow> bool" where
  "is_unreachable e \<longleftrightarrow> (case e of IngressEnqueueUnreachable _ \<Rightarrow> True | _ \<Rightarrow> False)"

definition is_rejection :: "py_error \<Rightarrow> bool" where
  "is_rejection e \<longleftrightarrow> (case e of IngressEnqueueRejected _ \<Rightarrow> True | _ \<Rightarrow> value_error_class e \<noteq> None)"

type_synonym 'w client = "dict \<Rightarrow> ('w \<times> ledger, dict) action"

definition post_payload :: "'w client \<Rightarrow> dict \<Rightarrow> ('w \<times> ledger, dict) action" where
  "post_payload client payload s =
    (case validate_replay_payload payload of Inl e \<Rightarrow> (Inl e, s) | Inr _ \<Rightarrow> client payload s)"

fun replay_loop ::
    "'w client \<Rightarrow> string \<Rightarrow> string \<Rightarrow> (nat \<Rightarrow> string) \<Rightarrow> nat \<Rightarrow> candidate list \<Rightarrow> replay_counts
      \<Rightarrow> ('w \<times> ledger, replay_counts) action" where
  "replay_loop client target_profile why clock i [] c s = (Inr c, s)"
| "replay_loop client target_profile why clock i (cand # rest) c s =
    (case replay_attempt (fst cand) of
       Inl e \<Rightarrow> (Inl e, s)
     | Inr attempt \<Rightarrow>
         (case post_payload client (candidate_payload target_profile attempt cand) s of
            (Inl e, s') \<Rightarrow>
              if is_unreachable e then (Inr (c\<lparr>rc_unreachable_stop := True\<rparr>), s')
              else if is_rejection e
              then replay_loop client target_profile why clock (Suc i) rest (c\<lparr>rc_rejected := Suc (rc_rejected c)\<rparr>) s'
              else (Inl e, s')
          | (Inr result, (w, led)) \<Rightarrow>
              (let c1 = c\<lparr>rc_remote_enqueue := Suc (rc_remote_enqueue c)\<rparr>;
                   new_job_id = str_or_empty (get_item result ''job_id'')
               in case mark_replay_delivered_if_queued why new_job_id (expect_row (fst cand)) (clock i) led of
                    (Inl e, led') \<Rightarrow> (Inl e, (w, led'))
                  | (Inr updated, led') \<Rightarrow>
                      replay_loop client target_profile why clock (Suc i) rest
                        (if updated then c1\<lparr>rc_delivered := Suc (rc_delivered c1)\<rparr>
                         else c1\<lparr>rc_race_skipped := Suc (rc_race_skipped c1)\<rparr>) (w, led'))))"

record replay_report =
  rr_probe :: bool
  rr_selected_count :: nat
  rr_candidate_set_digest :: string
  rr_counts :: replay_counts
  rr_missing_source_text_count :: nat
  rr_incomplete_key_count :: nat
  rr_journal_hit_count :: nat
  rr_reconstructed_count :: nat
  rr_dry_run :: bool
  rr_blockers :: "string list"
  rr_execution_status :: string
  rr_resume_required :: bool
  rr_reconstruction_fidelity :: string
  rr_execution_performed :: bool
  rr_network_used :: bool
  rr_mutation_performed :: bool

definition no_replays :: replay_counts where
  "no_replays = \<lparr>rc_delivered = 0, rc_rejected = 0, rc_race_skipped = 0, rc_remote_enqueue = 0, rc_unreachable_stop = False\<rparr>"

definition replay_blockers :: "bool \<Rightarrow> string \<Rightarrow> string \<Rightarrow> nat \<Rightarrow> nat \<Rightarrow> string list" where
  "replay_blockers dry_run expected digest missing incomplete =
    (if \<not> dry_run \<and> expected = '''' then [''candidate_set_digest_required''] else [])
    @ (if expected \<noteq> '''' \<and> expected \<noteq> digest then [''candidate_set_digest_mismatch''] else [])
    @ (if missing \<noteq> 0 then [''replay_source_text_missing''] else [])
    @ (if incomplete \<noteq> 0 then [''replay_key_incomplete''] else [])"

definition execution_status :: "bool \<Rightarrow> string list \<Rightarrow> replay_counts \<Rightarrow> string" where
  "execution_status dry_run blockers c =
    (if blockers \<noteq> [] \<and> (rc_delivered c \<noteq> 0 \<or> rc_remote_enqueue c \<noteq> 0) then ''partial_failure''
     else if rc_unreachable_stop c then ''blocked_unreachable''
     else if blockers \<noteq> [] then ''blocked''
     else if dry_run then ''dry_run''
     else ''executed'')"

definition replay_report_of ::
    "bool \<Rightarrow> bool \<Rightarrow> bool \<Rightarrow> string \<Rightarrow> candidate list \<Rightarrow> nat \<Rightarrow> nat \<Rightarrow> string list \<Rightarrow> replay_counts \<Rightarrow> replay_report" where
  "replay_report_of journaled probe dry_run digest cands missing incomplete blockers0 c =
    (let blockers = (if rc_race_skipped c \<noteq> 0 then blockers0 @ [''remote_enqueued_ledger_cas_failed''] else blockers0);
         hits = length (filter (\<lambda>(row, chunk, entry). entry \<noteq> None) cands);
         performed = (rc_delivered c \<noteq> 0 \<or> rc_remote_enqueue c \<noteq> 0)
     in \<lparr>rr_probe = probe, rr_selected_count = length cands, rr_candidate_set_digest = digest, rr_counts = c,
         rr_missing_source_text_count = missing, rr_incomplete_key_count = incomplete, rr_journal_hit_count = hits,
         rr_reconstructed_count = length cands - hits, rr_dry_run = dry_run, rr_blockers = blockers,
         rr_execution_status = execution_status dry_run blockers c, rr_resume_required = (rc_race_skipped c \<noteq> 0),
         rr_reconstruction_fidelity = (if journaled then ''byte_faithful_journal_with_reconstruct_fallback''
           else ''convergence_faithful_body_best_effort''),
         rr_execution_performed = performed, rr_network_used = (\<not> dry_run), rr_mutation_performed = performed\<rparr>)"

definition replay_deliver_dispositions ::
    "'w client \<Rightarrow> string \<Rightarrow> string \<Rightarrow> int \<Rightarrow> bool \<Rightarrow> bool \<Rightarrow> string \<Rightarrow> (path \<times> file_system) option \<Rightarrow> (nat \<Rightarrow> string)
      \<Rightarrow> ('w \<times> ledger, replay_report) action" where
  "replay_deliver_dispositions client target_profile why limit probe dry_run expected journal clock s =
    (let rows = select_replay_rows target_profile limit (snd s);
         selected = (if probe then take 1 rows else rows)
     in case replay_candidate_digest selected of
          Inl e \<Rightarrow> (Inl e, s)
        | Inr digest \<Rightarrow>
            (let cands = map (\<lambda>(row, chunk). (row, chunk,
                   case journal of None \<Rightarrow> None | Some (root, fs) \<Rightarrow> journal_get root (qd_knowledge_id row) fs)) selected;
                 fallback = filter (\<lambda>(row, chunk, entry). entry = None) cands;
                 missing = length (filter (\<lambda>(row, chunk, entry). chunk_text tc_redacted_text chunk = '''') fallback);
                 incomplete = length (filter (\<lambda>(row, chunk, entry). replay_key_incomplete row chunk) fallback);
                 blockers = replay_blockers dry_run expected digest missing incomplete
             in if \<not> dry_run \<and> blockers = []
                then bind_act (replay_loop client target_profile why clock 0 cands no_replays)
                  (\<lambda>c. return_act (replay_report_of (journal \<noteq> None) probe dry_run digest cands missing incomplete blockers c)) s
                else (Inr (replay_report_of (journal \<noteq> None) probe dry_run digest cands missing incomplete blockers no_replays), s)))"

section \<open>Payloads that pass\<close>

lemma join_nonempty: "x \<noteq> '''' \<Longrightarrow> join sep (x # xs) \<noteq> ''''"
  by (cases xs) auto

lemma reconstruct_body_nonempty [simp]: "reconstruct_body a b c d e f \<noteq> ''''"
  unfolding reconstruct_body_def by (simp only: append_is_Nil_conv join_nonempty) (simp add: NL_def)

lemma reconstruct_valid_iff:
  "validate_replay_payload (reconstruct_replay_payload row chunk attempt tp) = Inr () \<longleftrightarrow>
    str_or (qd_target_profile row) tp \<noteq> '''' \<and> str_or (chunk_text tc_redaction_version chunk) ''redaction.v2'' = ''redaction.v2''"
proof -
  have key: "qd_knowledge_id row @ '':replay.'' @ show_int attempt \<noteq> ''''" by simp
  show ?thesis
    unfolding validate_replay_payload_def reconstruct_replay_payload_def Let_def
    by (simp add: require_def str_or_empty_def py_or_def wire_constants build_content_hash_def sha256_ref_def del: append_Cons)
qed

lemma journal_payload:
  assumes "json_wf (JObj entry)"
  shows "journal_replay_payload entry k attempt = set_item entry ''idempotencyKey'' (JStr (k @ '':replay.'' @ show_int attempt))"
  using json_loads_print [of "JObj entry" "[]"] assms by (simp add: journal_replay_payload_def follows_def)

section \<open>What a run does\<close>

lemma mark_replay_delivered_total: "\<exists>u led'. mark_replay_delivered_if_queued why job ex now led = (Inr u, led')"
  by (simp add: mark_replay_delivered_if_queued_def Let_def split: prod.split)

definition accounts :: "nat \<Rightarrow> replay_counts \<Rightarrow> bool" where
  "accounts n c \<longleftrightarrow> rc_remote_enqueue c = rc_delivered c + rc_race_skipped c
    \<and> rc_delivered c + rc_race_skipped c + rc_rejected c \<le> n
    \<and> (rc_unreachable_stop c \<or> rc_delivered c + rc_race_skipped c + rc_rejected c = n)"

lemma accounts_step:
  assumes "accounts n c" "\<not> rc_unreachable_stop c"
  shows "accounts (Suc n) (c\<lparr>rc_rejected := Suc (rc_rejected c)\<rparr>)"
    and "accounts (Suc n) (c\<lparr>rc_remote_enqueue := Suc (rc_remote_enqueue c), rc_delivered := Suc (rc_delivered c)\<rparr>)"
    and "accounts (Suc n) (c\<lparr>rc_remote_enqueue := Suc (rc_remote_enqueue c), rc_race_skipped := Suc (rc_race_skipped c)\<rparr>)"
    and "accounts (n + k) (c\<lparr>rc_unreachable_stop := True\<rparr>)"
  using assms by (auto simp: accounts_def)

lemma replay_loop_accounts:
  assumes "replay_loop client tp why clock i cands c s = (Inr c', s')" "accounts n c" "\<not> rc_unreachable_stop c"
  shows "accounts (n + length cands) c'"
  using assms
proof (induction cands arbitrary: i c s n)
  case (Cons cand rest)
  note run = Cons.prems(1) and step = accounts_step [OF Cons.prems(2,3)]
  obtain attempt where a: "replay_attempt (fst cand) = Inr attempt"
    using run by (cases "replay_attempt (fst cand)") simp_all
  obtain r w led where p: "post_payload client (candidate_payload tp attempt cand) s = (r, (w, led))" by (metis surj_pair)
  show ?case
  proof (cases r)
    case (Inl e)
    then show ?thesis
      using run a p step(1) step(4) [of "Suc (length rest)"] Cons.IH [of "Suc i" _ _ "Suc n"] Cons.prems(3) by (auto split: if_splits)
  next
    case (Inr result)
    obtain u led' where m: "mark_replay_delivered_if_queued why (str_or_empty (get_item result ''job_id'')) (expect_row (fst cand)) (clock i) led =
        (Inr u, led')" using mark_replay_delivered_total by blast
    show ?thesis
      using run a p Inr m step(2,3) Cons.IH [of "Suc i" _ _ "Suc n"] Cons.prems(3) by (cases u) auto
  qed
qed simp

lemma replay_dry_run:
  assumes "replay_deliver_dispositions client tp why limit probe True expected journal clock s = (r, s')"
  shows "s' = s \<and> (\<forall>rep. r = Inr rep \<longrightarrow> \<not> rr_mutation_performed rep \<and> \<not> rr_network_used rep)"
  using assms by (auto simp: replay_deliver_dispositions_def Let_def replay_report_of_def no_replays_def split: sum.splits)

lemma select_replay_rows_length: "length (select_replay_rows tp limit led) \<le> nat (max limit 1)"
  by (auto simp: select_replay_rows_def list_queued_documents_def intro: order_trans [OF length_filter_le])

lemma replay_live_report:
  assumes "replay_deliver_dispositions client tp why limit probe False expected journal clock s = (Inr r, s')"
  shows "rr_selected_count r \<le> (if probe then 1 else nat (max limit 1))
    \<and> rc_remote_enqueue (rr_counts r) = rc_delivered (rr_counts r) + rc_race_skipped (rr_counts r)
    \<and> rc_remote_enqueue (rr_counts r) + rc_rejected (rr_counts r) \<le> rr_selected_count r
    \<and> (rr_mutation_performed r \<longleftrightarrow> rc_remote_enqueue (rr_counts r) \<noteq> 0)
    \<and> (rr_resume_required r \<longleftrightarrow> rc_race_skipped (rr_counts r) \<noteq> 0)
    \<and> (rr_execution_status r = ''executed'' \<longrightarrow> rc_race_skipped (rr_counts r) = 0
        \<and> rc_delivered (rr_counts r) + rc_rejected (rr_counts r) = rr_selected_count r)
    \<and> (rr_execution_status r = ''blocked'' \<longrightarrow> s' = s)"
proof -
  let ?rows = "select_replay_rows tp limit (snd s)"
  let ?sel = "if probe then take 1 ?rows else ?rows"
  let ?cands = "map (\<lambda>(row, chunk). (row, chunk,
      case journal of None \<Rightarrow> None | Some (root, fs) \<Rightarrow> journal_get root (qd_knowledge_id row) fs)) ?sel"
  have len: "length ?cands \<le> (if probe then 1 else nat (max limit 1))" using select_replay_rows_length [of tp limit "snd s"] by simp
  obtain digest where d: "replay_candidate_digest ?sel = Inr digest"
    using assms by (auto simp: replay_deliver_dispositions_def Let_def split: sum.splits)
  obtain missing incomplete blockers c where
    rep: "r = replay_report_of (journal \<noteq> None) probe False digest ?cands missing incomplete blockers c"
    and c: "blockers = [] \<and> replay_loop client tp why clock 0 ?cands no_replays s = (Inr c, s')
      \<or> blockers \<noteq> [] \<and> c = no_replays \<and> s' = s"
    using assms d by (auto simp: replay_deliver_dispositions_def Let_def bind_act_def split: if_splits prod.splits sum.splits)
  have "accounts 0 no_replays" "\<not> rc_unreachable_stop no_replays" by (simp_all add: accounts_def no_replays_def)
  then have acc: "blockers = [] \<and> accounts (length ?cands) c \<or> blockers \<noteq> [] \<and> c = no_replays \<and> s' = s"
    using c replay_loop_accounts [of client tp why clock 0 ?cands no_replays s c s' 0] by auto
  have sel: "rr_selected_count r = length ?cands" "rr_counts r = c" "rr_mutation_performed r \<longleftrightarrow> rc_delivered c \<noteq> 0 \<or> rc_remote_enqueue c \<noteq> 0"
    "rr_resume_required r \<longleftrightarrow> rc_race_skipped c \<noteq> 0"
    "rr_execution_status r = execution_status False (if rc_race_skipped c \<noteq> 0 then blockers @ [''remote_enqueued_ledger_cas_failed''] else blockers) c"
    by (simp_all add: rep replay_report_of_def Let_def)
  show ?thesis
    unfolding sel using len acc by (auto simp: accounts_def no_replays_def execution_status_def split: if_splits)
qed

section \<open>A delivered row is not selected again\<close>

lemma delivered_metadata_status:
  assumes "json_wf (JObj m)"
  shows "json_wf (JObj (delivered_metadata why now m))"
    and "get_item (delivered_metadata why now m) ''m5_disposition_status'' = JStr ''replay_delivered''"
proof -
  show "json_wf (JObj (delivered_metadata why now m))"
    unfolding delivered_metadata_def Let_def by (intro json_wf_set_item assms json_wf.simps(4) [THEN iffD2] TrueI)
  show "get_item (delivered_metadata why now m) ''m5_disposition_status'' = JStr ''replay_delivered''"
    by (simp add: delivered_metadata_def Let_def)
qed

lemma granted_delivery_item:
  assumes "ledger_ok led" "mark_replay_delivered_if_queued why job ex now led = (Inr True, led')"
  shows "ledger_ok led' \<and> (\<exists>row. get_by_knowledge_id (ex_knowledge_id ex) led' = Some row
    \<and> get_item (load_metadata_json (ki_metadata_json row)) ''m5_disposition_status'' = JStr ''replay_delivered'')"
proof -
  let ?m = "delivered_metadata why now (item_metadata (ex_knowledge_id ex) led)"
  have d: "dispose (Replay_Delivered why job) ex now led = (Inr True, led')" using assms(2) by (simp add: dispose_def)
  have ok: "ledger_ok led'" by (rule dispositions.keeps_ok [OF assms(1) d])
  obtain row where row: "get_by_knowledge_id (ex_knowledge_id ex) led = Some row" "as_expected ex row"
    using dispositions.granted [OF assms(1) d] by blast
  have "get_by_knowledge_id (ex_knowledge_id ex) led' = Some (row\<lparr>ki_metadata_json := json_dumps_raw (JObj ?m), ki_ingress_job_id := job,
      ki_index_run_id := ''QUEUED'', ki_index_progress := Decimal 0 0, ki_index_document_id := '''', ki_indexed_at := '''', ki_queued_at := now,
      ki_updated_at := now\<rparr>)"
    using assms(2) update_expected_open [OF assms(1) row] row
    by (auto simp: mark_replay_delivered_if_queued_def Let_def get_put_item as_expected_def)
  moreover have wf: "json_wf (JObj (item_metadata k led))" for k by (simp only: item_metadata_def load_metadata_wf)
  ultimately show ?thesis
    using ok load_dumped_item [OF delivered_metadata_status [OF wf]] by auto
qed

lemma not_selected:
  assumes "ledger_ok led" "get_by_knowledge_id k led = Some row"
    and "get_item (load_metadata_json (ki_metadata_json row)) ''m5_disposition_status'' = JStr st" "st \<noteq> REPLAY_REQUESTED_STATUS"
  shows "k \<notin> (qd_knowledge_id \<circ> fst) ` set (select_replay_rows tp limit led)"
proof
  assume "k \<in> (qd_knowledge_id \<circ> fst) ` set (select_replay_rows tp limit led)"
  then obtain it chunk where it: "it \<in> set (ledger_items led)" "ki_knowledge_id it = k"
    and st: "str_or_empty (get_item (qd_metadata (queued_document_projection it chunk)) ''m5_disposition_status'') = REPLAY_REQUESTED_STATUS"
    by (auto simp: select_replay_rows_def list_queued_documents_def queued_document_projection_def Let_def dest!: in_set_takeD)
  have "it = row" using assms(1,2) it row_with_eqI [of ki_knowledge_id "ledger_items led" it] by (simp add: ledger_ok_def get_by_knowledge_id_def)
  with st assms(3,4) show False
    using projection_item [OF assms(3), of chunk] by (auto simp: str_or_empty_def REPLAY_REQUESTED_STATUS_def split: if_splits)
qed

lemma delivered_not_selected:
  assumes "ledger_ok led" "mark_replay_delivered_if_queued why job ex now led = (Inr True, led')"
  shows "ex_knowledge_id ex \<notin> (qd_knowledge_id \<circ> fst) ` set (select_replay_rows tp limit led')"
  using granted_delivery_item [OF assms] not_selected [of led' "ex_knowledge_id ex" _ "''replay_delivered''" tp limit]
  by (auto simp: REPLAY_REQUESTED_STATUS_def)

section \<open>A probe posts\<close>

lemma replay_candidate_digest_one:
  "replay_attempt row = Inr n \<Longrightarrow> \<exists>digest. replay_candidate_digest [(row, chunk)] = Inr digest \<and> digest \<noteq> ''''"
  by (simp add: replay_candidate_digest_def)

theorem probe_posts:
  assumes sel: "select_replay_rows tp limit led = (row, Some chunk) # rest" and n: "replay_attempt row = Inr n"
    and chunk: "tc_redacted_text chunk \<noteq> ''''" "tc_redaction_version chunk = ''redaction.v2''" "\<not> replay_key_incomplete row (Some chunk)"
    and tp: "qd_target_profile row \<noteq> ''''"
    and client: "client (reconstruct_replay_payload row (Some chunk) n tp) (w, led) = (Inr result, (w', led'))"
  shows "\<exists>digest r led''. replay_deliver_dispositions client tp why limit True False digest None clock (w, led) = (Inr r, (w', led''))
    \<and> rr_probe r \<and> rr_mutation_performed r"
proof -
  obtain digest where d: "replay_candidate_digest [(row, Some chunk)] = Inr digest" "digest \<noteq> ''''"
    using replay_candidate_digest_one [OF n] by blast
  obtain u led2 where m: "mark_replay_delivered_if_queued why (str_or_empty (get_item result ''job_id'')) (expect_row row) (clock 0) led' = (Inr u, led2)"
    using mark_replay_delivered_total by blast
  have valid: "validate_replay_payload (reconstruct_replay_payload row (Some chunk) n tp) = Inr ()"
    using tp chunk(2) by (simp add: reconstruct_valid_iff str_or_def chunk_text_def)
  show ?thesis
    by (rule exI [of _ digest])
      (use sel n chunk d m valid client in \<open>cases u; simp add: replay_deliver_dispositions_def Let_def chunk_text_def replay_blockers_def
        bind_act_def post_payload_def candidate_payload_def replay_report_of_def no_replays_def\<close>)
qed

end
