(* ===== verification/Source_Model.thy ===== *)
theory Source_Model
  imports Ingress_Wire
begin

text \<open>
  The document model of the CouchDB source plane, \<open>couchdb_source/document_model.py\<close>: the document
  types it owns, the deterministic identifiers and hashes, the assertions at its boundary and the
  builders of its documents, with the canonical provider and project labels of
  \<open>session_memory/transcript_model.py\<close>.  A document is a JSON dict.
\<close>

section \<open>Types of documents\<close>

abbreviation REPO_USAGE_PATTERN :: string where "REPO_USAGE_PATTERN \<equiv> ''repo_usage_pattern''"
abbreviation TRANSCRIPT_SESSION :: string where "TRANSCRIPT_SESSION \<equiv> ''transcript_session''"
abbreviation CONVERSATION_CHUNK :: string where "CONVERSATION_CHUNK \<equiv> ''conversation_chunk''"
abbreviation TOOL_EVIDENCE_BUNDLE :: string where "TOOL_EVIDENCE_BUNDLE \<equiv> ''tool_evidence_bundle''"
abbreviation COVERAGE_MANIFEST :: string where "COVERAGE_MANIFEST \<equiv> ''coverage_manifest''"
abbreviation PROJECTION_STATE :: string where "PROJECTION_STATE \<equiv> ''projection_state''"
abbreviation RETENTION_MANIFEST :: string where "RETENTION_MANIFEST \<equiv> ''retention_manifest''"
abbreviation SOURCE_REVISION_MEMBER :: string where "SOURCE_REVISION_MEMBER \<equiv> ''source_revision_member''"
abbreviation SOURCE_REVISION_MANIFEST :: string where "SOURCE_REVISION_MANIFEST \<equiv> ''source_revision_manifest''"
abbreviation ACTIVE_SOURCE_REVISION :: string where "ACTIVE_SOURCE_REVISION \<equiv> ''active_source_revision''"

definition COUCHDB_OWNED_DOC_TYPES :: "string list" where
  "COUCHDB_OWNED_DOC_TYPES = [REPO_USAGE_PATTERN, TRANSCRIPT_SESSION, CONVERSATION_CHUNK, TOOL_EVIDENCE_BUNDLE,
     COVERAGE_MANIFEST, PROJECTION_STATE, RETENTION_MANIFEST, SOURCE_REVISION_MEMBER, SOURCE_REVISION_MANIFEST,
     ACTIVE_SOURCE_REVISION]"

definition PROJECTION_STATUSES :: "string list" where
  "PROJECTION_STATUSES = [''pending'', ''projected'', ''failed'']"

definition RETENTION_TIERS :: "string list" where
  "RETENTION_TIERS = [''hot_full'', ''hot_manifest_only'', ''cold_archive_ref'']"

section \<open>Canonical labels\<close>

definition canonicalize_provider :: "string \<Rightarrow> string" where
  "canonicalize_provider provider = py_lower (py_strip provider)"

text \<open>\<open>list.index\<close> of a member and \<open>str.index\<close> of a part.\<close>

fun index_of :: "'a \<Rightarrow> 'a list \<Rightarrow> nat option" where
  "index_of x [] = None"
| "index_of x (y # ys) = (if x = y then Some 0 else map_option Suc (index_of x ys))"

fun text_index :: "string \<Rightarrow> string \<Rightarrow> nat option" where
  "text_index p [] = (if p = [] then Some 0 else None)"
| "text_index p (c # cs) = (if starts_with p (c # cs) then Some 0 else map_option Suc (text_index p cs))"

definition part_after :: "string \<Rightarrow> string list \<Rightarrow> string list \<Rightarrow> string option" where
  "part_after marker lower_parts parts =
    (case index_of marker lower_parts of
       None \<Rightarrow> None
     | Some i \<Rightarrow> if i + 1 < length parts then Some (parts ! (i + 1)) else None)"

definition cut_worktree :: "string list \<Rightarrow> string list" where
  "cut_worktree parts =
    (let lower_parts = map py_lower parts
     in case index_of ''.claude-worktrees'' lower_parts of
          Some i \<Rightarrow> take i parts
        | None \<Rightarrow> (case index_of ''claude-worktrees'' lower_parts of Some i \<Rightarrow> take i parts | None \<Rightarrow> parts))"

text \<open>\<open>parts[-1]\<close> of an empty list raises; the worktree marker can be the first part.\<close>

definition canonicalize_project_path :: "string \<Rightarrow> string option result" where
  "canonicalize_project_path v =
    (if CHR ''/'' \<notin> set v \<and> char_of (92::nat) \<notin> set v then Inr None
     else let parts0 = filter (\<lambda>p. p \<noteq> []) (split_on (CHR ''/'') (map (\<lambda>c. if code c = 92 then CHR ''/'' else c) v))
       in if parts0 = [] then Inr (Some '''')
          else let parts = cut_worktree parts0; lower_parts = map py_lower parts
            in case part_after ''.openclaw'' lower_parts parts of
                 Some p \<Rightarrow> Inr (Some p)
               | None \<Rightarrow>
                   (case part_after ''projects'' lower_parts parts of
                      Some p \<Rightarrow> Inr (Some p)
                    | None \<Rightarrow> if parts = [] then Inl IndexError else Inr (Some (last parts))))"

definition strip_hyphens :: "string \<Rightarrow> string" where
  "strip_hyphens s = rev (dropWhile (\<lambda>c. c = CHR ''-'') (rev (dropWhile (\<lambda>c. c = CHR ''-'') s)))"

fun collapse_hyphens :: "string \<Rightarrow> string" where
  "collapse_hyphens (a # b # s) =
    (if a = CHR ''-'' \<and> b = CHR ''-'' then collapse_hyphens (b # s) else a # collapse_hyphens (b # s))"
| "collapse_hyphens s = s"

definition tail_after :: "string \<Rightarrow> string \<Rightarrow> string option" where
  "tail_after marker lower =
    (if contains_text ''users-'' lower \<or> contains_text ''home-'' lower
     then case text_index marker lower of
         None \<Rightarrow> None
       | Some i \<Rightarrow> (let t = drop (i + length marker) lower in if t \<noteq> [] then Some t else None)
     else None)"

definition canonicalize_project_slug :: "string \<Rightarrow> string option" where
  "canonicalize_project_slug v =
    (let normalized = collapse_hyphens (strip_hyphens v)
     in if normalized = [] then Some ''''
        else let lower = (case text_index ''claude-worktrees'' (py_lower normalized) of
               None \<Rightarrow> py_lower normalized
             | Some i \<Rightarrow> py_lower (rev (dropWhile (\<lambda>c. c = CHR ''-'') (rev (take i normalized)))))
          in case tail_after ''openclaw-'' lower of Some t \<Rightarrow> Some t | None \<Rightarrow> tail_after ''projects-'' lower)"

definition canonicalize_project :: "string \<Rightarrow> string result" where
  "canonicalize_project project =
    (if project = '''' then Inr ''''
     else bind_result (canonicalize_project_path project) (\<lambda>path.
       case path of
         Some p \<Rightarrow> Inr p
       | None \<Rightarrow> (case canonicalize_project_slug project of Some p \<Rightarrow> Inr p | None \<Rightarrow> Inr project)))"

section \<open>Hashes and identifiers\<close>

definition sha256_hash :: "string \<Rightarrow> string" where
  "sha256_hash v = sha256_ref v"

definition build_session_id_hash :: "string \<Rightarrow> string \<Rightarrow> string" where
  "build_session_id_hash provider raw_session_id = sha256_hash (canonicalize_provider provider @ '':'' @ raw_session_id)"

definition build_coverage_hash :: "string list \<Rightarrow> string" where
  "build_coverage_hash content_hashes = sha256_hash (join NL (sort content_hashes))"

definition build_source_hash :: "string list \<Rightarrow> string list \<Rightarrow> string \<Rightarrow> string \<Rightarrow> string list \<Rightarrow> string list \<Rightarrow> string" where
  "build_source_hash conversation_content_hashes tool_evidence_coverage_hashes observed_at_start observed_at_end
     conversation_revision_tokens tool_evidence_revision_tokens =
    sha256_hash (json_dumps (JObj
      [(''conversation_content_hashes'', JArr (map JStr (sort conversation_content_hashes))),
       (''tool_evidence_coverage_hashes'', JArr (map JStr (sort tool_evidence_coverage_hashes))),
       (''observed_at_start'', JStr observed_at_start), (''observed_at_end'', JStr observed_at_end),
       (''conversation_revision_tokens'', JArr (map JStr (sort conversation_revision_tokens))),
       (''tool_evidence_revision_tokens'', JArr (map JStr (sort tool_evidence_revision_tokens)))]))"

definition position_fields :: "string list" where
  "position_fields = [''turn_start_index'', ''turn_end_index'', ''part_index'', ''part_count'', ''char_start'', ''char_end'',
     ''evidence_index_start'', ''evidence_index_end'']"

definition build_source_revision_token :: "dict \<Rightarrow> string \<Rightarrow> string" where
  "build_source_revision_token document material_hash_field =
    sha256_hash (json_dumps (JObj
      [(''document_ref_hash'', JStr (sha256_hash (str_or_empty (get_item document ''_id'')))),
       (''material_hash'', JStr (str_or_empty (get_item document material_hash_field))),
       (''observed_at_start'', JStr (str_or_empty (get_item document ''observed_at_start''))),
       (''observed_at_end'', JStr (str_or_empty (get_item document ''observed_at_end''))),
       (''position'', JObj (map (\<lambda>f. (f, get_item document f)) (filter (\<lambda>f. map_of document f \<noteq> None) position_fields)))]))"

definition hash_hex :: "string \<Rightarrow> string" where
  "hash_hex v = (if starts_with ''sha256:'' v then drop 7 v else v)"

definition session_doc_id :: "string \<Rightarrow> string" where
  "session_doc_id session_id_hash = TRANSCRIPT_SESSION @ '':'' @ hash_hex session_id_hash"

definition conversation_chunk_doc_id :: "string \<Rightarrow> string \<Rightarrow> string" where
  "conversation_chunk_doc_id session_id_hash chunk_id = CONVERSATION_CHUNK @ '':'' @ hash_hex session_id_hash @ '':'' @ chunk_id"

text \<open>\<open>f"{n:03d}"\<close>: the sign counts towards the width.\<close>

definition pad3 :: "int \<Rightarrow> string" where
  "pad3 n = (let s = show_nat (nat \<bar>n\<bar>); w = (if n < 0 then 2 else 3)
     in (if n < 0 then ''-'' else '''') @ replicate (w - length s) (CHR ''0'') @ s)"

definition tool_evidence_bundle_doc_id :: "string \<Rightarrow> int \<Rightarrow> string" where
  "tool_evidence_bundle_doc_id session_id_hash part_index = TOOL_EVIDENCE_BUNDLE @ '':'' @ hash_hex session_id_hash @ '':p'' @ pad3 part_index"

definition coverage_manifest_doc_id :: "string \<Rightarrow> string" where
  "coverage_manifest_doc_id session_id_hash = COVERAGE_MANIFEST @ '':'' @ hash_hex session_id_hash"

definition projection_state_doc_id :: "string \<Rightarrow> string" where
  "projection_state_doc_id session_id_hash = PROJECTION_STATE @ '':'' @ hash_hex session_id_hash"

definition retention_manifest_doc_id :: "string \<Rightarrow> string" where
  "retention_manifest_doc_id session_id_hash = RETENTION_MANIFEST @ '':'' @ hash_hex session_id_hash"

definition source_revision_member_doc_id :: "string \<Rightarrow> string \<Rightarrow> string \<Rightarrow> string" where
  "source_revision_member_doc_id session_id_hash source_revision source_document_id =
    SOURCE_REVISION_MEMBER @ '':'' @ hash_hex session_id_hash @ '':'' @ hash_hex source_revision @ '':''
      @ hash_hex (sha256_hash source_document_id)"

definition source_revision_manifest_doc_id :: "string \<Rightarrow> string \<Rightarrow> string" where
  "source_revision_manifest_doc_id session_id_hash source_revision =
    SOURCE_REVISION_MANIFEST @ '':'' @ hash_hex session_id_hash @ '':'' @ hash_hex source_revision"

definition active_source_revision_pointer_doc_id :: "string \<Rightarrow> string" where
  "active_source_revision_pointer_doc_id session_id_hash = ACTIVE_SOURCE_REVISION @ '':'' @ hash_hex session_id_hash"

definition repo_usage_pattern_doc_id :: "string \<Rightarrow> string result" where
  "repo_usage_pattern_doc_id idempotency_key =
    (if idempotency_key = '''' then Inl (ValueError ''original ingress natural key is required'')
     else Inr (REPO_USAGE_PATTERN @ '':'' @ hash_hex (sha256_hash idempotency_key)))"

section \<open>Assertions at the boundary\<close>

definition assert_couchdb_owned :: "json \<Rightarrow> unit result" where
  "assert_couchdb_owned doc_type =
    bind_result (in_string_set doc_type COUCHDB_OWNED_DOC_TYPES) (\<lambda>owned.
      if owned then Inr ()
      else Inl (OwnershipViolation (''doc_type not owned by the CouchDB source plane: '' @ py_str doc_type)))"

definition assert_index_target_allowed :: "string \<Rightarrow> unit result" where
  "assert_index_target_allowed target_profile =
    (if target_profile = ''transcript-memory''
     then Inl (OwnershipViolation ''transcript-memory is retired and is not a valid RetiredIndexBridge projection target'')
     else if target_profile \<noteq> ''session-memory''
     then Inl (OwnershipViolation (''RetiredIndexBridge projection target must be '' @ repr_string ''session-memory'' @ '', got '' @ repr_string target_profile))
     else Inr ())"

definition leak_error :: "string \<Rightarrow> string list \<Rightarrow> unit result" where
  "leak_error what violations =
    (if violations \<noteq> [] then Inl (SourceRedactionLeak (what @ '' failed leak check; categories='' @ join '','' (sort (remdups violations))))
     else Inr ())"

definition assert_source_text_clean :: "string \<Rightarrow> unit result" where
  "assert_source_text_clean s = leak_error ''source body'' (public_ingress_leak_violations s)"

definition assert_hash_like :: "string \<Rightarrow> string \<Rightarrow> unit result" where
  "assert_hash_like field v =
    (if v = '''' then Inl (ValueError (field @ '' is required''))
     else if \<not> (starts_with ''sha256:'' v \<and> is_bare_sha256 (drop 7 v))
     then Inl (ValueError (field @ '' must be a '' @ repr_string ''sha256:<hex>'' @ '' hash, never a raw value''))
     else Inr ())"

definition assert_hash_unless_empty :: "string \<Rightarrow> string \<Rightarrow> unit result" where
  "assert_hash_unless_empty field v = (if v \<noteq> '''' then assert_hash_like field v else Inr ())"

fun first_error :: "unit result list \<Rightarrow> unit result" where
  "first_error [] = Inr ()"
| "first_error (r # rs) = bind_result r (\<lambda>_. first_error rs)"

primrec assert_no_secret_like_keys_deep :: "json \<Rightarrow> unit result" where
  "assert_no_secret_like_keys_deep JNull = Inr ()"
| "assert_no_secret_like_keys_deep (JBool b) = Inr ()"
| "assert_no_secret_like_keys_deep (JInt i) = Inr ()"
| "assert_no_secret_like_keys_deep (JStr s) = Inr ()"
| "assert_no_secret_like_keys_deep (JArr xs) = first_error (map assert_no_secret_like_keys_deep xs)"
| "assert_no_secret_like_keys_deep (JObj d) =
    bind_result (assert_no_secret_like_metadata d) (\<lambda>_. first_error (map snd (map (map_prod id assert_no_secret_like_keys_deep) d)))"

text \<open>The document as \<open>json.dumps(document, ensure_ascii=False)\<close> writes it is scanned for leaks.\<close>

definition finalize :: "dict \<Rightarrow> dict result" where
  "finalize document =
    bind_result (assert_no_secret_like_keys_deep (JObj document)) (\<lambda>_.
    bind_result (leak_error ''document'' (public_ingress_leak_violations
      (json_print \<lparr>sep_spaced = True, ensure_ascii = False\<rparr> (JObj document)))) (\<lambda>_.
    Inr document))"

section \<open>Builders\<close>

definition base_document :: "string \<Rightarrow> string \<Rightarrow> string \<Rightarrow> string \<Rightarrow> string \<Rightarrow> string \<Rightarrow> string \<Rightarrow> dict result" where
  "base_document doc_type doc_id provider project session_id_hash source_locator_hash redaction_version =
    bind_result (assert_couchdb_owned (JStr doc_type)) (\<lambda>_.
    bind_result (assert_hash_like ''session_id_hash'' session_id_hash) (\<lambda>_.
    bind_result (assert_hash_unless_empty ''source_locator_hash'' source_locator_hash) (\<lambda>_.
    bind_result (canonicalize_project project) (\<lambda>canonical_project.
    Inr [(''_id'', JStr doc_id), (''doc_type'', JStr doc_type), (''schema_version'', JStr ''couchdb_transcript_source.v1''),
      (''owner'', JStr ''couchdb-transcript-source''), (''provider'', JStr provider), (''project'', JStr canonical_project),
      (''session_id_hash'', JStr session_id_hash), (''source_locator_hash'', JStr source_locator_hash),
      (''redaction_version'', JStr redaction_version)]))))"

definition dict_update :: "dict \<Rightarrow> dict \<Rightarrow> dict" where
  "dict_update d e = fold (\<lambda>(k, v) d. set_item d k v) e d"

text \<open>\<open>str(metadata.get(k) or source.get(k) or "")\<close>: the second lookup happens only when the first is falsy.\<close>

definition label_of :: "json \<Rightarrow> json \<Rightarrow> string \<Rightarrow> string result" where
  "label_of metadata source k =
    bind_result (dict_get metadata k) (\<lambda>v.
      if truthy v then Inr (py_str v) else bind_result (dict_get source k) (\<lambda>w. Inr (str_or_empty w)))"

text \<open>\<open>dict(x)\<close>; a list of pairs is not read as the items of a dict.\<close>

fun dict_copy :: "json \<Rightarrow> dict result" where
  "dict_copy (JObj d) = Inr d"
| "dict_copy (JArr []) = Inr []"
| "dict_copy (JStr s) = (if s = '''' then Inr [] else Inl (ValueError ''dict''))"
| "dict_copy _ = Inl (TypeError ''dict'')"

definition wire_identity :: "dict \<Rightarrow> string" where
  "wire_identity payload = sha256_hash (json_dumps_raw (JObj payload))"

definition procedural_fields :: "dict \<Rightarrow> string \<Rightarrow> string \<Rightarrow> dict \<Rightarrow> dict \<Rightarrow> dict" where
  "procedural_fields payload job body original source =
    [(''body'', JStr body), (''content_hash'', JStr (py_str (get_item payload ''contentHash''))),
     (''original_document'', JObj original), (''source'', JObj source), (''document_kind'', JStr REPO_USAGE_PATTERN),
     (''target_profile'', JStr ''index-procedural-memory''), (''processing_stage'', JStr ''raw_source_stored''),
     (''authority'', JStr ''non_authoritative_original''), (''recall_eligible'', JBool False),
     (''projection_enabled'', JBool False),
     (''provenance'', JObj [(''job_id'', JStr job),
       (''original_idempotency_key'', JStr (py_str (get_item payload ''idempotencyKey''))),
       (''wire_identity_hash'', JStr (wire_identity payload))])]"

definition source_label_matches :: "json \<Rightarrow> string \<Rightarrow> string \<Rightarrow> unit result" where
  "source_label_matches source k label =
    bind_result (dict_get source k) (\<lambda>v.
      if truthy v \<and> v \<noteq> JStr label then Inl (ValueError (''procedural source '' @ k @ '' mismatch'')) else Inr ())"

definition build_repo_usage_pattern_document :: "dict \<Rightarrow> string \<Rightarrow> dict result" where
  "build_repo_usage_pattern_document payload job =
    bind_result (require (get_item payload ''kind'' = JStr REPO_USAGE_PATTERN
        \<and> get_item payload ''targetProfile'' = JStr ''index-procedural-memory'') ''unsupported procedural source destination'') (\<lambda>_.
    bind_result (json_item (JObj payload) ''payload'') (\<lambda>package.
    bind_result (json_item package ''document'') (\<lambda>original.
    bind_result (json_item original ''metadata'') (\<lambda>metadata.
    bind_result (json_item (JObj payload) ''source'') (\<lambda>source.
    bind_result (json_item original ''body'') (\<lambda>body_value.
      (let body = py_str body_value
       in bind_result (assert_source_text_clean body) (\<lambda>_.
          bind_result (require (JStr (sha256_hash body) = get_item payload ''contentHash'') ''procedural source content hash mismatch'') (\<lambda>_.
          bind_result (label_of metadata source ''provider'') (\<lambda>provider.
          bind_result (label_of metadata source ''project'') (\<lambda>project.
          bind_result (require (provider \<noteq> '''' \<and> project \<noteq> '''' \<and> job \<noteq> '''') ''procedural source provenance is required'') (\<lambda>_.
          bind_result (repo_usage_pattern_doc_id (str_or_empty (get_item payload ''idempotencyKey''))) (\<lambda>doc_id.
          bind_result (dict_get metadata ''session_id_hash'') (\<lambda>session.
          bind_result (json_item package ''redactionVersion'') (\<lambda>redaction_version.
          bind_result (base_document REPO_USAGE_PATTERN doc_id provider project (str_or_empty session) '''' (py_str redaction_version)) (\<lambda>doc.
          bind_result (dict_copy original) (\<lambda>original_document.
          bind_result (dict_copy source) (\<lambda>source_copy.
          bind_result (source_label_matches source ''provider'' provider) (\<lambda>_.
          bind_result (source_label_matches source ''project'' project) (\<lambda>_.
            finalize (dict_update doc (procedural_fields payload job body original_document source_copy))))))))))))))))))))))"

record transcript_session =
  ts_session_id_hash :: string
  ts_provider :: string
  ts_project :: string
  ts_started_at :: string
  ts_ended_at :: string
  ts_source_status :: string
  ts_source_locator_hash :: string
  ts_observed_at_start :: string
  ts_observed_at_end :: string
  ts_source_hash :: string
  ts_materialized_at :: string

definition session_post_init :: "transcript_session \<Rightarrow> transcript_session result" where
  "session_post_init s =
    bind_result (canonicalize_project (ts_project s)) (\<lambda>project.
      Inr (s\<lparr>ts_provider := canonicalize_provider (ts_provider s), ts_project := project,
        ts_observed_at_start := str_or (ts_observed_at_start s) (ts_started_at s),
        ts_observed_at_end := str_or (ts_observed_at_end s) (ts_ended_at s)\<rparr>))"

definition build_transcript_session_document :: "transcript_session \<Rightarrow> dict result" where
  "build_transcript_session_document s =
    bind_result (base_document TRANSCRIPT_SESSION (session_doc_id (ts_session_id_hash s)) (ts_provider s) (ts_project s)
        (ts_session_id_hash s) (ts_source_locator_hash s) DEFAULT_REDACTION_VERSION) (\<lambda>doc.
      finalize (dict_update doc
        [(''started_at'', JStr (ts_started_at s)), (''ended_at'', JStr (ts_ended_at s)),
         (''observed_at_start'', JStr (ts_observed_at_start s)), (''observed_at_end'', JStr (ts_observed_at_end s)),
         (''source_hash'', JStr (ts_source_hash s)), (''materialized_at'', JStr (ts_materialized_at s)),
         (''source_status'', JStr (ts_source_status s))]))"

record source_chunk =
  sc_chunk_id :: string
  sc_session_id_hash :: string
  sc_provider :: string
  sc_project :: string
  sc_turn_start_index :: int
  sc_turn_end_index :: int
  sc_redacted_text :: string
  sc_content_hash :: string
  sc_redaction_version :: string
  sc_source_status :: string
  sc_part_index :: int
  sc_part_count :: int
  sc_char_start :: int
  sc_char_end :: int
  sc_observed_at_start :: string
  sc_observed_at_end :: string

definition chunk_post_init :: "source_chunk \<Rightarrow> source_chunk result" where
  "chunk_post_init c =
    bind_result (canonicalize_project (sc_project c)) (\<lambda>project.
      Inr (c\<lparr>sc_provider := canonicalize_provider (sc_provider c), sc_project := project,
        sc_redacted_text := redact_text_v2 (sc_redacted_text c),
        sc_content_hash := sha256_hash (redact_text_v2 (sc_redacted_text c))\<rparr>))"

definition build_conversation_chunk_document :: "source_chunk \<Rightarrow> string \<Rightarrow> dict result" where
  "build_conversation_chunk_document c source_locator_hash =
    (let body = redact_public_ingress_text (sc_redacted_text c)
     in bind_result (assert_source_text_clean body) (\<lambda>_.
        bind_result (base_document CONVERSATION_CHUNK (conversation_chunk_doc_id (sc_session_id_hash c) (sc_chunk_id c))
          (sc_provider c) (sc_project c) (sc_session_id_hash c) source_locator_hash (sc_redaction_version c)) (\<lambda>doc.
        finalize (dict_update doc
          [(''chunk_id'', JStr (sc_chunk_id c)), (''turn_start_index'', JInt (sc_turn_start_index c)),
           (''turn_end_index'', JInt (sc_turn_end_index c)), (''part_index'', JInt (sc_part_index c)),
           (''part_count'', JInt (sc_part_count c)), (''char_start'', JInt (sc_char_start c)),
           (''char_end'', JInt (sc_char_end c)), (''observed_at_start'', JStr (sc_observed_at_start c)),
           (''observed_at_end'', JStr (sc_observed_at_end c)), (''content_hash'', JStr (sha256_hash body)),
           (''source_status'', JStr (sc_source_status c)), (''body'', JStr body)]))))"

record evidence_bundle =
  eb_session_id_hash :: string
  eb_provider :: string
  eb_project :: string
  eb_part_index :: int
  eb_part_count :: int
  eb_evidence_index_start :: int
  eb_evidence_index_end :: int
  eb_record_content_hashes :: "string list"
  eb_body :: string
  eb_observed_at_start :: string
  eb_observed_at_end :: string
  eb_source_locator_hash :: string
  eb_redaction_version :: string

definition build_tool_evidence_bundle_document :: "evidence_bundle \<Rightarrow> dict result" where
  "build_tool_evidence_bundle_document b =
    bind_result (require (\<not> eb_evidence_index_start b > eb_evidence_index_end b)
        ''evidence_index_start must be <= evidence_index_end'') (\<lambda>_.
    bind_result (assert_source_text_clean (eb_body b)) (\<lambda>_.
    bind_result (base_document TOOL_EVIDENCE_BUNDLE (tool_evidence_bundle_doc_id (eb_session_id_hash b) (eb_part_index b))
        (eb_provider b) (eb_project b) (eb_session_id_hash b) (eb_source_locator_hash b) (eb_redaction_version b)) (\<lambda>doc.
      finalize (dict_update doc
        [(''part_index'', JInt (eb_part_index b)), (''part_count'', JInt (eb_part_count b)),
         (''evidence_index_start'', JInt (eb_evidence_index_start b)), (''evidence_index_end'', JInt (eb_evidence_index_end b)),
         (''evidence_count'', JInt (int (length (eb_record_content_hashes b)))),
         (''record_content_hashes'', JArr (map JStr (eb_record_content_hashes b))),
         (''coverage_hash'', JStr (build_coverage_hash (eb_record_content_hashes b))),
         (''content_hash'', JStr (sha256_hash (eb_body b))), (''observed_at_start'', JStr (eb_observed_at_start b)),
         (''observed_at_end'', JStr (str_or (eb_observed_at_end b) (eb_observed_at_start b))), (''body'', JStr (eb_body b))]))))"

record coverage_input =
  cv_session_id_hash :: string
  cv_provider :: string
  cv_project :: string
  cv_conversation_chunk_count :: int
  cv_tool_evidence_bundle_count :: int
  cv_conversation_content_hashes :: "string list"
  cv_tool_evidence_coverage_hashes :: "string list"
  cv_source_locator_hash :: string
  cv_ledger_comparison :: dict
  cv_project_authority :: dict
  cv_observed_at_start :: string
  cv_observed_at_end :: string
  cv_conversation_revision_tokens :: "string list"
  cv_tool_evidence_revision_tokens :: "string list"

definition build_coverage_manifest_document :: "coverage_input \<Rightarrow> dict result" where
  "build_coverage_manifest_document c =
    bind_result (base_document COVERAGE_MANIFEST (coverage_manifest_doc_id (cv_session_id_hash c)) (cv_provider c) (cv_project c)
        (cv_session_id_hash c) (cv_source_locator_hash c) DEFAULT_REDACTION_VERSION) (\<lambda>doc.
      finalize (dict_update doc
        [(''conversation_chunk_count'', JInt (cv_conversation_chunk_count c)),
         (''tool_evidence_bundle_count'', JInt (cv_tool_evidence_bundle_count c)),
         (''conversation_coverage_hash'', JStr (build_coverage_hash (cv_conversation_content_hashes c))),
         (''tool_evidence_coverage_hash'', JStr (build_coverage_hash (cv_tool_evidence_coverage_hashes c))),
         (''source_hash'', JStr (build_source_hash (cv_conversation_content_hashes c) (cv_tool_evidence_coverage_hashes c)
           (cv_observed_at_start c) (cv_observed_at_end c) (cv_conversation_revision_tokens c) (cv_tool_evidence_revision_tokens c))),
         (''observed_at_start'', JStr (cv_observed_at_start c)), (''observed_at_end'', JStr (cv_observed_at_end c)),
         (''ledger_comparison'', JObj (cv_ledger_comparison c)), (''project_authority'', JObj (cv_project_authority c))]))"

record projection_input =
  pj_session_id_hash :: string
  pj_provider :: string
  pj_project :: string
  pj_projection_status :: string
  pj_target_profile :: string
  pj_session_memory_knowledge_id :: string
  pj_active_content_hash :: string
  pj_failure_reason :: string
  pj_source_locator_hash :: string
  pj_source_hash :: string
  pj_projected_source_hash :: string
  pj_materialized_at :: string

definition build_projection_state_document :: "projection_input \<Rightarrow> dict result" where
  "build_projection_state_document p =
    bind_result (assert_index_target_allowed (pj_target_profile p)) (\<lambda>_.
    bind_result (require (pj_projection_status p \<in> set PROJECTION_STATUSES)
        (''unknown projection_status: '' @ pj_projection_status p)) (\<lambda>_.
    bind_result (require (\<not> (pj_projection_status p = ''projected'' \<and> pj_active_content_hash p = ''''))
        ''active_content_hash is required for projected state'') (\<lambda>_.
    bind_result (assert_hash_unless_empty ''active_content_hash'' (pj_active_content_hash p)) (\<lambda>_.
    bind_result (assert_hash_unless_empty ''source_hash'' (pj_source_hash p)) (\<lambda>_.
    bind_result (assert_hash_unless_empty ''projected_source_hash'' (pj_projected_source_hash p)) (\<lambda>_.
    bind_result (base_document PROJECTION_STATE (projection_state_doc_id (pj_session_id_hash p)) (pj_provider p) (pj_project p)
        (pj_session_id_hash p) (pj_source_locator_hash p) DEFAULT_REDACTION_VERSION) (\<lambda>doc.
      finalize (dict_update doc
        [(''target_profile'', JStr (pj_target_profile p)), (''projection_status'', JStr (pj_projection_status p)),
         (''session_memory_knowledge_id'', JStr (pj_session_memory_knowledge_id p)),
         (''active_content_hash'', JStr (pj_active_content_hash p)), (''source_hash'', JStr (pj_source_hash p)),
         (''projected_source_hash'', JStr (pj_projected_source_hash p)), (''materialized_at'', JStr (pj_materialized_at p)),
         (''failure_reason'', JStr (pj_failure_reason p))]))))))))"

definition build_retention_manifest_document :: "string \<Rightarrow> string \<Rightarrow> string \<Rightarrow> string \<Rightarrow> string \<Rightarrow> string \<Rightarrow> dict result" where
  "build_retention_manifest_document session_id_hash provider project tier cold_archive_ref source_locator_hash =
    bind_result (require (tier \<in> set RETENTION_TIERS) (''unknown retention tier: '' @ tier)) (\<lambda>_.
    bind_result (require (\<not> (tier = ''cold_archive_ref'' \<and> cold_archive_ref = ''''))
        ''cold_archive_ref is required for the cold_archive_ref tier'') (\<lambda>_.
    bind_result (base_document RETENTION_MANIFEST (retention_manifest_doc_id session_id_hash) provider project
        session_id_hash source_locator_hash DEFAULT_REDACTION_VERSION) (\<lambda>doc.
      finalize (dict_update doc [(''tier'', JStr tier), (''cold_archive_ref'', JStr cold_archive_ref)]))))"

end
