(* ===== verification/Source_Store.thy ===== *)
theory Source_Store
  imports Source_Model "HOL-Library.AList"
begin

text \<open>
  The source store of \<open>couchdb_source/source_store.py\<close>: the identity hash of a document, the checks
  before a write, the immutability rules and the operations of \<open>InMemoryCouchDBSourceStore\<close>, which
  is the reference of the store protocol.  Its documents are a dict from identifiers to
  documents, so a list of pairs with distinct keys in insertion order.  An operation that
  raises has not written, so each is a transaction on the store.  Whether an active source revision
  pins a document is decided by \<open>source_revision.py\<close>; what resolving it gives is the argument
  \<open>resolve\<close>.  The cumulative merge of session documents and the paged queries are left out.

  Shown here: the invariant of the store, the compare-and-set contract of \<open>put_if_revision\<close>, that
  repeating a write changes nothing, and that immutable documents stay as they are.
\<close>

section \<open>Immutable documents\<close>

definition IMMUTABLE_SOURCE_REVISION_DOC_TYPES :: "string list" where
  "IMMUTABLE_SOURCE_REVISION_DOC_TYPES = [REPO_USAGE_PATTERN, SOURCE_REVISION_MEMBER, SOURCE_REVISION_MANIFEST]"

definition SOURCE_REVISION_MEMBER_SOURCE_DOC_TYPES :: "string list" where
  "SOURCE_REVISION_MEMBER_SOURCE_DOC_TYPES = [TRANSCRIPT_SESSION, CONVERSATION_CHUNK, TOOL_EVIDENCE_BUNDLE]"

definition is_revision_scoped_source_copy :: "dict \<Rightarrow> bool" where
  "is_revision_scoped_source_copy document \<longleftrightarrow>
    map_of document ''source_snapshot_schema_version'' \<noteq> None \<or> map_of document ''current_source_scope'' \<noteq> None"

definition is_immutable_source_document :: "dict \<Rightarrow> bool" where
  "is_immutable_source_document document \<longleftrightarrow>
    get_item document ''doc_type'' \<in> JStr ` set IMMUTABLE_SOURCE_REVISION_DOC_TYPES \<or> is_revision_scoped_source_copy document"

section \<open>The identity of a document\<close>

definition structured_payload_hash :: "dict \<Rightarrow> string" where
  "structured_payload_hash identity = sha256_ref (json_dumps (JObj identity))"

definition BOOKKEEPING_KEYS :: "string list" where
  "BOOKKEEPING_KEYS = [''_id'', ''_rev'', ''idempotency_key'', ''payload_hash'']"

definition without_keys :: "string list \<Rightarrow> dict \<Rightarrow> dict" where
  "without_keys ks d = filter (\<lambda>(k, _). k \<notin> set ks) d"

definition text_item :: "dict \<Rightarrow> string \<Rightarrow> string \<times> json" where
  "text_item document k = (k, JStr (str_or_empty (get_item document k)))"

fun int_items :: "dict \<Rightarrow> string list \<Rightarrow> dict result" where
  "int_items document [] = Inr []"
| "int_items document (k # ks) =
    bind_result (int_or (get_item document k) 0) (\<lambda>i. bind_result (int_items document ks) (\<lambda>rest. Inr ((k, JInt i) # rest)))"

text \<open>\<open>repr(sorted(payload.items()))\<close>; the keys differ, so the values are never compared.\<close>

definition items_repr :: "dict \<Rightarrow> string" where
  "items_repr d = ''['' @ join '', '' (map (\<lambda>(k, v). ''('' @ repr_string k @ '', '' @ py_repr v @ '')'') (sort_key fst d)) @ '']''"

definition payload_hash :: "dict \<Rightarrow> string result" where
  "payload_hash document =
    (let doc_type = str_or_empty (get_item document ''doc_type'');
         window = [text_item document ''observed_at_start'', text_item document ''observed_at_end'']
     in if doc_type = REPO_USAGE_PATTERN then Inr (structured_payload_hash (without_keys BOOKKEEPING_KEYS document))
        else if doc_type = TOOL_EVIDENCE_BUNDLE
        then Inr (structured_payload_hash
          ([(''doc_type'', JStr doc_type), text_item document ''content_hash'', text_item document ''coverage_hash''] @ window))
        else if doc_type = CONVERSATION_CHUNK
        then bind_result (int_items document [''turn_start_index'', ''turn_end_index'', ''part_index'', ''part_count'', ''char_start'', ''char_end''])
          (\<lambda>position. Inr (structured_payload_hash
            ([(''doc_type'', JStr doc_type), text_item document ''content_hash''] @ window @ position)))
        else if truthy (get_item document ''content_hash'')
        then Inr (structured_payload_hash (text_item document ''content_hash'' # window))
        else if truthy (get_item document ''coverage_hash'')
        then Inr (structured_payload_hash (text_item document ''coverage_hash'' # window))
        else Inr (sha256_ref (items_repr (without_keys BOOKKEEPING_KEYS document))))"

definition record_of_document :: "dict \<Rightarrow> string \<Rightarrow> existing_record" where
  "record_of_document d h =
    \<lparr>ex_accept_outcome = str_or_empty (get_item d ''accept_outcome''), ex_outcome = str_or_empty (get_item d ''outcome''),
     ex_status = str_or_empty (get_item d ''status''), ex_idempotency_key = str_or_empty (get_item d ''idempotency_key''),
     ex_payload_hash = h\<rparr>"

definition classify_document_idempotency :: "dict option \<Rightarrow> string \<Rightarrow> string \<Rightarrow> idempotency_decision result" where
  "classify_document_idempotency existing doc_id incoming_hash =
    (case existing of
       None \<Rightarrow> classify_idempotency None doc_id incoming_hash
     | Some d \<Rightarrow> bind_result (payload_hash d) (\<lambda>h. classify_idempotency (Some (record_of_document d h)) doc_id incoming_hash))"

section \<open>Checks before a write\<close>

definition procedural_contract :: "dict \<Rightarrow> unit result" where
  "procedural_contract document =
    bind_result (dict_get (py_or (get_item document ''provenance'') (JObj [])) ''original_idempotency_key'') (\<lambda>key.
    bind_result (repo_usage_pattern_doc_id (str_or_empty key)) (\<lambda>expected_id.
      (let violated = Inl (SourceStoreError ''procedural original authority contract is invalid'')
       in if py_str (get_item document ''_id'') \<noteq> expected_id
            \<or> get_item document ''authority'' \<noteq> JStr ''non_authoritative_original''
            \<or> get_item document ''recall_eligible'' \<noteq> JBool False
            \<or> get_item document ''projection_enabled'' \<noteq> JBool False
            \<or> get_item document ''processing_stage'' \<noteq> JStr ''raw_source_stored''
            \<or> get_item document ''document_kind'' \<noteq> JStr REPO_USAGE_PATTERN
            \<or> get_item document ''target_profile'' \<noteq> JStr ''index-procedural-memory''
            \<or> list_ex (\<lambda>k. map_of document k \<noteq> None) [''accepted'', ''current'', ''card_type'', ''typed_payload'']
            \<or> get_item document ''content_hash'' \<noteq> JStr (sha256_hash (str_or_empty (get_item document ''body'')))
          then violated
          else bind_result (dict_get (py_or (get_item document ''original_document'') (JObj [])) ''body'') (\<lambda>body.
            if \<not> json_eq body (get_item document ''body'') then violated
            else bind_result (assert_hash_like ''session_id_hash'' (str_or_empty (get_item document ''session_id_hash''))) (\<lambda>_.
              bind_result (finalize document) (\<lambda>_. Inr ()))))))"

definition pointer_contract :: "dict \<Rightarrow> unit result" where
  "pointer_contract document =
    (let session_id_hash = str_or_empty (get_item document ''session_id_hash'');
         invalid = Inl (SourceStoreError ''active source revision pointer id is invalid'')
     in case assert_hash_like ''session_id_hash'' session_id_hash of
          Inl _ \<Rightarrow> invalid
        | Inr _ \<Rightarrow>
            if py_str (get_item document ''_id'') \<noteq> active_source_revision_pointer_doc_id session_id_hash then invalid else Inr ())"

definition validate_for_write :: "dict \<Rightarrow> unit result" where
  "validate_for_write document =
    (if \<not> truthy (get_item document ''_id'') then Inl (SourceStoreError ''document is missing a deterministic _id'')
     else let doc_type = (case map_of document ''doc_type'' of None \<Rightarrow> JStr '''' | Some v \<Rightarrow> v)
       in bind_result (assert_couchdb_owned doc_type) (\<lambda>_.
          bind_result (if doc_type = JStr REPO_USAGE_PATTERN then procedural_contract document else Inr ()) (\<lambda>_.
          bind_result (if doc_type = JStr ACTIVE_SOURCE_REVISION then pointer_contract document else Inr ()) (\<lambda>_.
          bind_result (assert_no_secret_like_metadata document) (\<lambda>_.
            (case get_item document ''body'' of
               JStr body \<Rightarrow> if body \<noteq> '''' then assert_source_text_clean body else Inr ()
             | _ \<Rightarrow> Inr ()))))))"

section \<open>The store\<close>

record mem_store =
  ms_docs :: "(string \<times> dict) list"
  ms_change_seq :: nat
  ms_changes_log :: "(nat \<times> string \<times> bool) list"

record stored_revision =
  rv_doc_id :: string
  rv_rev :: string
  rv_outcome :: string

record resolved_revision =
  rs_document_ids :: "string list"
  rs_origin_ids :: "string list"
  rs_manifest_id :: "string option"

type_synonym resolver = "mem_store \<Rightarrow> string \<Rightarrow> resolved_revision result"
type_synonym 'a store_tx = "mem_store \<Rightarrow> ('a \<times> mem_store) result"

definition new_store :: mem_store where
  "new_store = \<lparr>ms_docs = [], ms_change_seq = 0, ms_changes_log = []\<rparr>"

definition store_get :: "string \<Rightarrow> mem_store \<Rightarrow> dict option" where
  "store_get doc_id s = map_of (ms_docs s) doc_id"

definition note_change :: "string \<Rightarrow> bool \<Rightarrow> mem_store \<Rightarrow> mem_store" where
  "note_change doc_id deleted s =
    s\<lparr>ms_change_seq := ms_change_seq s + 1, ms_changes_log := ms_changes_log s @ [(ms_change_seq s + 1, doc_id, deleted)]\<rparr>"

definition write_document :: "string \<Rightarrow> dict \<Rightarrow> mem_store \<Rightarrow> mem_store" where
  "write_document doc_id stored s = note_change doc_id False (s\<lparr>ms_docs := AList.update doc_id stored (ms_docs s)\<rparr>)"

definition read_change_sequence :: "mem_store \<Rightarrow> string" where
  "read_change_sequence s = show_nat (ms_change_seq s)"

definition changes_since :: "string \<Rightarrow> int \<Rightarrow> mem_store \<Rightarrow> (string \<times> string \<times> bool) list" where
  "changes_since since limit s =
    (let start = (case py_int_of (str_or since ''0'') of Inr i \<Rightarrow> i | Inl _ \<Rightarrow> 0)
     in take (nat (max 0 limit))
          (map (\<lambda>(n, doc_id, deleted). (show_nat n, doc_id, deleted)) (filter (\<lambda>(n, _). int n > start) (ms_changes_log s))))"

definition allows_write :: "resolver \<Rightarrow> mem_store \<Rightarrow> string \<Rightarrow> dict \<Rightarrow> bool \<Rightarrow> unit result" where
  "allows_write resolve s doc_id source_document allow_active_append =
    (let doc_type = str_or_empty (get_item source_document ''doc_type'');
         session_id_hash = str_or_empty (get_item source_document ''session_id_hash'')
     in if doc_type \<notin> set SOURCE_REVISION_MEMBER_SOURCE_DOC_TYPES then Inr ()
        else if store_get (active_source_revision_pointer_doc_id session_id_hash) s = None then Inr ()
        else case resolve s session_id_hash of
          Inl (SourceRevisionResolutionError _) \<Rightarrow> Inl (SourceStoreConflict ''active source revision is invalid'')
        | Inl e \<Rightarrow> Inl e
        | Inr resolved \<Rightarrow>
            if doc_id \<in> set (rs_document_ids resolved)
            then Inl (SourceStoreConflict ''source revision member makes source document immutable'')
            else if doc_id \<in> set (rs_origin_ids resolved) \<and> \<not> allow_active_append
            then Inl (SourceStoreConflict ''active source revision requires an explicit successor'')
            else Inr ())"

text \<open>Revisions: a counter and a piece of the hash.\<close>

definition after_colon :: "string \<Rightarrow> string" where
  "after_colon h = (case dropWhile (\<lambda>c. c \<noteq> CHR '':'') h of [] \<Rightarrow> h | _ # rest \<Rightarrow> rest)"

definition rev_text :: "int \<Rightarrow> string \<Rightarrow> string" where
  "rev_text n incoming_hash = show_int n @ ''-'' @ take 12 (after_colon incoming_hash)"

definition next_rev_number :: "string \<Rightarrow> int result" where
  "next_rev_number rv = bind_result (py_int_of (takeWhile (\<lambda>c. c \<noteq> CHR ''-'') rv)) (\<lambda>n. Inr (n + 1))"

definition stamp :: "dict \<Rightarrow> string \<Rightarrow> string \<Rightarrow> string \<Rightarrow> dict" where
  "stamp document rv doc_id incoming_hash =
    set_item (set_item (set_item document ''_rev'' (JStr rv)) ''idempotency_key'' (JStr doc_id)) ''payload_hash'' (JStr incoming_hash)"

definition revision :: "string \<Rightarrow> string \<Rightarrow> string \<Rightarrow> stored_revision" where
  "revision doc_id rv oc = \<lparr>rv_doc_id = doc_id, rv_rev = rv, rv_outcome = oc\<rparr>"

definition put_if_absent :: "resolver \<Rightarrow> dict \<Rightarrow> stored_revision store_tx" where
  "put_if_absent resolve document s =
    bind_result (validate_for_write document) (\<lambda>_.
    bind_result (json_item (JObj document) ''_id'') (\<lambda>id_value.
      (let doc_id = py_str id_value
       in bind_result (payload_hash document) (\<lambda>incoming_hash.
          case store_get doc_id s of
            Some existing \<Rightarrow>
              bind_result (classify_document_idempotency (Some existing) doc_id incoming_hash) (\<lambda>decision.
                if outcome decision = DUPLICATE
                then Inr (revision doc_id (str_or_empty (get_item existing ''_rev'')) ''duplicate'', s)
                else bind_result (allows_write resolve s doc_id existing True) (\<lambda>_.
                  Inl (SourceStoreConflict ''immutable source document already exists'')))
          | None \<Rightarrow>
              bind_result (allows_write resolve s doc_id document True) (\<lambda>_.
                (let rv = rev_text 1 incoming_hash
                 in Inr (revision doc_id rv ''accepted'', write_document doc_id (stamp document rv doc_id incoming_hash) s)))))))"

definition put :: "resolver \<Rightarrow> dict \<Rightarrow> stored_revision store_tx" where
  "put resolve document s =
    bind_result (validate_for_write document) (\<lambda>_.
      if is_immutable_source_document document then put_if_absent resolve document s
      else bind_result (json_item (JObj document) ''_id'') (\<lambda>id_value.
        (let doc_id = py_str id_value
         in bind_result (payload_hash document) (\<lambda>incoming_hash.
            (let existing = store_get doc_id s
             in bind_result (classify_document_idempotency existing doc_id incoming_hash) (\<lambda>decision.
                case existing of
                  None \<Rightarrow>
                    bind_result (allows_write resolve s doc_id document False) (\<lambda>_.
                      (let rv = rev_text 1 incoming_hash
                       in Inr (revision doc_id rv ''accepted'', write_document doc_id (stamp document rv doc_id incoming_hash) s)))
                | Some current \<Rightarrow>
                    if outcome decision = DUPLICATE
                    then bind_result (json_item (JObj current) ''_rev'') (\<lambda>rv. Inr (revision doc_id (py_str rv) ''duplicate'', s))
                    else if is_immutable_source_document current
                    then Inl (SourceStoreConflict ''immutable source document already exists'')
                    else bind_result (allows_write resolve s doc_id current False) (\<lambda>_.
                      bind_result (json_item (JObj current) ''_rev'') (\<lambda>old_rev.
                      bind_result (next_rev_number (py_str old_rev)) (\<lambda>n.
                        (let rv = rev_text n incoming_hash
                         in Inr (revision doc_id rv ''conflict_resolved'',
                              write_document doc_id (stamp document rv doc_id incoming_hash) s)))))))))))"

definition get_bounded :: "string \<Rightarrow> int \<Rightarrow> mem_store \<Rightarrow> dict option result" where
  "get_bounded doc_id max_response_bytes s =
    (case store_get doc_id s of
       None \<Rightarrow> Inr None
     | Some stored \<Rightarrow>
         if max_response_bytes < 1 then Inl (ValueError ''bounded GET byte limit must be positive'')
         else if int (length (json_dumps (JObj stored))) > max_response_bytes
         then Inl (SourceStoreResponseTooLarge ''bounded GET response byte limit exceeded'')
         else Inr (Some stored))"

definition put_if_revision :: "resolver \<Rightarrow> dict \<Rightarrow> string \<Rightarrow> stored_revision store_tx" where
  "put_if_revision resolve document expected_rev s =
    bind_result (validate_for_write document) (\<lambda>_.
      if get_item document ''doc_type'' \<in> JStr ` set IMMUTABLE_SOURCE_REVISION_DOC_TYPES
      then Inl (SourceStoreConflict ''immutable source document must be additive'')
      else bind_result (json_item (JObj document) ''_id'') (\<lambda>id_value.
        (let doc_id = py_str id_value;
             current = store_get doc_id s;
             current_rev = (case current of None \<Rightarrow> '''' | Some d \<Rightarrow> str_or_empty (get_item d ''_rev''));
             source_document = (case current of None \<Rightarrow> document | Some d \<Rightarrow> d)
         in if current_rev \<noteq> expected_rev then Inl (SourceStoreConflict ''conditional source revision changed'')
            else bind_result (payload_hash document) (\<lambda>incoming_hash.
              bind_result (classify_document_idempotency current doc_id incoming_hash) (\<lambda>decision.
                if current \<noteq> None \<and> outcome decision = DUPLICATE then Inr (revision doc_id current_rev ''duplicate'', s)
                else bind_result (allows_write resolve s doc_id source_document False) (\<lambda>_.
                  if is_revision_scoped_source_copy document \<or> (current \<noteq> None \<and> is_revision_scoped_source_copy source_document)
                  then Inl (SourceStoreConflict ''immutable source document must be additive'')
                  else bind_result (if current_rev \<noteq> '''' then next_rev_number current_rev else Inr 1) (\<lambda>n.
                    (let rv = rev_text n incoming_hash
                     in Inr (revision doc_id rv (if current \<noteq> None then ''conflict_resolved'' else ''accepted''),
                          write_document doc_id (stamp (without_keys [''_rev''] document) rv doc_id incoming_hash) s)))))))))"

record temporal_patch =
  tp_doc_id :: string
  tp_content_hash :: string
  tp_expected_rev :: string
  tp_observed_at_start :: string
  tp_observed_at_end :: string
  tp_expected_locator :: "string option"
  tp_replacement_locator :: "string option"

definition patch_applies :: "temporal_patch \<Rightarrow> dict \<Rightarrow> unit result" where
  "patch_applies p current =
    (if str_or_empty (get_item current ''content_hash'') \<noteq> tp_content_hash p
     then Inl (SourceStoreConflict ''conditional temporal patch content changed'')
     else if tp_expected_rev p = '''' \<or> str_or_empty (get_item current ''_rev'') \<noteq> tp_expected_rev p
     then Inl (SourceStoreConflict ''conditional temporal patch revision changed'')
     else if tp_expected_locator p \<noteq> None \<and> tp_expected_locator p \<noteq> Some (str_or_empty (get_item current ''source_locator_hash''))
     then Inl (SourceStoreConflict ''conditional temporal patch locator changed'')
     else Inr ())"

definition patch_observed_time_if_content_hash :: "resolver \<Rightarrow> temporal_patch \<Rightarrow> stored_revision store_tx" where
  "patch_observed_time_if_content_hash resolve p s =
    bind_result (case tp_replacement_locator p of None \<Rightarrow> Inr () | Some h \<Rightarrow> assert_hash_like ''replacement_source_locator_hash'' h) (\<lambda>_.
    case store_get (tp_doc_id p) s of
      None \<Rightarrow> Inl (SourceStoreConflict ''conditional temporal patch source is missing'')
    | Some current \<Rightarrow>
        bind_result (patch_applies p current) (\<lambda>_.
          (let locator = str_or_empty (get_item current ''source_locator_hash'');
               keeps_locator = (tp_replacement_locator p = None \<or> tp_replacement_locator p = Some locator);
               current_rev = str_or_empty (get_item current ''_rev'')
           in if str_or_empty (get_item current ''observed_at_start'') = tp_observed_at_start p
                \<and> str_or_empty (get_item current ''observed_at_end'') = tp_observed_at_end p \<and> keeps_locator
              then Inr (revision (tp_doc_id p) current_rev ''duplicate'', s)
              else bind_result (allows_write resolve s (tp_doc_id p) current False) (\<lambda>_.
                (let updated = set_item (set_item (without_keys [''_rev'', ''idempotency_key'', ''payload_hash''] current)
                       ''observed_at_start'' (JStr (tp_observed_at_start p))) ''observed_at_end'' (JStr (tp_observed_at_end p))
                 in if keeps_locator then put resolve updated s
                    else let relocated = set_item updated ''source_locator_hash'' (JStr (the (tp_replacement_locator p)))
                      in bind_result (validate_for_write relocated) (\<lambda>_.
                         bind_result (payload_hash relocated) (\<lambda>incoming_hash.
                         bind_result (next_rev_number current_rev) (\<lambda>n.
                           (let rv = rev_text n incoming_hash
                            in Inr (revision (tp_doc_id p) rv ''conflict_resolved'',
                                 write_document (tp_doc_id p) (stamp relocated rv (tp_doc_id p) incoming_hash) s))))))))))"

definition find_by_session :: "string \<Rightarrow> string \<Rightarrow> mem_store \<Rightarrow> dict list" where
  "find_by_session session_id_hash doc_type s =
    sort_key (\<lambda>d. py_str (get_item d ''_id'')) (filter (\<lambda>d. get_item d ''session_id_hash'' = JStr session_id_hash
      \<and> (if doc_type \<noteq> '''' then get_item d ''doc_type'' = JStr doc_type else get_item d ''doc_type'' \<noteq> JStr REPO_USAGE_PATTERN))
      (map snd (ms_docs s)))"

text \<open>
  Deleting: an immutable document and a pointer stay; so does a document that the active revision
  needs.  The second read of the pointer sees the same store here.
\<close>

definition member_ids :: "dict \<Rightarrow> string list result" where
  "member_ids manifest =
    bind_result (json_item (JObj manifest) ''members'') (\<lambda>members.
      case members of
        JArr xs \<Rightarrow> (if list_all is_dict xs then Inr (map (\<lambda>m. str_or_empty (get_item (dict_of m) ''member_id'')) xs)
          else Inl (AttributeError ''get''))
      | _ \<Rightarrow> Inl (TypeError ''not iterable''))"

definition allows_delete :: "resolver \<Rightarrow> mem_store \<Rightarrow> dict \<Rightarrow> unit result" where
  "allows_delete resolve s document =
    (let session_id_hash = str_or_empty (get_item document ''session_id_hash'');
         pointer_id = active_source_revision_pointer_doc_id session_id_hash;
         invalid = Inl (SourceStoreConflict ''active source revision is invalid'')
     in if is_immutable_source_document document \<or> get_item document ''doc_type'' = JStr ACTIVE_SOURCE_REVISION
        then Inl (SourceStoreConflict ''active source revision document is immutable and cannot be deleted'')
        else if session_id_hash = '''' \<or> store_get pointer_id s = None then Inr ()
        else case resolve s session_id_hash of
          Inl (SourceRevisionResolutionError _) \<Rightarrow> invalid
        | Inl e \<Rightarrow> Inl e
        | Inr resolved \<Rightarrow>
            (case rs_manifest_id resolved of
               None \<Rightarrow> invalid
             | Some manifest_id \<Rightarrow>
                 (case store_get manifest_id s of
                    None \<Rightarrow> invalid
                  | Some manifest \<Rightarrow> bind_result (member_ids manifest) (\<lambda>members.
                      if str_or_empty (get_item document ''_id'') \<in> set (pointer_id # manifest_id # members @ rs_document_ids resolved)
                      then Inl (SourceStoreConflict ''active source revision document cannot be deleted'')
                      else Inr ()))))"

definition store_delete :: "resolver \<Rightarrow> string \<Rightarrow> bool store_tx" where
  "store_delete resolve doc_id s =
    (case store_get doc_id s of
       None \<Rightarrow> Inr (False, s)
     | Some existing \<Rightarrow>
         bind_result (allows_delete resolve s existing) (\<lambda>_.
           Inr (True, note_change doc_id True (s\<lparr>ms_docs := AList.delete doc_id (ms_docs s)\<rparr>))))"

section \<open>Stamps do not change the identity of a document\<close>

lemma get_item_without [simp]: "get_item (without_keys ks d) k = (if k \<in> set ks then JNull else get_item d k)"
  by (induction d) (auto simp: without_keys_def split: if_splits)

lemma without_set_item: "k \<in> set ks \<Longrightarrow> without_keys ks (set_item d k v) = without_keys ks d"
  by (induction d k v rule: set_item.induct) (auto simp: without_keys_def)

lemma without_without: "set js \<subseteq> set ks \<Longrightarrow> without_keys ks (without_keys js d) = without_keys ks d"
  by (auto simp: without_keys_def intro: filter_cong)

lemma get_item_stamp [simp]:
  "get_item (stamp d rv i h) k = (if k = ''payload_hash'' then JStr h else if k = ''idempotency_key'' then JStr i
     else if k = ''_rev'' then JStr rv else get_item d k)"
  by (simp add: stamp_def)

lemma int_items_cong: "(\<And>k. k \<in> set ks \<Longrightarrow> get_item d k = get_item e k) \<Longrightarrow> int_items d ks = int_items e ks"
  by (induction ks) auto

lemma payload_hash_cong:
  assumes "\<And>k. k \<notin> set BOOKKEEPING_KEYS \<Longrightarrow> get_item d k = get_item e k"
    and "without_keys BOOKKEEPING_KEYS d = without_keys BOOKKEEPING_KEYS e"
  shows "payload_hash d = payload_hash e"
proof -
  have i: "int_items d [''turn_start_index'', ''turn_end_index'', ''part_index'', ''part_count'', ''char_start'', ''char_end''] =
      int_items e [''turn_start_index'', ''turn_end_index'', ''part_index'', ''part_count'', ''char_start'', ''char_end'']"
    by (rule int_items_cong) (auto intro!: assms(1) simp: BOOKKEEPING_KEYS_def)
  have g: "get_item d k = get_item e k" if "k \<in> {''doc_type'', ''content_hash'', ''coverage_hash'', ''observed_at_start'', ''observed_at_end''}" for k
    using that by (intro assms(1)) (auto simp: BOOKKEEPING_KEYS_def)
  show ?thesis by (simp add: payload_hash_def Let_def text_item_def g i assms(2) del: int_items.simps)
qed

lemma payload_hash_stamp [simp]: "payload_hash (stamp d rv i h) = payload_hash d"
  by (rule payload_hash_cong) (auto simp: BOOKKEEPING_KEYS_def stamp_def without_set_item)

lemma payload_hash_unrevised [simp]: "payload_hash (without_keys [''_rev''] d) = payload_hash d"
  by (rule payload_hash_cong) (auto simp: BOOKKEEPING_KEYS_def without_without)

section \<open>Revisions\<close>

lemma py_strip_plain: "list_all (\<lambda>c. \<not> is_space c) s \<Longrightarrow> py_strip s = s"
proof -
  assume a: "list_all (\<lambda>c. \<not> is_space c) s"
  then have d: "dropWhile is_space t = t" if "set t \<subseteq> set s" for t using that by (cases t) (auto simp: list_all_iff)
  show ?thesis using d [of s] d [of "rev s"] by (simp add: py_strip_def)
qed

lemma digit_char: "is_digit_char c \<Longrightarrow> \<not> is_space c \<and> c \<noteq> CHR ''-'' \<and> c \<noteq> CHR ''+'' \<and> c \<noteq> CHR ''_''"
  by (auto simp: is_digit_char_def is_space_def code_def)

lemma py_int_of_show_nat [simp]: "py_int_of (show_nat n) = Inr (int n)"
proof -
  have d: "list_all is_digit_char (show_nat n)" using show_nat_digits by (auto simp: list_all_iff)
  have "list_all (\<lambda>c. \<not> is_space c) (show_nat n)" using d digit_char by (simp add: list_all_iff)
  then have strip: "py_strip (show_nat n) = show_nat n" by (rule py_strip_plain)
  have plain: "split_on (CHR ''_'') (show_nat n) = [show_nat n]" using d digit_char by (intro split_on_plain) (auto simp: list_all_iff)
  obtain a t where at: "show_nat n = a # t" using show_nat_nonempty [of n] by (cases "show_nat n") auto
  then have sign: "\<not> starts_with ''-'' (show_nat n)" "\<not> starts_with ''+'' (show_nat n)"
    using d digit_char [of a] by (simp_all add: starts_with_def)
  show ?thesis using d by (simp add: py_int_of_def Let_def strip sign plain undigits_show_nat)
qed

definition rev_of :: "dict \<Rightarrow> string" where
  "rev_of d = str_or_empty (get_item d ''_rev'')"

definition numbered :: "string \<Rightarrow> int \<Rightarrow> bool" where
  "numbered rv n \<longleftrightarrow> 1 \<le> n \<and> (\<exists>t. rv = show_int n @ ''-'' @ t)"

lemma numbered_rev_text: "1 \<le> n \<Longrightarrow> numbered (rev_text n h) n"
  by (auto simp: numbered_def rev_text_def)

lemma numbered_next: "numbered rv n \<Longrightarrow> next_rev_number rv = Inr (n + 1)"
proof -
  assume "numbered rv n"
  then obtain t where n: "1 \<le> n" and rv: "rv = show_nat (nat n) @ ''-'' @ t" by (auto simp: numbered_def show_int_def)
  have "takeWhile (\<lambda>c. c \<noteq> CHR ''-'') rv = show_nat (nat n)"
    using digit_char show_nat_digits [of _ "nat n"] unfolding rv by (subst takeWhile_append2) auto
  then show ?thesis using n by (simp add: next_rev_number_def)
qed

lemma numbered_unique: "numbered rv n \<Longrightarrow> numbered rv m \<Longrightarrow> n = m"
  using numbered_next [of rv n] numbered_next [of rv m] by simp

lemma numbered_nonempty: "numbered rv n \<Longrightarrow> rv \<noteq> ''''"
  by (auto simp: numbered_def show_int_def)

section \<open>The invariant of the store\<close>

definition doc_ok :: "string \<Rightarrow> dict \<Rightarrow> bool" where
  "doc_ok k d \<longleftrightarrow> k \<noteq> '''' \<and> py_str (get_item d ''_id'') = k \<and> get_item d ''idempotency_key'' = JStr k
    \<and> (\<exists>h. payload_hash d = Inr h \<and> get_item d ''payload_hash'' = JStr h)
    \<and> (\<exists>rv n. get_item d ''_rev'' = JStr rv \<and> numbered rv n)"

definition store_ok :: "mem_store \<Rightarrow> bool" where
  "store_ok s \<longleftrightarrow> distinct (map fst (ms_docs s)) \<and> (\<forall>k d. store_get k s = Some d \<longrightarrow> doc_ok k d)
    \<and> map fst (ms_changes_log s) = [1..<Suc (ms_change_seq s)]"

lemma store_get_write [simp]: "store_get k (write_document i d s) = (if k = i then Some d else store_get k s)"
  by (simp add: store_get_def write_document_def note_change_def update_conv')

text \<open>What a write that goes through does: the document is stored under its identifier with the next revision.\<close>

definition wrote :: "mem_store \<Rightarrow> string \<Rightarrow> dict \<Rightarrow> mem_store \<Rightarrow> bool" where
  "wrote s k document s' \<longleftrightarrow> k \<noteq> '''' \<and> py_str (get_item document ''_id'') = k
    \<and> (\<exists>n h. payload_hash document = Inr h \<and> s' = write_document k (stamp document (rev_text n h) k h) s
      \<and> (case store_get k s of None \<Rightarrow> n = 1 | Some d \<Rightarrow> next_rev_number (rev_of d) = Inr n))"

lemma doc_ok_rev: "doc_ok k d \<Longrightarrow> \<exists>n. numbered (rev_of d) n \<and> next_rev_number (rev_of d) = Inr (n + 1) \<and> get_item d ''_rev'' = JStr (rev_of d)"
  using numbered_next numbered_nonempty by (force simp: doc_ok_def rev_of_def str_or_empty_def)

lemma wrote_ok: "store_ok s \<Longrightarrow> wrote s k document s' \<Longrightarrow> store_ok s'"
proof -
  assume s: "store_ok s" and "wrote s k document s'"
  then obtain n h where w: "k \<noteq> ''''" "py_str (get_item document ''_id'') = k" "payload_hash document = Inr h"
      "s' = write_document k (stamp document (rev_text n h) k h) s"
    and n: "case store_get k s of None \<Rightarrow> n = 1 | Some d \<Rightarrow> next_rev_number (rev_of d) = Inr n" by (auto simp: wrote_def)
  have "1 \<le> n"
  proof (cases "store_get k s")
    case (Some d)
    then have "doc_ok k d" using s by (simp add: store_ok_def)
    then show ?thesis using doc_ok_rev [of k d] n Some by (auto simp: numbered_def)
  qed (use n in simp)
  then have "doc_ok k (stamp document (rev_text n h) k h)" using w numbered_rev_text [of n h] by (auto simp: doc_ok_def)
  then show ?thesis using s w
    by (auto simp: store_ok_def distinct_update) (simp_all add: write_document_def note_change_def distinct_update)
qed

section \<open>What the operations do\<close>

lemma json_item_Inr_iff: "json_item (JObj d) k = Inr v \<longleftrightarrow> map_of d k = Some v"
  by (auto split: option.split)

lemma validated_id: "validate_for_write d = Inr u \<Longrightarrow> truthy (get_item d ''_id'')"
  by (simp add: validate_for_write_def split: if_splits)

lemma item_of_id: "validate_for_write d = Inr u \<Longrightarrow> json_item (JObj d) ''_id'' = Inr (get_item d ''_id'') \<and> py_str (get_item d ''_id'') \<noteq> ''''"
  using validated_id [of d u] py_str_nonempty by (auto simp: get_item_def split: option.splits)

lemma duplicate_hash:
  assumes "classify_document_idempotency (Some d) k h = Inr dec" "outcome dec = DUPLICATE"
  shows "payload_hash d = Inr h"
  using assms classify_duplicate_iff by (fastforce simp: classify_document_idempotency_def bind_result_Inr_iff record_of_document_def)

lemma put_if_absent_InrD:
  assumes "put_if_absent resolve document s = Inr (rv, s')"
  shows "(\<exists>d. store_get (py_str (get_item document ''_id'')) s = Some d \<and> s' = s \<and> rv_outcome rv = ''duplicate'' \<and> payload_hash d = payload_hash document
        \<and> rv_rev rv = rev_of d)
    \<or> (store_get (py_str (get_item document ''_id'')) s = None \<and> rv_outcome rv = ''accepted''
        \<and> wrote s (py_str (get_item document ''_id'')) document s')"
proof -
  from assms obtain h where v: "validate_for_write document = Inr ()" and h: "payload_hash document = Inr h"
    by (auto simp: put_if_absent_def bind_result_Inr_iff Let_def)
  note i = item_of_id [OF v]
  show ?thesis
  proof (cases "store_get (py_str (get_item document ''_id'')) s")
    case None
    then show ?thesis using assms i
      by (auto simp: put_if_absent_def bind_result_Inr_iff v h Let_def revision_def wrote_def)
  next
    case (Some d)
    then show ?thesis using assms i
      by (auto simp: put_if_absent_def bind_result_Inr_iff v h Let_def revision_def rev_of_def dest: duplicate_hash split: if_splits)
  qed
qed

lemma put_InrD:
  assumes "put resolve document s = Inr (rv, s')" and ok: "store_ok s"
  shows "(\<exists>d. store_get (py_str (get_item document ''_id'')) s = Some d \<and> s' = s \<and> rv_outcome rv = ''duplicate'' \<and> payload_hash d = payload_hash document
        \<and> rv_rev rv = rev_of d)
    \<or> (wrote s (py_str (get_item document ''_id'')) document s' \<and> rv_outcome rv \<in> {''accepted'', ''conflict_resolved''}
        \<and> (\<forall>d. store_get (py_str (get_item document ''_id'')) s = Some d \<longrightarrow> \<not> is_immutable_source_document d \<and> \<not> is_immutable_source_document document))"
proof (cases "is_immutable_source_document document")
  case True
  then have "put_if_absent resolve document s = Inr (rv, s')" using assms(1) by (auto simp: put_def bind_result_Inr_iff)
  then show ?thesis using put_if_absent_InrD by fastforce
next
  case False
  let ?k = "py_str (get_item document ''_id'')"
  from assms False obtain h dec where v: "validate_for_write document = Inr ()" and h: "payload_hash document = Inr h"
    and dec: "classify_document_idempotency (store_get ?k s) ?k h = Inr dec"
    using item_of_id by (fastforce simp: put_def bind_result_Inr_iff Let_def)
  note i = item_of_id [OF v]
  show ?thesis
  proof (cases "store_get ?k s")
    case None
    then show ?thesis using assms(1) False i dec
      by (auto simp: put_def bind_result_Inr_iff v h Let_def revision_def wrote_def)
  next
    case (Some d)
    have "doc_ok ?k d" using ok Some by (simp add: store_ok_def)
    then obtain n where n: "next_rev_number (rev_of d) = Inr (n + 1)" "get_item d ''_rev'' = JStr (rev_of d)" using doc_ok_rev by blast
    then have r: "json_item (JObj d) ''_rev'' = Inr (JStr (rev_of d))" by (auto simp: get_item_def split: option.splits)
    show ?thesis using assms(1) False i dec Some n r
      by (auto simp: put_def bind_result_Inr_iff v h Let_def revision_def wrote_def dest: duplicate_hash split: if_splits)
  qed
qed

lemma put_if_revision_InrD:
  assumes "put_if_revision resolve document expected s = Inr (rv, s')" and ok: "store_ok s"
  shows "(case store_get (py_str (get_item document ''_id'')) s of None \<Rightarrow> '''' | Some d \<Rightarrow> rev_of d) = expected
    \<and> get_item document ''doc_type'' \<notin> JStr ` set IMMUTABLE_SOURCE_REVISION_DOC_TYPES
    \<and> ((\<exists>d. store_get (py_str (get_item document ''_id'')) s = Some d \<and> s' = s \<and> rv_outcome rv = ''duplicate'' \<and> rv_rev rv = rev_of d
          \<and> payload_hash d = payload_hash document)
      \<or> (wrote s (py_str (get_item document ''_id'')) (without_keys [''_rev''] document) s' \<and> rv_outcome rv \<noteq> ''duplicate''
          \<and> (\<forall>d. store_get (py_str (get_item document ''_id'')) s = Some d \<longrightarrow> \<not> is_revision_scoped_source_copy d)))"
proof -
  let ?k = "py_str (get_item document ''_id'')"
  from assms(1) have v: "validate_for_write document = Inr ()" by (auto simp: put_if_revision_def bind_result_Inr_iff)
  note i = item_of_id [OF v]
  from assms(1) i obtain h dec where h: "payload_hash document = Inr h"
    and dec: "classify_document_idempotency (store_get ?k s) ?k h = Inr dec"
    and t: "get_item document ''doc_type'' \<notin> JStr ` set IMMUTABLE_SOURCE_REVISION_DOC_TYPES"
    by (auto simp: put_if_revision_def bind_result_Inr_iff Let_def v split: if_splits)
  show ?thesis
  proof (cases "store_get ?k s")
    case None
    then show ?thesis using assms(1) i dec t
      by (auto simp: put_if_revision_def bind_result_Inr_iff v h Let_def revision_def wrote_def split: if_splits)
  next
    case (Some d)
    have "doc_ok ?k d" using ok Some by (simp add: store_ok_def)
    then obtain n where n: "next_rev_number (rev_of d) = Inr (n + 1)" "get_item d ''_rev'' = JStr (rev_of d)" "rev_of d \<noteq> ''''"
      using doc_ok_rev numbered_nonempty by blast
    have e: "str_or_empty (get_item d ''_rev'') = rev_of d" by (simp add: rev_of_def)
    show ?thesis using assms(1) i dec t Some n(1,3)
      by (auto simp: put_if_revision_def bind_result_Inr_iff v h Let_def revision_def wrote_def e dest: duplicate_hash split: if_splits)
  qed
qed

lemma patch_InrD:
  assumes "patch_observed_time_if_content_hash resolve p s = Inr (rv, s')" and ok: "store_ok s"
  shows "s' = s \<or> (\<exists>document d. wrote s (tp_doc_id p) document s' \<and> store_get (tp_doc_id p) s = Some d
    \<and> get_item document ''_id'' = get_item d ''_id'' \<and> get_item document ''doc_type'' = get_item d ''doc_type''
    \<and> (tp_replacement_locator p = None \<longrightarrow> \<not> is_immutable_source_document d))"
proof -
  let ?k = "tp_doc_id p"
  obtain current where c: "store_get ?k s = Some current" using assms(1)
    by (auto simp: patch_observed_time_if_content_hash_def bind_result_Inr_iff split: option.splits)
  then have d: "doc_ok ?k current" using ok by (simp add: store_ok_def)
  let ?u = "set_item (set_item (without_keys [''_rev'', ''idempotency_key'', ''payload_hash''] current)
      ''observed_at_start'' (JStr (tp_observed_at_start p))) ''observed_at_end'' (JStr (tp_observed_at_end p))"
  let ?r = "set_item ?u ''source_locator_hash'' (JStr (the (tp_replacement_locator p)))"
  have id: "py_str (get_item ?u ''_id'') = ?k" "py_str (get_item ?r ''_id'') = ?k" "?k \<noteq> ''''" using d by (simp_all add: doc_ok_def)
  obtain n where n: "next_rev_number (rev_of current) = Inr (n + 1)" using doc_ok_rev [OF d] by blast
  have e: "str_or_empty (get_item current ''_rev'') = rev_of current" by (simp add: rev_of_def)
  from assms(1) consider "s' = s" | "put resolve ?u s = Inr (rv, s')"
    | h where "tp_replacement_locator p \<noteq> None" "payload_hash ?r = Inr h" "s' = write_document ?k (stamp ?r (rev_text (n + 1) h) ?k h) s"
    by (auto simp: patch_observed_time_if_content_hash_def bind_result_Inr_iff Let_def c e n split: if_splits)
  then show ?thesis
  proof cases
    case 2
    then show ?thesis using put_InrD [OF 2 ok] id c by (auto intro!: exI [of _ ?u])
  next
    case 3
    then have "wrote s ?k ?r s'" using id n c unfolding wrote_def by auto
    then show ?thesis using 3(1) c by (auto intro!: exI [of _ ?r])
  qed simp
qed

section \<open>Runs of the store\<close>

datatype store_call =
    Put dict
  | Put_If_Absent dict
  | Put_If_Revision dict string
  | Patch temporal_patch
  | Delete string

text \<open>The store after a call; a call that raises leaves it as it is.\<close>

definition store_after :: "('a \<times> mem_store) result \<Rightarrow> mem_store \<Rightarrow> mem_store" where
  "store_after r s = (case r of Inl _ \<Rightarrow> s | Inr (_, s') \<Rightarrow> s')"

primrec run_call :: "resolver \<Rightarrow> store_call \<Rightarrow> mem_store \<Rightarrow> mem_store" where
  "run_call resolve (Put d) s = store_after (put resolve d s) s"
| "run_call resolve (Put_If_Absent d) s = store_after (put_if_absent resolve d s) s"
| "run_call resolve (Put_If_Revision d rv) s = store_after (put_if_revision resolve d rv s) s"
| "run_call resolve (Patch p) s = store_after (patch_observed_time_if_content_hash resolve p s) s"
| "run_call resolve (Delete k) s = store_after (store_delete resolve k s) s"

lemma store_get_delete: "store_get k' (note_change k b (s\<lparr>ms_docs := AList.delete k (ms_docs s)\<rparr>)) = (if k' = k then None else store_get k' s)"
  by (simp add: store_get_def note_change_def delete_conv')

text \<open>
  The identifiers of the document model begin with the type of their document.  A call is lawful when the documents it
  writes follow this and it does not exchange a locator.
\<close>

definition typed :: "dict \<Rightarrow> bool" where
  "typed d \<longleftrightarrow> get_item d ''doc_type'' = JStr (takeWhile (\<lambda>c. c \<noteq> CHR '':'') (py_str (get_item d ''_id'')))"

primrec lawful :: "store_call \<Rightarrow> bool" where
  "lawful (Put d) = typed d"
| "lawful (Put_If_Absent d) = typed d"
| "lawful (Put_If_Revision d rv) = typed d"
| "lawful (Patch p) = (tp_replacement_locator p = None)"
| "lawful (Delete k) = True"

definition store_typed :: "mem_store \<Rightarrow> bool" where
  "store_typed s \<longleftrightarrow> (\<forall>k d. store_get k s = Some d \<longrightarrow> typed d)"

lemma typed_same:
  assumes "doc_ok k d" "typed d" "typed e" "py_str (get_item e ''_id'') = k"
  shows "get_item d ''doc_type'' = get_item e ''doc_type''"
  using assms by (simp add: doc_ok_def typed_def)

text \<open>
  Every call leaves the store, writes one document, or removes one that is not immutable; a lawful call writes
  a typed document and replaces no immutable one.
\<close>

lemma run_call_cases:
  assumes ok: "store_ok s"
  obtains (same) "run_call resolve c s = s"
  | (written) k d where "wrote s k d (run_call resolve c s)"
      "lawful c \<Longrightarrow> store_typed s \<Longrightarrow> typed d \<and> (\<forall>e. store_get k s = Some e \<longrightarrow> \<not> is_immutable_source_document e)"
  | (removed) k d where "store_get k s = Some d" "\<not> is_immutable_source_document d"
      "run_call resolve c s = note_change k True (s\<lparr>ms_docs := AList.delete k (ms_docs s)\<rparr>)"
proof (cases c)
  case (Put d)
  then show thesis using same written put_InrD [OF _ ok]
    by (cases "put resolve d s") (fastforce simp: store_after_def)+
next
  case (Put_If_Absent d)
  then show thesis using same written put_if_absent_InrD
    by (cases "put_if_absent resolve d s") (fastforce simp: store_after_def)+
next
  case (Put_If_Revision d rv)
  show thesis
  proof (cases "put_if_revision resolve d rv s")
    case (Inr p)
    then obtain r s' where p: "put_if_revision resolve d rv s = Inr (r, s')" by (cases p) auto
    let ?k = "py_str (get_item d ''_id'')"
    have run: "run_call resolve c s = s'" using Put_If_Revision p by (simp add: store_after_def)
    note D = put_if_revision_InrD [OF p ok]
    have u: "typed (without_keys [''_rev''] d)" if "typed d" using that by (simp add: typed_def)
    have im: "\<not> is_immutable_source_document e" if "store_get ?k s = Some e" "store_typed s" "typed d" "\<not> is_revision_scoped_source_copy e" for e
      using that D ok typed_same [of ?k e d] by (auto simp: store_ok_def store_typed_def is_immutable_source_document_def)
    from D show thesis using same written run Put_If_Revision u im by (metis lawful.simps(3))
  qed (use same Put_If_Revision in \<open>simp add: store_after_def\<close>)
next
  case (Patch p)
  then show thesis
  proof (cases "patch_observed_time_if_content_hash resolve p s")
    case (Inr x)
    then obtain r s' where x: "patch_observed_time_if_content_hash resolve p s = Inr (r, s')" by (cases x) auto
    then have run: "run_call resolve c s = s'" using Patch by (simp add: store_after_def)
    from patch_InrD [OF x ok] consider "s' = s" | "\<exists>document d. wrote s (tp_doc_id p) document s' \<and> store_get (tp_doc_id p) s = Some d
        \<and> get_item document ''_id'' = get_item d ''_id'' \<and> get_item document ''doc_type'' = get_item d ''doc_type''
        \<and> (tp_replacement_locator p = None \<longrightarrow> \<not> is_immutable_source_document d)" by blast
    then show thesis
    proof cases
      case 2
      then show thesis using written run Patch by (auto simp: store_typed_def typed_def)
    qed (use same run in simp)
  qed (use same Patch in \<open>simp add: store_after_def\<close>)
next
  case (Delete k)
  then show thesis using same removed
    by (cases "store_delete resolve k s")
      (auto simp: store_after_def store_delete_def bind_result_Inr_iff allows_delete_def Let_def split: option.splits if_splits)
qed

lemma run_call_ok: "store_ok s \<Longrightarrow> store_ok (run_call resolve c s)"
proof -
  assume ok: "store_ok s"
  then show ?thesis
  proof (cases rule: run_call_cases [where resolve = resolve and c = c])
    case (removed k d)
    then show ?thesis using ok store_get_delete [of _ k True s]
      by (auto simp: store_ok_def distinct_delete) (simp_all add: note_change_def distinct_delete)
  qed (use ok wrote_ok in auto)
qed

lemma wrote_get: "wrote s k d s' \<Longrightarrow> k' \<noteq> k \<Longrightarrow> store_get k' s' = store_get k' s"
  by (auto simp: wrote_def)

lemma wrote_typed: "wrote s k d s' \<Longrightarrow> typed d \<Longrightarrow> store_typed s \<Longrightarrow> store_typed s'"
  by (auto simp: wrote_def store_typed_def typed_def split: if_splits)

lemma lawful_call_typed:
  assumes "store_ok s" "store_typed s" "lawful c"
  shows "store_typed (run_call resolve c s)"
  using assms(1)
proof (cases rule: run_call_cases [where resolve = resolve and c = c])
  case (written k d)
  then show ?thesis using assms wrote_typed by blast
next
  case (removed k d)
  then show ?thesis using assms(2) by (simp add: store_get_delete store_typed_def)
qed (use assms in simp)

lemma immutable_kept:
  assumes "store_ok s" "store_typed s" "lawful c" and d: "store_get k s = Some d" "is_immutable_source_document d"
  shows "store_get k (run_call resolve c s) = Some d"
  using assms(1)
proof (cases rule: run_call_cases [where resolve = resolve and c = c])
  case (written k' e)
  then show ?thesis using assms wrote_get by metis
next
  case (removed k' e)
  then show ?thesis using d by (auto simp: store_get_delete)
qed (use d in simp)

interpretation store_machine: invariant_system "\<lambda>s t. \<exists>c. t = run_call resolve c s" store_ok
  by unfold_locales (auto intro: run_call_ok)

interpretation immutable_documents: invariant_system "\<lambda>s t. \<exists>c. lawful c \<and> t = run_call resolve c s"
    "\<lambda>s. store_ok s \<and> store_typed s \<and> store_get k s = Some d \<and> is_immutable_source_document d"
  by unfold_locales (auto intro: run_call_ok lawful_call_typed immutable_kept)

section \<open>Conditional and repeated writes\<close>

lemma wrote_rev:
  assumes "store_ok s" "wrote s k d s'"
  shows "\<exists>h n. payload_hash d = Inr h \<and> store_get k s' = Some (stamp d (rev_text n h) k h) \<and> numbered (rev_text n h) n
    \<and> rev_of (stamp d (rev_text n h) k h) = rev_text n h
    \<and> (case store_get k s of None \<Rightarrow> n = 1 | Some e \<Rightarrow> numbered (rev_of e) (n - 1))"
proof -
  obtain n h where h: "payload_hash d = Inr h" and s': "s' = write_document k (stamp d (rev_text n h) k h) s"
    and n: "case store_get k s of None \<Rightarrow> n = 1 | Some d \<Rightarrow> next_rev_number (rev_of d) = Inr n" using assms by (auto simp: wrote_def)
  have m: "case store_get k s of None \<Rightarrow> n = 1 | Some e \<Rightarrow> numbered (rev_of e) (n - 1)"
    using n assms(1) doc_ok_rev by (fastforce simp: store_ok_def split: option.splits)
  then have "1 \<le> n" by (auto simp: numbered_def split: option.splits)
  then show ?thesis using h s' m numbered_rev_text [of n h]
    by (intro exI [of _ h] exI [of _ n]) (simp add: rev_of_def str_or_empty_def rev_text_def)
qed

lemma conditional_write_fences:
  assumes ok: "store_ok s" and w: "put_if_revision resolve d rv s = Inr (a, s1)" "rv_outcome a \<noteq> ''duplicate''"
    and id: "py_str (get_item e ''_id'') = py_str (get_item d ''_id'')"
  shows "put_if_revision resolve' e rv s1 \<noteq> Inr b"
proof
  let ?k = "py_str (get_item d ''_id'')"
  assume "put_if_revision resolve' e rv s1 = Inr b"
  then obtain a' s2 where e: "put_if_revision resolve' e rv s1 = Inr (a', s2)" by (cases b) auto
  note D = put_if_revision_InrD [OF w(1) ok]
  then have wr: "wrote s ?k (without_keys [''_rev''] d) s1" using w(2) by auto
  then have "store_ok s1" using wrote_ok ok by blast
  note E = put_if_revision_InrD [OF e this]
  from wrote_rev [OF ok wr] obtain h n where n: "store_get ?k s1 = Some (stamp (without_keys [''_rev''] d) (rev_text n h) ?k h)"
    "numbered (rev_text n h) n" "rev_of (stamp (without_keys [''_rev''] d) (rev_text n h) ?k h) = rev_text n h"
    and old: "case store_get ?k s of None \<Rightarrow> n = 1 | Some e \<Rightarrow> numbered (rev_of e) (n - 1)" by blast
  have "rev_text n h = rv" using E n id by simp
  moreover have "(case store_get ?k s of None \<Rightarrow> '''' | Some d \<Rightarrow> rev_of d) = rv" using D by simp
  ultimately have now: "numbered rv n" and before: "(case store_get ?k s of None \<Rightarrow> '''' | Some d \<Rightarrow> rev_of d) = rv" using n(2) by simp_all
  show False
  proof (cases "store_get ?k s")
    case None
    then show False using before numbered_nonempty [OF now] by simp
  next
    case (Some d')
    then show False using before old numbered_unique [OF now, of "n - 1"] by simp
  qed
qed

text \<open>A document that carries one of the outcomes the classifier preserves is never a duplicate.\<close>

definition carries_outcome :: "dict \<Rightarrow> bool" where
  "carries_outcome d \<longleftrightarrow> preserved (record_of_document d '''')"

lemma classify_same:
  assumes "\<not> carries_outcome d" "payload_hash d = Inr h" "k \<noteq> ''''" "h \<noteq> ''''"
  shows "classify_document_idempotency (Some (stamp d rv k h)) k h = Inr (decide DUPLICATE ''same_key_same_payload_hash'')"
  using assms
  by (auto simp: classify_document_idempotency_def classify_idempotency_def record_of_document_def carries_outcome_def preserved_def
      str_or_empty_def Let_def)

lemma payload_hash_total: "str_or_empty (get_item d ''doc_type'') \<noteq> CONVERSATION_CHUNK \<Longrightarrow> \<exists>h. payload_hash d = Inr h"
  by (simp add: payload_hash_def Let_def)

lemma hash_nonempty: "payload_hash d = Inr h \<Longrightarrow> h \<noteq> ''''"
  by (auto simp: payload_hash_def Let_def structured_payload_hash_def sha256_ref_def bind_result_Inr_iff split: if_splits)

lemma put_repeats:
  assumes ok: "store_ok s" and p: "put resolve d s = Inr (a, s1)" and nc: "\<not> carries_outcome d"
  shows "\<exists>b. put resolve d s1 = Inr (b, s1) \<and> rv_outcome b = ''duplicate''"
  using put_InrD [OF p ok]
proof (elim disjE)
  let ?k = "py_str (get_item d ''_id'')"
  assume "wrote s ?k d s1 \<and> rv_outcome a \<in> {''accepted'', ''conflict_resolved''}
    \<and> (\<forall>e. store_get ?k s = Some e \<longrightarrow> \<not> is_immutable_source_document e \<and> \<not> is_immutable_source_document d)"
  then have wr: "wrote s ?k d s1" by simp
  from wrote_rev [OF ok wr] obtain h n where h: "payload_hash d = Inr h" "store_get ?k s1 = Some (stamp d (rev_text n h) ?k h)" by blast
  have v: "validate_for_write d = Inr ()" using p by (auto simp: put_def bind_result_Inr_iff)
  have i: "json_item (JObj d) ''_id'' = Inr (get_item d ''_id'')" "?k \<noteq> ''''" using item_of_id [OF v] by auto
  have c: "classify_document_idempotency (Some (stamp d (rev_text n h) ?k h)) ?k h = Inr (decide DUPLICATE ''same_key_same_payload_hash'')"
    by (rule classify_same [OF nc h(1) i(2) hash_nonempty [OF h(1)]])
  have r: "json_item (JObj (stamp d (rev_text n h) ?k h)) ''_rev'' = Inr (JStr (rev_text n h))"
    by (simp add: stamp_def map_of_set_item)
  show ?thesis
    by (simp add: put_def put_if_absent_def v i(1) h Let_def c r revision_def del: json_item.simps)
qed (use p in auto)

section \<open>Writes that reach immutable documents\<close>

text \<open>
  The exchange of a locator writes straight into the store, and \<open>put_if_revision\<close> looks only at the type of the incoming
  document: both replace a stored document that \<open>put\<close>, \<open>put_if_absent\<close> and \<open>delete\<close> protect.
\<close>

lemma relocation_ignores_immutability:
  assumes ok: "store_ok s" and c: "store_get (tp_doc_id p) s = Some current" "patch_applies p current = Inr ()"
    and t: "get_item current ''doc_type'' = JStr SOURCE_REVISION_MEMBER"
    and l: "tp_replacement_locator p = Some loc" "assert_hash_like ''replacement_source_locator_hash'' loc = Inr ()"
      "str_or_empty (get_item current ''source_locator_hash'') \<noteq> loc"
    and v: "validate_for_write (set_item (set_item (set_item (without_keys [''_rev'', ''idempotency_key'', ''payload_hash''] current)
        ''observed_at_start'' (JStr (tp_observed_at_start p))) ''observed_at_end'' (JStr (tp_observed_at_end p)))
        ''source_locator_hash'' (JStr loc)) = Inr ()"
  shows "is_immutable_source_document current
    \<and> (\<exists>a s' d. patch_observed_time_if_content_hash resolve p s = Inr (a, s') \<and> store_get (tp_doc_id p) s' = Some d
        \<and> get_item d ''source_locator_hash'' = JStr loc \<and> get_item current ''source_locator_hash'' \<noteq> JStr loc)"
proof -
  let ?r = "set_item (set_item (set_item (without_keys [''_rev'', ''idempotency_key'', ''payload_hash''] current)
      ''observed_at_start'' (JStr (tp_observed_at_start p))) ''observed_at_end'' (JStr (tp_observed_at_end p)))
      ''source_locator_hash'' (JStr loc)"
  have "doc_ok (tp_doc_id p) current" using ok c(1) by (simp add: store_ok_def)
  then obtain n where n: "next_rev_number (str_or_empty (get_item current ''_rev'')) = Inr (n + 1)" using doc_ok_rev by (auto simp: rev_of_def)
  have "str_or_empty (JStr SOURCE_REVISION_MEMBER) = SOURCE_REVISION_MEMBER" by (simp add: str_or_empty_def)
  then have st: "str_or_empty (get_item current ''doc_type'') = SOURCE_REVISION_MEMBER" "str_or_empty (get_item ?r ''doc_type'') = SOURCE_REVISION_MEMBER"
    by (simp_all add: t)
  have a: "allows_write resolve s (tp_doc_id p) current False = Inr ()"
    by (simp add: allows_write_def st Let_def SOURCE_REVISION_MEMBER_SOURCE_DOC_TYPES_def)
  obtain h where h: "payload_hash ?r = Inr h" using payload_hash_total [of ?r] st(2) by auto
  have im: "is_immutable_source_document current" by (simp add: is_immutable_source_document_def t IMMUTABLE_SOURCE_REVISION_DOC_TYPES_def)
  have lo: "get_item current ''source_locator_hash'' \<noteq> JStr loc" using l(3) by (auto simp: str_or_empty_def split: if_splits)
  show ?thesis using im lo
    by (simp add: patch_observed_time_if_content_hash_def l c Let_def a v h n not_sym [OF l(3)])
qed

lemma conditional_write_ignores_stored_type:
  assumes ok: "store_ok s" and c: "store_get (py_str (get_item d ''_id'')) s = Some current" "get_item current ''doc_type'' = JStr REPO_USAGE_PATTERN"
    and cl: "\<not> carries_outcome current" and sc: "\<not> is_revision_scoped_source_copy current"
    and d: "validate_for_write d = Inr ()" "get_item d ''doc_type'' = JStr COVERAGE_MANIFEST" "\<not> is_revision_scoped_source_copy d"
      "payload_hash d = Inr h" "payload_hash current \<noteq> Inr h"
  shows "is_immutable_source_document current
    \<and> (\<exists>a s' e. put_if_revision resolve d (rev_of current) s = Inr (a, s') \<and> store_get (py_str (get_item d ''_id'')) s' = Some e
        \<and> get_item e ''doc_type'' = JStr COVERAGE_MANIFEST)"
proof -
  let ?k = "py_str (get_item d ''_id'')"
  have ok': "doc_ok ?k current" using ok c(1) by (simp add: store_ok_def)
  then obtain n where n: "next_rev_number (rev_of current) = Inr (n + 1)" "rev_of current \<noteq> ''''" using doc_ok_rev numbered_nonempty by blast
  have e: "str_or_empty (get_item current ''_rev'') = rev_of current" by (simp add: rev_of_def)
  have "str_or_empty (JStr REPO_USAGE_PATTERN) = REPO_USAGE_PATTERN" by (simp add: str_or_empty_def)
  then have st: "str_or_empty (get_item current ''doc_type'') = REPO_USAGE_PATTERN" by (simp add: c(2))
  have a: "allows_write resolve s ?k current False = Inr ()"
    by (simp add: allows_write_def st Let_def SOURCE_REVISION_MEMBER_SOURCE_DOC_TYPES_def)
  obtain h' where h': "payload_hash current = Inr h'" "h' \<noteq> h" using ok' d(5) by (auto simp: doc_ok_def)
  obtain dec where dec: "classify_document_idempotency (Some current) ?k h = Inr dec" "outcome dec \<noteq> DUPLICATE"
    using h' cl classify_total [of ?k h "Some (record_of_document current h')"] item_of_id [OF d(1)] hash_nonempty [OF d(4)]
      classify_duplicate_iff [of "Some (record_of_document current h')" ?k h]
    by (auto simp: classify_document_idempotency_def record_of_document_def)
  have t: "get_item d ''doc_type'' \<notin> JStr ` set IMMUTABLE_SOURCE_REVISION_DOC_TYPES"
    by (simp add: d(2) IMMUTABLE_SOURCE_REVISION_DOC_TYPES_def)
  have "is_immutable_source_document current" by (simp add: is_immutable_source_document_def c(2) IMMUTABLE_SOURCE_REVISION_DOC_TYPES_def)
  moreover have "json_item (JObj d) ''_id'' = Inr (get_item d ''_id'')" using item_of_id [OF d(1)] by simp
  ultimately show ?thesis
    using t by (simp add: put_if_revision_def d c(1) Let_def e dec a sc n del: json_item.simps)
qed

section \<open>Built documents can be stored\<close>

lemma finalize_InrD: "finalize d = Inr e \<Longrightarrow> e = d \<and> assert_no_secret_like_metadata d = Inr ()"
  by (auto simp: finalize_def bind_result_Inr_iff)

lemma base_document_InrD:
  "base_document t i p pr sid loc rd = Inr d \<Longrightarrow> \<exists>cp. d = [(''_id'', JStr i), (''doc_type'', JStr t), (''schema_version'', JStr ''couchdb_transcript_source.v1''),
      (''owner'', JStr ''couchdb-transcript-source''), (''provider'', JStr p), (''project'', JStr cp),
      (''session_id_hash'', JStr sid), (''source_locator_hash'', JStr loc), (''redaction_version'', JStr rd)]
    \<and> assert_hash_like ''session_id_hash'' sid = Inr () \<and> assert_couchdb_owned (JStr t) = Inr ()"
  by (auto simp: base_document_def bind_result_Inr_iff)

lemma dict_update_simps [simp]: "dict_update d [] = d" "dict_update d ((k, v) # e) = dict_update (set_item d k v) e"
  by (simp_all add: dict_update_def)

lemma map_of_dict_update: "map_of (dict_update d e) = map_of d ++ map_of (rev e)"
proof (induction e arbitrary: d)
  case (Cons a e)
  have "map_of (set_item d (fst a) (snd a)) = (map_of d)(fst a \<mapsto> snd a)" by (simp add: map_of_set_item fun_eq_iff)
  then show ?case using Cons [of "set_item d (fst a) (snd a)"] by (cases a) (simp only: dict_update_simps rev.simps map_of_append fst_conv snd_conv, simp, simp add: fun_upd_def)
qed simp

text \<open>
  Documents of the types without a contract of their own: a type the source plane owns, an identifier that begins with it, and a clean body.
\<close>

lemma plain_storable:
  assumes "finalize d = Inr e" "get_item d ''_id'' = JStr (t @ '':'' @ rest)" "map_of d ''doc_type'' = Some (JStr t)"
    and "t \<in> set COUCHDB_OWNED_DOC_TYPES" "t \<noteq> REPO_USAGE_PATTERN" "t \<noteq> ACTIVE_SOURCE_REVISION"
    and "get_item d ''body'' = JNull \<or> (\<exists>b. get_item d ''body'' = JStr b \<and> assert_source_text_clean b = Inr ())"
  shows "validate_for_write e = Inr () \<and> typed e"
proof -
  have c: "CHR '':'' \<notin> set t" using assms(4) by (auto simp: COUCHDB_OWNED_DOC_TYPES_def)
  have w: "takeWhile (\<lambda>c. c \<noteq> CHR '':'') (t @ '':'' @ rest) = t" using c by (subst takeWhile_append2) auto
  have "get_item d ''doc_type'' = JStr t" using assms(3) by (simp add: get_item_def)
  then show ?thesis
    using finalize_InrD [OF assms(1)] assms(2-7) w
    by (auto simp: validate_for_write_def typed_def assert_couchdb_owned_def in_string_set_def)
qed

lemma chunk_storable:
  assumes "build_conversation_chunk_document c loc = Inr d"
  shows "validate_for_write d = Inr () \<and> typed d \<and> get_item d ''_id'' = JStr (conversation_chunk_doc_id (sc_session_id_hash c) (sc_chunk_id c))
    \<and> get_item d ''body'' = JStr (redact_public_ingress_text (sc_redacted_text c))"
proof -
  let ?b = "redact_public_ingress_text (sc_redacted_text c)"
  obtain u doc fields where b: "assert_source_text_clean ?b = Inr u" and f: "finalize (dict_update doc fields) = Inr d"
    and doc: "base_document CONVERSATION_CHUNK (conversation_chunk_doc_id (sc_session_id_hash c) (sc_chunk_id c)) (sc_provider c) (sc_project c)
        (sc_session_id_hash c) loc (sc_redaction_version c) = Inr doc"
    and fs: "fields = [(''chunk_id'', JStr (sc_chunk_id c)), (''turn_start_index'', JInt (sc_turn_start_index c)),
           (''turn_end_index'', JInt (sc_turn_end_index c)), (''part_index'', JInt (sc_part_index c)),
           (''part_count'', JInt (sc_part_count c)), (''char_start'', JInt (sc_char_start c)),
           (''char_end'', JInt (sc_char_end c)), (''observed_at_start'', JStr (sc_observed_at_start c)),
           (''observed_at_end'', JStr (sc_observed_at_end c)), (''content_hash'', JStr (sha256_hash ?b)),
           (''source_status'', JStr (sc_source_status c)), (''body'', JStr ?b)]"
    using assms unfolding build_conversation_chunk_document_def Let_def bind_result_Inr_iff by blast
  have g: "get_item (dict_update doc fields) ''_id'' = JStr (conversation_chunk_doc_id (sc_session_id_hash c) (sc_chunk_id c))"
    "map_of (dict_update doc fields) ''doc_type'' = Some (JStr CONVERSATION_CHUNK)" "get_item (dict_update doc fields) ''body'' = JStr ?b"
    using base_document_InrD [OF doc] by (auto simp: fs get_item_def map_of_dict_update)
  have "validate_for_write d = Inr () \<and> typed d"
    using plain_storable [OF f _ g(2)] g b by (auto simp: conversation_chunk_doc_id_def COUCHDB_OWNED_DOC_TYPES_def)
  then show ?thesis using finalize_InrD [OF f] g by simp
qed

lemma session_storable:
  assumes "build_transcript_session_document c = Inr d"
  shows "validate_for_write d = Inr () \<and> typed d \<and> get_item d ''_id'' = JStr (session_doc_id (ts_session_id_hash c))"
proof -
  obtain doc fields where f: "finalize (dict_update doc fields) = Inr d"
    and doc: "base_document TRANSCRIPT_SESSION (session_doc_id (ts_session_id_hash c)) (ts_provider c) (ts_project c)
        (ts_session_id_hash c) (ts_source_locator_hash c) DEFAULT_REDACTION_VERSION = Inr doc"
    and fs: "fields = [(''started_at'', JStr (ts_started_at c)), (''ended_at'', JStr (ts_ended_at c)),
         (''observed_at_start'', JStr (ts_observed_at_start c)), (''observed_at_end'', JStr (ts_observed_at_end c)),
         (''source_hash'', JStr (ts_source_hash c)), (''materialized_at'', JStr (ts_materialized_at c)),
         (''source_status'', JStr (ts_source_status c))]"
    using assms unfolding build_transcript_session_document_def bind_result_Inr_iff by blast
  have g: "get_item (dict_update doc fields) ''_id'' = JStr (session_doc_id (ts_session_id_hash c))"
    "map_of (dict_update doc fields) ''doc_type'' = Some (JStr TRANSCRIPT_SESSION)" "get_item (dict_update doc fields) ''body'' = JNull"
    using base_document_InrD [OF doc] by (auto simp: fs get_item_def map_of_dict_update)
  have "validate_for_write d = Inr () \<and> typed d"
    using plain_storable [OF f _ g(2)] g by (auto simp: session_doc_id_def COUCHDB_OWNED_DOC_TYPES_def)
  then show ?thesis using finalize_InrD [OF f] g by simp
qed

lemma dict_copy_JObj: "json_item j k = Inr v \<Longrightarrow> \<exists>d. j = JObj d \<and> map_of d k = Some v \<and> dict_copy j = Inr d"
  by (cases j) (auto split: option.splits)

lemma procedural_InrD:
  assumes "build_repo_usage_pattern_document payload job = Inr d"
  shows "\<exists>doc original source body doc_id provider project sid rv. d = dict_update doc (procedural_fields payload job (py_str body) original source)
    \<and> finalize d = Inr d \<and> json_path (JObj payload) [''payload'', ''document''] = Inr (JObj original) \<and> map_of original ''body'' = Some body
    \<and> assert_source_text_clean (py_str body) = Inr () \<and> get_item payload ''contentHash'' = JStr (sha256_hash (py_str body))
    \<and> repo_usage_pattern_doc_id (str_or_empty (get_item payload ''idempotencyKey'')) = Inr doc_id
    \<and> base_document REPO_USAGE_PATTERN doc_id provider project sid '''' rv = Inr doc"
proof -
  obtain package original metadata source body doc_id session rv doc original_document source_copy provider project where
    p: "json_item (JObj payload) ''payload'' = Inr package" "json_item package ''document'' = Inr original" "json_item original ''body'' = Inr body"
    and b: "assert_source_text_clean (py_str body) = Inr ()" "JStr (sha256_hash (py_str body)) = get_item payload ''contentHash''"
    and i: "repo_usage_pattern_doc_id (str_or_empty (get_item payload ''idempotencyKey'')) = Inr doc_id"
    and d: "base_document REPO_USAGE_PATTERN doc_id provider project (str_or_empty session) '''' (py_str rv) = Inr doc" "dict_copy original = Inr original_document"
    and f: "finalize (dict_update doc (procedural_fields payload job (py_str body) original_document source_copy)) = Inr d"
    using assms unfolding build_repo_usage_pattern_document_def Let_def bind_result_Inr_iff require_Inr_iff by (metis (full_types) old.unit.exhaust)
  obtain od where od: "original = JObj od" "map_of od ''body'' = Some body" "original_document = od" using dict_copy_JObj [OF p(3)] d(2) by auto
  have "d = dict_update doc (procedural_fields payload job (py_str body) od source_copy)" using finalize_InrD [OF f] od(3) by simp
  moreover have "finalize d = Inr d" using f finalize_InrD [OF f] by simp
  moreover have "json_path (JObj payload) [''payload'', ''document''] = Inr (JObj od)" using p od(1) by (simp del: json_item.simps)
  ultimately show ?thesis using b(1) b(2) [symmetric] i d(1) od(2) by blast
qed

lemma procedural_storable:
  assumes "build_repo_usage_pattern_document payload job = Inr d"
    and str: "json_path (JObj payload) [''payload'', ''document'', ''body''] = Inr (JStr b)"
  shows "validate_for_write d = Inr () \<and> typed d"
proof -
  obtain doc original source body doc_id provider project sid rv where
    d: "d = dict_update doc (procedural_fields payload job (py_str body) original source)" and f: "finalize d = Inr d"
    and o: "json_path (JObj payload) [''payload'', ''document''] = Inr (JObj original)" "map_of original ''body'' = Some body"
    and c: "assert_source_text_clean (py_str body) = Inr ()" "get_item payload ''contentHash'' = JStr (sha256_hash (py_str body))"
    and i: "repo_usage_pattern_doc_id (str_or_empty (get_item payload ''idempotencyKey'')) = Inr doc_id"
    and doc: "base_document REPO_USAGE_PATTERN doc_id provider project sid '''' rv = Inr doc"
    using procedural_InrD [OF assms(1)] by blast
  have body: "body = JStr b" using str o by (auto simp: bind_result_Inr_iff split: option.splits)
  have key: "str_or_empty (get_item payload ''idempotencyKey'') = py_str (get_item payload ''idempotencyKey'')"
    using i by (auto simp: repo_usage_pattern_doc_id_def str_or_empty_def split: if_splits)
  have id: "doc_id = REPO_USAGE_PATTERN @ '':'' @ hash_hex (sha256_hash (py_str (get_item payload ''idempotencyKey'')))"
    using i key by (auto simp: repo_usage_pattern_doc_id_def split: if_splits)
  obtain cp where base: "doc = [(''_id'', JStr doc_id), (''doc_type'', JStr REPO_USAGE_PATTERN), (''schema_version'', JStr ''couchdb_transcript_source.v1''),
      (''owner'', JStr ''couchdb-transcript-source''), (''provider'', JStr provider), (''project'', JStr cp),
      (''session_id_hash'', JStr sid), (''source_locator_hash'', JStr ''''), (''redaction_version'', JStr rv)]"
    and sid: "assert_hash_like ''session_id_hash'' sid = Inr ()" using base_document_InrD [OF doc] by blast
  have s: "str_or_empty (JStr x) = x" for x by (cases "x = []") (simp_all add: str_or_empty_def)
  have m: "map_of d = map_of doc ++ map_of (rev (procedural_fields payload job (py_str body) original source))"
    by (simp only: d map_of_dict_update)
  have g: "get_item d k = (case (map_of doc ++ map_of (rev (procedural_fields payload job (py_str body) original source))) k of None \<Rightarrow> JNull | Some v \<Rightarrow> v)" for k
    by (simp only: get_item_def m)
  note fields = g base procedural_fields_def body
  have items: "get_item d ''_id'' = JStr doc_id" "get_item d ''doc_type'' = JStr REPO_USAGE_PATTERN" "get_item d ''body'' = JStr b"
    "get_item d ''content_hash'' = JStr (sha256_hash b)" "get_item d ''original_document'' = JObj original"
    "get_item d ''session_id_hash'' = JStr sid" "get_item d ''authority'' = JStr ''non_authoritative_original''"
    "get_item d ''recall_eligible'' = JBool False" "get_item d ''projection_enabled'' = JBool False"
    "get_item d ''processing_stage'' = JStr ''raw_source_stored''" "get_item d ''document_kind'' = JStr REPO_USAGE_PATTERN"
    "get_item d ''target_profile'' = JStr ''index-procedural-memory''"
    using c(2) by (simp_all add: fields)
  have provenance: "get_item d ''provenance'' = JObj [(''job_id'', JStr job),
      (''original_idempotency_key'', JStr (py_str (get_item payload ''idempotencyKey''))), (''wire_identity_hash'', JStr (wire_identity payload))]"
    by (simp add: fields)
  have absent: "map_of d ''accepted'' = None" "map_of d ''current'' = None" "map_of d ''card_type'' = None" "map_of d ''typed_payload'' = None"
    by (simp_all add: m base procedural_fields_def)
  have ob: "dict_get (py_or (JObj original) (JObj [])) ''body'' = Inr (JStr b)" using o(2) body by (auto simp: py_or_def get_item_def)
  have pc: "procedural_contract d = Inr ()"
    unfolding procedural_contract_def items provenance s
    using i f sid ob by (simp add: py_or_def s key absent Let_def json_eq_def id repo_usage_pattern_doc_id_def split: if_splits)
  have t: "map_of d ''doc_type'' = Some (JStr REPO_USAGE_PATTERN)" by (simp add: m base procedural_fields_def)
  show ?thesis
    using finalize_InrD [OF f] c(1) body
    by (simp add: validate_for_write_def items t pc typed_def id assert_couchdb_owned_def in_string_set_def COUCHDB_OWNED_DOC_TYPES_def)
qed

lemma built_storable:
  assumes f: "finalize (dict_update doc items) = Inr d" and doc: "base_document t (t @ '':'' @ rest) p pr s loc rd = Inr doc"
    and t: "t \<in> set COUCHDB_OWNED_DOC_TYPES" "t \<noteq> REPO_USAGE_PATTERN" "t \<noteq> ACTIVE_SOURCE_REVISION"
    and fs: "''_id'' \<notin> fst ` set items" "''doc_type'' \<notin> fst ` set items"
    and b: "case map_of (rev items) ''body'' of None \<Rightarrow> True | Some v \<Rightarrow> \<exists>b. v = JStr b \<and> assert_source_text_clean b = Inr ()"
  shows "validate_for_write d = Inr () \<and> typed d"
proof -
  have n: "map_of (rev items) ''_id'' = None" "map_of (rev items) ''doc_type'' = None" using fs by (simp_all add: map_of_eq_None_iff)
  have g: "get_item (dict_update doc items) ''_id'' = JStr (t @ '':'' @ rest)" "map_of (dict_update doc items) ''doc_type'' = Some (JStr t)"
    using base_document_InrD [OF doc] n by (auto simp: get_item_def map_of_dict_update map_add_def)
  have "get_item (dict_update doc items) ''body'' = (case map_of (rev items) ''body'' of None \<Rightarrow> JNull | Some v \<Rightarrow> v)"
    using base_document_InrD [OF doc] by (auto simp: get_item_def map_of_dict_update map_add_def split: option.splits)
  then have "get_item (dict_update doc items) ''body'' = JNull \<or> (\<exists>b. get_item (dict_update doc items) ''body'' = JStr b \<and> assert_source_text_clean b = Inr ())"
    using b by (auto split: option.splits)
  then show ?thesis using plain_storable [OF f g t] by blast
qed

lemma bundle_storable:
  assumes "build_tool_evidence_bundle_document b = Inr d"
  shows "validate_for_write d = Inr () \<and> typed d"
proof -
  from assms obtain u doc items where c: "assert_source_text_clean (eb_body b) = Inr u" and f: "finalize (dict_update doc items) = Inr d"
    and doc: "base_document TOOL_EVIDENCE_BUNDLE (tool_evidence_bundle_doc_id (eb_session_id_hash b) (eb_part_index b)) (eb_provider b) (eb_project b)
        (eb_session_id_hash b) (eb_source_locator_hash b) (eb_redaction_version b) = Inr doc"
    and fs: "items = [(''part_index'', JInt (eb_part_index b)), (''part_count'', JInt (eb_part_count b)),
         (''evidence_index_start'', JInt (eb_evidence_index_start b)), (''evidence_index_end'', JInt (eb_evidence_index_end b)),
         (''evidence_count'', JInt (int (length (eb_record_content_hashes b)))),
         (''record_content_hashes'', JArr (map JStr (eb_record_content_hashes b))),
         (''coverage_hash'', JStr (build_coverage_hash (eb_record_content_hashes b))),
         (''content_hash'', JStr (sha256_hash (eb_body b))), (''observed_at_start'', JStr (eb_observed_at_start b)),
         (''observed_at_end'', JStr (str_or (eb_observed_at_end b) (eb_observed_at_start b))), (''body'', JStr (eb_body b))]"
    unfolding build_tool_evidence_bundle_document_def bind_result_Inr_iff by blast
  show ?thesis
    by (rule built_storable [OF f doc [unfolded tool_evidence_bundle_doc_id_def]]) (use c in \<open>simp_all add: fs COUCHDB_OWNED_DOC_TYPES_def\<close>)
qed

lemma coverage_storable:
  assumes "build_coverage_manifest_document c = Inr d"
  shows "validate_for_write d = Inr () \<and> typed d"
proof -
  from assms obtain doc cv where f: "finalize (dict_update doc
        ([(''conversation_chunk_count'', JInt (cv_conversation_chunk_count c)), (''tool_evidence_bundle_count'', JInt (cv_tool_evidence_bundle_count c)),
         (''conversation_coverage_hash'', JStr (build_coverage_hash (cv_conversation_content_hashes c))),
         (''tool_evidence_coverage_hash'', JStr (build_coverage_hash (cv_tool_evidence_coverage_hashes c))), (''source_hash'', JStr cv),
         (''observed_at_start'', JStr (cv_observed_at_start c)), (''observed_at_end'', JStr (cv_observed_at_end c)),
         (''ledger_comparison'', JObj (cv_ledger_comparison c)), (''project_authority'', JObj (cv_project_authority c))])) = Inr d"
    and doc: "base_document COVERAGE_MANIFEST (coverage_manifest_doc_id (cv_session_id_hash c)) (cv_provider c) (cv_project c)
        (cv_session_id_hash c) (cv_source_locator_hash c) DEFAULT_REDACTION_VERSION = Inr doc"
    unfolding build_coverage_manifest_document_def bind_result_Inr_iff by blast
  show ?thesis by (rule built_storable [OF f doc [unfolded coverage_manifest_doc_id_def]]) (simp_all add: COUCHDB_OWNED_DOC_TYPES_def)
qed

lemma projection_storable:
  assumes "build_projection_state_document p = Inr d"
  shows "validate_for_write d = Inr () \<and> typed d \<and> get_item d ''target_profile'' = JStr ''session-memory''"
proof -
  from assms obtain doc items u where f: "finalize (dict_update doc items) = Inr d"
    and tp: "assert_index_target_allowed (pj_target_profile p) = Inr u"
    and doc: "base_document PROJECTION_STATE (projection_state_doc_id (pj_session_id_hash p)) (pj_provider p) (pj_project p)
        (pj_session_id_hash p) (pj_source_locator_hash p) DEFAULT_REDACTION_VERSION = Inr doc"
    and fs: "items = [(''target_profile'', JStr (pj_target_profile p)), (''projection_status'', JStr (pj_projection_status p)),
         (''session_memory_knowledge_id'', JStr (pj_session_memory_knowledge_id p)),
         (''active_content_hash'', JStr (pj_active_content_hash p)), (''source_hash'', JStr (pj_source_hash p)),
         (''projected_source_hash'', JStr (pj_projected_source_hash p)), (''materialized_at'', JStr (pj_materialized_at p)),
         (''failure_reason'', JStr (pj_failure_reason p))]"
    unfolding build_projection_state_document_def bind_result_Inr_iff by blast
  have "pj_target_profile p = ''session-memory''" using tp by (simp add: assert_index_target_allowed_def split: if_splits)
  then have "get_item d ''target_profile'' = JStr ''session-memory''"
    using finalize_InrD [OF f] by (simp add: fs)
  moreover have "validate_for_write d = Inr () \<and> typed d"
    by (rule built_storable [OF f doc [unfolded projection_state_doc_id_def]]) (simp_all add: fs COUCHDB_OWNED_DOC_TYPES_def)
  ultimately show ?thesis by blast
qed

lemma retention_storable:
  assumes "build_retention_manifest_document s p pr tier ref loc = Inr d"
  shows "validate_for_write d = Inr () \<and> typed d"
proof -
  from assms obtain doc where f: "finalize (dict_update doc [(''tier'', JStr tier), (''cold_archive_ref'', JStr ref)]) = Inr d"
    and doc: "base_document RETENTION_MANIFEST (retention_manifest_doc_id s) p pr s loc DEFAULT_REDACTION_VERSION = Inr doc"
    unfolding build_retention_manifest_document_def bind_result_Inr_iff by blast
  show ?thesis by (rule built_storable [OF f doc [unfolded retention_manifest_doc_id_def]]) (simp_all add: COUCHDB_OWNED_DOC_TYPES_def)
qed

end
