(* ===== verification/Source_Delivery.thy ===== *)
theory Source_Delivery
  imports Delivery Source_Store
begin

text \<open>
  The delivery backend of \<open>rag_ingress/couchdb_delivery_backend.py\<close> on a source store, and the bounded
  correction of \<open>delivery_executor.py\<close>.  The store is a record of actions on the world of the
  backend.  Both lanes are here, the procedural one (repo usage patterns) and the one of conversation chunks, with every
  branch of \<open>submit\<close>.  The aggregate reconciliation and the resolution and activation of source revisions belong to
  \<open>session_memory_materializer.py\<close> and \<open>source_revision.py\<close> and are arguments.
\<close>

section \<open>Exceptions by class\<close>

text \<open>\<open>type(exc).__name__\<close>.\<close>

fun class_name :: "py_error \<Rightarrow> string" where
  "class_name (KeyError _) = ''KeyError''"
| "class_name (ValueError _) = ''ValueError''"
| "class_name (TypeError _) = ''TypeError''"
| "class_name (AttributeError _) = ''AttributeError''"
| "class_name OverflowError = ''OverflowError''"
| "class_name IndexError = ''IndexError''"
| "class_name (RuntimeError _) = ''RuntimeError''"
| "class_name (IntegrityError _) = ''IntegrityError''"
| "class_name (StateDBError _) = ''StateDBError''"
| "class_name (StaleOwnerRejected _) = ''StaleOwnerRejected''"
| "class_name (InjectedTransactionFailure _) = ''InjectedTransactionFailure''"
| "class_name (SecretLikeMetadataError _) = ''SecretLikeMetadataError''"
| "class_name (EventValidationError _) = ''EventValidationError''"
| "class_name (FileNotFoundError _) = ''FileNotFoundError''"
| "class_name (FileExistsError _) = ''FileExistsError''"
| "class_name (NotADirectoryError _) = ''NotADirectoryError''"
| "class_name (IsADirectoryError _) = ''IsADirectoryError''"
| "class_name (JSONDecodeError _) = ''JSONDecodeError''"
| "class_name (UnicodeDecodeError _) = ''UnicodeDecodeError''"
| "class_name (IngressEnqueueRejected _) = ''IngressEnqueueRejected''"
| "class_name (IngressEnqueueUnreachable _) = ''IngressEnqueueUnreachable''"
| "class_name (DeliveryOutcomeUncertain _) = ''DeliveryOutcomeUncertain''"
| "class_name (DeliveryDeferred _ _) = ''DeliveryDeferred''"
| "class_name (BackendError name) = name"
| "class_name (OwnershipViolation _) = ''OwnershipViolation''"
| "class_name (SourceRedactionLeak _) = ''SourceRedactionLeak''"
| "class_name (SourceStoreError _) = ''SourceStoreError''"
| "class_name (SourceStoreConflict _) = ''SourceStoreConflict''"
| "class_name (SourceStoreResponseTooLarge _) = ''SourceStoreResponseTooLarge''"
| "class_name (CouchDBError _) = ''CouchDBError''"
| "class_name (SourceRevisionResolutionError _) = ''SourceRevisionResolutionError''"

text \<open>\<open>except ValueError\<close> catches the subclasses too.\<close>

fun is_value_error :: "py_error \<Rightarrow> bool" where
  "is_value_error (ValueError _) = True"
| "is_value_error (SecretLikeMetadataError _) = True"
| "is_value_error (EventValidationError _) = True"
| "is_value_error (JSONDecodeError _) = True"
| "is_value_error (UnicodeDecodeError _) = True"
| "is_value_error (OwnershipViolation _) = True"
| "is_value_error (SourceRedactionLeak _) = True"
| "is_value_error (SourceStoreError _) = True"
| "is_value_error (SourceStoreConflict _) = True"
| "is_value_error (SourceStoreResponseTooLarge _) = True"
| "is_value_error (SourceRevisionResolutionError _) = True"
| "is_value_error _ = False"

fun is_preparation_error :: "py_error \<Rightarrow> bool" where
  "is_preparation_error (AttributeError _) = True"
| "is_preparation_error OverflowError = True"
| "is_preparation_error (TypeError _) = True"
| "is_preparation_error e = is_value_error e"

fun is_key_error :: "py_error \<Rightarrow> bool" where
  "is_key_error (KeyError _) = True"
| "is_key_error _ = False"

fun is_type_error :: "py_error \<Rightarrow> bool" where
  "is_type_error (TypeError _) = True"
| "is_type_error _ = False"

section \<open>The store behind the backend\<close>

record 'w source_store =
  st_get :: "string \<Rightarrow> ('w, dict option) action"
  st_put_if_absent :: "dict \<Rightarrow> ('w, stored_revision) action"
  st_db :: string

definition on_store :: "('w, 'a) action \<Rightarrow> ('w env, 'a) action" where
  "on_store m = (\<lambda>(w, db). case m w of (r, w') \<Rightarrow> (r, (w', db)))"

definition act_of :: "'a result \<Rightarrow> ('s, 'a) action" where
  "act_of r = (\<lambda>s. (r, s))"

definition dataset_of :: "'w source_store \<Rightarrow> string" where
  "dataset_of st = ''couchdb:'' @ st_db st"

definition evidence_of :: "string \<Rightarrow> string \<Rightarrow> string \<Rightarrow> string \<Rightarrow> string \<Rightarrow> string \<Rightarrow> evidence" where
  "evidence_of key h dataset_ref document_ref run status =
    \<lparr>evd_idempotency_key = key, evd_payload_hash = h, evd_dataset_ref = dataset_ref, evd_document_ref = document_ref,
     evd_run = run, evd_status = status, evd_observed_at = None\<rparr>"

definition payload_integrity_evidence :: "job_view \<Rightarrow> string \<Rightarrow> evidence" where
  "payload_integrity_evidence job run =
    evidence_of (jv_idempotency_key job) (jv_payload_hash job) '''' '''' run ''payload_integrity_mismatch''"

definition active_pointer_membership_evidence :: "job_view \<Rightarrow> string \<Rightarrow> evidence" where
  "active_pointer_membership_evidence job run =
    evidence_of (jv_idempotency_key job) (jv_payload_hash job) '''' '''' run ''failed_retryable''"

text \<open>\<open>payload_hash(a) == payload_hash(b)\<close>.\<close>

definition same_payload :: "dict \<Rightarrow> dict \<Rightarrow> bool result" where
  "same_payload a b = bind_result (payload_hash a) (\<lambda>h. bind_result (payload_hash b) (\<lambda>k. Inr (h = k)))"

definition doc_id_of :: "dict \<Rightarrow> string" where
  "doc_id_of document = py_str (get_item document ''_id'')"

section \<open>The procedural lane\<close>

text \<open>The body of the \<open>try\<close>: read, write when absent, read back.\<close>

definition store_procedural :: "'w source_store \<Rightarrow> job_view \<Rightarrow> dict \<Rightarrow> ('w env, evidence option) action" where
  "store_procedural st job raw_document =
    (let doc_id = doc_id_of raw_document;
         confirm = bind_act (on_store (st_get st doc_id)) (\<lambda>confirmed.
           bind_act (case confirmed of None \<Rightarrow> return_act False | Some c \<Rightarrow> act_of (same_payload c raw_document)) (\<lambda>same.
             if same then return_act None
             else raise_act (DeliveryOutcomeUncertain ''procedural_source_readback_mismatch'')))
     in bind_act (on_store (st_get st doc_id)) (\<lambda>existing_raw.
          case existing_raw of
            Some existing \<Rightarrow>
              bind_act (act_of (same_payload existing raw_document)) (\<lambda>same.
                if \<not> same then return_act (Some (payload_integrity_evidence job ''procedural_natural_key_conflict''))
                else confirm)
          | None \<Rightarrow> bind_act (on_store (st_put_if_absent st raw_document)) (\<lambda>_. confirm)))"

text \<open>The handler of \<open>SourceStoreConflict\<close>.\<close>

definition raced_procedural :: "'w source_store \<Rightarrow> job_view \<Rightarrow> dict \<Rightarrow> ('w env, evidence) action" where
  "raced_procedural st job raw_document =
    bind_act (on_store (st_get st (doc_id_of raw_document))) (\<lambda>raced.
      bind_act (case raced of None \<Rightarrow> return_act True | Some r \<Rightarrow> act_of (same_payload r raw_document)) (\<lambda>same.
        if \<not> same then return_act (payload_integrity_evidence job ''procedural_natural_key_conflict'')
        else raise_act (DeliveryOutcomeUncertain ''procedural_source_conflict'')))"

definition raw_source_stored :: "'w source_store \<Rightarrow> string \<Rightarrow> string \<Rightarrow> dict \<Rightarrow> evidence" where
  "raw_source_stored st key h raw_document =
    evidence_of key h (dataset_of st) (doc_id_of raw_document) ''raw_source_stored'' ''succeeded''"

definition submit_procedural :: "'w source_store \<Rightarrow> job_view \<Rightarrow> dict \<Rightarrow> ('w env, evidence) action" where
  "submit_procedural st job payload =
    (case build_repo_usage_pattern_document payload (jv_job_id job) of
       Inl e \<Rightarrow>
         (if is_key_error e \<or> is_preparation_error e
          then return_act (payload_integrity_evidence job (''prepare_procedural_source:'' @ class_name e))
          else raise_act e)
     | Inr raw_document \<Rightarrow>
         bind_act (attempt (store_procedural st job raw_document)) (\<lambda>answer.
           case answer of
             Inl (SourceStoreConflict _) \<Rightarrow> raced_procedural st job raw_document
           | Inl e \<Rightarrow> raise_act (DeliveryOutcomeUncertain (class_name e))
           | Inr (Some ev) \<Rightarrow> return_act ev
           | Inr None \<Rightarrow> return_act (raw_source_stored st (jv_idempotency_key job) (jv_payload_hash job) raw_document)))"

section \<open>The transcript lane: what a payload becomes\<close>

record active_revision =
  ar_session_id_hash :: string
  ar_sessions :: "dict list"
  ar_conversation_chunks :: "dict list"
  ar_tool_evidence_bundles :: "dict list"
  ar_source_hash :: string
  ar_manifest_id :: "string option"
  ar_is_legacy_unpinned :: bool

definition CHUNK_IDENTITY_FIELDS :: "string list" where
  "CHUNK_IDENTITY_FIELDS =
    [''doc_type'', ''session_id_hash'', ''chunk_id'', ''provider'', ''project'', ''redaction_version'', ''source_status'']"

definition chunk_documents_match :: "dict \<Rightarrow> dict \<Rightarrow> bool result" where
  "chunk_documents_match existing_chunk expected_chunk =
    (if list_all (\<lambda>field. str_or_empty (get_item existing_chunk field) = str_or_empty (get_item expected_chunk field)) CHUNK_IDENTITY_FIELDS
     then same_payload existing_chunk expected_chunk else Inr False)"

definition SOURCE_SNAPSHOT_ORIGIN_ID :: string where
  "SOURCE_SNAPSHOT_ORIGIN_ID = ''source_snapshot_origin_id''"

definition source_document_logical_identity :: "dict \<Rightarrow> string result" where
  "source_document_logical_identity document =
    (let current_scope = get_item document ''current_source_scope'';
         superseded_id_hash = get_item document ''supersedes_source_document_hash'';
         origin_id = str_or_empty (py_or (get_item document SOURCE_SNAPSHOT_ORIGIN_ID) (get_item document ''_id''))
     in if current_scope \<noteq> JNull \<or> superseded_id_hash \<noteq> JNull
        then (case bind_result (assert_hash_like ''current_source_scope'' (str_or_empty current_scope)) (\<lambda>_.
                assert_hash_like ''supersedes_source_document_hash'' (str_or_empty superseded_id_hash)) of
                Inl _ \<Rightarrow> Inl (SourceRevisionResolutionError ''source revision current copy logical identity is invalid'')
              | Inr _ \<Rightarrow> Inr (py_str superseded_id_hash))
        else if origin_id = '''' then Inl (SourceRevisionResolutionError ''source revision logical identity is invalid'')
        else Inr (sha256_hash origin_id))"

fun with_identity :: "string \<Rightarrow> dict list \<Rightarrow> dict list result" where
  "with_identity expected [] = Inr []"
| "with_identity expected (document # rest) =
    bind_result (source_document_logical_identity document) (\<lambda>i.
    bind_result (with_identity expected rest) (\<lambda>found.
      Inr (if i = expected then document # found else found)))"

definition is_active_chunk_duplicate :: "active_revision \<Rightarrow> dict \<Rightarrow> bool result" where
  "is_active_chunk_duplicate active chunk_document =
    bind_result (source_document_logical_identity chunk_document) (\<lambda>expected_identity.
    bind_result (with_identity expected_identity (ar_conversation_chunks active)) (\<lambda>active_chunks.
      case active_chunks of
        [] \<Rightarrow> Inr False
      | [c] \<Rightarrow>
          bind_result (chunk_documents_match c chunk_document) (\<lambda>same.
            if \<not> same then Inl (SourceStoreConflict ''active source revision chunk logical identity conflicts'') else Inr True)
      | _ \<Rightarrow> Inl (SourceStoreConflict ''active source revision chunk logical identity is ambiguous'')))"

text \<open>\<open>str(a or b or \<dots> or "")\<close>.\<close>

fun first_text :: "json list \<Rightarrow> string" where
  "first_text [] = ''''"
| "first_text (v # vs) = (if truthy v then py_str v else first_text vs)"

text \<open>\<open>_chunk_document_for_payload_identity\<close>: the chunk a stored payload stands for, with no store at hand.\<close>

definition identity_chunk :: "dict \<Rightarrow> dict \<Rightarrow> dict \<Rightarrow> string \<Rightarrow> source_chunk result" where
  "identity_chunk package source metadata document_body =
    bind_result (int_or (get_item metadata ''turn_start_index'') 0) (\<lambda>turn_start.
    bind_result (int_or (get_item metadata ''turn_end_index'') 0) (\<lambda>turn_end.
    bind_result (int_or (get_item metadata ''part_index'') 1) (\<lambda>part_index.
    bind_result (int_or (get_item metadata ''part_count'') 1) (\<lambda>part_count.
    bind_result (int_or (get_item metadata ''char_start'') 0) (\<lambda>char_start.
    bind_result (int_or (get_item metadata ''char_end'') (int (length document_body))) (\<lambda>char_end.
      chunk_post_init
        \<lparr>sc_chunk_id = str_or_empty (get_item metadata ''chunk_id''),
         sc_session_id_hash = str_or_empty (get_item metadata ''session_id_hash''),
         sc_provider = first_text [get_item metadata ''provider'', get_item source ''provider'', get_item source ''namespace'', JStr ''ingress''],
         sc_project = first_text [get_item metadata ''project'', get_item source ''project''],
         sc_turn_start_index = turn_start, sc_turn_end_index = turn_end, sc_redacted_text = document_body,
         sc_content_hash = sha256_hash document_body,
         sc_redaction_version = first_text [get_item package ''redactionVersion'', JStr DEFAULT_REDACTION_VERSION],
         sc_source_status = ''source_locator_private_spool_only'', sc_part_index = part_index, sc_part_count = part_count,
         sc_char_start = char_start, sc_char_end = char_end,
         sc_observed_at_start = str_or_empty (get_item metadata ''observed_at_start''),
         sc_observed_at_end = first_text [get_item metadata ''observed_at_end'', get_item metadata ''observed_at_start'']\<rparr>))))))"

definition identity_document :: "dict \<Rightarrow> dict option result" where
  "identity_document payload =
    bind_result (apply_server_redaction payload) (\<lambda>redacted_payload.
      (let document = (case get_item redacted_payload ''payload'' of JObj package \<Rightarrow> get_item package ''document'' | _ \<Rightarrow> JNull);
           metadata = (case document of JObj d \<Rightarrow> get_item d ''metadata'' | _ \<Rightarrow> JNull)
       in case (get_item redacted_payload ''payload'', get_item redacted_payload ''source'', document, metadata) of
            (JObj package, JObj source, JObj doc, JObj meta) \<Rightarrow>
              if str_or_empty (get_item meta ''session_id_hash'') = '''' \<or> str_or_empty (get_item meta ''chunk_id'') = '''' then Inr None
              else bind_result (identity_chunk package source meta (str_or_empty (get_item doc ''body''))) (\<lambda>chunk.
                bind_result (build_conversation_chunk_document chunk '''') (\<lambda>d. Inr (Some d)))
          | _ \<Rightarrow> Inr None))"

definition chunk_document_for_payload_identity :: "dict \<Rightarrow> dict option result" where
  "chunk_document_for_payload_identity payload =
    (case identity_document payload of
       Inl e \<Rightarrow> if is_preparation_error e then Inr None else Inl e
     | Inr d \<Rightarrow> Inr d)"

text \<open>
  Gates 3 and 4 of \<open>submit\<close> and the construction of the two documents.  An early return is \<open>Inl\<close> evidence; an exception
  that no handler of \<open>submit\<close> catches is the error of the result.
\<close>

record prepared =
  pr_payload :: dict
  pr_session_id_hash :: string
  pr_provider :: string
  pr_project :: string
  pr_session_doc :: dict
  pr_chunk_doc :: dict

definition has_payload_shape :: "dict \<Rightarrow> bool" where
  "has_payload_shape payload =
    (case (get_item payload ''payload'', get_item payload ''source'') of
       (JObj package, JObj source) \<Rightarrow>
         (case get_item package ''document'' of
            JObj document \<Rightarrow> is_dict (py_or (get_item document ''metadata'') (JObj []))
          | _ \<Rightarrow> False)
     | _ \<Rightarrow> False)"

definition leak_surface :: "dict \<Rightarrow> dict \<Rightarrow> dict \<Rightarrow> string" where
  "leak_surface document metadata source =
    json_dump_sorted (JObj
      [(''body'', JStr (str_or_empty (get_item document ''body''))),
       (''filename'', py_or (get_item document ''filename'') (JStr '''')), (''metadata'', JObj metadata),
       (''source'', JObj [(''project'', py_or (get_item source ''project'') (JStr '''')), (''host'', py_or (get_item source ''host'') (JStr ''''))])])"

definition positions :: "dict \<Rightarrow> string \<Rightarrow> (int \<times> int \<times> int \<times> int \<times> int \<times> int) result" where
  "positions metadata document_body =
    bind_result (int_or (get_item metadata ''turn_start_index'') 0) (\<lambda>turn_start.
    bind_result (int_or (get_item metadata ''turn_end_index'') 0) (\<lambda>turn_end.
    bind_result (int_or (get_item metadata ''part_index'') 1) (\<lambda>part_index.
    bind_result (int_or (get_item metadata ''part_count'') 1) (\<lambda>part_count.
    bind_result (int_or (get_item metadata ''char_start'') 0) (\<lambda>char_start.
    bind_result (int_or (get_item metadata ''char_end'') (int (length document_body))) (\<lambda>char_end.
      Inr (turn_start, turn_end, part_index, part_count, char_start, char_end)))))))"

definition early_integrity :: "job_view \<Rightarrow> string \<Rightarrow> (evidence + 'a) result" where
  "early_integrity job run = Inr (Inl (payload_integrity_evidence job run))"

definition build_documents :: "job_view \<Rightarrow> dict \<Rightarrow> dict \<Rightarrow> dict \<Rightarrow> dict \<Rightarrow> string \<Rightarrow> (evidence + prepared) result" where
  "build_documents job payload pkg source metadata document_body =
    (let session_id_hash = str_or_empty (get_item metadata ''session_id_hash'');
         provider = first_text [get_item metadata ''provider'', get_item source ''provider'', get_item source ''namespace'', JStr ''ingress''];
         project = first_text [get_item metadata ''project'', get_item source ''project''];
         chunk_id = str_or_empty (get_item metadata ''chunk_id'');
         redaction_version = first_text [get_item pkg ''redactionVersion'', JStr DEFAULT_REDACTION_VERSION];
         observed_at_start = str_or_empty (get_item metadata ''observed_at_start'');
         observed_at_end = first_text [get_item metadata ''observed_at_end'', JStr observed_at_start]
     in case positions metadata document_body of
          Inl e \<Rightarrow>
            (if e = OverflowError \<or> is_value_error e \<or> is_type_error e
             then early_integrity job ''invalid_positional_metadata'' else Inl e)
        | Inr (turn_start, turn_end, part_index, part_count, char_start, char_end) \<Rightarrow>
            if session_id_hash = '''' \<or> chunk_id = '''' then early_integrity job ''missing_session_id_hash_or_chunk_id''
            else bind_result (chunk_post_init
                \<lparr>sc_chunk_id = chunk_id, sc_session_id_hash = session_id_hash, sc_provider = provider, sc_project = project,
                 sc_turn_start_index = turn_start, sc_turn_end_index = turn_end, sc_redacted_text = document_body,
                 sc_content_hash = sha256_hash document_body, sc_redaction_version = redaction_version,
                 sc_source_status = ''source_locator_private_spool_only'', sc_part_index = part_index, sc_part_count = part_count,
                 sc_char_start = char_start, sc_char_end = char_end, sc_observed_at_start = observed_at_start,
                 sc_observed_at_end = observed_at_end\<rparr>) (\<lambda>chunk.
              bind_result (session_post_init
                \<lparr>ts_session_id_hash = session_id_hash, ts_provider = provider, ts_project = project, ts_started_at = observed_at_start,
                 ts_ended_at = observed_at_end, ts_source_status = ''source_unproven'', ts_source_locator_hash = '''',
                 ts_observed_at_start = observed_at_start, ts_observed_at_end = observed_at_end, ts_source_hash = '''',
                 ts_materialized_at = ''''\<rparr>) (\<lambda>session.
              (case bind_result (build_transcript_session_document session) (\<lambda>session_doc.
                  bind_result (build_conversation_chunk_document chunk '''') (\<lambda>chunk_doc. Inr (session_doc, chunk_doc))) of
                 Inl e \<Rightarrow>
                   if is_preparation_error e then early_integrity job (''prepare_source_documents:'' @ class_name e) else Inl e
               | Inr (session_doc, chunk_doc) \<Rightarrow>
                   Inr (Inr \<lparr>pr_payload = payload, pr_session_id_hash = session_id_hash, pr_provider = provider, pr_project = project,
                     pr_session_doc = session_doc, pr_chunk_doc = chunk_doc\<rparr>)))))"

definition prepare_chunk :: "job_view \<Rightarrow> dict \<Rightarrow> (evidence + prepared) result" where
  "prepare_chunk job stored =
    (if \<not> has_payload_shape stored then early_integrity job ''invalid_stored_payload_shape''
     else case apply_server_redaction stored of
       Inl e \<Rightarrow> if is_preparation_error e then early_integrity job ''invalid_stored_payload_shape'' else Inl e
     | Inr payload \<Rightarrow>
         (let pkg = py_or (get_item payload ''payload'') (JObj [])
          in bind_result (dict_get pkg ''document'') (\<lambda>doc.
             bind_result (dict_get (py_or doc (JObj [])) ''metadata'') (\<lambda>meta.
               case py_or meta (JObj []) of
                 JObj metadata \<Rightarrow>
                   (let document = dict_of (py_or doc (JObj [])); source = dict_of (py_or (get_item payload ''source'') (JObj []));
                        leak_violations = public_ingress_leak_violations (leak_surface document metadata source)
                    in if leak_violations \<noteq> []
                       then Inr (Inl (evidence_of (jv_idempotency_key job) (jv_payload_hash job) '''' ''''
                         (''public_ingress_leak:'' @ join '','' (sort leak_violations)) ''quarantined''))
                       else build_documents job payload (dict_of pkg) source metadata (str_or_empty (get_item document ''body'')))
               | _ \<Rightarrow> early_integrity job ''invalid_document_metadata''))))"

section \<open>The transcript lane: the source plane\<close>

text \<open>
  What the lane calls beyond the store: \<open>resolve_active_source_revision\<close>, \<open>activate_source_revision\<close> and
  \<open>active_source_origin_document_ids\<close> of \<open>source_revision.py\<close>, \<open>upsert_transcript_session_aggregate\<close>,
  \<open>update_coverage_with_tool_evidence\<close> and \<open>mark_projection_pending_if_source_changed\<close> of
  \<open>session_memory_materializer.py\<close>, the mirror's \<open>submit_document\<close> and the hook for its outcome.
\<close>

record mirror_outcome =
  mo_status :: string
  mo_document_ref :: string
  mo_error_class :: string

record 'w source_plane =
  sp_store :: "'w source_store"
  sp_resolve_active :: "string \<Rightarrow> ('w, active_revision) action"
  sp_activate :: "string \<Rightarrow> string list \<Rightarrow> (string \<times> string) list option \<Rightarrow> active_revision \<Rightarrow> ('w, active_revision) action"
  sp_origin_ids :: "active_revision \<Rightarrow> string list result"
  sp_upsert_session :: "dict \<Rightarrow> ('w, unit) action"
  sp_update_coverage :: "string \<Rightarrow> ('w, dict option) action"
  sp_mark_pending :: "string \<Rightarrow> string \<Rightarrow> string \<Rightarrow> string \<Rightarrow> bool \<Rightarrow> ('w, unit) action"
  sp_mirror :: "(rag_document \<Rightarrow> ('w, string) action) option"
  sp_on_mirror_outcome :: "(mirror_outcome \<Rightarrow> ('w, unit) action) option"

definition active_source_revision_before_ingress :: "'w source_plane \<Rightarrow> string \<Rightarrow> ('w, active_revision option) action" where
  "active_source_revision_before_ingress sp session_id_hash =
    bind_act (st_get (sp_store sp) (active_source_revision_pointer_doc_id session_id_hash)) (\<lambda>pointer.
      case pointer of
        None \<Rightarrow> return_act None
      | Some _ \<Rightarrow> bind_act (sp_resolve_active sp session_id_hash) (\<lambda>r. return_act (Some r)))"

definition assert_active_revision_matches_ingress :: "active_revision \<Rightarrow> string \<Rightarrow> string \<Rightarrow> unit result" where
  "assert_active_revision_matches_ingress active provider project =
    (case ar_sessions active of
       [session] \<Rightarrow>
         if str_or_empty (get_item session ''provider'') \<noteq> provider \<or> str_or_empty (get_item session ''project'') \<noteq> project
         then Inl (SourceStoreConflict ''active source revision ingress contract is invalid'') else Inr ()
     | _ \<Rightarrow> Inl (SourceStoreConflict ''active source revision session contract is invalid''))"

definition active_revision_provenance :: "'w source_plane \<Rightarrow> active_revision \<Rightarrow> ('w, (string \<times> string) list) action" where
  "active_revision_provenance sp active =
    (case ar_manifest_id active of
       None \<Rightarrow> raise_act (SourceStoreConflict ''active source revision manifest is missing'')
     | Some manifest_id \<Rightarrow>
         if manifest_id = '''' then raise_act (SourceStoreConflict ''active source revision manifest is missing'')
         else bind_act (st_get (sp_store sp) manifest_id) (\<lambda>manifest.
           case get_item (case manifest of None \<Rightarrow> [] | Some m \<Rightarrow> m) ''provenance'' of
             JObj provenance \<Rightarrow> return_act (map (map_prod id py_str) provenance)
           | _ \<Rightarrow> raise_act (SourceStoreConflict ''active source revision provenance is invalid'')))"

text \<open>A successor of the active revision that names the new chunk, its coverage and the projection state.\<close>

definition activate_with :: "'w source_plane \<Rightarrow> prepared \<Rightarrow> active_revision \<Rightarrow> bool \<Rightarrow> (active_revision \<Rightarrow> bool) \<Rightarrow> ('w, unit) action" where
  "activate_with sp pr active active_duplicate source_changed =
    bind_act (act_of (sp_origin_ids sp active)) (\<lambda>origin_ids.
    bind_act (if active_duplicate then bind_act (active_revision_provenance sp active) (\<lambda>p. return_act (Some p)) else return_act None) (\<lambda>provenance.
    bind_act (sp_activate sp (pr_session_id_hash pr)
      (sort (remdups (origin_ids @ (if active_duplicate then [] else [doc_id_of (pr_chunk_doc pr)])))) provenance active) (\<lambda>activated.
    bind_act (sp_update_coverage sp (pr_session_id_hash pr)) (\<lambda>coverage_doc.
      if (case coverage_doc of None \<Rightarrow> True | Some d \<Rightarrow> str_or_empty (get_item d ''source_hash'') \<noteq> ar_source_hash activated)
      then raise_act (SourceStoreConflict ''active source revision coverage did not converge'')
      else sp_mark_pending sp (pr_session_id_hash pr) (pr_provider pr) (pr_project pr) (ar_source_hash activated) (source_changed activated)))))"

text \<open>No pointer yet: the chunk is written, the session aggregate refreshed, and a pointer published meanwhile is honoured.\<close>

definition store_unpinned :: "'w source_plane \<Rightarrow> job_view \<Rightarrow> prepared \<Rightarrow> ('w, evidence + bool) action" where
  "store_unpinned sp job pr =
    bind_act (st_put_if_absent (sp_store sp) (pr_chunk_doc pr)) (\<lambda>chunk_revision.
    bind_act (sp_upsert_session sp (pr_session_doc pr)) (\<lambda>_.
    bind_act (active_source_revision_before_ingress sp (pr_session_id_hash pr)) (\<lambda>activated_after.
      case activated_after of
        Some active \<Rightarrow>
          bind_act (act_of (assert_active_revision_matches_ingress active (pr_provider pr) (pr_project pr))) (\<lambda>_.
            (case is_active_chunk_duplicate active (pr_chunk_doc pr) of
               Inl (SourceStoreConflict _) \<Rightarrow> return_act (Inl (payload_integrity_evidence job ''active_chunk_logical_identity_mismatch''))
             | Inl e \<Rightarrow> raise_act e
             | Inr active_duplicate \<Rightarrow>
                 bind_act (activate_with sp pr active active_duplicate (\<lambda>activated. ar_source_hash activated \<noteq> ar_source_hash active)) (\<lambda>_.
                   return_act (Inr (active_duplicate \<or> rv_outcome chunk_revision = ''duplicate'')))))
      | None \<Rightarrow>
          bind_act (sp_update_coverage sp (pr_session_id_hash pr)) (\<lambda>coverage_doc.
          bind_act (sp_mark_pending sp (pr_session_id_hash pr) (pr_provider pr) (pr_project pr)
            (str_or_empty (get_item (case coverage_doc of None \<Rightarrow> [] | Some d \<Rightarrow> d) ''source_hash'')) (rv_outcome chunk_revision \<noteq> ''duplicate'')) (\<lambda>_.
              return_act (Inr False))))))"

text \<open>A pointer pins the source set: the chunk is new, an exact duplicate, or a conflict.\<close>

definition store_pinned_chunk :: "'w source_store \<Rightarrow> dict \<Rightarrow> ('w, bool) action" where
  "store_pinned_chunk st chunk_doc =
    bind_act (st_get st (doc_id_of chunk_doc)) (\<lambda>existing_chunk.
      case existing_chunk of
        Some existing \<Rightarrow> act_of (chunk_documents_match existing chunk_doc)
      | None \<Rightarrow>
          bind_act (attempt (st_put_if_absent st chunk_doc)) (\<lambda>answer.
            case answer of
              Inr _ \<Rightarrow> return_act True
            | Inl (SourceStoreConflict m) \<Rightarrow>
                bind_act (st_get st (doc_id_of chunk_doc)) (\<lambda>raced_chunk.
                bind_act (case raced_chunk of None \<Rightarrow> return_act True | Some r \<Rightarrow> act_of (chunk_documents_match r chunk_doc)) (\<lambda>same.
                  if \<not> same then return_act False else raise_act (SourceStoreConflict m)))
            | Inl e \<Rightarrow> raise_act e))"

definition store_pinned :: "'w source_plane \<Rightarrow> job_view \<Rightarrow> prepared \<Rightarrow> active_revision \<Rightarrow> ('w, evidence + bool) action" where
  "store_pinned sp job pr active =
    bind_act (act_of (assert_active_revision_matches_ingress active (pr_provider pr) (pr_project pr))) (\<lambda>_.
      (case is_active_chunk_duplicate active (pr_chunk_doc pr) of
         Inl (SourceStoreConflict _) \<Rightarrow> return_act (Inl (payload_integrity_evidence job ''active_chunk_logical_identity_mismatch''))
       | Inl e \<Rightarrow> raise_act e
       | Inr active_duplicate \<Rightarrow>
           bind_act (store_pinned_chunk (sp_store sp) (pr_chunk_doc pr)) (\<lambda>same.
             if \<not> same then return_act (Inl (payload_integrity_evidence job ''chunk_id_payload_mismatch''))
             else bind_act (activate_with sp pr active active_duplicate (\<lambda>_. True)) (\<lambda>_. return_act (Inr active_duplicate)))))"

definition store_chunk :: "'w source_plane \<Rightarrow> job_view \<Rightarrow> prepared \<Rightarrow> ('w, evidence + bool) action" where
  "store_chunk sp job pr =
    bind_act (active_source_revision_before_ingress sp (pr_session_id_hash pr)) (\<lambda>active.
      case active of None \<Rightarrow> store_unpinned sp job pr | Some a \<Rightarrow> store_pinned sp job pr a)"

text \<open>The mirror runs after the authoritative write; nothing it does changes the answer.\<close>

definition mirror_document :: "(rag_document \<Rightarrow> ('w, string) action) \<Rightarrow> dict \<Rightarrow> ('w, string) action" where
  "mirror_document mirror redacted_payload =
    (case document_from_ingress_payload redacted_payload of Inl e \<Rightarrow> raise_act e | Inr document \<Rightarrow> mirror document)"

definition submit_mirror :: "'w source_plane \<Rightarrow> dict \<Rightarrow> ('w, unit) action" where
  "submit_mirror sp redacted_payload =
    (case sp_mirror sp of
       None \<Rightarrow> return_act ()
     | Some mirror \<Rightarrow>
         bind_act (attempt (mirror_document mirror redacted_payload)) (\<lambda>answer.
           (let mirrored = (case answer of
                Inr document_ref \<Rightarrow> \<lparr>mo_status = ''mirrored'', mo_document_ref = document_ref, mo_error_class = ''''\<rparr>
              | Inl e \<Rightarrow> \<lparr>mo_status = ''mirror_error'', mo_document_ref = '''', mo_error_class = class_name e\<rparr>)
            in case sp_on_mirror_outcome sp of
                 None \<Rightarrow> return_act ()
               | Some hook \<Rightarrow> bind_act (attempt (hook mirrored)) (\<lambda>_. return_act ()))))"

section \<open>The backend\<close>

definition find_procedural :: "'w source_store \<Rightarrow> job_view \<Rightarrow> string \<Rightarrow> string \<Rightarrow> dict \<Rightarrow> ('w env, evidence option) action" where
  "find_procedural st job key h payload =
    (case build_repo_usage_pattern_document payload (jv_job_id job) of
       Inl e \<Rightarrow> if is_key_error e \<or> is_preparation_error e then return_act None else raise_act e
     | Inr expected \<Rightarrow>
         bind_act (on_store (st_get st (doc_id_of expected))) (\<lambda>found.
           case found of
             None \<Rightarrow> return_act None
           | Some existing \<Rightarrow>
               bind_act (act_of (same_payload existing expected)) (\<lambda>same.
                 return_act (Some (if same then raw_source_stored st key h expected
                   else payload_integrity_evidence job ''procedural_natural_key_conflict'')))))"

definition find_chunk :: "'w source_plane \<Rightarrow> job_view \<Rightarrow> string \<Rightarrow> string \<Rightarrow> dict \<Rightarrow> ('w, evidence option) action" where
  "find_chunk sp job key h payload =
    bind_act (act_of (chunk_document_for_payload_identity payload)) (\<lambda>identity.
      case identity of
        None \<Rightarrow> return_act None
      | Some expected_chunk \<Rightarrow>
          (let session_id_hash = str_or_empty (get_item expected_chunk ''session_id_hash'');
               chunk_doc_id = str_or_empty (get_item expected_chunk ''_id'');
               mismatch = return_act (Some (payload_integrity_evidence job ''chunk_id_payload_mismatch''));
               found = return_act (Some (evidence_of key h (dataset_of (sp_store sp)) (session_doc_id session_id_hash) ''couchdb_existing'' ''succeeded''))
           in if session_id_hash = '''' \<or> chunk_doc_id = '''' then return_act None
              else bind_act (attempt (active_source_revision_before_ingress sp session_id_hash)) (\<lambda>answer.
                case answer of
                  Inl e \<Rightarrow>
                    if is_value_error e
                    then return_act (Some (active_pointer_membership_evidence job ''active_pointer_control_unresolved''))
                    else raise_act e
                | Inr (Some active) \<Rightarrow>
                    (case is_active_chunk_duplicate active expected_chunk of
                       Inl (SourceStoreConflict _) \<Rightarrow> mismatch
                     | Inl e \<Rightarrow> raise_act e
                     | Inr True \<Rightarrow> found
                     | Inr False \<Rightarrow>
                         bind_act (st_get (sp_store sp) chunk_doc_id) (\<lambda>existing_chunk.
                         bind_act (case existing_chunk of None \<Rightarrow> return_act True | Some c \<Rightarrow> act_of (chunk_documents_match c expected_chunk)) (\<lambda>same.
                           if \<not> same then mismatch
                           else return_act (Some (active_pointer_membership_evidence job ''active_pointer_member_missing'')))))
                | Inr None \<Rightarrow>
                    bind_act (st_get (sp_store sp) chunk_doc_id) (\<lambda>existing_chunk.
                      case existing_chunk of
                        None \<Rightarrow> return_act None
                      | Some c \<Rightarrow> bind_act (act_of (chunk_documents_match c expected_chunk)) (\<lambda>same. if \<not> same then mismatch else found)))))"

definition couchdb_find :: "'w source_plane \<Rightarrow> string \<Rightarrow> string \<Rightarrow> ('w env, evidence option) action" where
  "couchdb_find sp key h =
    bind_act (read_db (\<lambda>db. row_with job_idempotency_key key (delivery_jobs db))) (\<lambda>found.
      case found of
        None \<Rightarrow> return_act None
      | Some row \<Rightarrow>
          if job_payload_hash row \<noteq> h then return_act None
          else bind_act (read_db (\<lambda>db. get_effective_delivery_payload db key)) (\<lambda>answer.
            case answer of
              Inl e \<Rightarrow> raise_act e
            | Inr None \<Rightarrow> return_act None
            | Inr (Some payload) \<Rightarrow>
                if job_document_kind row = REPO_USAGE_PATTERN then find_procedural (sp_store sp) (view_from_row row) key h payload
                else on_store (find_chunk sp (view_from_row row) key h payload)))"

definition deliver_prepared :: "'w source_plane \<Rightarrow> datetime \<Rightarrow> job_view \<Rightarrow> evidence option \<Rightarrow> evidence + prepared \<Rightarrow> ('w env, evidence) action" where
  "deliver_prepared sp now job existing ready =
    (case ready of
       Inl early \<Rightarrow> return_act early
     | Inr pr \<Rightarrow>
         bind_act (attempt (on_store (store_chunk sp job pr))) (\<lambda>answer.
           case answer of
             Inl e \<Rightarrow> raise_act (DeliveryOutcomeUncertain (class_name e))
           | Inr (Inl early) \<Rightarrow> return_act early
           | Inr (Inr active_duplicate) \<Rightarrow>
               bind_act (on_store (submit_mirror sp (pr_payload pr))) (\<lambda>_.
                 return_act (evidence_of (jv_idempotency_key job) (jv_payload_hash job) (dataset_of (sp_store sp))
                   (session_doc_id (pr_session_id_hash pr)) (if existing \<noteq> None \<or> active_duplicate then ''couchdb_existing'' else ''couchdb_put'')
                   ''succeeded''\<lparr>evd_observed_at := Some now\<rparr>))))"

definition submit_chunk :: "'w source_plane \<Rightarrow> datetime \<Rightarrow> job_view \<Rightarrow> dict \<Rightarrow> ('w env, evidence) action" where
  "submit_chunk sp now job payload =
    bind_act (attempt (couchdb_find sp (jv_idempotency_key job) (jv_payload_hash job))) (\<lambda>looked.
      case looked of
        Inl e \<Rightarrow> raise_act (DeliveryOutcomeUncertain (class_name e))
      | Inr existing \<Rightarrow>
          if map_option evd_status existing = Some ''payload_integrity_mismatch'' then return_act (the existing)
          else bind_act (act_of (prepare_chunk job payload)) (deliver_prepared sp now job existing))"

definition couchdb_submit :: "'w source_plane \<Rightarrow> datetime \<Rightarrow> job_view \<Rightarrow> ('w env, evidence) action" where
  "couchdb_submit sp now job =
    bind_act (read_db (\<lambda>db. resolve_delivery_payload db (jv_idempotency_key job) (jv_payload_hash job))) (\<lambda>resolved.
      case resolved of
        Inl e \<Rightarrow>
          if is_preparation_error e then return_act (payload_integrity_evidence job ''invalid_stored_payload_shape'')
          else raise_act (DeliveryOutcomeUncertain (class_name e))
      | Inr (Some payload, gate) \<Rightarrow>
          if jv_document_kind job = REPO_USAGE_PATTERN then submit_procedural (sp_store sp) job payload
          else submit_chunk sp now job payload
      | Inr (None, gate) \<Rightarrow>
          return_act (evidence_of (jv_idempotency_key job) (jv_payload_hash job) '''' '''' ''''
            (if gate = PAYLOAD_MISSING then ''payload_unavailable'' else ''payload_integrity_mismatch'')))"

definition couchdb_status :: "'w source_store \<Rightarrow> string \<Rightarrow> string \<Rightarrow> ('w env, evidence option) action" where
  "couchdb_status st dataset_ref document_ref =
    bind_act (on_store (st_get st document_ref)) (\<lambda>found.
      return_act (Some (case found of
        None \<Rightarrow> evidence_of '''' '''' dataset_ref document_ref ''couchdb_not_found'' ''unknown''
      | Some existing \<Rightarrow>
          evidence_of '''' '''' dataset_ref document_ref (''couchdb_exists:'' @ str_or_empty (get_item existing ''doc_type'')) ''succeeded'')))"

definition couchdb_backend :: "'w source_plane \<Rightarrow> datetime \<Rightarrow> 'w backend" where
  "couchdb_backend sp now =
    \<lparr>submit = couchdb_submit sp now, find_by_natural_key = couchdb_find sp, backend_status = couchdb_status (sp_store sp)\<rparr>"

section \<open>The bounded correction\<close>

definition preflight_procedural_correction :: "'w source_store \<Rightarrow> job_view \<Rightarrow> dict \<Rightarrow> dict \<Rightarrow> ('w env, unit) action" where
  "preflight_procedural_correction st job original corrected =
    bind_act (act_of (json_path (JObj original) session_hash_path)) (\<lambda>v.
    bind_act (act_of (as_str v (TypeError ''expected string''))) (\<lambda>old_hash.
      if \<not> is_bare_sha256 old_hash then raise_act (ValueError ''correction requires original pre-write hash failure'')
      else if assert_hash_like ''session_id_hash'' old_hash = Inr () then raise_act (ValueError ''correction historical failure is not pre-write'')
      else bind_act (act_of (build_repo_usage_pattern_document corrected (jv_job_id job))) (\<lambda>expected.
        bind_act (on_store (st_get st (doc_id_of expected))) (\<lambda>found.
        bind_act (case found of None \<Rightarrow> return_act True | Some existing \<Rightarrow> act_of (same_payload existing expected)) (\<lambda>same.
          if \<not> same then raise_act (SourceStoreConflict ''procedural correction natural key conflict'') else return_act ())))))"

definition prefixed_session_hash :: "dict \<Rightarrow> dict result" where
  "prefixed_session_hash original =
    bind_result (json_path (JObj original) session_hash_path) (\<lambda>v.
    bind_result (as_str v (TypeError ''can only concatenate str'')) (\<lambda>old_hash.
      case set_path (JObj original) session_hash_path (JStr (''sha256:'' @ old_hash)) of
        JObj d \<Rightarrow> Inr d
      | _ \<Rightarrow> Inl (TypeError ''subscript'')))"

definition correct_and_execute_procedural_once ::
    "'w backend \<Rightarrow> (job_view \<Rightarrow> dict \<Rightarrow> dict \<Rightarrow> ('w env, unit) action) option \<Rightarrow> executor \<Rightarrow> string \<Rightarrow> string \<Rightarrow> string
      \<Rightarrow> datetime \<Rightarrow> clock \<Rightarrow> string \<Rightarrow> ('w env, receipt) action" where
  "correct_and_execute_procedural_once be preflight ex job expected_updated_at expected_payload_identity now ck fresh =
    bind_act (read_db (\<lambda>db. get_delivery_job db job)) (\<lambda>found.
      case found of
        None \<Rightarrow> raise_act (KeyError job)
      | Some row \<Rightarrow>
          bind_act (read_db (\<lambda>db. get_domain_record db (correction_id job))) (\<lambda>audit.
            if audit \<noteq> None then raise_act (StateDBError ''source_correction_already_recorded_get_only'')
            else bind_act (read_db (\<lambda>db. get_delivery_payload db (job_idempotency_key row))) (\<lambda>stored.
              case stored of
                None \<Rightarrow> raise_act (StateDBError ''source_correction_payload_missing'')
              | Some original \<Rightarrow>
                  bind_act (act_of (prefixed_session_hash original)) (\<lambda>corrected.
                  bind_act (act_of (build_repo_usage_pattern_document corrected job)) (\<lambda>_.
                    case preflight of
                      None \<Rightarrow> raise_act (StateDBError ''source_correction_backend_not_supported'')
                    | Some check \<Rightarrow>
                        bind_act (check (view_from_row row) original corrected) (\<lambda>_.
                        bind_act (on_db (correct_procedural_source_hash job expected_updated_at expected_payload_identity (exe_lease_owner ex) now)) (\<lambda>_.
                          execute_once_with_receipt be ex job ck 3 fresh)))))))"

end
