(* ===== verification/Source_Contract.thy ===== *)
theory Source_Contract
  imports Source_Delivery
begin

text \<open>
  What the delivery backend promises of the source plane.  The store is used through a contract that
  allows other writers between any two calls: documents of the procedural lane stay as they are,
  a read returns the document of the moment, and a write that returns has left a document of the same identity.
  The contract is proved of the in-memory store while other clients run any lawful calls on it.
\<close>

section \<open>The contract of the store\<close>

definition procedural :: "dict \<Rightarrow> bool" where
  "procedural d \<longleftrightarrow> get_item d ''doc_type'' = JStr REPO_USAGE_PATTERN"

definition keeps_procedural :: "('w \<Rightarrow> string \<Rightarrow> dict option) \<Rightarrow> 'w \<Rightarrow> 'w \<Rightarrow> bool" where
  "keeps_procedural view w w' \<longleftrightarrow> (\<forall>k d. view w k = Some d \<longrightarrow> procedural d \<longrightarrow> view w' k = Some d)"

lemma keeps_procedural_refl [simp]: "keeps_procedural view w w"
  by (simp add: keeps_procedural_def)

lemma keeps_procedural_trans [trans]: "keeps_procedural view w w' \<Longrightarrow> keeps_procedural view w' w'' \<Longrightarrow> keeps_procedural view w w''"
  by (simp add: keeps_procedural_def)

definition holds_payload :: "dict option \<Rightarrow> dict \<Rightarrow> bool" where
  "holds_payload found d \<longleftrightarrow> (\<exists>e. found = Some e \<and> procedural e \<and> payload_hash e = payload_hash d)"

lemma holds_payload_mono: "keeps_procedural view w w' \<Longrightarrow> holds_payload (view w k) d \<Longrightarrow> holds_payload (view w' k) d"
  by (auto simp: keeps_procedural_def holds_payload_def)

lemma procedural_hash: "procedural d \<Longrightarrow> \<exists>h. payload_hash d = Inr h"
  by (rule payload_hash_total) (simp add: procedural_def str_or_empty_def)

lemma same_payload_iff [simp]: "same_payload a b = Inr x \<longleftrightarrow> (\<exists>h k. payload_hash a = Inr h \<and> payload_hash b = Inr k \<and> x = (h = k))"
  by (auto simp: same_payload_def bind_result_Inr_iff)

lemma built_procedural:
  assumes "build_repo_usage_pattern_document payload job = Inr d"
  shows "procedural d \<and> typed d"
proof -
  obtain doc original source body doc_id provider project sid rv where
    d: "d = dict_update doc (procedural_fields payload job (py_str body) original source)"
    and i: "repo_usage_pattern_doc_id (str_or_empty (get_item payload ''idempotencyKey'')) = Inr doc_id"
    and doc: "base_document REPO_USAGE_PATTERN doc_id provider project sid '''' rv = Inr doc"
    using procedural_InrD [OF assms(1)] by blast
  have id: "doc_id = REPO_USAGE_PATTERN @ '':'' @ hash_hex (sha256_hash (str_or_empty (get_item payload ''idempotencyKey'')))"
    using i by (auto simp: repo_usage_pattern_doc_id_def split: if_splits)
  have items: "get_item d ''_id'' = JStr doc_id" "get_item d ''doc_type'' = JStr REPO_USAGE_PATTERN"
    using base_document_InrD [OF doc] by (auto simp: d get_item_def map_of_dict_update procedural_fields_def)
  then show ?thesis by (simp add: procedural_def typed_def id)
qed

definition procedural_id :: "string \<Rightarrow> bool" where
  "procedural_id k \<longleftrightarrow> takeWhile (\<lambda>c. c \<noteq> CHR '':'') k = REPO_USAGE_PATTERN"

lemma procedural_id_of: "procedural d \<Longrightarrow> typed d \<Longrightarrow> procedural_id (doc_id_of d)"
  by (simp add: procedural_def typed_def procedural_id_def doc_id_of_def)

locale procedural_store =
  fixes st :: "'w source_store" and view :: "'w \<Rightarrow> string \<Rightarrow> dict option" and inv :: "'w \<Rightarrow> bool"
  assumes get_law: "inv w \<Longrightarrow> st_get st k w = (r, w') \<Longrightarrow> inv w' \<and> keeps_procedural view w w' \<and> (\<forall>x. r = Inr x \<longrightarrow> x = view w' k)"
    and put_law: "inv w \<Longrightarrow> procedural d \<Longrightarrow> typed d \<Longrightarrow> st_put_if_absent st d w = (a, w') \<Longrightarrow>
      inv w' \<and> keeps_procedural view w w' \<and> (\<forall>rv. a = Inr rv \<longrightarrow> holds_payload (view w' (doc_id_of d)) d)"
    and id_law: "inv w \<Longrightarrow> view w k = Some d \<Longrightarrow> procedural_id k \<Longrightarrow> procedural d"
begin

definition safe :: "('w env, 'a) action \<Rightarrow> ('a \<Rightarrow> 'w \<Rightarrow> bool) \<Rightarrow> 'w \<Rightarrow> bool" where
  "safe m post w \<longleftrightarrow> (\<forall>db r w' db'. m (w, db) = (r, (w', db')) \<longrightarrow>
    inv w' \<and> keeps_procedural view w w' \<and> db' = db \<and> (\<forall>x. r = Inr x \<longrightarrow> post x w'))"

lemma safe_pure: "inv w \<Longrightarrow> safe (raise_act e) P w" "inv w \<Longrightarrow> P x w \<Longrightarrow> safe (return_act x) P w"
  "inv w \<Longrightarrow> (\<And>y. q = Inr y \<Longrightarrow> P y w) \<Longrightarrow> safe (act_of q) P w"
  by (simp_all add: safe_def act_of_def)

lemma safe_bind:
  assumes "safe m Q w" "\<And>x w'. inv w' \<Longrightarrow> keeps_procedural view w w' \<Longrightarrow> Q x w' \<Longrightarrow> safe (f x) P w'"
  shows "safe (bind_act m f) P w"
proof -
  { fix db r w' db' assume e: "bind_act m f (w, db) = (r, w', db')"
    obtain q w1 db1 where m: "m (w, db) = (q, w1, db1)" by (cases "m (w, db)") auto
    then have i: "inv w1" "keeps_procedural view w w1" "db1 = db" and q: "\<And>x. q = Inr x \<Longrightarrow> Q x w1"
      using assms(1) by (auto simp: safe_def)
    have "inv w' \<and> keeps_procedural view w w' \<and> db' = db \<and> (\<forall>x. r = Inr x \<longrightarrow> P x w')"
    proof (cases q)
      case (Inr x)
      then have "safe (f x) P w1" using assms(2) i q by blast
      moreover have "f x (w1, db) = (r, w', db')" using e m Inr i(3) by (simp add: bind_act_def)
      ultimately have "inv w' \<and> keeps_procedural view w1 w' \<and> db' = db \<and> (\<forall>x. r = Inr x \<longrightarrow> P x w')" by (simp add: safe_def)
      then show ?thesis using keeps_procedural_trans [OF i(2)] by blast
    qed (use e m i in \<open>auto simp: bind_act_def\<close>) }
  then show ?thesis unfolding safe_def by blast
qed

lemma safe_attempt: "safe m Q w \<Longrightarrow> safe (attempt m) (\<lambda>r w'. \<forall>x. r = Inr x \<longrightarrow> Q x w') w"
  by (auto simp: safe_def attempt_def split: prod.splits)

lemma safe_get: "inv w \<Longrightarrow> safe (on_store (st_get st k)) (\<lambda>x w'. x = view w' k) w"
  unfolding safe_def on_store_def
proof (intro allI impI)
  fix db r w' db' assume w: "inv w" and e: "(\<lambda>(w, db). case st_get st k w of (r, w') \<Rightarrow> (r, w', db)) (w, db) = (r, w', db')"
  obtain q w1 where "st_get st k w = (q, w1)" by fastforce
  then show "inv w' \<and> keeps_procedural view w w' \<and> db' = db \<and> (\<forall>x. r = Inr x \<longrightarrow> x = view w' k)" using get_law [OF w] e by auto
qed

lemma safe_put: "inv w \<Longrightarrow> procedural d \<Longrightarrow> typed d \<Longrightarrow> safe (on_store (st_put_if_absent st d)) (\<lambda>_ w'. holds_payload (view w' (doc_id_of d)) d) w"
  unfolding safe_def on_store_def
proof (intro allI impI)
  fix db r w' db' assume w: "inv w" "procedural d" "typed d"
    and e: "(\<lambda>(w, db). case st_put_if_absent st d w of (r, w') \<Rightarrow> (r, w', db)) (w, db) = (r, w', db')"
  obtain q w1 where "st_put_if_absent st d w = (q, w1)" by fastforce
  then show "inv w' \<and> keeps_procedural view w w' \<and> db' = db \<and> (\<forall>x. r = Inr x \<longrightarrow> holds_payload (view w' (doc_id_of d)) d)"
    using put_law [OF w] e by auto
qed

lemma safe_store:
  assumes w: "inv w" and d: "procedural d" "typed d"
  shows "safe (store_procedural st job d) (\<lambda>ev w'. case ev of None \<Rightarrow> holds_payload (view w' (doc_id_of d)) d
    | Some e \<Rightarrow> evd_status e = ''payload_integrity_mismatch'') w"
proof -
  let ?P = "\<lambda>ev w'. case ev of None \<Rightarrow> holds_payload (view w' (doc_id_of d)) d | Some e \<Rightarrow> evd_status e = ''payload_integrity_mismatch''"
  let ?confirm = "bind_act (on_store (st_get st (doc_id_of d))) (\<lambda>confirmed.
      bind_act (case confirmed of None \<Rightarrow> return_act False | Some c \<Rightarrow> act_of (same_payload c d)) (\<lambda>same.
        if same then return_act None else raise_act (DeliveryOutcomeUncertain ''procedural_source_readback_mismatch'')))"
  have confirm: "safe ?confirm ?P w'" if "inv w'" for w'
  proof (rule safe_bind [OF safe_get [OF that]])
    fix x w1 assume i: "inv w1" and x: "x = view w1 (doc_id_of d)"
    show "safe (bind_act (case x of None \<Rightarrow> return_act False | Some c \<Rightarrow> act_of (same_payload c d)) (\<lambda>same.
        if same then return_act None else raise_act (DeliveryOutcomeUncertain ''procedural_source_readback_mismatch''))) ?P w1"
    proof (rule safe_bind [where Q = "\<lambda>same w'. w' = w1 \<and> (same \<longrightarrow> holds_payload x d)"])
      show "safe (case x of None \<Rightarrow> return_act False | Some c \<Rightarrow> act_of (same_payload c d)) (\<lambda>same w'. w' = w1 \<and> (same \<longrightarrow> holds_payload x d)) w1"
        using i id_law [OF i x [symmetric, THEN trans] procedural_id_of [OF d]]
        by (cases x) (auto intro!: safe_pure simp: holds_payload_def)
    qed (auto intro!: safe_pure simp: x)
  qed
  show ?thesis
    unfolding store_procedural_def Let_def
  proof (rule safe_bind [OF safe_get [OF w]])
    fix x w1 assume i: "inv w1"
    show "safe (case x of None \<Rightarrow> bind_act (on_store (st_put_if_absent st d)) (\<lambda>_. ?confirm)
        | Some existing \<Rightarrow> bind_act (act_of (same_payload existing d)) (\<lambda>same.
            if \<not> same then return_act (Some (payload_integrity_evidence job ''procedural_natural_key_conflict'')) else ?confirm)) ?P w1"
    proof (cases x)
      case None
      then show ?thesis using safe_bind [OF safe_put [OF i d] confirm] by simp
    next
      case (Some e)
      have "safe (act_of (same_payload e d)) (\<lambda>_ w'. True) w1" using i by (intro safe_pure) auto
      then show ?thesis unfolding Some option.case
        by (rule safe_bind) (auto intro!: confirm safe_pure simp: payload_integrity_evidence_def evidence_of_def)
    qed
  qed
qed

lemma safe_submit:
  assumes w: "inv w"
  shows "safe (submit_procedural st job payload) (\<lambda>ev w'. evd_status ev = ''payload_integrity_mismatch''
    \<or> evd_status ev = ''succeeded'' \<and> (\<exists>d. build_repo_usage_pattern_document payload (jv_job_id job) = Inr d
        \<and> evd_document_ref ev = doc_id_of d \<and> holds_payload (view w' (doc_id_of d)) d)) w"
proof (cases "build_repo_usage_pattern_document payload (jv_job_id job)")
  case (Inl e)
  then show ?thesis using w
    by (auto simp: submit_procedural_def payload_integrity_evidence_def evidence_of_def intro!: safe_pure)
next
  case (Inr d)
  let ?P = "\<lambda>ev w'. evd_status ev = ''payload_integrity_mismatch''
    \<or> evd_status ev = ''succeeded'' \<and> evd_document_ref ev = doc_id_of d \<and> holds_payload (view w' (doc_id_of d)) d"
  have raced: "safe (raced_procedural st job d) ?P w'" if "inv w'" for w'
    unfolding raced_procedural_def
    by (rule safe_bind [OF safe_get [OF that]])
      (auto intro!: safe_bind [where Q = "\<lambda>_ _. True"] safe_pure split: option.split
        simp: payload_integrity_evidence_def evidence_of_def)
  have "safe (submit_procedural st job payload) ?P w"
    unfolding submit_procedural_def Inr sum.case
    by (rule safe_bind [OF safe_attempt [OF safe_store [OF w]]])
      (use built_procedural [OF Inr] raced in \<open>auto intro!: safe_pure split: sum.split py_error.split option.splits
        simp: raw_source_stored_def evidence_of_def\<close>)
  then show ?thesis using Inr by (simp add: safe_def)
qed

lemma submit_cases:
  assumes "inv w" "submit_procedural st job payload (w, db) = (Inr ev, (w', db'))"
  shows "inv w' \<and> keeps_procedural view w w' \<and> db' = db \<and> (evd_status ev = ''payload_integrity_mismatch''
    \<or> evd_status ev = ''succeeded'' \<and> (\<exists>d. build_repo_usage_pattern_document payload (jv_job_id job) = Inr d
        \<and> evd_document_ref ev = doc_id_of d \<and> holds_payload (view w' (doc_id_of d)) d))"
  using safe_submit [OF assms(1)] assms(2) unfolding safe_def by blast

lemma submit_keeps:
  assumes "inv w" "submit_procedural st job payload (w, db) = (r, (w', db'))"
  shows "inv w' \<and> keeps_procedural view w w' \<and> db' = db"
  using safe_submit [OF assms(1)] assms(2) unfolding safe_def by blast

text \<open>A stored document of another identity is neither overwritten nor reported as this delivery.\<close>

lemma submit_conflict:
  assumes w: "inv w" and b: "build_repo_usage_pattern_document payload (jv_job_id job) = Inr d"
    and e: "view w (doc_id_of d) = Some e" "payload_hash e \<noteq> payload_hash d"
    and s: "submit_procedural st job payload (w, db) = (r, (w', db'))"
  shows "view w' (doc_id_of d) = Some e \<and> (\<forall>ev. r = Inr ev \<longrightarrow> evd_status ev = ''payload_integrity_mismatch'')"
proof -
  have "procedural e" using id_law [OF w e(1)] procedural_id_of built_procedural [OF b] by blast
  then have k: "view w' (doc_id_of d) = Some e" using submit_keeps [OF w s] e(1) by (simp add: keeps_procedural_def)
  have "evd_status ev = ''payload_integrity_mismatch''" if "r = Inr ev" for ev
    using submit_cases [OF w s [unfolded that]] b e(2) k by (auto simp: holds_payload_def)
  then show ?thesis using k by blast
qed

lemma found_stored:
  assumes w: "inv w" and f: "find_procedural st job key h payload (w, db) = (Inr (Some ev), (w', db'))" "evd_status ev = ''succeeded''"
  shows "\<exists>d. build_repo_usage_pattern_document payload (jv_job_id job) = Inr d \<and> evd_document_ref ev = doc_id_of d
    \<and> holds_payload (view w' (doc_id_of d)) d"
proof (cases "build_repo_usage_pattern_document payload (jv_job_id job)")
  case (Inl e)
  then show ?thesis using f by (auto simp: find_procedural_def split: if_splits)
next
  case (Inr d)
  obtain q w1 where g: "st_get st (doc_id_of d) w = (q, w1)" by fastforce
  obtain e where e: "q = Inr (Some e)" "w' = w1" "same_payload e d = Inr True" "evd_document_ref ev = doc_id_of d"
    using f Inr g
    by (auto simp: find_procedural_def bind_act_def on_store_def act_of_def raw_source_stored_def payload_integrity_evidence_def evidence_of_def
        split: sum.splits option.splits if_splits)
  then have v: "view w' (doc_id_of d) = Some e" "inv w'" using get_law [OF w g] by auto
  then have "procedural e" using id_law procedural_id_of built_procedural [OF Inr] by blast
  then show ?thesis using Inr e v by (auto simp: holds_payload_def)
qed

lemma preflight_keeps:
  assumes w: "inv w" and p: "preflight_procedural_correction st job original corrected (w, db) = (r, (w', db'))"
  shows "inv w' \<and> keeps_procedural view w w'"
proof -
  have check: "safe (bind_act (case found of None \<Rightarrow> return_act True | Some e \<Rightarrow> act_of (same_payload e d)) (\<lambda>same.
      if \<not> same then raise_act (SourceStoreConflict m) else return_act ())) (\<lambda>_ _. True) w1" if "inv w1" for found d m w1
    using that by (intro safe_bind [where Q = "\<lambda>_ _. True"]) (auto intro!: safe_pure split: option.split)
  have store: "safe (bind_act (on_store (st_get st k)) (\<lambda>found.
      bind_act (case found of None \<Rightarrow> return_act True | Some e \<Rightarrow> act_of (same_payload e d)) (\<lambda>same.
        if \<not> same then raise_act (SourceStoreConflict m) else return_act ()))) (\<lambda>_ _. True) w1" if "inv w1" for k d m w1
    by (rule safe_bind [OF safe_get [OF that]]) (rule check)
  have "safe (preflight_procedural_correction st job original corrected) (\<lambda>_ _. True) w"
    unfolding preflight_procedural_correction_def
    by (intro safe_bind [where Q = "\<lambda>_ _. True"]) (use w store in \<open>auto intro!: safe_pure safe_bind [where m = "act_of _" and Q = "\<lambda>_ _. True"]\<close>)
  then show ?thesis using p unfolding safe_def by blast
qed

end

locale reliable_store = procedural_store +
  assumes get_total: "inv w \<Longrightarrow> \<exists>x w'. st_get st k w = (Inr x, w')"
begin

text \<open>A delivery that is already in the store succeeds again.\<close>

lemma submit_again:
  assumes w: "inv w" and b: "build_repo_usage_pattern_document payload (jv_job_id job) = Inr d"
    and h: "holds_payload (view w (doc_id_of d)) d"
  shows "\<exists>w'. submit_procedural st job payload (w, db) =
    (Inr (raw_source_stored st (jv_idempotency_key job) (jv_payload_hash job) d), (w', db))"
proof -
  obtain x w1 where g: "st_get st (doc_id_of d) w = (Inr x, w1)" using get_total [OF w] by blast
  note g' = get_law [OF w g]
  then obtain y w2 where g2: "st_get st (doc_id_of d) w1 = (Inr y, w2)" using get_total by blast
  note g2' = get_law [OF _ g2]
  obtain e where e: "view w (doc_id_of d) = Some e" "procedural e" "payload_hash e = payload_hash d" using h by (auto simp: holds_payload_def)
  then have x: "x = Some e" "y = Some e" using g' g2' by (auto simp: keeps_procedural_def)
  obtain k where k: "payload_hash d = Inr k" using procedural_hash built_procedural [OF b] by blast
  then have s: "same_payload e d = Inr True" using e(3) by simp
  have "store_procedural st job d (w, db) = (Inr None, (w2, db))"
    using g g2 by (simp add: store_procedural_def Let_def bind_act_def on_store_def act_of_def x s)
  then show ?thesis by (simp add: submit_procedural_def b bind_act_def attempt_def)
qed

end

section \<open>The in-memory store, shared\<close>

text \<open>
  The world of a client that shares the store: the store and what the other clients will do, one batch of
  calls before each of ours.
\<close>

type_synonym shared = "mem_store \<times> store_call list list"

fun others :: "resolver \<Rightarrow> shared \<Rightarrow> shared" where
  "others resolve (s, []) = (s, [])"
| "others resolve (s, calls # plan) = (fold (run_call resolve) calls s, plan)"

definition shared_get :: "resolver \<Rightarrow> string \<Rightarrow> (shared, dict option) action" where
  "shared_get resolve k w = (let w1 = others resolve w in (Inr (store_get k (fst w1)), w1))"

definition shared_put_if_absent :: "resolver \<Rightarrow> dict \<Rightarrow> (shared, stored_revision) action" where
  "shared_put_if_absent resolve d w =
    (let (s, plan) = others resolve w
     in case put_if_absent resolve d s of Inl e \<Rightarrow> (Inl e, (s, plan)) | Inr (rv, s') \<Rightarrow> (Inr rv, (s', plan)))"

definition shared_store :: "resolver \<Rightarrow> shared source_store" where
  "shared_store resolve = \<lparr>st_get = shared_get resolve, st_put_if_absent = shared_put_if_absent resolve, st_db = ''couchdb''\<rparr>"

definition shared_view :: "shared \<Rightarrow> string \<Rightarrow> dict option" where
  "shared_view w k = store_get k (fst w)"

definition shared_ok :: "shared \<Rightarrow> bool" where
  "shared_ok w \<longleftrightarrow> store_ok (fst w) \<and> store_typed (fst w) \<and> list_all (list_all lawful) (snd w)"

lemma procedural_immutable: "procedural d \<Longrightarrow> is_immutable_source_document d"
  by (simp add: procedural_def is_immutable_source_document_def IMMUTABLE_SOURCE_REVISION_DOC_TYPES_def)

lemma lawful_calls:
  "store_ok s \<Longrightarrow> store_typed s \<Longrightarrow> list_all lawful calls \<Longrightarrow> store_ok (fold (run_call resolve) calls s)
    \<and> store_typed (fold (run_call resolve) calls s)
    \<and> (\<forall>k d. store_get k s = Some d \<longrightarrow> procedural d \<longrightarrow> store_get k (fold (run_call resolve) calls s) = Some d)"
proof (induction calls arbitrary: s)
  case (Cons c calls)
  then have "store_ok (run_call resolve c s)" "store_typed (run_call resolve c s)" using run_call_ok lawful_call_typed by auto
  then show ?case using Cons immutable_kept procedural_immutable by simp
qed simp

lemma others_ok: "shared_ok w \<Longrightarrow> shared_ok (others resolve w) \<and> keeps_procedural shared_view w (others resolve w)"
  using lawful_calls [of "fst w"]
  by (cases "(resolve, w)" rule: others.cases) (auto simp: shared_ok_def keeps_procedural_def shared_view_def)

lemma shared_put:
  assumes "shared_ok w" "typed d" "shared_put_if_absent resolve d w = (r, w')"
  shows "shared_ok w' \<and> keeps_procedural shared_view w w' \<and> (\<forall>rv. r = Inr rv \<longrightarrow> (\<exists>e. shared_view w' (doc_id_of d) = Some e \<and> payload_hash e = payload_hash d))"
proof -
  obtain s plan where o: "others resolve w = (s, plan)" by fastforce
  then have ok: "shared_ok (s, plan)" "keeps_procedural shared_view w (s, plan)" using others_ok [OF assms(1), of resolve] by simp_all
  then have s: "store_ok s" "store_typed s" by (simp_all add: shared_ok_def)
  show ?thesis
  proof (cases "put_if_absent resolve d s")
    case (Inl e)
    then show ?thesis using assms(3) ok by (auto simp: shared_put_if_absent_def o)
  next
    case (Inr p)
    obtain rv s' where p: "p = (rv, s')" by fastforce
    then have w': "w' = (s', plan)" "r = Inr rv" using assms(3) Inr by (auto simp: shared_put_if_absent_def o)
    have run: "run_call resolve (Put_If_Absent d) s = s'" by (simp add: Inr p store_after_def)
    have k: "store_ok s'" "store_typed s'" "keeps_procedural shared_view (s, plan) (s', plan)"
      using run_call_ok [OF s(1), of resolve "Put_If_Absent d"] lawful_call_typed [OF s, of "Put_If_Absent d" resolve]
        immutable_kept [OF s, of "Put_If_Absent d"] procedural_immutable assms(2)
      by (auto simp: run keeps_procedural_def shared_view_def simp del: run_call.simps) (metis run)
    have "\<exists>e. store_get (doc_id_of d) s' = Some e \<and> payload_hash e = payload_hash d"
      using put_if_absent_InrD [OF Inr [unfolded p]] wrote_rev [OF s(1)] by (fastforce simp: doc_id_of_def)
    then show ?thesis using k ok keeps_procedural_trans [OF ok(2) k(3)] by (simp add: w' shared_ok_def shared_view_def)
  qed
qed

interpretation shared_source: reliable_store "shared_store resolve" shared_view shared_ok
proof
  fix w k r w' assume w: "shared_ok w" and g: "st_get (shared_store resolve) k w = (r, w')"
  then show "shared_ok w' \<and> keeps_procedural shared_view w w' \<and> (\<forall>x. r = Inr x \<longrightarrow> x = shared_view w' k)"
    using others_ok [OF w, of resolve] by (auto simp: shared_store_def shared_get_def Let_def shared_view_def)
next
  fix w k d assume w: "shared_ok w" "shared_view w k = Some d" "procedural_id k"
  then have "typed d" "doc_ok k d" by (auto simp: shared_ok_def store_typed_def store_ok_def shared_view_def)
  then show "procedural d" using w(3) by (simp add: procedural_def typed_def doc_ok_def procedural_id_def)
next
  fix w d a w' assume w: "shared_ok w" "procedural d" "typed d" and p: "st_put_if_absent (shared_store resolve) d w = (a, w')"
  then have "shared_put_if_absent resolve d w = (a, w')" by (simp add: shared_store_def)
  from shared_put [OF w(1,3) this] have s: "shared_ok w'" "keeps_procedural shared_view w w'"
    and e: "\<And>rv. a = Inr rv \<Longrightarrow> \<exists>e. shared_view w' (doc_id_of d) = Some e \<and> payload_hash e = payload_hash d" by auto
  have "procedural x" if "shared_view w' (doc_id_of d) = Some x" for x
  proof -
    have "typed x" "doc_ok (doc_id_of d) x" using s(1) that by (auto simp: shared_ok_def store_typed_def store_ok_def shared_view_def)
    then show ?thesis using procedural_id_of [OF w(2,3)] by (simp add: procedural_def typed_def doc_ok_def procedural_id_def)
  qed
  then show "shared_ok w' \<and> keeps_procedural shared_view w w' \<and> (\<forall>rv. a = Inr rv \<longrightarrow> holds_payload (shared_view w' (doc_id_of d)) d)"
    using s e by (fastforce simp: holds_payload_def)
next
  show "\<exists>x w'. st_get (shared_store resolve) k w = (Inr x, w')" for w k by (simp add: shared_store_def shared_get_def Let_def)
qed

section \<open>Execution on the source plane\<close>

text \<open>What identifies a delivery: claiming and marking a job leave it alone.\<close>

definition same_identity :: "delivery_job \<Rightarrow> delivery_job \<Rightarrow> bool" where
  "same_identity j j' \<longleftrightarrow> job_id j' = job_id j \<and> job_idempotency_key j' = job_idempotency_key j \<and> job_payload_hash j' = job_payload_hash j
    \<and> job_target_profile j' = job_target_profile j \<and> job_document_kind j' = job_document_kind j"

definition same_deliveries :: "state_db \<Rightarrow> state_db \<Rightarrow> bool" where
  "same_deliveries db db' \<longleftrightarrow> delivery_payloads db' = delivery_payloads db \<and> domain_records db' = domain_records db
    \<and> list_all2 same_identity (delivery_jobs db) (delivery_jobs db')"

lemma same_identity_refl [simp]: "same_identity j j"
  by (simp add: same_identity_def)

lemma same_deliveries_refl [simp]: "same_deliveries db db"
  by (simp add: same_deliveries_def list_all2_refl)

lemma same_deliveries_trans: "same_deliveries a b \<Longrightarrow> same_deliveries b c \<Longrightarrow> same_deliveries a c"
  by (auto simp: same_deliveries_def same_identity_def elim: list_all2_trans [rotated])

lemma same_deliveries_update: "(\<And>j. same_identity j (f j)) \<Longrightarrow> same_deliveries db (update_job k f db)"
proof -
  assume f: "\<And>j. same_identity j (f j)"
  have "list_all2 same_identity rows (update_where job_id k f rows)" for rows
    using f by (induction rows) (auto simp: update_where_def)
  then show ?thesis by (simp add: same_deliveries_def update_job_def)
qed

lemma same_deliveries_row:
  "list_all2 same_identity rows rows' \<Longrightarrow> (\<And>j j'. same_identity j j' \<Longrightarrow> key j' = key j) \<Longrightarrow>
    rel_option same_identity (row_with key k rows) (row_with key k rows')"
  by (induction rule: list_all2_induct) (auto simp: row_with_def)

lemma same_deliveries_payload:
  assumes "same_deliveries db db'"
  shows "get_effective_delivery_payload db' k = get_effective_delivery_payload db k"
proof -
  have r: "rel_option same_identity (row_with job_idempotency_key k (delivery_jobs db)) (row_with job_idempotency_key k (delivery_jobs db'))"
    using assms by (intro same_deliveries_row) (auto simp: same_deliveries_def same_identity_def)
  have t: "get_delivery_payload db' k = get_delivery_payload db k" "\<And>i. get_domain_record db' i = get_domain_record db i"
    using assms by (simp_all add: same_deliveries_def get_delivery_payload_def get_domain_record_def)
  from r show ?thesis
  proof (cases rule: option.rel_cases)
    case (Some x y)
    then have f: "job_id y = job_id x" "job_document_kind y = job_document_kind x" "job_target_profile y = job_target_profile x"
      by (simp_all add: same_identity_def)
    show ?thesis unfolding get_effective_delivery_payload_def Some t prod.case option.case f by (rule refl)
  qed (cases "get_delivery_payload db k"; simp add: get_effective_delivery_payload_def t)
qed

lemma claim_same: "claim_delivery_job k own now ls ma db = Inr (b, db') \<Longrightarrow> same_deliveries db db'"
  by (auto simp: claim_delivery_job_def bind_result_Inr_iff same_identity_def intro!: same_deliveries_update split: if_splits)

lemma mark_same: "mark_delivery_executing k own now db = Inr (b, db') \<Longrightarrow> same_deliveries db db'"
  by (auto simp: mark_delivery_executing_def same_identity_def intro!: same_deliveries_update split: if_splits)

lemma attempt_outcomes:
  "record_replayable_attempt k own now ma s db = Inr (st, db') \<Longrightarrow> st \<noteq> ''succeeded''"
  "record_failed_retryable_attempt k r a b c own ob now ma s db = Inr (st, db') \<Longrightarrow> st \<noteq> ''succeeded''"
  by (auto simp: record_replayable_attempt_def record_failed_retryable_attempt_def bind_result_Inr_iff Let_def REPLAYABLE_def split: if_splits)

lemma outcome_needs_success:
  assumes "record_outcome ex k now ma fresh ans db = Inr (r, db')" "rcpt_status r = ''succeeded''"
  shows "\<exists>ev. ans = Inr ev \<and> evd_status ev = ''succeeded''"
  using assms attempt_outcomes
  by (auto simp: record_outcome_def mk_receipt_def Let_def bind_result_Inr_iff split: sum.splits py_error.splits if_splits)

text \<open>
  A receipt of success behind a submission: the backend answered with success for the job as it was stored, on a database
  with the same deliveries.
\<close>

lemma executed_submission:
  assumes "execute_once_with_receipt be ex k ck ma fresh (w, db) = (Inr r, (w', db'))"
    and "rcpt_submit_attempted r" "rcpt_status r = ''succeeded''" and j: "get_delivery_job db k = Some j"
  shows "\<exists>j1 db1 ev db2. same_identity j j1 \<and> same_deliveries db db1
    \<and> submit be (view_from_row j1) (w, db1) = (Inr ev, (w', db2)) \<and> evd_status ev = ''succeeded''"
  using assms(1)
proof -
  let ?own = "exe_lease_owner ex"
  have submitted: "\<exists>j1 db1 ev db2. same_identity j j1 \<and> same_deliveries db db1
      \<and> submit be (view_from_row j1) (w, db1) = (Inr ev, (w', db2)) \<and> evd_status ev = ''succeeded''"
    if s: "submit_and_record be ex k j ck ma fresh (w, db0) = (Inr r, (w', db'))" and d: "same_deliveries db db0" for db0
  proof -
    from s obtain db1 where m: "mark_delivery_executing k ?own (t_mark ck) db0 = Inr (True, db1)"
      and rest: "bind_act (attempt (submit be (view_from_row (case get_delivery_job db1 k of None \<Rightarrow> j | Some r \<Rightarrow> r)))) (\<lambda>answer.
          on_db (record_outcome ex k (t_record ck) ma fresh answer)) (w, db1) = (Inr r, (w', db'))"
      using assms(2) by (auto simp: submit_and_record_def bind_act_def on_db_def read_db_def mk_receipt_def split: sum.splits prod.splits if_splits)
    let ?j = "case get_delivery_job db1 k of None \<Rightarrow> j | Some r \<Rightarrow> r"
    have d1: "same_deliveries db db1" using same_deliveries_trans [OF d mark_same [OF m]] .
    then have "rel_option same_identity (get_delivery_job db k) (get_delivery_job db1 k)"
      unfolding get_delivery_job_def by (intro same_deliveries_row) (auto simp: same_deliveries_def same_identity_def)
    then have i: "same_identity j ?j" using j by (auto simp: option_rel_Some1)
    obtain ans w2 db2 where a: "submit be (view_from_row ?j) (w, db1) = (ans, (w2, db2))" by (cases "submit be (view_from_row ?j) (w, db1)") auto
    then have o: "record_outcome ex k (t_record ck) ma fresh ans db2 = Inr (r, db')" "w2 = w'"
      using rest by (auto simp: bind_act_def attempt_def on_db_def split: sum.splits)
    show ?thesis using outcome_needs_success [OF o(1) assms(3)] a o(2) i d1 by blast
  qed
  show ?thesis
    using assms(1-3) j submitted claim_same
    by (auto simp: execute_once_with_receipt_def bind_act_def read_db_def on_db_def mk_receipt_def Let_def split: sum.splits prod.splits if_splits)
qed

lemma view_from_row_same: "same_identity j j' \<Longrightarrow> view_from_row j' = view_from_row j"
  by (simp add: same_identity_def view_from_row_def)

lemma resolve_InrD:
  "resolve_delivery_payload db k h = Inr (Some payload, g) \<Longrightarrow> get_effective_delivery_payload db k = Inr (Some payload)"
  by (auto simp: resolve_delivery_payload_def bind_result_Inr_iff Let_def split: option.splits if_splits)

lemma procedural_submission_stored:
  assumes w: "shared_ok w" and sp: "sp_store sp = shared_store resolve" and k: "jv_document_kind job = REPO_USAGE_PATTERN"
    and s: "couchdb_submit sp now job (w, db) = (Inr ev, (w', db'))" "evd_status ev = ''succeeded''"
  shows "\<exists>payload d. get_effective_delivery_payload db (jv_idempotency_key job) = Inr (Some payload)
    \<and> build_repo_usage_pattern_document payload (jv_job_id job) = Inr d \<and> evd_document_ref ev = doc_id_of d
    \<and> holds_payload (shared_view w' (doc_id_of d)) d"
proof (cases "resolve_delivery_payload db (jv_idempotency_key job) (jv_payload_hash job)")
  case (Inl e)
  then show ?thesis using s by (auto simp: couchdb_submit_def bind_act_def read_db_def payload_integrity_evidence_def evidence_of_def split: if_splits)
next
  case (Inr p)
  obtain found g where p: "p = (found, g)" by fastforce
  show ?thesis
  proof (cases found)
    case None
    then show ?thesis using s Inr p by (auto simp: couchdb_submit_def bind_act_def read_db_def evidence_of_def split: if_splits)
  next
    case (Some payload)
    then have "submit_procedural (shared_store resolve) job payload (w, db) = (Inr ev, (w', db'))"
      using s(1) Inr p k sp by (simp add: couchdb_submit_def bind_act_def read_db_def)
    from shared_source.submit_cases [OF w this] resolve_InrD [OF Inr [unfolded p Some]] s(2) show ?thesis by auto
  qed
qed

lemma procedural_execution_stored:
  assumes w: "shared_ok w" and sp: "sp_store sp = shared_store resolve"
    and j: "get_delivery_job db k = Some j" "job_document_kind j = REPO_USAGE_PATTERN"
    and x: "execute_once_with_receipt (couchdb_backend sp now) ex k ck ma fresh (w, db) = (Inr r, (w', db'))"
      "rcpt_submit_attempted r" "rcpt_status r = ''succeeded''"
  shows "\<exists>payload d. get_effective_delivery_payload db (job_idempotency_key j) = Inr (Some payload)
    \<and> build_repo_usage_pattern_document payload k = Inr d \<and> holds_payload (shared_view w' (doc_id_of d)) d"
proof -
  from executed_submission [OF x j(1)] obtain j1 db1 ev db2 where i: "same_identity j j1" "same_deliveries db db1"
    and s: "couchdb_submit sp now (view_from_row j1) (w, db1) = (Inr ev, (w', db2))" "evd_status ev = ''succeeded''"
    by (auto simp: couchdb_backend_def)
  have v: "view_from_row j1 = view_from_row j" "job_id j = k" using view_from_row_same [OF i(1)] j(1) by (auto simp: get_delivery_job_def dest: row_with_SomeD)
  have kind: "jv_document_kind (view_from_row j) = REPO_USAGE_PATTERN" using j(2) by (simp add: view_from_row_def)
  from procedural_submission_stored [OF w sp kind s(1) [unfolded v(1)] s(2)] v(2) show ?thesis
    by (auto simp: view_from_row_def same_deliveries_payload [OF i(2)])
qed

section \<open>Corrections\<close>

text \<open>The audit of a correction: written once, and from then on the corrected payload is the effective one.\<close>

definition corrected_job :: "state_db \<Rightarrow> string \<Rightarrow> bool" where
  "corrected_job db k \<longleftrightarrow> get_delivery_job db k \<noteq> None \<and> get_domain_record db (correction_id k) \<noteq> None"

lemma corrected_jobI:
  assumes "same_deliveries db db'" "corrected_job db k"
  shows "corrected_job db' k"
proof -
  have "rel_option same_identity (get_delivery_job db k) (get_delivery_job db' k)"
    unfolding get_delivery_job_def using assms(1) by (intro same_deliveries_row) (auto simp: same_deliveries_def same_identity_def)
  then show ?thesis using assms by (auto simp: corrected_job_def same_deliveries_def get_domain_record_def elim: option.rel_cases)
qed

lemma insert_result_same: "insert_result_row r db = Inr db' \<Longrightarrow> same_deliveries db db'"
  by (auto simp: insert_result_row_def same_deliveries_def list_all2_refl split: if_splits)

lemma audit_same:
  assumes "audit_corrected_attempt row a b c d e fresh now db = Inr db'"
  shows "same_deliveries db db'"
proof (cases "get_domain_record db (correction_id (job_id row)) = None")
  case True
  then show ?thesis using assms by (simp add: audit_corrected_attempt_def)
next
  case False
  then obtain r db1 where "insert_result_row r db = Inr db1"
    and u: "db' = update_job (job_id row) (\<lambda>j. j\<lparr>job_attempt_count := job_attempt_count j + 1\<rparr>) db1"
    using assms unfolding audit_corrected_attempt_def Let_def by (auto simp only: if_False bind_result_Inr_iff sum.inject)
  then have "same_deliveries db db1" by (intro insert_result_same)
  moreover have "same_deliveries db1 db'" unfolding u by (rule same_deliveries_update) (simp add: same_identity_def)
  ultimately show ?thesis by (rule same_deliveries_trans)
qed

lemma record_outcome_same:
  assumes "record_outcome ex k now ma fresh ans db = Inr (r, db')"
  shows "same_deliveries db db'"
proof -
  have replay: "same_deliveries db db2" if "record_replayable_attempt k own now ma n db = Inr (st, db2)" for own n st db2
    using that by (auto simp: record_replayable_attempt_def bind_result_Inr_iff Let_def same_identity_def intro!: same_deliveries_update split: if_splits)
  have retry: "same_deliveries db db2" if "record_failed_retryable_attempt k a b c d own ob now ma n db = Inr (st, db2)" for a b c d own ob n st db2
    using that by (auto simp: record_failed_retryable_attempt_def bind_result_Inr_iff Let_def same_identity_def intro!: same_deliveries_update split: if_splits)
  have complete: "same_deliveries db db2" if "complete_delivery_with_evidence k own st a b c d ob now fresh db = Inr (ok, db2)" for own st a b c d ob ok db2
    using that
    by (auto simp: complete_delivery_with_evidence_def bind_result_Inr_iff Let_def split: if_splits dest!: audit_same
        elim!: same_deliveries_trans [rotated] intro!: same_deliveries_update) (simp_all add: same_identity_def)
  show ?thesis using assms replay retry complete
    by (auto simp: record_outcome_def Let_def bind_result_Inr_iff split: sum.splits py_error.splits if_splits)
qed

lemma execution_same:
  assumes "\<And>v w db. snd (snd (submit be v (w, db))) = db"
  shows "same_deliveries db (snd (snd (execute_once_with_receipt be ex k ck ma fresh (w, db))))"
proof -
  have "act_keeps (same_deliveries db) (submit be v)" for v using assms by (auto simp: act_keeps_def)
  moreover have "act_keeps (same_deliveries db) (on_db (claim_delivery_job k own now ls ma))"
    "act_keeps (same_deliveries db) (on_db (mark_delivery_executing k own now))"
    "act_keeps (same_deliveries db) (on_db (record_outcome ex k now ma fresh ans))" for own now ls ans
    by (rule act_keeps_on_db, blast intro: same_deliveries_trans claim_same mark_same record_outcome_same)+
  ultimately have "act_keeps (same_deliveries db) (execute_once_with_receipt be ex k ck ma fresh)"
    unfolding execute_once_with_receipt_def submit_and_record_def
    by (auto intro!: keeps_intros simp: Let_def split: option.split)
  then show ?thesis by (simp add: act_keeps_def)
qed

lemma act_keeps_store [keeps_intros]: "act_keeps P (on_store m)" "act_keeps P (act_of r)"
  by (auto simp: act_keeps_def on_store_def act_of_def split: prod.split)

lemma procedural_keeps [keeps_intros]:
  "act_keeps P (store_procedural st job d)" "act_keeps P (raced_procedural st job d)" "act_keeps P (submit_procedural st job payload)"
  "act_keeps P (find_procedural st job key h payload)"
proof -
  show s: "act_keeps P (store_procedural st job d)" for d
    unfolding store_procedural_def Let_def by (auto intro!: keeps_intros split: option.split)
  show r: "act_keeps P (raced_procedural st job d)" for d
    unfolding raced_procedural_def by (auto intro!: keeps_intros split: option.split)
  show "act_keeps P (submit_procedural st job payload)"
    unfolding submit_procedural_def by (auto intro!: keeps_intros s r split: sum.split option.split py_error.split)
  show "act_keeps P (find_procedural st job key h payload)"
    unfolding find_procedural_def by (auto intro!: keeps_intros split: sum.split option.split)
qed

lemma couchdb_find_keeps [keeps_intros]: "act_keeps P (couchdb_find sp key h)"
  unfolding couchdb_find_def by (auto intro!: keeps_intros split: sum.split option.split)

lemma couchdb_submit_keeps [keeps_intros]: "act_keeps P (couchdb_submit sp now job)"
proof -
  have "act_keeps P (submit_chunk sp now job payload)" for payload
    unfolding submit_chunk_def deliver_prepared_def by (auto intro!: keeps_intros split: sum.split option.split)
  then show ?thesis unfolding couchdb_submit_def by (auto intro!: keeps_intros split: sum.split option.split)
qed

lemma couchdb_backend_keeps: "backend_keeps P (couchdb_backend sp now)"
  using couchdb_submit_keeps [of P sp now] couchdb_find_keeps [of P sp]
  by (auto simp: backend_keeps_def couchdb_backend_def couchdb_status_def act_keeps_def bind_act_def on_store_def split: prod.split sum.split)

lemma couchdb_execution_same:
  "execute_once_with_receipt (couchdb_backend sp now) ex k ck ma fresh (w, db) = (r, (w', db')) \<Longrightarrow> same_deliveries db db'"
proof -
  have "snd (snd (submit (couchdb_backend sp now) v (w, db))) = db" for v w db
    using couchdb_submit_keeps [of "\<lambda>d. d = db" sp now v] by (simp add: couchdb_backend_def act_keeps_def)
  then show "execute_once_with_receipt (couchdb_backend sp now) ex k ck ma fresh (w, db) = (r, (w', db')) \<Longrightarrow> same_deliveries db db'"
    using execution_same [of "couchdb_backend sp now" db ex k ck ma fresh w] by simp
qed

lemma correction_InrD:
  assumes "correct_procedural_source_hash k u ident own now db = Inr (a, db1)"
  shows "corrected_job db1 k \<and> (\<exists>j. get_delivery_job db k = Some j \<and> job_document_kind j = REPO_USAGE_PATTERN
    \<and> (\<exists>j1. get_delivery_job db1 k = Some j1 \<and> same_identity j j1)
    \<and> delivery_payloads db1 = delivery_payloads db)"
proof -
  from assms obtain job original corrected where j: "get_delivery_job db k = Some job" "correction_preimage job u now"
    and w: "write_correction job original corrected ident own now db = Inr (a, db1)"
    by (auto simp: correct_procedural_source_hash_def bind_result_Inr_iff Let_def split: if_splits option.splits json.splits)
  have id: "job_id job = k" using j(1) by (auto simp: get_delivery_job_def dest: row_with_SomeD)
  from w obtain r q lu db2 db3 where i: "insert_domain_row r db = Inr db2" "dom_id r = correction_id k" and q: "insert_result_row q db2 = Inr db3"
    and d: "db1 = update_job k (\<lambda>j. j\<lparr>job_status := ''claimed'', job_lease_owner := own, job_lease_until := iso lu, job_updated_at := iso now\<rparr>) db3"
    by (auto simp: write_correction_def Let_def bind_result_Inr_iff id)
  have same: "same_deliveries db2 db1"
    unfolding d by (rule same_deliveries_trans [OF insert_result_same [OF q] same_deliveries_update]) (simp add: same_identity_def)
  have jobs: "delivery_jobs db2 = delivery_jobs db" "delivery_payloads db2 = delivery_payloads db" "domain_records db2 = domain_records db @ [r]"
    using i(1) by (auto simp: insert_domain_row_def split: if_splits)
  then have "corrected_job db2 k"
    using j(1) i(2) by (auto simp: corrected_job_def get_delivery_job_def get_domain_record_def row_with_append split: option.splits)
  then have "corrected_job db1 k" using corrected_jobI [OF same] by simp
  moreover have "rel_option same_identity (get_delivery_job db k) (get_delivery_job db1 k)"
    unfolding get_delivery_job_def using same jobs(1) by (intro same_deliveries_row) (auto simp: same_deliveries_def same_identity_def)
  ultimately show ?thesis using j same jobs by (auto simp: correction_preimage_def same_deliveries_def option_rel_Some1)
qed

text \<open>The payload of a job whose correction is on record is its original with the prefixed hash, or it cannot be read.\<close>

lemma corrected_effective:
  assumes "get_domain_record db (correction_id (job_id j)) \<noteq> None" "row_with job_idempotency_key key (delivery_jobs db) = Some j"
    and "get_effective_delivery_payload db key = Inr (Some payload)"
  shows "\<exists>original. get_delivery_payload db key = Some original \<and> prefixed_session_hash original = Inr payload"
  using assms
  by (auto simp: get_effective_delivery_payload_def prefixed_session_hash_def corrected_payload_def bind_result_Inr_iff as_str_def
      split: option.splits if_splits json.splits)

lemma bind_read [simp]: "bind_act (read_db f) g (w, db) = g (f db) (w, db)"
  by (simp add: bind_act_def read_db_def)

lemma bind_act_of_iff: "bind_act (act_of q) f s = (Inr r, s') \<longleftrightarrow> (\<exists>x. q = Inr x \<and> f x s = (Inr r, s'))"
  by (cases q) (auto simp: bind_act_def act_of_def)

lemma correct_and_execute_InrD:
  assumes "correct_and_execute_procedural_once be preflight ex k u ident now ck fresh (w, db) = (Inr r, (w', db'))"
    and pre: "\<And>check v a b. preflight = Some check \<Longrightarrow> act_keeps (\<lambda>d. d = db) (check v a b)"
  shows "\<exists>j original corrected d a w1 db1. get_delivery_job db k = Some j \<and> get_delivery_payload db (job_idempotency_key j) = Some original
    \<and> prefixed_session_hash original = Inr corrected \<and> build_repo_usage_pattern_document corrected k = Inr d
    \<and> (\<exists>check. preflight = Some check \<and> check (view_from_row j) original corrected (w, db) = (Inr (), (w1, db)))
    \<and> correct_procedural_source_hash k u ident (exe_lease_owner ex) now db = Inr (a, db1)
    \<and> execute_once_with_receipt be ex k ck 3 fresh (w1, db1) = (Inr r, (w', db'))"
proof -
  from assms(1) obtain j original corrected d check where j: "get_delivery_job db k = Some j" "get_delivery_payload db (job_idempotency_key j) = Some original"
      "prefixed_session_hash original = Inr corrected" "build_repo_usage_pattern_document corrected k = Inr d" "preflight = Some check"
    and rest: "bind_act (check (view_from_row j) original corrected) (\<lambda>_.
        bind_act (on_db (correct_procedural_source_hash k u ident (exe_lease_owner ex) now)) (\<lambda>_.
          execute_once_with_receipt be ex k ck 3 fresh)) (w, db) = (Inr r, (w', db'))"
    by (auto simp: correct_and_execute_procedural_once_def bind_act_of_iff split: option.splits if_splits)
  obtain q w1 db1 where c: "check (view_from_row j) original corrected (w, db) = (q, (w1, db1))"
    by (cases "check (view_from_row j) original corrected (w, db)") auto
  then have "db1 = db" using pre [OF j(5), of "view_from_row j" original corrected] unfolding act_keeps_def by (metis snd_conv)
  then show ?thesis using j c rest
    by (auto simp: bind_act_def on_db_def split: sum.splits)
qed

lemma preflight_keeps_db [keeps_intros]: "act_keeps P (preflight_procedural_correction st v a b)"
  unfolding preflight_procedural_correction_def by (auto intro!: keeps_intros split: option.split)

text \<open>Whatever came of the execution, a second correction of the job is refused and changes nothing.\<close>

lemma correction_once:
  assumes "correct_and_execute_procedural_once (couchdb_backend sp t) (Some (preflight_procedural_correction (sp_store sp))) ex k u ident now ck fresh (w, db)
    = (Inr r, (w', db'))"
  shows "correct_and_execute_procedural_once be preflight ex' k u' ident' now' ck' fresh' (w', db')
    = (Inl (StateDBError ''source_correction_already_recorded_get_only''), (w', db'))"
proof -
  from correct_and_execute_InrD [OF assms] obtain a w1 db1 where c: "correct_procedural_source_hash k u ident (exe_lease_owner ex) now db = Inr (a, db1)"
    and e: "execute_once_with_receipt (couchdb_backend sp t) ex k ck 3 fresh (w1, db1) = (Inr r, (w', db'))"
    using preflight_keeps_db by blast
  have "corrected_job db' k" using corrected_jobI [OF couchdb_execution_same [OF e]] correction_InrD [OF c] by blast
  then show ?thesis by (auto simp: correct_and_execute_procedural_once_def bind_act_def read_db_def corrected_job_def)
qed

lemma unique_key: "distinct (map job_idempotency_key (delivery_jobs db)) \<Longrightarrow> get_delivery_job db k = Some j \<Longrightarrow>
    row_with job_idempotency_key (job_idempotency_key j) (delivery_jobs db) = Some j"
  unfolding get_delivery_job_def by (drule row_with_SomeD) (auto intro: row_with_eqI)

lemma corrected_delivery_stored:
  assumes wf: "db_wf db" and w: "shared_ok w" and sp: "sp_store sp = shared_store resolve"
    and x: "correct_and_execute_procedural_once (couchdb_backend sp t) (Some (preflight_procedural_correction (sp_store sp))) ex k u ident now ck fresh (w, db)
      = (Inr r, (w', db'))" "rcpt_submit_attempted r" "rcpt_status r = ''succeeded''"
  shows "\<exists>j original corrected d. get_delivery_job db k = Some j \<and> get_delivery_payload db (job_idempotency_key j) = Some original
    \<and> prefixed_session_hash original = Inr corrected \<and> build_repo_usage_pattern_document corrected k = Inr d
    \<and> holds_payload (shared_view w' (doc_id_of d)) d"
proof -
  from correct_and_execute_InrD [OF x(1)] obtain j original corrected d a w1 db1 where
    j: "get_delivery_job db k = Some j" "get_delivery_payload db (job_idempotency_key j) = Some original"
      "prefixed_session_hash original = Inr corrected" "build_repo_usage_pattern_document corrected k = Inr d"
    and p: "preflight_procedural_correction (sp_store sp) (view_from_row j) original corrected (w, db) = (Inr (), (w1, db))"
    and c: "correct_procedural_source_hash k u ident (exe_lease_owner ex) now db = Inr (a, db1)"
    and e: "execute_once_with_receipt (couchdb_backend sp t) ex k ck 3 fresh (w1, db1) = (Inr r, (w', db'))"
    using preflight_keeps_db by blast
  have w1: "shared_ok w1" using shared_source.preflight_keeps [OF w] p unfolding sp by blast
  from correction_InrD [OF c] j(1) obtain j1 where j1: "get_delivery_job db1 k = Some j1" "same_identity j j1" "job_document_kind j1 = REPO_USAGE_PATTERN"
    and audit: "get_domain_record db1 (correction_id k) \<noteq> None" and pl: "delivery_payloads db1 = delivery_payloads db"
    by (auto simp: corrected_job_def same_identity_def)
  have key: "job_idempotency_key j1 = job_idempotency_key j" "job_id j1 = k" using j1 by (auto simp: same_identity_def get_delivery_job_def dest: row_with_SomeD)
  from procedural_execution_stored [OF w1 sp j1(1,3) e x(2,3)] obtain payload d' where
    d': "get_effective_delivery_payload db1 (job_idempotency_key j) = Inr (Some payload)" "build_repo_usage_pattern_document payload k = Inr d'"
      "holds_payload (shared_view w' (doc_id_of d')) d'" by (auto simp: key)
  have "db_wf db1" using correct_procedural_source_hash_wf [OF c wf] .
  then have row: "row_with job_idempotency_key (job_idempotency_key j) (delivery_jobs db1) = Some j1"
    using unique_key [OF _ j1(1)] by (simp add: key wf_defs)
  have "get_delivery_payload db1 (job_idempotency_key j) = Some original" using j(2) pl by (simp add: get_delivery_payload_def)
  then have "payload = corrected" using corrected_effective [OF _ row d'(1)] audit j(3) key by auto
  then show ?thesis using j d' by blast
qed

end
