(* ===== verification/Transcript_Lane.thy ===== *)
theory Transcript_Lane
  imports Source_Contract
begin

text \<open>
  The transcript lane of the delivery backend: which exceptions its preparation lets through, that the document
  the natural-key lookup expects is the one that submission writes, and what a success says.
\<close>

section \<open>Errors of the preparation\<close>

named_theorems raises \<open>which exceptions a function raises\<close>

lemma canonicalize_raises [raises]: "canonicalize_project p = Inl e \<Longrightarrow> e = IndexError"
  by (auto simp: canonicalize_project_def canonicalize_project_path_def Let_def bind_result_def split: if_splits option.splits sum.splits)

lemma bind_result_Inl_iff: "bind_result m f = Inl e \<longleftrightarrow> m = Inl e \<or> (\<exists>x. m = Inr x \<and> f x = Inl e)"
  by (cases m) auto

lemma py_int_raises [raises]: "int_or v d = Inl e \<Longrightarrow> is_value_error e \<or> is_type_error e"
  by (cases v) (auto simp: int_or_def py_int_of_def Let_def split: if_splits)

lemma positions_raises [raises]: "positions m b = Inl e \<Longrightarrow> is_value_error e \<or> is_type_error e"
  unfolding positions_def bind_result_Inl_iff by (elim disjE exE conjE) (auto dest: raises)

lemma checks_raise [raises]:
  "assert_hash_like f v = Inl e \<Longrightarrow> is_value_error e" "assert_hash_unless_empty f v = Inl e \<Longrightarrow> is_value_error e"
  "assert_couchdb_owned (JStr t) = Inl e \<Longrightarrow> is_value_error e" "leak_error w vs = Inl e \<Longrightarrow> is_value_error e"
  "assert_no_secret_like_metadata d = Inl e \<Longrightarrow> is_value_error e" "assert_source_text_clean b = Inl e \<Longrightarrow> is_value_error e"
  by (auto simp: assert_hash_like_def assert_hash_unless_empty_def assert_couchdb_owned_def in_string_set_def leak_error_def
      assert_no_secret_like_metadata_def assert_source_text_clean_def split: if_splits option.splits)

lemma first_error_InlD: "first_error rs = Inl e \<Longrightarrow> Inl e \<in> set rs"
  by (induction rs) (auto simp: bind_result_Inl_iff)

lemma deep_raises [raises]: "assert_no_secret_like_keys_deep j = Inl e \<Longrightarrow> is_value_error e"
proof (induction j)
  case (JArr xs)
  then show ?case by (auto dest!: first_error_InlD)
next
  case (JObj d)
  from JObj(2) consider "assert_no_secret_like_metadata d = Inl e"
    | "first_error (map snd (map (map_prod id assert_no_secret_like_keys_deep) d)) = Inl e" by (auto simp: bind_result_Inl_iff)
  then show ?case
  proof cases
    case 2
    from first_error_InlD [OF this] obtain x where "x \<in> set d" "assert_no_secret_like_keys_deep (snd x) = Inl e" by auto
    then show ?thesis using JObj(1) [of x "snd x"] by (simp add: snds.intros)
  qed (rule checks_raise)
qed auto

lemma finalize_raises [raises]: "finalize d = Inl e \<Longrightarrow> is_value_error e"
  unfolding finalize_def bind_result_Inl_iff by (blast dest: raises)

lemma base_raises [raises]: "base_document t i p pr s l r = Inl e \<Longrightarrow> is_value_error e \<or> e = IndexError"
  unfolding base_document_def bind_result_Inl_iff by (auto dest: raises)

lemma value_error_prepares: "is_value_error e \<Longrightarrow> is_preparation_error e" "is_type_error e \<Longrightarrow> is_preparation_error e"
  by (cases e; simp)+

lemma session_builder_raises [raises]:
  assumes "build_transcript_session_document c = Inl e"
  shows "is_value_error e \<or> e = IndexError"
  using assms unfolding build_transcript_session_document_def bind_result_Inl_iff
  by (elim disjE exE conjE) (erule base_raises, drule finalize_raises, rule disjI1)

lemma chunk_builder_raises [raises]:
  assumes "build_conversation_chunk_document k l = Inl e"
  shows "is_value_error e \<or> e = IndexError"
  using assms unfolding build_conversation_chunk_document_def Let_def bind_result_Inl_iff
  by (elim disjE exE conjE) (drule checks_raise, erule disjI1, erule base_raises, drule finalize_raises, erule disjI1)

lemma post_init_raises [raises]: "chunk_post_init k = Inl e \<Longrightarrow> e = IndexError" "session_post_init c = Inl e \<Longrightarrow> e = IndexError"
  by (auto simp: chunk_post_init_def session_post_init_def bind_result_Inl_iff dest: canonicalize_raises)

lemma documents_raise:
  assumes "bind_result (chunk_post_init k) (\<lambda>chunk. bind_result (session_post_init c) (\<lambda>session.
      (case bind_result (build_transcript_session_document session) (\<lambda>session_doc.
          bind_result (build_conversation_chunk_document chunk '''') (\<lambda>chunk_doc. Inr (session_doc, chunk_doc))) of
         Inl e \<Rightarrow> if is_preparation_error e then Inr (early e) else Inl e
       | Inr (session_doc, chunk_doc) \<Rightarrow> Inr (built session_doc chunk_doc)))) = Inl e"
  shows "e = IndexError"
proof -
  let ?docs = "\<lambda>session chunk. bind_result (build_transcript_session_document session) (\<lambda>session_doc.
      bind_result (build_conversation_chunk_document chunk '''') (\<lambda>chunk_doc. Inr (session_doc, chunk_doc)))"
  have docs: "is_preparation_error e' \<or> e' = IndexError" if "?docs session chunk = Inl e'" for session chunk e'
    using that unfolding bind_result_Inl_iff by (blast dest: session_builder_raises chunk_builder_raises value_error_prepares(1))
  show ?thesis
  proof (cases "chunk_post_init k")
    case (Inr chunk)
    note c = this
    show ?thesis
    proof (cases "session_post_init c")
      case (Inr session)
      then show ?thesis using assms c docs [of session chunk] by (cases "?docs session chunk") (auto split: if_splits)
    qed (use assms c in \<open>auto dest: post_init_raises\<close>)
  qed (use assms in \<open>auto dest: post_init_raises\<close>)
qed

lemma build_documents_raises [raises]:
  assumes "build_documents job payload pkg source metadata body = Inl e"
  shows "e = IndexError"
proof (cases "positions metadata body")
  case (Inl e')
  then have "is_value_error e' \<or> is_type_error e'" by (rule positions_raises)
  then show ?thesis using assms by (simp add: build_documents_def Let_def Inl early_integrity_def split: if_splits)
next
  case (Inr p)
  obtain a b c d f g where p: "p = (a, b, c, d, f, g)" by (metis prod_cases6)
  let ?missing = "str_or_empty (get_item metadata ''session_id_hash'') = '''' \<or> str_or_empty (get_item metadata ''chunk_id'') = ''''"
  show ?thesis
  proof (cases ?missing)
    case True
    then show ?thesis using assms unfolding build_documents_def Let_def Inr p early_integrity_def sum.case prod.case if_P [OF True] by simp
  next
    case False
    show ?thesis
      using assms unfolding build_documents_def Let_def Inr p early_integrity_def sum.case prod.case if_not_P [OF False]
      by (rule documents_raise)
  qed
qed

lemma shape_dicts:
  assumes "has_payload_shape p"
  obtains package source document where "get_item p ''payload'' = JObj package" "get_item p ''source'' = JObj source"
    "get_item package ''document'' = JObj document" "is_dict (py_or (get_item document ''metadata'') (JObj []))"
  using assms by (auto simp: has_payload_shape_def split: json.splits)

lemma redacted_dicts:
  assumes "has_payload_shape p" "apply_server_redaction p = Inr q"
  shows "\<exists>source. get_item q ''source'' = JObj source"
proof -
  from assms(1) obtain package source document where p: "get_item p ''payload'' = JObj package" "get_item p ''source'' = JObj source"
    by (rule shape_dicts)
  have s: "get_item (redact_source redact_public_ingress_text p) ''source'' =
      JObj (redact_field redact_public_ingress_text ''host'' (redact_field redact_public_ingress_text ''project'' source))"
    by (simp add: redact_source_def p)
  from assms(2) show ?thesis
    by (auto simp: apply_server_redaction_def redact_payload_def Let_def bind_result_Inr_iff s split: if_splits)
qed

lemma is_dict_or: "is_dict (py_or (JObj d) (JObj []))"
  by (simp add: py_or_def)

lemma redaction_total:
  assumes "has_payload_shape p"
  shows "\<exists>q. apply_server_redaction p = Inr q \<and> (\<exists>pkg doc. get_item q ''payload'' = JObj pkg \<and> get_item pkg ''document'' = JObj doc
    \<and> is_dict (py_or (get_item doc ''metadata'') (JObj [])))"
proof -
  from assms obtain package source document where p: "get_item p ''payload'' = JObj package" "get_item package ''document'' = JObj document"
    and m: "is_dict (py_or (get_item document ''metadata'') (JObj []))" by (rule shape_dicts)
  have ne: "package \<noteq> []" using p(2) by auto
  have d: "as_dict (py_or (JObj document) (JObj [])) e = Inr document" for e by (cases document) (simp_all add: py_or_def as_dict_def)
  have pk: "py_or (JObj package) (JObj []) = JObj package" using ne by (simp add: py_or_def)
  show ?thesis
  proof (cases "document = []")
    case True
    then show ?thesis using p m ne by (simp add: apply_server_redaction_def redact_payload_def Let_def as_dict_def py_or_def redact_source_frame)
  next
    case False
    obtain md where md: "py_or (get_item document ''metadata'') (JObj []) = JObj md" using m by (cases "py_or (get_item document ''metadata'') (JObj [])") auto
    then obtain doc' where r: "redact_document redact_public_ingress_text document = Inr doc'"
      "get_item doc' ''metadata'' = JObj (map (map_prod id (redact_meta_value redact_public_ingress_text)) md)"
      by (simp add: redact_document_def Let_def as_dict_def)
    then show ?thesis using p False by (simp add: apply_server_redaction_def redact_payload_def Let_def pk d is_dict_or)
  qed
qed

text \<open>With its shape checked, a payload gets to the leak scan.\<close>

lemma prepare_shape:
  assumes "has_payload_shape p"
  shows "\<exists>q pkg doc source md. apply_server_redaction p = Inr q \<and> get_item q ''payload'' = JObj pkg \<and> get_item pkg ''document'' = JObj doc
    \<and> get_item q ''source'' = JObj source \<and> py_or (get_item doc ''metadata'') (JObj []) = JObj md
    \<and> prepare_chunk job p = (if public_ingress_leak_violations (leak_surface doc md source) \<noteq> []
        then Inr (Inl (evidence_of (jv_idempotency_key job) (jv_payload_hash job) '''' ''''
          (''public_ingress_leak:'' @ join '','' (sort (public_ingress_leak_violations (leak_surface doc md source)))) ''quarantined''))
        else build_documents job q pkg source md (str_or_empty (get_item doc ''body'')))"
proof -
  from redaction_total [OF assms] obtain q pkg doc where q: "apply_server_redaction p = Inr q" "get_item q ''payload'' = JObj pkg"
    "get_item pkg ''document'' = JObj doc" "is_dict (py_or (get_item doc ''metadata'') (JObj []))" by blast
  obtain source where s: "get_item q ''source'' = JObj source" using redacted_dicts [OF assms q(1)] by blast
  have pk: "py_or (JObj pkg) (JObj []) = JObj pkg" using q(3) by (auto simp: py_or_def)
  have d: "dict_get (py_or (JObj doc) (JObj [])) ''metadata'' = Inr (get_item doc ''metadata'')"
    "dict_of (py_or (JObj doc) (JObj [])) = doc" "dict_of (py_or (JObj source) (JObj [])) = source"
    by (simp_all add: py_or_def)
  obtain md where md: "py_or (get_item doc ''metadata'') (JObj []) = JObj md" using q(4) by (cases "py_or (get_item doc ''metadata'') (JObj [])") auto
  have "prepare_chunk job p = (if public_ingress_leak_violations (leak_surface doc md source) \<noteq> []
        then Inr (Inl (evidence_of (jv_idempotency_key job) (jv_payload_hash job) '''' ''''
          (''public_ingress_leak:'' @ join '','' (sort (public_ingress_leak_violations (leak_surface doc md source)))) ''quarantined''))
        else build_documents job q pkg source md (str_or_empty (get_item doc ''body'')))"
    using assms by (simp add: prepare_chunk_def q(1-3) s pk d md Let_def)
  then show ?thesis using q s md by blast
qed

lemma prepare_unshaped: "\<not> has_payload_shape p \<Longrightarrow> prepare_chunk job p = Inr (Inl (payload_integrity_evidence job ''invalid_stored_payload_shape''))"
  by (simp add: prepare_chunk_def early_integrity_def)

lemma prepare_raises:
  assumes "prepare_chunk job p = Inl e"
  shows "e = IndexError"
proof (cases "has_payload_shape p")
  case True
  with prepare_shape [OF True, of job] assms show ?thesis by (auto dest: build_documents_raises [OF sym] split: if_splits)
qed (use assms prepare_unshaped in simp)

section \<open>One identity for lookup and submission\<close>

lemma truthy_item: "str_or_empty (get_item m k) \<noteq> '''' \<Longrightarrow> m \<noteq> []"
  by (auto simp: str_or_empty_def)

lemma first_text_start: "first_text [v, JStr (str_or_empty w)] = first_text [v, w]"
  by (simp add: str_or_empty_def)

lemma documents_built:
  assumes "bind_result (chunk_post_init k) (\<lambda>chunk. bind_result (session_post_init c) (\<lambda>session.
      (case bind_result (build_transcript_session_document session) (\<lambda>session_doc.
          bind_result (build_conversation_chunk_document chunk '''') (\<lambda>chunk_doc. Inr (session_doc, chunk_doc))) of
         Inl e \<Rightarrow> if is_preparation_error e then Inr (Inl (early e)) else Inl e
       | Inr (session_doc, chunk_doc) \<Rightarrow> Inr (Inr (built session_doc chunk_doc))))) = Inr (Inr pr)"
  shows "\<exists>chunk sd cd. chunk_post_init k = Inr chunk \<and> build_conversation_chunk_document chunk '''' = Inr cd \<and> pr = built sd cd"
proof -
  from assms obtain chunk session where c: "chunk_post_init k = Inr chunk"
    and r: "(case bind_result (build_transcript_session_document session) (\<lambda>session_doc.
          bind_result (build_conversation_chunk_document chunk '''') (\<lambda>chunk_doc. Inr (session_doc, chunk_doc))) of
         Inl e \<Rightarrow> if is_preparation_error e then Inr (Inl (early e)) else Inl e
       | Inr (session_doc, chunk_doc) \<Rightarrow> Inr (Inr (built session_doc chunk_doc))) = Inr (Inr pr)"
    unfolding bind_result_Inr_iff [of "chunk_post_init k"] bind_result_Inr_iff [of "session_post_init c"] by blast
  from r obtain sd cd where "bind_result (build_transcript_session_document session) (\<lambda>session_doc.
          bind_result (build_conversation_chunk_document chunk '''') (\<lambda>chunk_doc. Inr (session_doc, chunk_doc))) = Inr (sd, cd)" "pr = built sd cd"
    by (auto split: sum.split_asm if_split_asm prod.split_asm)
  then show ?thesis using c unfolding bind_result_Inr_iff by blast
qed

lemma built_chunk:
  assumes "build_documents job payload pkg source metadata body = Inr (Inr pr)"
  shows "str_or_empty (get_item metadata ''session_id_hash'') \<noteq> '''' \<and> str_or_empty (get_item metadata ''chunk_id'') \<noteq> ''''
    \<and> (\<exists>chunk. identity_chunk pkg source metadata body = Inr chunk \<and> build_conversation_chunk_document chunk '''' = Inr (pr_chunk_doc pr))
    \<and> pr_session_id_hash pr = str_or_empty (get_item metadata ''session_id_hash'') \<and> pr_payload pr = payload"
proof (cases "positions metadata body")
  case (Inl e)
  then show ?thesis using assms by (auto simp: build_documents_def Let_def early_integrity_def split: if_splits)
next
  case (Inr p)
  obtain a b c d f g where p: "p = (a, b, c, d, f, g)" by (metis prod_cases6)
  then have pos: "identity_chunk pkg source metadata body = chunk_post_init
        \<lparr>sc_chunk_id = str_or_empty (get_item metadata ''chunk_id''),
         sc_session_id_hash = str_or_empty (get_item metadata ''session_id_hash''),
         sc_provider = first_text [get_item metadata ''provider'', get_item source ''provider'', get_item source ''namespace'', JStr ''ingress''],
         sc_project = first_text [get_item metadata ''project'', get_item source ''project''],
         sc_turn_start_index = a, sc_turn_end_index = b, sc_redacted_text = body,
         sc_content_hash = sha256_hash body,
         sc_redaction_version = first_text [get_item pkg ''redactionVersion'', JStr DEFAULT_REDACTION_VERSION],
         sc_source_status = ''source_locator_private_spool_only'', sc_part_index = c, sc_part_count = d,
         sc_char_start = f, sc_char_end = g,
         sc_observed_at_start = str_or_empty (get_item metadata ''observed_at_start''),
         sc_observed_at_end = first_text [get_item metadata ''observed_at_end'', get_item metadata ''observed_at_start'']\<rparr>"
    using Inr unfolding positions_def identity_chunk_def bind_result_Inr_iff by (elim exE conjE) simp
  let ?missing = "str_or_empty (get_item metadata ''session_id_hash'') = '''' \<or> str_or_empty (get_item metadata ''chunk_id'') = ''''"
  show ?thesis
  proof (cases ?missing)
    case True
    then show ?thesis using assms unfolding build_documents_def Let_def Inr p early_integrity_def sum.case prod.case if_P [OF True] by simp
  next
    case False
    have "\<exists>chunk sd cd. identity_chunk pkg source metadata body = Inr chunk \<and> build_conversation_chunk_document chunk '''' = Inr cd
      \<and> pr = \<lparr>pr_payload = payload, pr_session_id_hash = str_or_empty (get_item metadata ''session_id_hash''),
        pr_provider = first_text [get_item metadata ''provider'', get_item source ''provider'', get_item source ''namespace'', JStr ''ingress''],
        pr_project = first_text [get_item metadata ''project'', get_item source ''project''], pr_session_doc = sd, pr_chunk_doc = cd\<rparr>"
      using assms unfolding build_documents_def Let_def Inr p early_integrity_def sum.case prod.case if_not_P [OF False] first_text_start pos
      by (rule documents_built)
    then show ?thesis using False by auto
  qed
qed

lemma py_or_dict: "py_or j (JObj []) = JObj d \<Longrightarrow> d \<noteq> [] \<Longrightarrow> j = JObj d"
  by (simp add: py_or_def split: if_splits)

text \<open>
  The documentation of \<open>_chunk_document_for_payload_identity\<close> promises that it mirrors the construction in \<open>submit\<close>; it does.
\<close>

lemma prepare_InrD:
  assumes "prepare_chunk job p = Inr (Inr pr)"
  shows "chunk_document_for_payload_identity p = Inr (Some (pr_chunk_doc pr)) \<and> apply_server_redaction p = Inr (pr_payload pr)
    \<and> (\<exists>chunk. build_conversation_chunk_document chunk '''' = Inr (pr_chunk_doc pr) \<and> sc_session_id_hash chunk = pr_session_id_hash pr)"
proof -
  have shape: "has_payload_shape p" using assms prepare_unshaped [of p job] by auto
  from prepare_shape [OF shape, of job] assms obtain q pkg doc source md where q: "apply_server_redaction p = Inr q" "get_item q ''payload'' = JObj pkg"
    "get_item pkg ''document'' = JObj doc" and s: "get_item q ''source'' = JObj source" and md: "py_or (get_item doc ''metadata'') (JObj []) = JObj md"
    and b: "build_documents job q pkg source md (str_or_empty (get_item doc ''body'')) = Inr (Inr pr)"
    by (auto split: if_splits)
  note built = built_chunk [OF b]
  then obtain chunk where c: "identity_chunk pkg source md (str_or_empty (get_item doc ''body'')) = Inr chunk"
    "build_conversation_chunk_document chunk '''' = Inr (pr_chunk_doc pr)" by blast
  have "get_item doc ''metadata'' = JObj md" using py_or_dict [OF md] built truthy_item by blast
  then have i: "identity_document p = Inr (Some (pr_chunk_doc pr))"
    using built c by (simp add: identity_document_def q(1-3) s Let_def)
  have "sc_session_id_hash chunk = str_or_empty (get_item md ''session_id_hash'')"
    using c(1) by (auto simp: identity_chunk_def bind_result_Inr_iff chunk_post_init_def)
  then show ?thesis using i q(1) built c by (auto simp: chunk_document_for_payload_identity_def)
qed

text \<open>Every failure behind the preparation is reported as an uncertain outcome.\<close>

lemma act_of_simps [simp]: "act_of r s = (r, s)"
  by (simp add: act_of_def)

lemma on_store_pair [simp]: "on_store m (w, db) = (fst (m w), (snd (m w), db))"
  by (simp add: on_store_def split_def)

lemma mirror_silent: "\<exists>s'. submit_mirror sp payload w = (Inr (), s')"
  by (auto simp: submit_mirror_def Let_def bind_act_def attempt_def split: option.split prod.split)

lemma submit_chunk_cases:
  assumes "couchdb_find sp (jv_idempotency_key job) (jv_payload_hash job) s = (looked, s1)"
  shows "submit_chunk sp now job payload s = (case looked of
      Inl e \<Rightarrow> (Inl (DeliveryOutcomeUncertain (class_name e)), s1)
    | Inr existing \<Rightarrow>
        if map_option evd_status existing = Some ''payload_integrity_mismatch'' then (Inr (the existing), s1)
        else case prepare_chunk job payload of Inl e \<Rightarrow> (Inl e, s1) | Inr ready \<Rightarrow> deliver_prepared sp now job existing ready s1)"
  using assms by (cases "prepare_chunk job payload") (auto simp: submit_chunk_def bind_act_def attempt_def split: sum.split)

lemma deliver_prepared_cases:
  assumes "store_chunk sp job pr w = (ans, w2)"
  shows "\<exists>w3. submit_mirror sp (pr_payload pr) w2 = (Inr (), w3) \<and> deliver_prepared sp now job existing (Inr pr) (w, db) = (case ans of
      Inl e \<Rightarrow> (Inl (DeliveryOutcomeUncertain (class_name e)), (w2, db))
    | Inr (Inl early) \<Rightarrow> (Inr early, (w2, db))
    | Inr (Inr dup) \<Rightarrow> (Inr (evidence_of (jv_idempotency_key job) (jv_payload_hash job) (dataset_of (sp_store sp))
        (session_doc_id (pr_session_id_hash pr)) (if existing \<noteq> None \<or> dup then ''couchdb_existing'' else ''couchdb_put'')
        ''succeeded''\<lparr>evd_observed_at := Some now\<rparr>), (w3, db)))"
proof -
  obtain w3 where m: "submit_mirror sp (pr_payload pr) w2 = (Inr (), w3)" using mirror_silent [of sp "pr_payload pr" w2] by auto
  show ?thesis using assms m by (auto simp: deliver_prepared_def bind_act_def attempt_def split: sum.split)
qed

lemma submit_chunk_raises:
  assumes "submit_chunk sp now job payload (w, db) = (Inl e, s')"
  shows "e = IndexError \<or> (\<exists>m. e = DeliveryOutcomeUncertain m)"
proof -
  obtain looked w1 db1 where f: "couchdb_find sp (jv_idempotency_key job) (jv_payload_hash job) (w, db) = (looked, (w1, db1))"
    by (metis prod.collapse)
  have prepared: "\<exists>m. e = DeliveryOutcomeUncertain m" if "deliver_prepared sp now job existing ready (w1, db1) = (Inl e, s')" for existing ready
  proof (cases ready)
    case (Inl ev)
    then show ?thesis using that by (simp add: deliver_prepared_def)
  next
    case (Inr pr)
    obtain ans w2 where "store_chunk sp job pr w1 = (ans, w2)" by (cases "store_chunk sp job pr w1")
    from deliver_prepared_cases [OF this, of now existing db1] that Inr show ?thesis
      by (cases ans rule: sum.exhaust; cases "projr ans") auto
  qed
  from assms show ?thesis unfolding submit_chunk_cases [OF f]
    by (auto split: sum.splits if_splits dest: prepare_raises prepared)
qed

lemma transcript_submission_raises:
  assumes "couchdb_submit sp now job (w, db) = (Inl e, s')" "jv_document_kind job \<noteq> REPO_USAGE_PATTERN"
  shows "e = IndexError \<or> (\<exists>m. e = DeliveryOutcomeUncertain m)"
proof (cases "resolve_delivery_payload db (jv_idempotency_key job) (jv_payload_hash job)")
  case (Inr p)
  obtain found g where p: "p = (found, g)" by fastforce
  then show ?thesis using assms Inr submit_chunk_raises [of sp now job _ w db e s'] by (cases found) (auto simp: couchdb_submit_def)
qed (use assms in \<open>auto simp: couchdb_submit_def split: if_splits\<close>)

section \<open>What a success says\<close>

text \<open>Partial correctness of actions: what holds when they return.\<close>

definition returns :: "('s \<Rightarrow> bool) \<Rightarrow> ('s, 'a) action \<Rightarrow> ('a \<Rightarrow> 's \<Rightarrow> bool) \<Rightarrow> bool" where
  "returns P m Q \<longleftrightarrow> (\<forall>s x s'. P s \<longrightarrow> m s = (Inr x, s') \<longrightarrow> Q x s')"

lemma returnsD: "returns P m Q \<Longrightarrow> P s \<Longrightarrow> m s = (Inr x, s') \<Longrightarrow> Q x s'"
  by (auto simp: returns_def)

lemma returns_pure: "(\<And>s. P s \<Longrightarrow> Q x s) \<Longrightarrow> returns P (return_act x) Q" "returns P (raise_act e) Q"
  "(\<And>s y. P s \<Longrightarrow> r = Inr y \<Longrightarrow> Q y s) \<Longrightarrow> returns P (act_of r) Q"
  by (auto simp: returns_def)

lemma returns_bind: "returns P m R \<Longrightarrow> (\<And>x. returns (R x) (f x) Q) \<Longrightarrow> returns P (bind_act m f) Q"
  unfolding returns_def bind_act_def by (auto split: prod.splits sum.splits)

lemma returns_keep: "returns P m (\<lambda>_. P) \<Longrightarrow> (\<And>x. returns P (f x) Q) \<Longrightarrow> returns P (bind_act m f) Q"
  by (rule returns_bind)

text \<open>A property of the world that an action leaves alone, whatever it returns.\<close>

definition stays :: "('s \<Rightarrow> bool) \<Rightarrow> ('s, 'a) action \<Rightarrow> bool" where
  "stays P m \<longleftrightarrow> (\<forall>s. P s \<longrightarrow> P (snd (m s)))"

lemma stays_pure: "stays P (return_act x)" "stays P (raise_act e)" "stays P (act_of r)"
  by (simp_all add: stays_def)

lemma stays_bind: "stays P m \<Longrightarrow> (\<And>x. stays P (f x)) \<Longrightarrow> stays P (bind_act m f)"
  unfolding stays_def by (intro allI impI bind_act_preserves [of P]) auto

lemma stays_attempt: "stays P m \<Longrightarrow> stays P (attempt m)"
  by (simp add: stays_def attempt_def split_def)

lemma stays_returns: "stays P m \<Longrightarrow> returns P m (\<lambda>_. P)"
  unfolding stays_def returns_def by (metis snd_conv)

lemmas stays_intros = stays_pure stays_bind stays_attempt

text \<open>What the lane relies on of the rest of the plane: it leaves a property of the store alone.\<close>

definition plane_keeps :: "'w source_plane \<Rightarrow> ('w \<Rightarrow> bool) \<Rightarrow> bool" where
  "plane_keeps sp P \<longleftrightarrow> (\<forall>h. stays P (sp_resolve_active sp h)) \<and> (\<forall>h ids pv a. stays P (sp_activate sp h ids pv a))
    \<and> (\<forall>d. stays P (sp_upsert_session sp d)) \<and> (\<forall>h. stays P (sp_update_coverage sp h))
    \<and> (\<forall>h p r s b. stays P (sp_mark_pending sp h p r s b)) \<and> (\<forall>k. stays P (st_get (sp_store sp) k))
    \<and> (\<forall>m d. sp_mirror sp = Some m \<longrightarrow> stays P (m d)) \<and> (\<forall>m d. sp_on_mirror_outcome sp = Some m \<longrightarrow> stays P (m d))"

lemma plane_stays:
  assumes "plane_keeps sp P"
  shows "stays P (sp_resolve_active sp h)" "stays P (st_get (sp_store sp) k)"
    "sp_mirror sp = Some m \<Longrightarrow> stays P (m d)" "sp_on_mirror_outcome sp = Some f \<Longrightarrow> stays P (f oc)"
  using assms by (simp_all add: plane_keeps_def)

lemma plane_keepsD:
  assumes "plane_keeps sp P"
  shows "returns P (sp_resolve_active sp h) (\<lambda>_. P)" "returns P (sp_activate sp h ids pv a) (\<lambda>_. P)"
    "returns P (sp_upsert_session sp d) (\<lambda>_. P)" "returns P (sp_update_coverage sp h) (\<lambda>_. P)"
    "returns P (sp_mark_pending sp h p r' s b) (\<lambda>_. P)" "returns P (st_get (sp_store sp) k) (\<lambda>_. P)"
  using assms by (auto simp: plane_keeps_def intro: stays_returns)

lemma find_chunk_stays:
  assumes "plane_keeps sp P"
  shows "stays P (find_chunk sp job key h payload)"
proof -
  have "stays P (active_source_revision_before_ingress sp g)" for g
    unfolding active_source_revision_before_ingress_def using plane_stays [OF assms] by (auto intro!: stays_intros split: option.split)
  then show ?thesis
    unfolding find_chunk_def Let_def using plane_stays [OF assms]
    by (auto intro!: stays_intros split: option.split sum.split bool.split py_error.split)
qed

lemma submit_mirror_stays: "plane_keeps sp P \<Longrightarrow> stays P (submit_mirror sp payload)"
  unfolding submit_mirror_def mirror_document_def Let_def using plane_stays(3,4)
  by (auto intro!: stays_intros split: option.split sum.split)

lemma before_ingress_keeps:
  assumes "plane_keeps sp P"
  shows "returns P (active_source_revision_before_ingress sp h) (\<lambda>_. P)"
  unfolding active_source_revision_before_ingress_def using plane_keepsD [OF assms]
  by (auto intro!: returns_keep returns_pure split: option.split)

lemma activate_with_keeps:
  assumes "plane_keeps sp P"
  shows "returns P (activate_with sp pr active dup changed) (\<lambda>_. P)"
proof -
  have "returns P (active_revision_provenance sp active) (\<lambda>_. P)"
    unfolding active_revision_provenance_def using plane_keepsD [OF assms]
    by (auto intro!: returns_keep returns_pure split: option.split json.split)
  then show ?thesis
    unfolding activate_with_def using plane_keepsD [OF assms] by (auto intro!: returns_keep returns_pure)
qed

text \<open>The in-memory store with no other writer, and the chunk in it.\<close>

definition exclusive :: "shared \<Rightarrow> bool" where
  "exclusive w \<longleftrightarrow> store_ok (fst w) \<and> snd w = []"

definition chunk_stored :: "dict \<Rightarrow> shared \<Rightarrow> bool" where
  "chunk_stored d w \<longleftrightarrow> exclusive w \<and> (\<exists>e. shared_view w (doc_id_of d) = Some e \<and> payload_hash e = payload_hash d)"

lemma exclusive_others: "exclusive w \<Longrightarrow> others resolve w = w"
  by (cases w) (simp add: exclusive_def)

lemma exclusive_get: "returns exclusive (st_get (shared_store resolve) k) (\<lambda>x w. exclusive w \<and> x = shared_view w k)"
  by (auto simp: returns_def shared_store_def shared_get_def Let_def exclusive_others shared_view_def)

lemma exclusive_put: "returns exclusive (st_put_if_absent (shared_store resolve) d) (\<lambda>_. chunk_stored d)"
proof -
  { fix w x w' assume w: "exclusive w" and p: "shared_put_if_absent resolve d w = (Inr x, w')"
    then obtain s' where s: "put_if_absent resolve d (fst w) = Inr (x, s')" "w' = (s', [])"
      by (auto simp: shared_put_if_absent_def exclusive_others exclusive_def split: sum.splits prod.splits)
    have ok: "store_ok (fst w)" "store_ok s'"
      using w run_call_ok [of "fst w" resolve "Put_If_Absent d"] s(1) by (simp_all add: exclusive_def store_after_def)
    have "\<exists>e. store_get (doc_id_of d) s' = Some e \<and> payload_hash e = payload_hash d"
      using put_if_absent_InrD [OF s(1)] wrote_rev [OF ok(1)] by (fastforce simp: doc_id_of_def)
    then have "chunk_stored d w'" using s(2) ok(2) by (simp add: chunk_stored_def exclusive_def shared_view_def) }
  then show ?thesis by (auto simp: returns_def shared_store_def)
qed

lemma documents_match_hash: "chunk_documents_match e d = Inr True \<Longrightarrow> payload_hash e = payload_hash d"
  by (auto simp: chunk_documents_match_def split: if_splits)

lemma store_pinned_chunk_stores:
  "returns exclusive (store_pinned_chunk (shared_store resolve) d) (\<lambda>same w. same \<longrightarrow> chunk_stored d w)"
proof -
  { fix w x w' assume w: "exclusive w" and s: "store_pinned_chunk (shared_store resolve) d w = (Inr x, w')" and x: x
    have g: "st_get (shared_store resolve) (doc_id_of d) w = (Inr (shared_view w (doc_id_of d)), w)"
      using w by (simp add: shared_store_def shared_get_def Let_def exclusive_others shared_view_def)
    have "chunk_stored d w'"
    proof (cases "shared_view w (doc_id_of d)")
      case (Some e)
      then show ?thesis using s x w g by (auto simp: store_pinned_chunk_def bind_act_def chunk_stored_def dest: documents_match_hash)
    next
      case None
      obtain a w1 where p: "st_put_if_absent (shared_store resolve) d w = (a, w1)" by (cases "st_put_if_absent (shared_store resolve) d w")
      show ?thesis
      proof (cases a)
        case (Inr rv)
        then have "w' = w1" using s g None p by (auto simp: store_pinned_chunk_def bind_act_def attempt_def)
        then show ?thesis using returnsD [OF exclusive_put w p [unfolded Inr]] by simp
      next
        case (Inl e)
        then show ?thesis using s x g None p
          by (auto simp: store_pinned_chunk_def bind_act_def attempt_def split: py_error.splits prod.splits sum.splits if_splits)
      qed
    qed }
  then show ?thesis by (auto simp: returns_def)
qed

lemma store_chunk_stores:
  assumes sp: "sp_store sp = shared_store resolve" and k: "plane_keeps sp exclusive" "plane_keeps sp (chunk_stored (pr_chunk_doc pr))"
  shows "returns exclusive (store_chunk sp job pr) (\<lambda>r w. (\<exists>run. r = Inl (payload_integrity_evidence job run)) \<or> chunk_stored (pr_chunk_doc pr) w)"
proof -
  let ?d = "pr_chunk_doc pr" and ?Q = "\<lambda>r w. (\<exists>run. r = Inl (payload_integrity_evidence job run)) \<or> chunk_stored (pr_chunk_doc pr) w"
  note keep = plane_keepsD [OF k(2)] before_ingress_keeps [OF k(2)] activate_with_keeps [OF k(2)]
  have after: "returns (chunk_stored ?d) (bind_act m (\<lambda>_. return_act (Inr b))) ?Q" if "returns (chunk_stored ?d) m (\<lambda>_. chunk_stored ?d)"
    for m :: "(shared, unit) action" and b :: bool
    using that by (rule returns_keep) (auto intro: returns_pure)
  have unpinned: "returns exclusive (store_unpinned sp job pr) ?Q"
    unfolding store_unpinned_def sp
    by (rule returns_bind [OF exclusive_put])
      (auto intro!: returns_keep [OF keep(3)] returns_keep [OF keep(7)] returns_keep [OF keep(4)] returns_keep [of _ "act_of _"] after keep returns_pure
        split: option.split sum.split py_error.split)
  have pinned: "returns exclusive (store_pinned sp job pr a) ?Q" for a
    unfolding store_pinned_def sp
    by (rule returns_keep, auto intro!: returns_pure split: sum.split py_error.split)
      (auto intro!: returns_bind [OF store_pinned_chunk_stores] after keep returns_pure)
  show ?thesis unfolding store_chunk_def
    by (rule returns_keep [OF before_ingress_keeps [OF k(1)]]) (use unpinned pinned in \<open>auto split: option.split\<close>)
qed

lemma documents_early:
  assumes "bind_result (chunk_post_init k) (\<lambda>chunk. bind_result (session_post_init c) (\<lambda>session.
      (case bind_result (build_transcript_session_document session) (\<lambda>session_doc.
          bind_result (build_conversation_chunk_document chunk '''') (\<lambda>chunk_doc. Inr (session_doc, chunk_doc))) of
         Inl e \<Rightarrow> if is_preparation_error e then Inr (Inl (early e)) else Inl e
       | Inr (session_doc, chunk_doc) \<Rightarrow> Inr (Inr (built session_doc chunk_doc))))) = Inr (Inl ev)"
  shows "\<exists>e. ev = early e"
proof -
  let ?docs = "\<lambda>session chunk. bind_result (build_transcript_session_document session) (\<lambda>session_doc.
      bind_result (build_conversation_chunk_document chunk '''') (\<lambda>chunk_doc. Inr (session_doc, chunk_doc)))"
  from assms obtain chunk session where "(case ?docs session chunk of
         Inl e \<Rightarrow> if is_preparation_error e then Inr (Inl (early e)) else Inl e
       | Inr (session_doc, chunk_doc) \<Rightarrow> Inr (Inr (built session_doc chunk_doc))) = Inr (Inl ev)"
    unfolding bind_result_Inr_iff [of "chunk_post_init k"] bind_result_Inr_iff [of "session_post_init c"] by blast
  then show ?thesis by (cases "?docs session chunk") (auto split: if_splits)
qed

lemma build_documents_early:
  assumes "build_documents job payload pkg source metadata body = Inr (Inl ev)"
  shows "\<exists>run. ev = payload_integrity_evidence job run"
proof (cases "positions metadata body")
  case (Inl e)
  then show ?thesis using assms by (auto simp: build_documents_def Let_def early_integrity_def split: if_splits)
next
  case (Inr p)
  obtain a b c d f g where p: "p = (a, b, c, d, f, g)" by (metis prod_cases6)
  let ?missing = "str_or_empty (get_item metadata ''session_id_hash'') = '''' \<or> str_or_empty (get_item metadata ''chunk_id'') = ''''"
  show ?thesis
  proof (cases ?missing)
    case True
    then show ?thesis using assms unfolding build_documents_def Let_def Inr p early_integrity_def sum.case prod.case if_P [OF True] by auto
  next
    case False
    have "\<exists>e. ev = payload_integrity_evidence job (''prepare_source_documents:'' @ class_name e)"
      using assms unfolding build_documents_def Let_def Inr p early_integrity_def sum.case prod.case if_not_P [OF False]
      by (rule documents_early)
    then show ?thesis by blast
  qed
qed

lemma early_not_succeeded:
  assumes "prepare_chunk job payload = Inr (Inl ev)"
  shows "evd_status ev \<noteq> ''succeeded''"
proof -
  have "evd_status (payload_integrity_evidence job run) \<noteq> ''succeeded''" for run by (simp add: payload_integrity_evidence_def evidence_of_def)
  moreover have "(\<exists>run. ev = payload_integrity_evidence job run) \<or> evd_status ev = ''quarantined''"
  proof (cases "has_payload_shape payload")
    case True
    with prepare_shape [OF True, of job] assms show ?thesis
      by (auto simp: evidence_of_def dest: build_documents_early [OF sym] split: if_splits)
  qed (use assms prepare_unshaped [of payload job] in auto)
  ultimately show ?thesis by auto
qed

lemma stays_env:
  "stays P m \<Longrightarrow> stays (\<lambda>s. P (fst s) \<and> snd s = db) (on_store m)" "stays (\<lambda>s. P (fst s) \<and> snd s = db) (read_db f)"
  by (auto simp: stays_def read_db_def)

lemma find_stays:
  assumes "plane_keeps sp P" "P w"
  shows "\<exists>r w1. couchdb_find sp key h (w, db) = (r, (w1, db)) \<and> P w1"
proof -
  have "stays (\<lambda>s. P (fst s) \<and> snd s = db) (couchdb_find sp key h)"
    unfolding couchdb_find_def find_procedural_def using plane_stays(2) [OF assms(1)] find_chunk_stays [OF assms(1)]
    by (auto intro!: stays_intros stays_env split: option.split sum.split)
  then have "P (fst (snd (couchdb_find sp key h (w, db)))) \<and> snd (snd (couchdb_find sp key h (w, db))) = db"
    using assms(2) by (auto simp: stays_def)
  then show ?thesis by (metis prod.collapse)
qed

lemma returns_any: "returns P m (\<lambda>_ _. True)"
  by (simp add: returns_def)

lemma store_chunk_early: "returns P (store_chunk sp job pr) (\<lambda>r w. \<forall>ev. r = Inl ev \<longrightarrow> evd_status ev \<noteq> ''succeeded'')"
proof -
  let ?Q = "\<lambda>r w. \<forall>ev. r = Inl ev \<longrightarrow> evd_status ev \<noteq> ''succeeded''"
  have e: "evd_status (payload_integrity_evidence job run) \<noteq> ''succeeded''" for run by (simp add: payload_integrity_evidence_def evidence_of_def)
  have "returns P (store_unpinned sp job pr) ?Q" for P
    unfolding store_unpinned_def
    by (auto intro!: returns_bind [OF returns_any] returns_pure e split: option.split sum.split py_error.split)
  moreover have "returns P (store_pinned sp job pr a) ?Q" for P a
    unfolding store_pinned_def
    by (auto intro!: returns_bind [OF returns_any] returns_pure e split: sum.split py_error.split)
  ultimately show ?thesis unfolding store_chunk_def by (auto intro!: returns_bind [OF returns_any] split: option.split)
qed

text \<open>
  A delivery of a transcript that is reported as a success has put its chunk document into the store, and it is still there at
  the end, unless the rest of the plane removes it.
\<close>

lemma transcript_success_stored:
  assumes sp: "sp_store sp = shared_store resolve" and w: "exclusive w"
    and k: "plane_keeps sp exclusive" "\<And>d. plane_keeps sp (chunk_stored d)"
    and s: "submit_chunk sp now job payload (w, db) = (Inr ev, (w', db'))" "evd_status ev = ''succeeded''"
  shows "\<exists>pr. prepare_chunk job payload = Inr (Inr pr) \<and> evd_document_ref ev = session_doc_id (pr_session_id_hash pr)
    \<and> chunk_stored (pr_chunk_doc pr) w' \<and> db' = db"
proof -
  obtain looked w1 where f: "couchdb_find sp (jv_idempotency_key job) (jv_payload_hash job) (w, db) = (looked, (w1, db))" and w1: "exclusive w1"
    using find_stays [OF k(1) w] by blast
  note run = submit_chunk_cases [OF f, of now payload]
  obtain existing where looked: "looked = Inr existing" using s(1) unfolding run by (cases looked) auto
  obtain ready where r: "prepare_chunk job payload = Inr ready" and d: "deliver_prepared sp now job existing ready (w1, db) = (Inr ev, (w', db'))"
    using s unfolding run looked by (cases "prepare_chunk job payload") (auto split: if_splits)
  obtain pr where pr: "ready = Inr pr"
    using s(2) d r early_not_succeeded [of job payload] by (cases ready) (auto simp: deliver_prepared_def)
  obtain ans w2 where st: "store_chunk sp job pr w1 = (ans, w2)" by (cases "store_chunk sp job pr w1")
  from deliver_prepared_cases [OF st, of now existing db] obtain w3 where m: "submit_mirror sp (pr_payload pr) w2 = (Inr (), w3)"
    and run2: "deliver_prepared sp now job existing (Inr pr) (w1, db) = (case ans of
      Inl e \<Rightarrow> (Inl (DeliveryOutcomeUncertain (class_name e)), (w2, db))
    | Inr (Inl early) \<Rightarrow> (Inr early, (w2, db))
    | Inr (Inr dup) \<Rightarrow> (Inr (evidence_of (jv_idempotency_key job) (jv_payload_hash job) (dataset_of (sp_store sp))
        (session_doc_id (pr_session_id_hash pr)) (if existing \<noteq> None \<or> dup then ''couchdb_existing'' else ''couchdb_put'')
        ''succeeded''\<lparr>evd_observed_at := Some now\<rparr>), (w3, db)))" by blast
  obtain dup where dup: "ans = Inr (Inr dup)"
    using d s(2) st returnsD [OF store_chunk_early, of "\<lambda>_. True" w1 sp job pr _ w2]
    unfolding pr run2 by (auto split: sum.splits)
  have "chunk_stored (pr_chunk_doc pr) w2" using returnsD [OF store_chunk_stores [OF sp k(1) k(2)] w1 st [unfolded dup]] by auto
  then have "chunk_stored (pr_chunk_doc pr) w3"
    using submit_mirror_stays [OF k(2)] m unfolding stays_def by (metis snd_conv)
  then show ?thesis using d r unfolding pr run2 dup by (auto simp: evidence_of_def)
qed

section \<open>Labels and paths\<close>

text \<open>
  A project path that begins with a worktree marker has no last part left: the \<open>IndexError\<close> is none of the preparation errors
  and leaves \<open>submit\<close> as it is.
\<close>

lemma worktree_root_escapes: "canonicalize_project ''/.claude-worktrees/x'' = Inl IndexError"
  by code_simp

text \<open>
  The session document carries the canonical labels; the check against a pinned revision compares them with the labels of the
  payload as they were sent.  A provider that canonicalization changes never passes, not even against its own session.
\<close>

lemma pinned_labels_not_canonical:
  assumes "session_post_init c = Inr c'" "build_transcript_session_document c' = Inr d" "ar_sessions a = [d]"
    and "canonicalize_provider (ts_provider c) \<noteq> ts_provider c"
  shows "assert_active_revision_matches_ingress a (ts_provider c) project = Inl (SourceStoreConflict ''active source revision ingress contract is invalid'')"
proof -
  obtain doc where doc: "base_document TRANSCRIPT_SESSION (session_doc_id (ts_session_id_hash c')) (ts_provider c') (ts_project c')
        (ts_session_id_hash c') (ts_source_locator_hash c') DEFAULT_REDACTION_VERSION = Inr doc"
    and f: "finalize (dict_update doc
        [(''started_at'', JStr (ts_started_at c')), (''ended_at'', JStr (ts_ended_at c')),
         (''observed_at_start'', JStr (ts_observed_at_start c')), (''observed_at_end'', JStr (ts_observed_at_end c')),
         (''source_hash'', JStr (ts_source_hash c')), (''materialized_at'', JStr (ts_materialized_at c')),
         (''source_status'', JStr (ts_source_status c'))]) = Inr d"
    using assms(2) unfolding build_transcript_session_document_def bind_result_Inr_iff by blast
  have "get_item d ''provider'' = JStr (ts_provider c')"
    using finalize_InrD [OF f] base_document_InrD [OF doc] by (auto simp: get_item_def map_of_dict_update)
  moreover have "ts_provider c' = canonicalize_provider (ts_provider c)" using assms(1) by (auto simp: session_post_init_def bind_result_Inr_iff)
  moreover have "str_or_empty (JStr x) = x" for x by (simp add: str_or_empty_def)
  ultimately show ?thesis using assms(3,4) by (simp add: assert_active_revision_matches_ingress_def)
qed

end
