(* ===== verification/Leak_Words.thy ===== *)
theory Leak_Words
  imports Source_Model
begin

text \<open>
  A criterion for documents that pass the leak scan: every pattern of the scan contains one of a few words, so a
  text in which none of them occurs is clean.  In a printed JSON document an occurrence lies within one of its strings,
  and digests contain none of the words.
\<close>

section \<open>Occurrences of words\<close>

primrec starts :: "string \<Rightarrow> string \<Rightarrow> bool" where
  "starts [] s = True"
| "starts (a # w) s = (case s of [] \<Rightarrow> False | x # xs \<Rightarrow> lower_char x = a \<and> starts w xs)"

primrec occurs :: "string \<Rightarrow> string \<Rightarrow> bool" where
  "occurs w [] = (w = [])"
| "occurs w (c # cs) = (starts w (c # cs) \<or> occurs w cs)"

lemma starts_occurs: "starts w s \<Longrightarrow> occurs w s"
  by (cases s; cases w) auto

lemma occurs_append: "occurs w s \<Longrightarrow> occurs w (m @ s)"
  by (induction m) auto

lemma runs_caseless: "runs (caseless w) c \<noteq> [] \<Longrightarrow> starts (py_lower w) (cur_rest c)"
proof (induction w arbitrary: c)
  case (Cons a w)
  then show ?case using Cons.IH [of "advance 1 c"] by (auto simp: py_lower_def split: list.splits if_splits)
qed (simp add: py_lower_def)

lemma runs_Seq: "runs (Seq r q) c \<noteq> [] \<longleftrightarrow> (\<exists>e \<in> set (runs r c). runs q e \<noteq> [])"
  by auto

text \<open>A word that every match of an expression contains.\<close>

definition contains :: "regex \<Rightarrow> string list \<Rightarrow> bool" where
  "contains r ws \<longleftrightarrow> (\<forall>c. runs r c \<noteq> [] \<longrightarrow> (\<exists>w \<in> set ws. occurs w (cur_rest c)))"

lemma contains_caseless: "py_lower w \<in> set ws \<Longrightarrow> contains (caseless w) ws"
  unfolding contains_def using runs_caseless starts_occurs by blast

lemma contains_Seq1: "contains r ws \<Longrightarrow> contains (Seq r q) ws"
  unfolding contains_def runs_Seq by (metis empty_iff list.set(1))

lemma contains_Seq2: "contains q ws \<Longrightarrow> contains (Seq r q) ws"
  unfolding contains_def runs_Seq by (metis occurs_append runs_suffix)

lemma contains_Alt: "contains r ws \<Longrightarrow> contains q ws \<Longrightarrow> contains (Alt r q) ws"
  by (auto simp: contains_def)

lemma contains_Group: "contains r ws \<Longrightarrow> contains (Group n r) ws"
  by (simp add: contains_def)

lemma contains_search: "contains r ws \<Longrightarrow> re_search r s \<Longrightarrow> \<exists>w \<in> set ws. occurs w s"
proof -
  assume c: "contains r ws"
  have "matches_from r pre s \<Longrightarrow> \<exists>w \<in> set ws. occurs w s" for pre
  proof (induction s arbitrary: pre)
    case Nil
    then show ?case using c unfolding contains_def by (metis cursor.select_convs(2) matches_from.simps(1))
  next
    case (Cons x xs)
    then consider "runs r \<lparr>cur_before = pre, cur_rest = x # xs, cur_groups = []\<rparr> \<noteq> []" | "matches_from r (x # pre) xs" by auto
    then show ?case
    proof cases
      case 1
      then show ?thesis using c unfolding contains_def by (metis cursor.select_convs(2))
    next
      case 2
      then show ?thesis using Cons.IH by (meson occurs.simps(2))
    qed
  qed
  then show "re_search r s \<Longrightarrow> ?thesis" by (simp add: re_search_def)
qed

definition LEAK_WORDS :: "string list" where
  "LEAK_WORDS = [''/users/'', ''~/'', ''/private/'', ''/volumes/'', ''bearer'', ''basic'', ''@'', ''token'', ''secret'', ''api'', ''password'', ''passwd'']"

lemmas contains_intros = contains_Alt contains_Group contains_caseless

lemma lower_words:
  "py_lower ''/Users/'' = ''/users/''" "py_lower ''~/'' = ''~/''" "py_lower ''/private/'' = ''/private/''" "py_lower ''/Volumes/'' = ''/volumes/''"
  "py_lower ''Bearer'' = ''bearer''" "py_lower ''Basic'' = ''basic''" "py_lower ''TOKEN'' = ''token''" "py_lower ''SECRET'' = ''secret''"
  "py_lower ''API_KEY'' = ''api_key''" "py_lower ''PASSWORD'' = ''password''" "py_lower ''PASSWD'' = ''passwd''"
  "py_lower ''password'' = ''password''" "py_lower ''passwd'' = ''passwd''" "py_lower ''secret'' = ''secret''" "py_lower ''token'' = ''token''"
  "py_lower ''api'' = ''api''"
  by code_simp+

lemma starts_prefix: "starts (u @ v) s \<Longrightarrow> starts u s"
  by (induction u arbitrary: s) (auto split: list.splits)

lemma contains_api_key: "''api'' \<in> set ws \<Longrightarrow> contains (caseless ''API_KEY'') ws"
proof -
  have "occurs ''api'' (cur_rest c)" if "runs (caseless ''API_KEY'') c \<noteq> []" for c
  proof -
    have "starts (''api'' @ ''_key'') (cur_rest c)" using runs_caseless [OF that] by (simp only: lower_words append.simps)
    then show ?thesis using starts_prefix starts_occurs by blast
  qed
  then show "''api'' \<in> set ws \<Longrightarrow> contains (caseless ''API_KEY'') ws" unfolding contains_def by blast
qed

lemma contains_at: "''@'' \<in> set ws \<Longrightarrow> contains (literal ''@'') ws"
proof -
  have "occurs ''@'' (cur_rest c)" if "runs (literal ''@'') c \<noteq> []" for c
    using that by (cases "cur_rest c") (auto simp: lower_char_def code_def split: if_splits)
  then show "''@'' \<in> set ws \<Longrightarrow> contains (literal ''@'') ws" by (auto simp: contains_def)
qed

lemma leak_patterns_contain: "list_all (\<lambda>(name, r). contains r LEAK_WORDS) leak_patterns"
proof -
  have w: "contains (caseless x) LEAK_WORDS" if "py_lower x \<in> set LEAK_WORDS" for x using that by (rule contains_caseless)
  have words: "contains (caseless ''/Users/'') LEAK_WORDS" "contains (caseless ''~/'') LEAK_WORDS" "contains (caseless ''/private/'') LEAK_WORDS"
    "contains (caseless ''/Volumes/'') LEAK_WORDS" "contains (caseless ''Bearer'') LEAK_WORDS" "contains (caseless ''Basic'') LEAK_WORDS"
    "contains (caseless ''TOKEN'') LEAK_WORDS" "contains (caseless ''SECRET'') LEAK_WORDS" "contains (caseless ''PASSWORD'') LEAK_WORDS"
    "contains (caseless ''PASSWD'') LEAK_WORDS" "contains (caseless ''password'') LEAK_WORDS" "contains (caseless ''passwd'') LEAK_WORDS"
    "contains (caseless ''secret'') LEAK_WORDS" "contains (caseless ''token'') LEAK_WORDS" "contains (caseless ''api'') LEAK_WORDS"
    "contains (caseless ''API_KEY'') LEAK_WORDS" "contains (literal ''@'') LEAK_WORDS"
    by (intro w contains_api_key contains_at; simp only: lower_words LEAK_WORDS_def; simp)+
  have c: "contains PROVIDER_TRANSCRIPT_PATH_RE LEAK_WORDS" "contains LOCAL_USER_PATH_RE LEAK_WORDS" "contains LOCAL_HOME_PATH_RE LEAK_WORDS"
    "contains LOCAL_PRIVATE_PATH_RE LEAK_WORDS" "contains LOCAL_VOLUMES_PATH_RE LEAK_WORDS" "contains BEARER_RE LEAK_WORDS" "contains BASIC_AUTH_RE LEAK_WORDS"
    unfolding PROVIDER_TRANSCRIPT_PATH_RE_def LOCAL_USER_PATH_RE_def LOCAL_HOME_PATH_RE_def LOCAL_PRIVATE_PATH_RE_def LOCAL_VOLUMES_PATH_RE_def
      BEARER_RE_def BASIC_AUTH_RE_def seq.simps by (rule contains_Seq1, rule words)+
  have url: "contains CREDENTIAL_URL_RE LEAK_WORDS"
    unfolding CREDENTIAL_URL_RE_def seq.simps by (rule contains_Seq2)+ (rule words)
  have "contains SECRET_ASSIGNMENT_RE LEAK_WORDS"
    unfolding SECRET_ASSIGNMENT_RE_def seq.simps list.map one_of.simps
    by (rule contains_Seq2, rule contains_Seq2, rule contains_Seq2, rule contains_Seq1) (intro contains_Group contains_Alt words)
  moreover have "contains LOWER_SECRET_ASSIGNMENT_RE LEAK_WORDS"
    unfolding LOWER_SECRET_ASSIGNMENT_RE_def seq.simps one_of.simps
    by (rule contains_Seq2, rule contains_Seq1) (intro contains_Group contains_Alt words, rule contains_Seq1, rule words)
  ultimately show ?thesis using c url by (simp add: leak_patterns_def)
qed

definition wordless :: "string \<Rightarrow> bool" where
  "wordless s \<longleftrightarrow> list_all (\<lambda>w. \<not> occurs w s) LEAK_WORDS"

lemma wordless_clean: "wordless s \<Longrightarrow> public_ingress_leak_violations s = []"
proof -
  assume w: "wordless s"
  have "\<not> re_search r s" if "contains r LEAK_WORDS" for r using contains_search [OF that] w by (auto simp: wordless_def list_all_iff)
  then show ?thesis using leak_patterns_contain unfolding leak_scan_iff by (auto simp: list_all_iff)
qed

section \<open>Words in printed documents\<close>

lemma starts_sep: "lower_char x \<notin> set w \<Longrightarrow> starts w (a @ x # b) \<longleftrightarrow> starts w a"
proof (induction w arbitrary: a)
  case (Cons c w)
  then show ?case by (cases a) auto
qed simp

lemma occurs_sep: "w \<noteq> [] \<Longrightarrow> lower_char x \<notin> set w \<Longrightarrow> occurs w (a @ x # b) \<longleftrightarrow> occurs w a \<or> occurs w b"
proof (induction a)
  case Nil
  then show ?case using starts_sep [of x w "[]" b] by (cases w) auto
next
  case (Cons y a)
  then show ?case using starts_sep [of x w "y # a" b] by auto
qed

text \<open>The marks between the strings of a document, and the colon of an identifier.\<close>

definition marks :: "char set" where
  "marks = {CHR 0x22, CHR '':'', CHR '','', CHR '' '', CHR ''{'', CHR ''}'', CHR ''['', CHR '']''}"

lemma mark_lower: "x \<in> marks \<Longrightarrow> lower_char x = x"
  by (auto simp: marks_def lower_char_def code_def)

lemma mark_no_word: "x \<in> marks \<Longrightarrow> w \<in> set LEAK_WORDS \<Longrightarrow> w \<noteq> [] \<and> lower_char x \<notin> set w"
  unfolding LEAK_WORDS_def by (frule mark_lower) (auto simp: marks_def)

lemma wordless_sep: "x \<in> marks \<Longrightarrow> wordless (a @ x # b) \<longleftrightarrow> wordless a \<and> wordless b"
  using mark_no_word [of x] by (auto simp: wordless_def list_all_iff occurs_sep)

lemma wordless_sep1: "x \<in> marks \<Longrightarrow> wordless (x # b) \<longleftrightarrow> wordless b"
  using wordless_sep [of x "[]" b] by (auto simp: wordless_def LEAK_WORDS_def)

lemma wordless_Nil [simp]: "wordless []"
  by (simp add: wordless_def LEAK_WORDS_def)

lemma marks_simps [simp]:
  "CHR 0x22 \<in> marks" "CHR '':'' \<in> marks" "CHR '','' \<in> marks" "CHR '' '' \<in> marks" "CHR ''{'' \<in> marks" "CHR ''}'' \<in> marks" "CHR ''['' \<in> marks" "CHR '']'' \<in> marks"
  by (simp_all add: marks_def)

lemma wordless_join:
  assumes "x \<in> marks" "list_all (\<lambda>y. y \<in> marks) sep"
  shows "wordless (join (x # sep) ts) \<longleftrightarrow> list_all wordless ts"
proof (induction ts)
  case (Cons t ts)
  have sep: "wordless (sep @ r) \<longleftrightarrow> wordless r" for r using assms(2) by (induction sep) (auto simp: wordless_sep1)
  then show ?case using Cons by (cases ts) (auto simp: wordless_sep [OF assms(1)])
qed simp

definition plain_char :: "char \<Rightarrow> bool" where
  "plain_char c \<longleftrightarrow> 32 \<le> code c \<and> code c \<le> 126 \<and> code c \<noteq> 34 \<and> code c \<noteq> 92"

definition harmless_text :: "string \<Rightarrow> bool" where
  "harmless_text s \<longleftrightarrow> list_all plain_char s \<and> wordless s"

lemma quote_plain: "list_all plain_char s \<Longrightarrow> concat (map (esc_char sp) s) = s"
  by (induction s) (auto simp: plain_char_def esc_char_def)

lemma quote_wordless: "harmless_text s \<Longrightarrow> wordless (quote sp s)"
  using wordless_sep [of "CHR 0x22" s "[]"] by (simp add: quote_def quote_plain harmless_text_def wordless_sep1)

primrec harmless :: "json \<Rightarrow> bool" where
  "harmless JNull = True"
| "harmless (JBool b) = True"
| "harmless (JInt i) = True"
| "harmless (JStr s) = harmless_text s"
| "harmless (JArr xs) = list_all id (map harmless xs)"
| "harmless (JObj d) = list_all (\<lambda>(k, b). harmless_text k \<and> b) (map (map_prod id harmless) d)"

text \<open>A text of digits, or of hexadecimal digits: no word fits into it.\<close>

definition hex_char :: "char \<Rightarrow> bool" where
  "hex_char c \<longleftrightarrow> 48 \<le> code c \<and> code c \<le> 57 \<or> 97 \<le> code c \<and> code c \<le> 102"

lemma starts_within: "starts w s \<Longrightarrow> set w \<subseteq> lower_char ` set s"
proof (induction w arbitrary: s)
  case (Cons a w)
  then show ?case by (cases s) fastforce+
qed simp

lemma occurs_within: "occurs w s \<Longrightarrow> set w \<subseteq> lower_char ` set s"
proof (induction s)
  case (Cons c s)
  then show ?case using starts_within [of w "c # s"] by auto
qed simp

lemma hex_lower: "hex_char c \<Longrightarrow> lower_char c = c"
  by (auto simp: hex_char_def lower_char_def)

lemma word_not_hex: "w \<in> set LEAK_WORDS \<Longrightarrow> \<exists>c \<in> set w. \<not> hex_char c \<and> c \<noteq> CHR ''-''"
proof -
  have "list_all (\<lambda>w. list_ex (\<lambda>c. \<not> hex_char c \<and> c \<noteq> CHR ''-'') w) LEAK_WORDS" by code_simp
  then show "w \<in> set LEAK_WORDS \<Longrightarrow> \<exists>c \<in> set w. \<not> hex_char c \<and> c \<noteq> CHR ''-''" by (auto simp: list_all_iff list_ex_iff)
qed

lemma digits_wordless: "list_all (\<lambda>c. hex_char c \<or> c = CHR ''-'') s \<Longrightarrow> wordless s"
proof -
  assume h: "list_all (\<lambda>c. hex_char c \<or> c = CHR ''-'') s"
  have m: "lower_char (CHR ''-'') = CHR ''-''" by (simp add: lower_char_def code_def)
  have "\<not> occurs w s" if "w \<in> set LEAK_WORDS" for w
  proof
    assume "occurs w s"
    then obtain c where "c \<in> lower_char ` set s" "\<not> hex_char c" "c \<noteq> CHR ''-''"
      using occurs_within [of w s] word_not_hex [OF \<open>w \<in> set LEAK_WORDS\<close>] by blast
    then show False using h hex_lower m by (auto simp: list_all_iff)
  qed
  then show ?thesis by (simp add: wordless_def list_all_iff)
qed

lemma show_int_wordless: "wordless (show_int i)"
proof -
  have "list_all hex_char (show_nat n)" for n
    using show_nat_digits by (auto simp: list_all_iff is_digit_char_def hex_char_def)
  then show ?thesis by (intro digits_wordless) (auto simp: show_int_def list_all_iff)
qed

lemma hex_digit_char: "d < 16 \<Longrightarrow> hex_char (hex_digit d)"
  by (auto simp: hex_digit_def hex_char_def)

lemma sha256_hex_chars: "list_all hex_char (sha256_hex s)"
  by (auto simp: sha256_hex_def hex_word_def list_all_iff hex_digit_char)

lemma hex_harmless: "list_all hex_char s \<Longrightarrow> harmless_text s"
  using digits_wordless [of s] by (auto simp: harmless_text_def list_all_iff hex_char_def plain_char_def)

lemma harmless_colon: "harmless_text a \<Longrightarrow> harmless_text b \<Longrightarrow> harmless_text (a @ '':'' @ b)"
  using wordless_sep [of "CHR '':''" a b] by (auto simp: harmless_text_def plain_char_def code_def)

lemma constants_wordless: "wordless ''null''" "wordless ''true''" "wordless ''false''" "harmless_text ''sha256''"
  by code_simp+

lemma harmless_hash: "harmless_text (sha256_hash s)"
proof -
  have "sha256_hash s = ''sha256'' @ '':'' @ sha256_hex s" by (simp add: sha256_hash_def sha256_ref_def)
  then show ?thesis using harmless_colon [OF constants_wordless(4) hex_harmless [OF sha256_hex_chars]] by simp
qed

lemma harmless_print: "harmless j \<Longrightarrow> wordless (json_print sp j)"
proof (induction j)
  case (JArr xs)
  have l: "list_all wordless (map (json_print sp) xs)" using JArr by (auto simp: list_all_iff)
  have g: "list_all (\<lambda>y. y \<in> marks) (gap sp)" by (simp add: gap_def)
  have "wordless (join ('','' @ gap sp) (map (json_print sp) xs))" using wordless_join [OF _ g, of "CHR '',''"] l by simp
  then show ?case using wordless_sep [of "CHR '']''" _ "[]"] by (simp add: wordless_sep1)
next
  case (JObj d)
  have g: "list_all (\<lambda>y. y \<in> marks) (gap sp)" by (simp add: gap_def)
  have gw: "wordless (gap sp @ r) \<longleftrightarrow> wordless r" for r by (simp add: gap_def wordless_sep1)
  have "list_all wordless (map (\<lambda>kv. quote sp (fst kv) @ '':'' @ gap sp @ snd kv) (map (map_prod id (json_print sp)) d))"
  proof -
    { fix k v assume kv: "(k, v) \<in> set d"
      then have k: "harmless_text k" "harmless v" using JObj(2) by (force simp: list_all_iff)+
      have "wordless (json_print sp v)" using JObj(1) [OF kv, of v] k(2) by (simp add: snds.intros)
      then have "wordless (quote sp k @ '':'' @ gap sp @ json_print sp v)"
        using wordless_sep [of "CHR '':''" "quote sp k"] gw quote_wordless [OF k(1)] by simp }
    then show ?thesis by (auto simp: list_all_iff)
  qed
  then have "wordless (join ('','' @ gap sp) (map (\<lambda>kv. quote sp (fst kv) @ '':'' @ gap sp @ snd kv) (map (map_prod id (json_print sp)) d)))"
    using wordless_join [OF _ g, of "CHR '',''"] by simp
  then show ?case using wordless_sep [of "CHR ''}''" _ "[]"] by (simp add: wordless_sep1)
qed (simp_all add: constants_wordless show_int_wordless quote_wordless)

end
