(* ===== verification/Samples_Ingress.thy ===== *)
theory Samples_Ingress
  imports Samples Ingress_Http Worker Replay Transcript_Lane Leak_Words
begin

text \<open>
  Concrete directories, payloads, messages and backends of the ingress side, on which the properties
  of the queues, the sink and the worker are shown to be applicable.
\<close>

section \<open>Directories\<close>

definition queue_dirs :: "path list" where
  "queue_dirs = [[], [''q''], [''q'', ''pending''], [''q'', ''processing''], [''q'', ''acked''], [''q'', ''quarantine'']]"

definition queue_with :: "(string \<times> string \<times> file_node) list \<Rightarrow> file_system" where
  "queue_with items = \<lparr>fs_dirs = queue_dirs, fs_files = map (\<lambda>(d, n, f). ([''q'', d, n], f)) items\<rparr>"

lemma queue_root_sample: "queue_root [''q''] (queue_with items)"
  by (auto simp: queue_root_def queue_with_def queue_dirs_def SUBDIRS_def plain_name_def le_Suc_eq)

lemma queue_ok_empty [simp]: "queue_ok [''q''] (queue_with [])"
  using queue_root_sample [of "[]"] by (simp add: queue_ok_def queue_with_def)

lemma queue_ok_one:
  assumes "d \<in> set SUBDIRS"
  shows "queue_ok [''q''] (queue_with [(d, ''a.json'', f)])"
  using queue_root_sample [of "[(d, ''a.json'', f)]"] assms
  by (auto simp: queue_ok_def queue_with_def ends_with_def starts_with_def plain_name_def split: if_splits)

lemma view_one: "d \<in> set SUBDIRS \<Longrightarrow> queue_view_of [''q''] (queue_with [(d, ''a.json'', f)]) ''a.json'' = Some (d, f)"
  by (simp add: view_Some_iff queue_ok_one) (simp add: queue_with_def)

definition node :: "string \<Rightarrow> file_node" where
  "node text = \<lparr>file_text = text, file_mtime = 5\<rparr>"

section \<open>Payloads\<close>

definition event :: dict where
  "event = build_synthetic_event ''smoke''"

lemma event_valid [simp]: "valid_wire event"
  by (simp add: event_def synthetic_event_valid)

lemma event_wf [simp]: "json_wf (JObj event)"
  by (simp add: event_def build_synthetic_event_def)

definition reading_at :: "string \<Rightarrow> reading" where
  "reading_at fresh = \<lparr>rd_inbox = sec 0, rd_command = sec 1, rd_payload = sec 2, rd_fresh = fresh\<rparr>"

lemma reading_at_add [simp]: "dt_add (rd_command (reading_at f)) 60 = Inr (sec 61)" "rd_fresh (reading_at f) = f"
  by (simp_all add: reading_at_def)

lemma event_keys [simp]: "pkey event = ''smoke''" "job_id_for_payload event = job_tag ''smoke''"
  by (simp_all add: event_def build_synthetic_event_def pkey_def get_item_def job_id_for_payload_def job_tag_def
      str_or_empty_def)

lemma event_applied: "\<exists>db. apply_one event (reading_at ''0'') empty_db = (Inr ''applied'', db) \<and> accepted_in db event"
  using apply_one_new [OF synced_empty event_valid, of "reading_at ''0''" "sec 61"] apply_one_applied [of event "reading_at ''0''" empty_db]
  by auto

definition sink_on :: "state_db \<Rightarrow> sink" where
  "sink_on db = \<lparr>sk_fs = queue_with [], sk_db = db, sk_journal_fail_count = 0, sk_dual_write_fail_count = 0,
     sk_dual_write_conflict_count = 0\<rparr>"

definition sink_call_at :: "string \<Rightarrow> sink_call" where
  "sink_call_at fresh = \<lparr>sc_reading = reading_at fresh, sc_now = 5, sc_fault = None\<rparr>"

lemma sample_document_built:
  "\<exists>doc. build_rag_ready_document ''profile'' ''note'' ''ns'' ''alias'' ''private'' ''text'' ''f.md'' [(''n'', JInt 7)]
      DEFAULT_INGRESS_PAYLOAD_KIND ''text/markdown'' ''redaction.v2'' = Inr doc"
proof -
  have "validate_source_alias ''alias'' = Inr ()" by code_simp
  moreover have "assert_no_secret_like_metadata [(''n'', JInt 7)] = Inr ()" by code_simp
  ultimately show ?thesis
    by (simp add: build_rag_ready_document_def build_idempotency_key_def build_content_hash_def sha256_ref_def)
qed

lemma event_enqueued: "\<exists>j fs'. job_enqueue [''q''] event 5 None (queue_with []) = (Inr j, fs')"
proof -
  have v: "validate_ingress_payload event = Inr ()" by (simp add: validate_ingress_payload_iff)
  show ?thesis
    by (cases rule: store_cases [OF queue_ok_empty job_file_plain [of event], where item = "JObj event" and now = 5 and fault = None])
      (auto simp: job_enqueue_def v Let_def bind_act_def)
qed

lemma event_accepted: "\<exists>a s'. accept_payload journal event (sink_call_at ''0'') (sink_on empty_db) = (Inr a, s')"
proof -
  have "\<exists>a s'. accept_payload None event (sink_call_at ''0'') (sink_on empty_db) = (Inr a, s')"
    using event_applied
    by (cases rule: accept_payload_cases [of event None "sink_call_at ''0''" "sink_on empty_db"])
      (auto simp: sink_call_at_def sink_on_def)
  then show ?thesis
    using accept_ignores_journal [of journal event "sink_call_at ''0''" "sink_on empty_db" None None 5]
    by (cases "accept_payload journal event (sink_call_at ''0'') (sink_on empty_db)") (auto simp: sink_call_at_def)
qed

definition filed :: "string \<Rightarrow> dict" where
  "filed k = [(''payload'', JObj [(''document'', JObj [(''metadata'', JObj [(''knowledge_id'', JStr k)])])])]"

section \<open>Workers\<close>

definition call_at :: "string \<Rightarrow> process_call" where
  "call_at fresh = \<lparr>pc_reading = reading_at fresh, pc_clock = at_instant (sec 3), pc_fresh = fresh, pc_iso1 = ''t1'', pc_iso2 = ''t2''\<rparr>"

definition handle_at :: "string \<Rightarrow> handle_call" where
  "handle_at fresh = \<lparr>hc_process = call_at fresh, hc_now = sec 3, hc_iso = ''t''\<rparr>"

definition worker_on :: "log_row list \<Rightarrow> 'w \<Rightarrow> 'w worker" where
  "worker_on rows w = \<lparr>wk_world = w, wk_db = empty_db, wk_log = rows\<rparr>"

lemma worker_on_sel [simp]: "wk_world (worker_on rows w) = w" "wk_db (worker_on rows w) = empty_db" "wk_log (worker_on rows w) = rows"
  by (simp_all add: worker_on_def)

definition adapter :: "(rag_document \<Rightarrow> (string \<times> string) result) \<Rightarrow> unit index_adapter" where
  "adapter f = \<lparr>ia_find_by_natural_key = (\<lambda>_ _ _. return_act None), ia_submit_document = (\<lambda>d w. (f d, w))\<rparr>"

text \<open>A small wire payload with a given body.\<close>

definition wire_with :: "string \<Rightarrow> dict" where
  "wire_with body =
    [(''schemaVersion'', JStr INGRESS_SCHEMA_VERSION), (''source'', JObj [(''project'', JStr ''p'')]),
     (''payload'', JObj [(''kind'', JStr DEFAULT_INGRESS_PAYLOAD_KIND),
       (''document'', JObj [(''filename'', JStr ''f''), (''body'', JStr body), (''metadata'', JObj [])])]),
     (''contentHash'', JStr ''sha256:0''), (''targetProfile'', JStr ''t''), (''kind'', JStr ''k''), (''idempotencyKey'', JStr ''i'')]"

lemma wire_with_valid: "body \<noteq> '''' \<Longrightarrow> valid_wire (wire_with body)"
  by (simp add: valid_wire_def wire_with_def starts_with_def)

lemma wire_with_normal: "normalize_ingest_job_payload (wire_with body) = wire_with body"
  by (simp add: wire_with_def normalize_ingest_job_payload_def)

lemma short_texts_kept: "map redact_public_ingress_text [''p'', ''f'', ''b''] = [''p'', ''f'', ''b'']"
  by code_simp

lemma redact_wire_with: "body \<noteq> '''' \<Longrightarrow> apply_server_redaction (wire_with body) = Inr (wire_with (redact_public_ingress_text body))"
  using short_texts_kept
  by (simp add: wire_with_def apply_server_redaction_def redact_payload_def Let_def py_or_def as_dict_def
      redact_document_def redact_source_def redact_field_def str_or_empty_def)

lemma wire_with_document:
  "body \<noteq> '''' \<Longrightarrow> \<exists>document. document_from_ingress_payload (wire_with body) = Inr document \<and> doc_body document = body"
proof -
  assume b: "body \<noteq> ''''"
  have "validate_ingress_payload (wire_with body) = Inr ()" using wire_with_valid [OF b] by (simp add: validate_ingress_payload_iff)
  then show ?thesis
    by (simp add: document_from_ingress_payload_def) (simp add: wire_with_def py_or_def Let_def)
qed

lemma plain_body_clean: "public_ingress_leak_violations ''b'' = []"
  by code_simp

lemma secret_not_redacted: "redact_text_v2 ''token=x'' \<noteq> ''token=x''"
  by code_simp

text \<open>A message that is no JSON text, and a turn of the loop that hands it out.\<close>

definition broken_message :: "int \<Rightarrow> message" where
  "broken_message n = \<lparr>msg_text = Inr ''{'', msg_num_delivered = Some n, msg_sequence = Some 9\<rparr>"

definition one_turn :: "message \<Rightarrow> turn" where
  "one_turn msg = \<lparr>tn_open = True, tn_fetch = (\<lambda>n. if n = 0 then None else Some [(msg, handle_at ''0'')])\<rparr>"

lemma broken_message_unreadable: "message_json (broken_message n) = Inl (JSONDecodeError '''')"
proof -
  have "json_loads ''{'' = None" by code_simp
  then show ?thesis by (simp add: message_json_def broken_message_def)
qed

lemma broken_message_number [simp]: "num_delivered (broken_message n) = n"
  by (simp add: num_delivered_def broken_message_def)

lemma broken_message_poisoned:
  "\<exists>s'. handle_msg True be deliver 5 own hc (broken_message 5) s = (Inr (''quarantined_max_deliver'', Acked), s')"
  by (simp add: handle_msg_def process_message_def broken_message_unreadable record_poison_def bind_act_def put_log_def)

lemma broken_message_consumed:
  "\<exists>e p results s'. run_consume ''SHADOW'' False True be True (Some 1) 5 4 ''w'' None [one_turn (broken_message 5)] s =
      (Inr (e, p, results), s') \<and> results \<noteq> []"
proof -
  obtain s' where "handle_msg True be True 5 (handler_lease_owner ''w'' None 0) (handle_at ''0'') (broken_message 5) s =
      (Inr (''quarantined_max_deliver'', Acked), s')" using broken_message_poisoned by blast
  then show ?thesis
    by (simp add: run_consume_def consume_loop.simps [of _ _ _ "[one_turn _]"] one_turn_def bind_act_def)
      (simp add: consume_loop.simps)
qed

section \<open>A ledger\<close>

definition replay_item :: knowledge_item where
  "replay_item = \<lparr>ki_knowledge_id = ''k1'', ki_content_hash = ''h'', ki_provider = ''claude'', ki_project = ''p'',
     ki_domain = '''', ki_type = ''conversation_chunk'', ki_session_id_hash = ''s'', ki_observed_at = '''',
     ki_ingested_at = '''', ki_updated_at = ''t0'', ki_privacy_level = '''', ki_index_target_id = '''',
     ki_index_document_id = '''', ki_ingress_target_profile = ''profile'', ki_ingress_job_id = ''job-1'',
     ki_queued_at = ''t0'', ki_title = '''', ki_summary = '''', ki_source_event_ids = '''',
     ki_redaction_version = '''', ki_confidence = '''', ki_supersedes = '''', ki_valid_until = '''',
     ki_evidence_status = '''', ki_coverage_status = '''', ki_coverage_gap_count = 0,
     ki_coverage_duplicate_count = 0, ki_source_manifest_hash = '''', ki_source_chunk_count = 0,
     ki_index_run_id = '''', ki_index_progress = Decimal 0 0, ki_indexed_at = '''', ki_disabled_at = '''',
     ki_authorization_status = ''active'', ki_status = ''queued'',
     ki_metadata_json = json_dumps_raw (JObj [(''m5_disposition_status'', JStr ''replay_requested'')])\<rparr>"

definition replay_chunk :: transcript_chunk where
  "replay_chunk = \<lparr>tc_chunk_id = ''c1'', tc_knowledge_id = ''k1'', tc_session_id_hash = ''s'', tc_provider = ''claude'',
     tc_project = ''p'', tc_turn_start_index = 0, tc_turn_end_index = 3, tc_part_index = 1, tc_part_count = 1, tc_char_start = 0,
     tc_char_end = 9, tc_content_hash = ''h'', tc_redacted_text = ''some text'', tc_source_status = ''ok'', tc_redaction_version = ''redaction.v2'',
     tc_created_at = ''t0'', tc_updated_at = ''t0''\<rparr>"

definition replay_ledger :: ledger where
  "replay_ledger = \<lparr>ledger_items = [replay_item], ledger_chunks = [replay_chunk]\<rparr>"

definition replay_expectation :: expectation where
  "replay_expectation = \<lparr>ex_knowledge_id = ''k1'', ex_target_profile = ''profile'', ex_ingress_job_id = ''job-1'', ex_updated_at = ''t0''\<rparr>"

lemma replay_ledger_ok [simp]: "ledger_ok replay_ledger"
  by (simp add: ledger_ok_def replay_ledger_def)

lemma replay_item_expected: "get_by_knowledge_id ''k1'' replay_ledger = Some replay_item" "as_expected replay_expectation replay_item"
  by (simp_all add: get_by_knowledge_id_def replay_ledger_def as_expected_def replay_expectation_def replay_item_def)

lemma replay_granted: "\<exists>led. mark_replay_delivered_if_queued ''why'' ''job-2'' replay_expectation ''t1'' replay_ledger = (Inr True, led)"
  using update_expected_open [of replay_ledger replay_expectation replay_item] replay_item_expected
  by (simp add: mark_replay_delivered_if_queued_def Let_def) (simp add: replay_expectation_def)

lemma replay_metadata:
  "load_metadata_json (ki_metadata_json replay_item) = [(''m5_disposition_status'', JStr ''replay_requested'')]"
  unfolding replay_item_def by code_simp

lemma replay_selected:
  "\<exists>row. select_replay_rows ''profile'' 10 replay_ledger = [(row, Some replay_chunk)] \<and> replay_attempt row = Inr 1
    \<and> \<not> replay_key_incomplete row (Some replay_chunk) \<and> qd_target_profile row = ''profile''"
proof -
  let ?row = "queued_document_projection replay_item (Some replay_chunk)"
  have list: "list_queued_documents ''conversation_chunk'' ''profile'' 10 replay_ledger = [?row]"
    by (simp add: list_queued_documents_def replay_ledger_def queued_for_def)
      (simp add: replay_item_def replay_chunk_def)
  have st: "get_item (qd_metadata ?row) ''m5_disposition_status'' = JStr ''replay_requested''"
    by (rule projection_item) (simp add: replay_metadata)
  have row: "qd_knowledge_id ?row = ''k1''" "qd_target_profile ?row = ''profile''" "qd_session_id_hash ?row = ''s''"
    by (simp_all add: queued_document_projection_def Let_def replay_item_def str_or_def)
  have md: "get_item (qd_metadata ?row) ''m5_replay_attempt'' = JNull"
    by (simp add: queued_document_projection_def Let_def chunk_defaults_def replay_metadata set_default_def)
  have "select_replay_rows ''profile'' 10 replay_ledger = [(?row, Some replay_chunk)]"
    by (simp add: select_replay_rows_def list st str_or_empty_def REPLAY_REQUESTED_STATUS_def row
        get_transcript_chunk_by_knowledge_id_def) (simp add: replay_ledger_def replay_chunk_def)
  moreover have "\<not> replay_key_incomplete ?row (Some replay_chunk)"
    by (simp add: replay_key_incomplete_def row row_session_def str_or_def row_chunk_id_def chunk_text_def) (simp add: replay_chunk_def)
  ultimately show ?thesis using row md by (intro exI [of _ ?row]) (simp add: replay_attempt_def int_or_def)
qed

text \<open>A client that accepts every payload and counts them.\<close>

definition counting_client :: "nat client" where
  "counting_client payload s = (case s of (n, led) \<Rightarrow> (Inr [(''job_id'', JStr ''job-2'')], (Suc n, led)))"

lemma replay_probe_run:
  "\<exists>digest r led. replay_deliver_dispositions counting_client ''profile'' ''why'' 10 True False digest None (\<lambda>_. ''t1'') (0, replay_ledger) =
      (Inr r, (Suc 0, led)) \<and> rr_probe r \<and> rr_mutation_performed r"
proof -
  obtain row where r: "select_replay_rows ''profile'' 10 replay_ledger = [(row, Some replay_chunk)]" "replay_attempt row = Inr 1"
    "\<not> replay_key_incomplete row (Some replay_chunk)" "qd_target_profile row = ''profile''" using replay_selected by blast
  show ?thesis
    by (rule probe_posts [OF r(1,2) _ _ r(3)]) (use r(4) in \<open>simp_all add: replay_chunk_def counting_client_def\<close>)
qed

end
