(* ===== verification/Ingress_Theorems.thy ===== *)
theory Ingress_Theorems
  imports Samples_Ingress
begin

text \<open>
  The properties of the ingress side: the wire format, the two directory queues, the HTTP
  endpoints, the backfill, the state sink and the queue worker.
\<close>

section \<open>The wire format\<close>




text \<open>
  C21.  Server-side redaction keeps the identity of a message and removes every local path: the redacted payload has the
  content hash, key, target, kind and job identifier of the original, and neither the body nor the filename of the document read from it
  matches one of the patterns for paths under \<open>/Users\<close>, \<open>~\<close>, \<open>/private\<close> and \<open>/Volumes\<close>.
\<close>

theorem server_redaction_removes_paths:
  assumes "apply_server_redaction p = Inr p'" and "document_from_ingress_payload p' = Inr document"
  shows "list_all (\<lambda>k. get_item p' k = get_item p k) [''contentHash'', ''idempotencyKey'', ''targetProfile'', ''kind'']
    \<and> job_id_for_payload p' = job_id_for_payload p
    \<and> list_all (\<lambda>r. \<not> re_search r (doc_body document) \<and> \<not> re_search r (doc_filename document))
        [LOCAL_USER_PATH_RE, LOCAL_HOME_PATH_RE, LOCAL_PRIVATE_PATH_RE, LOCAL_VOLUMES_PATH_RE]"
proof -
  obtain b n where d: "doc_body document = redact_public_ingress_text b" "doc_filename document = redact_public_ingress_text n"
    using redacted_document [OF assms] by blast
  show ?thesis unfolding job_id_for_payload_def d by (simp add: redaction_frame [OF assms(1)] no_local_path)
qed

theorem server_redaction_removes_paths_witness:
  "\<exists>p' document. apply_server_redaction (wire_with ''~/x'') = Inr p' \<and> document_from_ingress_payload p' = Inr document
    \<and> doc_body document = ''[redacted_path]'' \<and> \<not> re_search LOCAL_HOME_PATH_RE (doc_body document) \<and> re_search LOCAL_HOME_PATH_RE ''~/x''"
proof -
  have t: "redact_public_ingress_text ''~/x'' = ''[redacted_path]'' \<and> re_search LOCAL_HOME_PATH_RE ''~/x''" by code_simp
  have r: "apply_server_redaction (wire_with ''~/x'') = Inr (wire_with ''[redacted_path]'')" using redact_wire_with [of "''~/x''"] t by simp
  obtain document where d: "document_from_ingress_payload (wire_with ''[redacted_path]'') = Inr document" "doc_body document = ''[redacted_path]''"
    using wire_with_document [of "''[redacted_path]''"] by auto
  show ?thesis using server_redaction_removes_paths [OF r d(1)] r d t by auto
qed

section \<open>The queues\<close>

text \<open>
  C22.  Whatever sequence of enqueues, claims, acks, quarantines and drains runs on the job queue, crashes
  in the middle of a write included, the directory stays a well-formed queue and no job that was in it
  is lost, duplicated, altered or moved back: it is in exactly one of the four places, with the text it was
  stored with, and at least as far as it was.
\<close>

theorem queue_never_loses_a_job:
  assumes "queue_ok root fs" "list_all job_admissible cs" "queue_view_of root fs n = Some (d, f)"
  shows "queue_ok root (fold (job_queue_call root) cs fs)
    \<and> (\<exists>d'. queue_view_of root (fold (job_queue_call root) cs fs) n = Some (d', f) \<and> place_rank d \<le> place_rank d')"
  using job_queue.run_sound job_queue.never_lost assms by blast

theorem queue_never_loses_a_job_witness:
  "\<exists>d'. queue_view_of [''q''] (fold (job_queue_call [''q'']) [Call Claim, Drain (\<lambda>_. Inr ''ok''), Call (Ack ''a.json'')]
      (queue_with [(''pending'', ''a.json'', node ''{}'')])) ''a.json'' = Some (d', node ''{}'')"
  using queue_never_loses_a_job [OF queue_ok_one [of "''pending''" "node ''{}''"], of "[Call Claim, Drain (\<lambda>_. Inr ''ok''), Call (Ack ''a.json'')]"
      "''a.json''" "''pending''" "node ''{}''"] view_one [of "''pending''" "node ''{}''"]
  by (auto simp: job_admissible_def plain_name_def SUBDIRS_def)



text \<open>
  Draining makes progress: with a pending job \<open>drain_one_ingress_job\<close> returns, it takes the
  pending job with the least name, puts it into \<open>acked\<close> exactly if its text parses, its payload
  validates and the submission succeeds and into \<open>quarantine\<close> otherwise, and leaves every other job
  where it was.
\<close>

theorem drain_one_settles:
  assumes "queue_ok root fs" "queue_view_of root fs m = Some (''pending'', g)"
  shows "\<exists>n f r fs'. queue_view_of root fs n = Some (''pending'', f) \<and> n \<le> m
    \<and> drain_one_ingress_job root send fs = (Inr r, fs')
    \<and> queue_view_of root fs' = (queue_view_of root fs)
        (n \<mapsto> (case verdict send (file_text f) of Inl _ \<Rightarrow> ''quarantine'' | Inr _ \<Rightarrow> ''acked'', f))"
  using assms(1)
proof (cases rule: drain_one_cases [where submit = send])
  case empty
  then show ?thesis using assms(2) by blast
next
  case (acked n f status fs1 fs')
  then show ?thesis
    using assms(2) placed_twice [OF assms(1) acked(1,5,6)] by (intro exI [of _ n] exI [of _ f]) simp
next
  case (quarantined n f e fs1 fs')
  then show ?thesis
    using assms(2) placed_twice [OF assms(1) quarantined(1,5,6)] by (intro exI [of _ n] exI [of _ f]) simp
qed

theorem drain_one_settles_witness:
  "\<exists>n f r fs'. queue_view_of [''q''] (queue_with [(''pending'', ''a.json'', node ''{}'')]) n = Some (''pending'', f)
    \<and> drain_one_ingress_job [''q''] (\<lambda>_. Inr ''ok'') (queue_with [(''pending'', ''a.json'', node ''{}'')]) = (Inr r, fs')
    \<and> queue_view_of [''q''] fs' n \<noteq> Some (''pending'', f)"
proof -
  let ?fs = "queue_with [(''pending'', ''a.json'', node ''{}'')]"
  have ok: "queue_ok [''q''] ?fs" and v: "queue_view_of [''q''] ?fs ''a.json'' = Some (''pending'', node ''{}'')"
    by (simp_all add: queue_ok_one view_one SUBDIRS_def)
  obtain n f r fs' where "queue_view_of [''q''] ?fs n = Some (''pending'', f)" "drain_one_ingress_job [''q''] (\<lambda>_. Inr ''ok'') ?fs = (Inr r, fs')"
    "queue_view_of [''q''] fs' = (queue_view_of [''q''] ?fs)
        (n \<mapsto> (case verdict (\<lambda>_. Inr ''ok'') (file_text f) of Inl _ \<Rightarrow> ''quarantine'' | Inr _ \<Rightarrow> ''acked'', f))"
    using drain_one_settles [OF ok v, of "\<lambda>_. Inr ''ok''"] by blast
  then show ?thesis by (intro exI [of _ n] exI [of _ f] exI [of _ r] exI [of _ fs']) (auto split: sum.splits)
qed

text \<open>
  Garbage collection removes exactly the files of the given terminal place that are at least
  \<open>max_age\<close> old, returns their number and touches nothing else; pending and processing jobs in
  particular are never collected.
\<close>

theorem garbage_collection_exact:
  assumes "queue_ok root fs" "d \<in> {''acked'', ''quarantine''}"
  shows "\<exists>k fs'. collect_garbage root d max_age now fs = (Inr k, fs') \<and> queue_ok root fs'
    \<and> k = card {n. \<exists>f. queue_view_of root fs n = Some (d, f) \<and> max_age \<le> now - file_mtime f}
    \<and> (\<forall>n. queue_view_of root fs' n = (case queue_view_of root fs n of
          Some (d', f) \<Rightarrow> if d' = d \<and> max_age \<le> now - file_mtime f then None else Some (d', f)
        | None \<Rightarrow> None))"
  using assms by (rule collect_garbage_spec)

theorem garbage_collection_exact_witness:
  "\<exists>k fs'. collect_garbage [''q''] ''acked'' 10 20 (queue_with [(''acked'', ''a.json'', node ''{}'')]) = (Inr k, fs')
    \<and> queue_view_of [''q''] fs' ''a.json'' = None"
proof -
  let ?fs = "queue_with [(''acked'', ''a.json'', node ''{}'')]"
  have ok: "queue_ok [''q''] ?fs" and v: "queue_view_of [''q''] ?fs ''a.json'' = Some (''acked'', node ''{}'')"
    by (simp_all add: queue_ok_one view_one SUBDIRS_def)
  have "''acked'' \<in> {''acked'', ''quarantine''}" by simp
  from garbage_collection_exact [OF ok this, of 10 20] v show ?thesis by (auto simp: node_def)
qed

section \<open>The HTTP endpoints\<close>



text \<open>
  A request can make the server read at most \<open>MAX_REQUEST_BYTES\<close> bytes of its body: the
  answer and the effect of a POST depend on the body only through reads of at most that length.
\<close>

theorem post_reads_bounded:
  assumes "\<And>n. 0 < n \<Longrightarrow> n \<le> MAX_REQUEST_BYTES \<Longrightarrow> body n = body' n"
  shows "do_POST rt path len body now fault h = do_POST rt path len body' now fault h"
  using read_json_bounded [of body body' len] assms by (simp add: do_POST_def)

theorem post_reads_bounded_witness:
  "do_POST \<lparr>rt_event_spool = [''s''], rt_job_queue = [''q''], rt_inbox_shadow = None\<rparr> ''/v1/events'' (Some ''2'')
      (\<lambda>n. if n \<le> MAX_REQUEST_BYTES then Inr ''{}'' else Inr (replicate (nat n) CHR ''x'')) 5 None (queue_with [], ()) =
    do_POST \<lparr>rt_event_spool = [''s''], rt_job_queue = [''q''], rt_inbox_shadow = None\<rparr> ''/v1/events'' (Some ''2'')
      (\<lambda>_. Inr ''{}'') 5 None (queue_with [], ())"
  by (rule post_reads_bounded) simp

section \<open>Backfill, sink and journal\<close>



text \<open>
  C29.  A payload that was applied is durably accepted: its command, a delivery job with its hash and its
  body are in the database, applying it again reports \<open>already_present\<close>, applying another payload under its
  key with a different hash reports \<open>conflict\<close>, and neither changes anything.
\<close>

theorem applied_once:
  assumes "apply_one p rd db = (Inr ''applied'', db')"
  shows "accepted_in db' p \<and> apply_one p rd' db' = (Inr ''already_present'', db')
    \<and> (\<forall>q. valid_wire q \<longrightarrow> pkey q = pkey p \<longrightarrow> phash q \<noteq> phash p \<longrightarrow> apply_one q rd' db' = (Inr ''conflict'', db'))"
proof -
  have a: "valid_wire p" "accepted_in db' p" using apply_one_applied [OF assms] by simp_all
  have "apply_one q rd' db' = (Inr ''conflict'', db')" if "valid_wire q" "pkey q = pkey p" "phash q \<noteq> phash p" for q
    using that a(2) apply_one_conflict [OF that(1), of db' _ rd'] by (auto simp: accepted_in_def)
  then show ?thesis using a accepted_apply_again by blast
qed

theorem applied_once_witness:
  "\<exists>db. apply_one event (reading_at ''0'') empty_db = (Inr ''applied'', db)
    \<and> apply_one event (reading_at ''1'') db = (Inr ''already_present'', db)"
proof -
  obtain db where "apply_one event (reading_at ''0'') empty_db = (Inr ''applied'', db)" using event_applied by blast
  then show ?thesis using applied_once by blast
qed



text \<open>
  The ingress journal gives back what was recorded: after a successful record the entry of that
  knowledge id reads back as the payload with its keys sorted, and the entries of other ids are as before.
\<close>

theorem journal_reads_back:
  assumes "journal_root root fs" "json_wf (JObj p)" "json_canon (JObj p) = JObj p'"
    and "knowledge_id_of p = Inr k" "k \<noteq> ''''" "journal_record root p now None fs = (Inr True, fs')"
  shows "journal_get root k fs' = Some p'
    \<and> (\<forall>k'. entry_name k' \<noteq> entry_name k \<longrightarrow> journal_get root k' fs' = journal_get root k' fs)"
  using journal_get_recorded [OF assms(1-6)] journal_get_other [OF assms(1,4,5) _ assms(6)] by blast

theorem journal_reads_back_witness:
  "\<exists>fs'. journal_record [''j''] (filed ''k'') 5 None \<lparr>fs_dirs = [[], [''j'']], fs_files = []\<rparr> = (Inr True, fs')
    \<and> journal_get [''j''] ''k'' fs' = Some (filed ''k'')"
proof -
  let ?fs = "\<lparr>fs_dirs = [[], [''j'']], fs_files = []\<rparr>"
  have root: "journal_root [''j''] ?fs" by (auto simp: journal_root_def plain_name_def le_Suc_eq)
  have k: "knowledge_id_of (filed ''k'') = Inr ''k''" by code_simp
  obtain fs' where r: "journal_record [''j''] (filed ''k'') 5 None ?fs = (Inr True, fs')" using journal_record_done [OF root k] by auto
  moreover have "json_wf (JObj (filed ''k''))" "json_canon (JObj (filed ''k'')) = JObj (filed ''k'')" by (simp_all add: filed_def)
  ultimately show ?thesis using journal_reads_back [OF root _ _ k] by blast
qed

section \<open>The worker\<close>

text \<open>
  C32.  With the CouchDB backend a message whose normalised payload is not redacted leaves the
  canonical database and the backend untouched; at most the observer log notes the quarantine.
\<close>

theorem unredacted_never_persisted:
  assumes "\<not> wire_payload_is_conservatively_redacted (JObj (normalize_ingest_job_payload m))"
    and "process_payload can (CouchDB be) deliver own pc m s = (r, s')"
  shows "wk_db s' = wk_db s \<and> wk_world s' = wk_world s
    \<and> (\<forall>res. r = Inr res \<longrightarrow> sr_status res = ''quarantined_wire_redaction'' \<and> \<not> sr_delivered res)"
  using assms
  by (auto simp: process_payload_def process_couchdb_def bind_act_def put_log_def result_of_def Let_def
      split: sum.splits if_splits)

theorem unredacted_never_persisted_witness:
  "wk_db (snd (process_payload True (CouchDB uncertain_backend) True ''w'' (call_at ''0'') (wire_with ''token=x'') (worker_on [] 0))) = empty_db"
proof -
  have "\<not> wire_payload_is_conservatively_redacted (JObj (normalize_ingest_job_payload (wire_with ''token=x'')))"
    unfolding wire_with_normal using secret_not_redacted by (simp add: wire_with_def)
  from unredacted_never_persisted [OF this] show ?thesis by (metis prod.collapse worker_on_sel(2))
qed

text \<open>
  C33.  Only clean documents reach the index: two adapters that answer alike for every document whose body is a
  result of the public redaction in which the leak scan finds nothing make the direct mode behave alike, so what an adapter would
  do with any other document has no influence on a run.
\<close>

theorem only_clean_submitted:
  assumes "\<And>document t. doc_body document = redact_public_ingress_text t \<Longrightarrow> public_ingress_leak_violations (doc_body document) = []
      \<Longrightarrow> ia_submit_document ia document = f document"
  shows "process_direct (Some ia) pc payload ik s = process_direct (Some (ia\<lparr>ia_submit_document := f\<rparr>)) pc payload ik s"
  using assms by (rule direct_submits_clean)

theorem only_clean_submitted_witness:
  "process_direct (Some (adapter (\<lambda>_. Inr (''ds'', ''d'')))) (call_at ''0'') event ''smoke'' (worker_on [] ()) =
    process_direct (Some ((adapter (\<lambda>_. Inr (''ds'', ''d'')))\<lparr>ia_submit_document := (\<lambda>document w.
      if public_ingress_leak_violations (doc_body document) = [] then (Inr (''ds'', ''d''), w) else (Inl (RuntimeError ''leak''), w))\<rparr>))
      (call_at ''0'') event ''smoke'' (worker_on [] ())"
  by (rule only_clean_submitted) (simp add: adapter_def)

text \<open>
  A delivered message is not delivered again: once the direct mode has recorded a delivery with a
  document reference, processing the message again answers \<open>deduplicated\<close> with the recorded references and
  does not call the index, whatever the adapter would now answer.
\<close>

theorem redelivery_not_submitted:
  assumes "distinct (map lg_idempotency_key (wk_log s))"
    and "process_direct (Some ia) pc payload ik s = (Inr res, s')" "sr_delivered res" "sr_document_ref res \<noteq> ''''"
  shows "\<exists>res' s''. process_direct (Some ia') pc' payload ik s' = (Inr res', s'') \<and> sr_status res' = ''deduplicated''
    \<and> sr_dataset_ref res' = sr_dataset_ref res \<and> sr_document_ref res' = sr_document_ref res \<and> wk_world s'' = wk_world s'"
  using assms by (rule direct_redelivery)

theorem redelivery_not_submitted_witness:
  "\<exists>res s' res' s''. process_direct (Some (adapter (\<lambda>_. Inr (''ds'', ''doc-1'')))) (call_at ''0'') (wire_with ''b'') ''i''
      (worker_on [] ()) = (Inr res, s')
    \<and> process_direct (Some (adapter (\<lambda>_. Inr (''ds'', ''doc-2'')))) (call_at ''1'') (wire_with ''b'') ''i'' s' = (Inr res', s'')
    \<and> sr_document_ref res' = ''doc-1''"
proof -
  let ?ia = "adapter (\<lambda>_. Inr (''ds'', ''doc-1'')) :: unit index_adapter"
  obtain document where d: "apply_server_redaction (wire_with ''b'') = Inr (wire_with ''b'')"
    "document_from_ingress_payload (wire_with ''b'') = Inr document" "doc_body document = ''b''"
    using redact_wire_with [of "''b''"] wire_with_document [of "''b''"] short_texts_kept by auto
  obtain res s' where run: "process_direct (Some ?ia) (call_at ''0'') (wire_with ''b'') ''i'' (worker_on [] ()) = (Inr res, s')"
    "sr_delivered res" "sr_document_ref res = ''doc-1''"
    using d plain_body_clean by (auto simp: process_direct_def submit_direct_def bind_act_def put_log_def existing_delivery_def on_world_def
        adapter_def worker_on_def get_delivered_def result_of_def)
  then show ?thesis using redelivery_not_submitted [OF _ run(1,2), of "adapter (\<lambda>_. Inr (''ds'', ''doc-2''))" "call_at ''1''"] by force
qed



text \<open>
  A bounded consumer stays within its bound: the number of messages that \<open>run_consume\<close> reports as
  processed is the number of its results that are not rejections, and it never exceeds \<open>max_messages\<close>
  when the broker hands out at most what is asked for.
\<close>

theorem consumer_within_bound:
  assumes "run_consume stream live can be deliver max_messages md batch own factory turns s = (Inr (e, p, results), s')"
    and "fetch_bounded turns"
  shows "p = length (filter (\<lambda>st. st \<noteq> ''nak'') results) \<and> (\<forall>m. max_messages = Some m \<longrightarrow> p \<le> m)"
  using assms consume_loop_counts [of _ max_messages "nat (max batch 1)" turns "[]" s]
  by (auto simp: run_consume_def raise_act_def split: if_splits)

theorem consumer_within_bound_witness:
  "\<exists>e p results s'. run_consume ''SHADOW'' False True (CouchDB uncertain_backend) True (Some 1) 5 4 ''w'' None
      [one_turn (broken_message 5)] (worker_on [] 0) = (Inr (e, p, results), s') \<and> p \<le> 1 \<and> results \<noteq> []"
proof -
  obtain e p results s' where run: "run_consume ''SHADOW'' False True (CouchDB uncertain_backend) True (Some 1) 5 4 ''w'' None
      [one_turn (broken_message 5)] (worker_on [] 0) = (Inr (e, p, results), s')" and ne: "results \<noteq> []"
    using broken_message_consumed by blast
  have "fetch_bounded [one_turn (broken_message 5)]" by (auto simp: fetch_bounded_def one_turn_def split: if_splits)
  then show ?thesis using consumer_within_bound [OF run] run ne by auto
qed

text \<open>
  Comparing stored time texts is comparing times: for the texts that \<open>_iso\<close> writes, the string order
  on which the due-job query, the lease checks and the first-event query rely is the order of the instants, and reading
  a text gives back its instant.
\<close>

theorem time_text_order:
  "(iso s < iso t \<longleftrightarrow> s < t) \<and> (iso s = iso t \<longleftrightarrow> s = t) \<and> fromisoformat (iso t) = Some t"
  by simp

section \<open>Dispositions and replay\<close>

text \<open>
  C38.  Of all dispositions that are attempted on one row from the same reading of it, in any number and order
  and of any of the four kinds, at most one is granted, so that no operator action overwrites another one.
\<close>

theorem one_disposition_wins:
  assumes "ledger_ok led" "\<forall>(d, now) \<in> set ds. now \<noteq> ex_updated_at ex"
  shows "length (filter (\<lambda>r. r = Inr True) (attempts dispose ex ds led)) \<le> 1"
  using assms by (rule dispositions.at_most_one)

theorem one_disposition_wins_witness:
  "length (filter (\<lambda>r. r = Inr True) (attempts dispose replay_expectation
      [(Replay_Delivered ''why'' ''job-2'', ''t1''), (Quarantined_As ''why'' ''manual'' '''', ''t2'')] replay_ledger)) \<le> 1"
  by (rule one_disposition_wins) (simp_all add: replay_expectation_def)



text \<open>
  A replayed row is not replayed again: once its delivery is recorded, no selection of rows to replay contains it,
  whatever the profile and the limit.
\<close>

theorem replayed_row_not_selected:
  assumes "ledger_ok led" "mark_replay_delivered_if_queued why job ex now led = (Inr True, led')"
  shows "ex_knowledge_id ex \<notin> (qd_knowledge_id \<circ> fst) ` set (select_replay_rows tp limit led')"
  using assms by (rule delivered_not_selected)

theorem replayed_row_not_selected_witness:
  "\<exists>led. mark_replay_delivered_if_queued ''why'' ''job-2'' replay_expectation ''t1'' replay_ledger = (Inr True, led)
    \<and> ex_knowledge_id replay_expectation \<notin> (qd_knowledge_id \<circ> fst) ` set (select_replay_rows ''profile'' 10 led)"
proof -
  obtain led where "mark_replay_delivered_if_queued ''why'' ''job-2'' replay_expectation ''t1'' replay_ledger = (Inr True, led)"
    using replay_granted by blast
  then show ?thesis using replayed_row_not_selected [OF replay_ledger_ok] by blast
qed

end
