(* ===== verification/Source_Progress.thy ===== *)
theory Source_Progress
  imports Transcript_Lane
begin

text \<open>
  Deliveries to the source plane complete: when the job can be claimed, its payload passes the gate and its documents can be built,
  one execution with nobody else at the store ends in success, in both lanes; and a recorded correction makes the
  corrected payload the one that is delivered.
\<close>

section \<open>An execution that succeeds\<close>

text \<open>
  When the backend answers the claimed job with success, whatever the claim and the mark have changed of the job's state,
  the execution records the success.
\<close>

lemma audit_held:
  assumes g: "get_delivery_job db k = Some g" "job_status g = st" and j: "job_id j = k"
    and corr: "get_domain_record db (correction_id k) = None
      \<or> ''correction_attempt_'' @ fresh \<notin> res_id ` set (command_results db) \<and> job_command_id j \<in> cmd_id ` set (commands db)"
  shows "\<exists>db' g'. audit_corrected_attempt j st ds dc run e fresh now db = Inr db' \<and> get_delivery_job db' k = Some g' \<and> job_status g' = st"
proof (cases "get_domain_record db (correction_id k)")
  case None
  then show ?thesis using g j by (simp add: audit_corrected_attempt_def)
next
  case (Some audit)
  let ?n = "\<lambda>j. j\<lparr>job_attempt_count := job_attempt_count j + 1\<rparr>"
  have "get_delivery_job (update_job k ?n (db\<lparr>command_results := rs\<rparr>)) k = Some (?n g)" for rs
    using g(1) by (simp add: row_simps job_keeping_def) (simp add: get_delivery_job_def)
  then show ?thesis using Some g(2) j corr by (simp add: audit_corrected_attempt_def insert_result_row_def Let_def del: append.simps)
qed

lemma complete_held:
  assumes j: "get_delivery_job db k = Some j" "job_lease_owner j = own" "lease_is_live (job_lease_until j) now" "job_id j = k"
    and corr: "get_domain_record db (correction_id k) = None
      \<or> ''correction_attempt_'' @ fresh \<notin> res_id ` set (command_results db) \<and> job_command_id j \<in> cmd_id ` set (commands db)"
  shows "\<exists>db' j'. complete_delivery_with_evidence k own ''succeeded'' ds dc run e obs now fresh db = Inr (True, db')
    \<and> get_delivery_job db' k = Some j' \<and> job_status j' = ''succeeded''"
proof -
  let ?f = "\<lambda>j. j\<lparr>job_status := ''succeeded'', job_index_target_id := ds, job_index_document_id := dc, job_index_run_id := run,
      job_last_error_class := e, job_last_reconciled_at := iso (case obs of None \<Rightarrow> now | Some t \<Rightarrow> t), job_lease_owner := '''',
      job_lease_until := '''', job_updated_at := iso now\<rparr>"
  have "job_keeping ?f" by (simp add: job_keeping_def)
  then have g: "get_delivery_job (update_job k ?f db) k = Some (?f j)" using j by (simp add: row_simps)
  have "get_domain_record (update_job k ?f db) (correction_id k) = None
      \<or> ''correction_attempt_'' @ fresh \<notin> res_id ` set (command_results (update_job k ?f db)) \<and> job_command_id j \<in> cmd_id ` set (commands (update_job k ?f db))"
    using corr by (simp add: get_domain_record_def update_job_def)
  from audit_held [OF g _ j(4) this] obtain db' j' where
    "audit_corrected_attempt j ''succeeded'' ds dc run e fresh now (update_job k ?f db) = Inr db'" "get_delivery_job db' k = Some j'" "job_status j' = ''succeeded''"
    by fastforce
  then show ?thesis using j(1-3) by (auto simp: complete_delivery_with_evidence_def Let_def simp del: with_row_Inr_iff)
qed

lemma execution_succeeds:
  assumes wf: "db_wf db" and j: "get_delivery_job db k = Some j" and op: "open_for (exe_lease_owner ex) t (phase_of j)"
    and n: "job_attempt_count j < ma"
    and corr: "get_domain_record db (correction_id k) = None \<or> job_status j = ''claimed'' \<and> job_lease_owner j = exe_lease_owner ex
      \<and> ''correction_attempt_'' @ fresh \<notin> res_id ` set (command_results db)"
    and ls: "0 < exe_lease_seconds ex" "dt_add t (exe_lease_seconds ex) = Inr u"
    and be: "\<And>db2. same_deliveries db db2 \<Longrightarrow> \<exists>ev. submit be (view_from_row j) (w, db2) = (Inr ev, (w', db2)) \<and> evd_status ev = ''succeeded''"
  shows "\<exists>r db' j'. execute_once_with_receipt be ex k (at_instant t) ma fresh (w, db) = (Inr r, (w', db'))
    \<and> rcpt_submit_attempted r \<and> rcpt_status r = ''succeeded'' \<and> get_delivery_job db' k = Some j' \<and> job_status j' = ''succeeded''"
proof -
  let ?own = "exe_lease_owner ex"
  let ?f = "\<lambda>j. j\<lparr>job_status := ''claimed'', job_lease_owner := ?own, job_lease_until := iso u, job_updated_at := iso t\<rparr>"
  let ?g = "\<lambda>j. j\<lparr>job_status := ''executing'', job_updated_at := iso t\<rparr>"
  let ?db1 = "update_job k ?f db" and ?db2 = "update_job k ?g (update_job k ?f db)"
  have keep: "job_keeping ?f" "job_keeping ?g" by (simp_all add: job_keeping_def)
  have tu: "t < u" using dt_add_later ls by blast
  have c: "claim_delivery_job k ?own t (exe_lease_seconds ex) ma db = Inr (True, ?db1)" by (rule claim_open [OF j op n ls(2)])
  have j1: "get_delivery_job ?db1 k = Some (?f j)" using j keep by (simp add: row_simps)
  have m: "mark_delivery_executing k ?own t ?db1 = Inr (True, ?db2)" by (rule mark_held [OF j1]) (simp_all add: tu)
  have j2: "get_delivery_job ?db2 k = Some (?g (?f j))" using j keep by (simp add: row_simps)
  have "job_command_id j \<in> cmd_id ` set (commands db)"
    using wf j by (auto simp: wf_defs get_delivery_job_def dest: row_with_SomeD)
  then have corr2: "get_domain_record ?db2 (correction_id k) = None
      \<or> ''correction_attempt_'' @ fresh \<notin> res_id ` set (command_results ?db2) \<and> job_command_id (?g (?f j)) \<in> cmd_id ` set (commands ?db2)"
    using corr by (auto simp: get_domain_record_def update_job_def)
  have "same_deliveries db ?db2" using same_deliveries_trans [OF claim_same [OF c] mark_same [OF m]] .
  moreover have "view_from_row (?g (?f j)) = view_from_row j" by (simp add: view_from_row_def)
  ultimately obtain ev where s: "submit be (view_from_row (?g (?f j))) (w, ?db2) = (Inr ev, (w', ?db2))" "evd_status ev = ''succeeded''"
    using be by metis
  have id: "job_id j = k" using j by (auto simp: get_delivery_job_def dest: row_with_SomeD)
  obtain db' j' where f: "complete_delivery_with_evidence k ?own ''succeeded'' (evd_dataset_ref ev) (evd_document_ref ev) (evd_run ev) ''''
      (evd_observed_at ev) t fresh ?db2 = Inr (True, db')" "get_delivery_job db' k = Some j'" "job_status j' = ''succeeded''"
    using complete_held [OF j2 _ _ _ corr2] tu id by fastforce
  have "record_outcome ex k t ma fresh (Inr ev) ?db2 = Inr (mk_receipt ''succeeded'' True, db')"
    using f(1) s(2) by (simp add: record_outcome_def)
  then have "execute_once_with_receipt be ex k (at_instant t) ma fresh (w, db) = (Inr (mk_receipt ''succeeded'' True), (w', db'))"
    using j op corr c m j2 s(1) open_status [OF op]
    by (auto simp: execute_once_with_receipt_def submit_and_record_def at_instant_def Let_def)
  then show ?thesis using f(2,3) by (auto simp: mk_receipt_def)
qed

section \<open>Procedural deliveries complete\<close>

lemma put_free:
  assumes v: "validate_for_write d = Inr ()" and h: "payload_hash d = Inr h" and f: "store_get (doc_id_of d) s = None"
    and a: "allows_write resolve s (doc_id_of d) d True = Inr ()"
  shows "put_if_absent resolve d s =
    Inr (revision (doc_id_of d) (rev_text 1 h) ''accepted'', write_document (doc_id_of d) (stamp d (rev_text 1 h) (doc_id_of d) h) s)"
proof -
  have "json_item (JObj d) ''_id'' = Inr (get_item d ''_id'')" using item_of_id [OF v] by simp
  then show ?thesis using f a by (simp add: put_if_absent_def v h Let_def doc_id_of_def del: json_item.simps)
qed

lemma procedural_unpinned: "procedural d \<Longrightarrow> allows_write resolve s k d b = Inr ()"
  by (simp add: allows_write_def procedural_def str_or_empty_def SOURCE_REVISION_MEMBER_SOURCE_DOC_TYPES_def)

lemma exclusive_ok: "exclusive w \<Longrightarrow> store_typed (fst w) \<Longrightarrow> shared_ok w"
  by (simp add: exclusive_def shared_ok_def)

lemma submit_first:
  assumes w: "exclusive w" and b: "build_repo_usage_pattern_document payload (jv_job_id job) = Inr d" "validate_for_write d = Inr ()"
    and f: "shared_view w (doc_id_of d) = None"
  shows "\<exists>w'. (\<forall>db. submit_procedural (shared_store resolve) job payload (w, db) =
      (Inr (raw_source_stored (shared_store resolve) (jv_idempotency_key job) (jv_payload_hash job) d), (w', db)))
    \<and> holds_payload (shared_view w' (doc_id_of d)) d"
proof -
  obtain s where s: "w = (s, [])" using w by (cases w) (simp add: exclusive_def)
  have d: "procedural d" using built_procedural [OF b(1)] by simp
  obtain h where h: "payload_hash d = Inr h" using procedural_hash [OF d] by blast
  let ?e = "stamp d (rev_text 1 h) (doc_id_of d) h" and ?s = "write_document (doc_id_of d) (stamp d (rev_text 1 h) (doc_id_of d) h) s"
  have p: "put_if_absent resolve d s = Inr (revision (doc_id_of d) (rev_text 1 h) ''accepted'', ?s)"
    using put_free [OF b(2) h _ procedural_unpinned [OF d]] f by (simp add: s shared_view_def)
  have e: "payload_hash ?e = Inr h" "procedural ?e" using h d by (simp_all add: payload_hash_stamp procedural_def)
  have "store_procedural (shared_store resolve) job d (w, db) = (Inr None, ((?s, []), db))" for db
    using f p e(1) h
    by (simp add: store_procedural_def Let_def bind_act_def on_store_def shared_store_def shared_get_def shared_put_if_absent_def s shared_view_def same_payload_def)
  then have "submit_procedural (shared_store resolve) job payload (w, db) =
      (Inr (raw_source_stored (shared_store resolve) (jv_idempotency_key job) (jv_payload_hash job) d), ((?s, []), db))" for db
    by (simp add: submit_procedural_def b(1) bind_act_def attempt_def)
  then show ?thesis using e h by (intro exI [of _ "(?s, [])"]) (simp add: holds_payload_def shared_view_def)
qed

lemma submit_repeated:
  assumes w: "exclusive w" and b: "build_repo_usage_pattern_document payload (jv_job_id job) = Inr d"
    and h: "holds_payload (shared_view w (doc_id_of d)) d"
  shows "submit_procedural (shared_store resolve) job payload (w, db) =
    (Inr (raw_source_stored (shared_store resolve) (jv_idempotency_key job) (jv_payload_hash job) d), (w, db))"
proof -
  obtain s where s: "w = (s, [])" using w by (cases w) (simp add: exclusive_def)
  obtain e g where e: "store_get (doc_id_of d) s = Some e" "payload_hash e = Inr g" "payload_hash d = Inr g"
    using h procedural_hash [of d] built_procedural [OF b] by (auto simp: holds_payload_def shared_view_def s)
  then have "store_procedural (shared_store resolve) job d (w, db) = (Inr None, (w, db))"
    by (simp add: store_procedural_def Let_def bind_act_def on_store_def shared_store_def shared_get_def s same_payload_def)
  then show ?thesis by (simp add: submit_procedural_def b(1) bind_act_def attempt_def)
qed

lemma same_deliveries_gate: "same_deliveries db db' \<Longrightarrow> resolve_delivery_payload db' k h = resolve_delivery_payload db k h"
  by (simp add: resolve_delivery_payload_def same_deliveries_payload)

lemma procedural_submission_completes:
  assumes sp: "sp_store sp = shared_store resolve" and w: "exclusive w" and k: "jv_document_kind job = REPO_USAGE_PATTERN"
    and g: "resolve_delivery_payload db (jv_idempotency_key job) (jv_payload_hash job) = Inr (Some payload, gate)"
    and b: "build_repo_usage_pattern_document payload (jv_job_id job) = Inr d" "validate_for_write d = Inr ()"
    and f: "shared_view w (doc_id_of d) = None \<or> holds_payload (shared_view w (doc_id_of d)) d"
  shows "\<exists>w'. holds_payload (shared_view w' (doc_id_of d)) d \<and> (\<forall>db2. same_deliveries db db2 \<longrightarrow>
    couchdb_submit sp now job (w, db2) =
      (Inr (raw_source_stored (shared_store resolve) (jv_idempotency_key job) (jv_payload_hash job) d), (w', db2)))"
proof -
  have "couchdb_submit sp now job (w, db2) = submit_procedural (shared_store resolve) job payload (w, db2)" if "same_deliveries db db2" for db2
    using g k by (simp add: couchdb_submit_def same_deliveries_gate [OF that] sp)
  moreover obtain w' where "\<And>db. submit_procedural (shared_store resolve) job payload (w, db) =
      (Inr (raw_source_stored (shared_store resolve) (jv_idempotency_key job) (jv_payload_hash job) d), (w', db))"
    "holds_payload (shared_view w' (doc_id_of d)) d"
    using f submit_first [OF w b] submit_repeated [OF w b(1)] by blast
  ultimately show ?thesis by (intro exI [of _ w']) simp
qed

lemma procedural_execution_completes:
  assumes db: "db_wf db" "get_delivery_job db k = Some j" "job_document_kind j = REPO_USAGE_PATTERN" "get_domain_record db (correction_id k) = None"
    and op: "open_for (exe_lease_owner ex) t (phase_of j)" "job_attempt_count j < ma"
    and ls: "0 < exe_lease_seconds ex" "dt_add t (exe_lease_seconds ex) = Inr u"
    and g: "resolve_delivery_payload db (job_idempotency_key j) (job_payload_hash j) = Inr (Some payload, gate)"
    and b: "build_repo_usage_pattern_document payload k = Inr d" "json_path (JObj payload) [''payload'', ''document'', ''body''] = Inr (JStr body)"
    and w: "sp_store sp = shared_store resolve" "exclusive w"
      "shared_view w (doc_id_of d) = None \<or> holds_payload (shared_view w (doc_id_of d)) d"
  shows "\<exists>r w' db' j'. execute_once_with_receipt (couchdb_backend sp now) ex k (at_instant t) ma fresh (w, db) = (Inr r, (w', db'))
    \<and> rcpt_submit_attempted r \<and> rcpt_status r = ''succeeded'' \<and> get_delivery_job db' k = Some j' \<and> job_status j' = ''succeeded''
    \<and> holds_payload (shared_view w' (doc_id_of d)) d"
proof -
  have id: "job_id j = k" using db(2) by (auto simp: get_delivery_job_def dest: row_with_SomeD)
  have v: "validate_for_write d = Inr ()" using procedural_storable [OF b] by simp
  have view: "jv_document_kind (view_from_row j) = REPO_USAGE_PATTERN" "jv_idempotency_key (view_from_row j) = job_idempotency_key j"
    "jv_payload_hash (view_from_row j) = job_payload_hash j" "jv_job_id (view_from_row j) = k"
    using db(3) id by (simp_all add: view_from_row_def)
  obtain w' where w': "holds_payload (shared_view w' (doc_id_of d)) d" "\<And>db2. same_deliveries db db2 \<Longrightarrow>
      couchdb_submit sp now (view_from_row j) (w, db2) = (Inr (raw_source_stored (shared_store resolve) (job_idempotency_key j) (job_payload_hash j) d), (w', db2))"
    using procedural_submission_completes [OF w(1,2) view(1), of db payload gate d now] g b(1) v w(3) by (auto simp: view)
  have ev: "\<exists>ev. submit (couchdb_backend sp now) (view_from_row j) (w, db2) = (Inr ev, (w', db2)) \<and> evd_status ev = ''succeeded''"
    if "same_deliveries db db2" for db2
    using w'(2) [OF that] by (simp add: couchdb_backend_def raw_source_stored_def evidence_of_def)
  from execution_succeeds [OF db(1,2) op disjI1 [OF db(4)] ls ev, of fresh] obtain r db' j' where
    "execute_once_with_receipt (couchdb_backend sp now) ex k (at_instant t) ma fresh (w, db) = (Inr r, (w', db'))"
    "rcpt_submit_attempted r" "rcpt_status r = ''succeeded''" "get_delivery_job db' k = Some j'" "job_status j' = ''succeeded''" by blast
  then show ?thesis using w'(1) by blast
qed

section \<open>Corrections take effect\<close>

lemma set_item_wf: "json_wf (JObj d) \<Longrightarrow> json_wf v \<Longrightarrow> json_wf (JObj (set_item d k v))"
proof (induction d k v rule: set_item.induct)
  case (2 k' v' rest k v)
  have "fst ` set (set_item rest k v) = insert k (fst ` set rest)" for rest by (induction rest k v rule: set_item.induct) auto
  then show ?case using 2 by (auto simp: list_all_iff)
qed simp

lemma set_path_wf: "json_wf j \<Longrightarrow> json_wf v \<Longrightarrow> json_wf (set_path j ks v)"
  by (induction j ks v rule: set_path.induct) (simp_all add: set_item_wf json_wf_item del: json_wf.simps)

lemma stored_payload_wf:
  assumes "db_wf db" "get_delivery_payload db k = Some d"
  shows "json_wf (JObj d)"
proof -
  obtain row where r: "row \<in> set (delivery_payloads db)" "json_loads (pl_payload_json row) = Some (JObj d)"
    using assms(2) by (auto simp: get_delivery_payload_def split: option.splits json.splits dest: row_with_SomeD)
  then obtain e where "json_wf (JObj e)" "pl_payload_json row = json_dumps (JObj e)"
    using assms(1) unfolding wf_defs payload_ok_def by blast
  then show ?thesis using r(2) json_loads_dumps json_wf_canon by fastforce
qed

lemma projection_items:
  assumes "json_wf (JObj original)" "json_wf (JObj corrected)"
  shows "\<exists>p. json_loads (json_dumps (JObj (correction_projection job original corrected ident))) = Some (JObj p)
    \<and> json_item (JObj p) ''old_payload'' = Inr (json_canon (JObj original)) \<and> json_item (JObj p) ''corrected_payload'' = Inr (json_canon (JObj corrected))
    \<and> json_item (JObj p) ''job_id'' = Inr (JStr (job_id job))"
proof -
  let ?proj = "correction_projection job original corrected ident"
  have wf: "json_wf (JObj ?proj)" using assms by (simp add: correction_projection_def job_dict_def)
  obtain p where p: "json_canon (JObj ?proj) = JObj p" by simp
  have item: "json_item (JObj p) k = Inr (json_canon (get_item ?proj k))" if "get_item ?proj k \<noteq> JNull" for k
  proof -
    have "json_canon (get_item ?proj k) \<noteq> JNull" using that by (cases "get_item ?proj k") auto
    then show ?thesis using get_item_canon [OF wf p, of k] by (auto simp: get_item_def split: option.splits)
  qed
  have g: "get_item ?proj ''old_payload'' = JObj original" "get_item ?proj ''corrected_payload'' = JObj corrected" "get_item ?proj ''job_id'' = JStr (job_id job)"
    by (simp_all add: correction_projection_def)
  have "json_loads (json_dumps (JObj ?proj)) = Some (JObj p)" using json_loads_dumps [OF wf] p by simp
  then show ?thesis using item [of "''old_payload''"] item [of "''corrected_payload''"] item [of "''job_id''"] g by auto
qed

lemma json_obj_case: "(case j of JObj d \<Rightarrow> Inr (f d) | _ \<Rightarrow> Inl e) = Inr x \<longleftrightarrow> (\<exists>d. j = JObj d \<and> x = f d)"
  by (cases j) auto

lemma corrected_payload_iff:
  "corrected_payload original err = Inr (corrected, old) \<longleftrightarrow> json_path (JObj original) session_hash_path = Inr (JStr old) \<and> is_bare_sha256 old
    \<and> set_path (JObj original) session_hash_path (JStr (''sha256:'' @ old)) = JObj corrected"
proof -
  have "as_str v e = Inr s \<longleftrightarrow> v = JStr s" for v e s by (cases v) (auto simp: as_str_def)
  then show ?thesis unfolding corrected_payload_def bind_result_Inr_iff if_distrib [of "\<lambda>r. r = _"] json_obj_case by auto
qed

lemma prefixed_iff:
  "prefixed_session_hash original = Inr corrected \<longleftrightarrow> (\<exists>old. json_path (JObj original) session_hash_path = Inr (JStr old)
    \<and> set_path (JObj original) session_hash_path (JStr (''sha256:'' @ old)) = JObj corrected)"
proof -
  have "as_str v e = Inr s \<longleftrightarrow> v = JStr s" for v e s by (cases v) (auto simp: as_str_def)
  then show ?thesis unfolding prefixed_session_hash_def bind_result_Inr_iff json_obj_case by auto
qed

lemma correction_steps:
  assumes "correct_procedural_source_hash k u ident own now db = Inr (a, db1)"
  shows "\<exists>job original corrected rec q lu. get_delivery_job db k = Some job \<and> get_delivery_payload db (job_idempotency_key job) = Some original
    \<and> prefixed_session_hash original = Inr corrected \<and> (\<exists>old. corrected_payload original ''source_correction_original_drift'' = Inr (corrected, old))
    \<and> correction_preimage job u now \<and> dom_id rec = correction_id k
    \<and> dom_projection_json rec = json_dumps (JObj (correction_projection job original corrected ident)) \<and> dt_add now 600 = Inr lu
    \<and> res_id q = correction_id k
    \<and> db1 = update_job k (\<lambda>j. j\<lparr>job_status := ''claimed'', job_lease_owner := own, job_lease_until := iso lu, job_updated_at := iso now\<rparr>)
        (db\<lparr>domain_records := domain_records db @ [rec], command_results := command_results db @ [q]\<rparr>)
    \<and> get_domain_record db (correction_id k) = None"
proof -
  from assms obtain job retained original corrected old where j: "get_delivery_job db k = Some job" "get_domain_record db (correction_id k) = None"
      "correction_preimage job u now" "row_with pl_idempotency_key (job_idempotency_key job) (delivery_payloads db) = Some retained"
      "json_loads (pl_payload_json retained) = Some (JObj original)"
    and c: "corrected_payload original ''source_correction_not_bare_sha256'' = Inr (corrected, old)"
    and w: "write_correction job original corrected ident own now db = Inr (a, db1)"
    by (auto simp: correct_procedural_source_hash_def bind_result_Inr_iff Let_def split: if_splits option.splits json.splits)
  have id: "job_id job = k" using j(1) by (auto simp: get_delivery_job_def dest: row_with_SomeD)
  have pre: "prefixed_session_hash original = Inr corrected" "corrected_payload original ''source_correction_original_drift'' = Inr (corrected, old)"
    using c unfolding corrected_payload_iff prefixed_iff by blast+
  have g: "get_delivery_payload db (job_idempotency_key job) = Some original" using j(4,5) by (simp add: get_delivery_payload_def)
  from w obtain rec q lu db2 db3 where i: "insert_domain_row rec db = Inr db2" "dom_id rec = correction_id k"
      "dom_projection_json rec = json_dumps (JObj (correction_projection job original corrected ident))"
    and q: "insert_result_row q db2 = Inr db3" "dt_add now 600 = Inr lu" "res_id q = correction_id k"
    and d: "db1 = update_job k (\<lambda>j. j\<lparr>job_status := ''claimed'', job_lease_owner := own, job_lease_until := iso lu, job_updated_at := iso now\<rparr>) db3"
    by (auto simp: write_correction_def Let_def bind_result_Inr_iff id)
  have "db3 = db\<lparr>domain_records := domain_records db @ [rec], command_results := command_results db @ [q]\<rparr>"
    using i(1) q(1) by (auto simp: insert_domain_row_def insert_result_row_def split: if_splits)
  then show ?thesis using j g pre i(2,3) q d by blast
qed

text \<open>From the correction on, the payload of the job is the corrected one.\<close>

lemma correction_effective:
  assumes wf: "db_wf db" and c: "correct_procedural_source_hash k u ident own now db = Inr (a, db1)"
  shows "\<exists>j original corrected. get_delivery_job db k = Some j \<and> get_delivery_payload db (job_idempotency_key j) = Some original
    \<and> prefixed_session_hash original = Inr corrected \<and> get_effective_delivery_payload db1 (job_idempotency_key j) = Inr (Some corrected)"
proof -
  from correction_steps [OF c] obtain job original corrected rec q lu old where j: "get_delivery_job db k = Some job"
      "get_delivery_payload db (job_idempotency_key job) = Some original" "prefixed_session_hash original = Inr corrected"
      "corrected_payload original ''source_correction_original_drift'' = Inr (corrected, old)" "correction_preimage job u now"
    and r: "dom_id rec = correction_id k" "dom_projection_json rec = json_dumps (JObj (correction_projection job original corrected ident))"
    and db1: "db1 = update_job k (\<lambda>j. j\<lparr>job_status := ''claimed'', job_lease_owner := own, job_lease_until := iso lu, job_updated_at := iso now\<rparr>)
        (db\<lparr>domain_records := domain_records db @ [rec], command_results := command_results db @ [q]\<rparr>)"
    and n: "get_domain_record db (correction_id k) = None" by blast
  have wf1: "db_wf db1" using correct_procedural_source_hash_wf [OF c wf] .
  obtain j1 where j1: "get_delivery_job db1 k = Some j1" "same_identity job j1" using correction_InrD [OF c] j(1) by auto
  have id: "job_id j1 = k" "job_id job = k" "job_idempotency_key j1 = job_idempotency_key job"
    using j1 by (auto simp: same_identity_def get_delivery_job_def dest: row_with_SomeD)
  have row: "row_with job_idempotency_key (job_idempotency_key job) (delivery_jobs db1) = Some j1"
    using unique_key [OF _ j1(1)] wf1 id by (simp add: wf_defs)
  have pl: "get_delivery_payload db1 (job_idempotency_key job) = Some original" using j(2) by (simp add: get_delivery_payload_def db1)
  have rec: "get_domain_record db1 (correction_id k) = Some rec"
    using n r(1) by (simp add: get_domain_record_def db1 row_with_append)
  have wfo: "json_wf (JObj original)" using stored_payload_wf [OF wf j(2)] .
  obtain v where "set_path (JObj original) session_hash_path (JStr v) = JObj corrected"
    using j(3) unfolding prefixed_iff by blast
  then have "json_wf (JObj corrected)" using set_path_wf [OF wfo] by (metis json_wf.simps(4))
  from projection_items [OF wfo this] obtain p where p: "json_loads (dom_projection_json rec) = Some (JObj p)"
    "json_item (JObj p) ''old_payload'' = Inr (json_canon (JObj original))" "json_item (JObj p) ''corrected_payload'' = Inr (json_canon (JObj corrected))"
    "json_item (JObj p) ''job_id'' = Inr (JStr (job_id job))" unfolding r(2) by blast
  have eq: "json_eq (JStr k) (JStr k)" by (simp add: json_eq_def)
  have kind: "job_document_kind j1 = ''repo_usage_pattern''" "job_target_profile j1 = ''index-procedural-memory''"
    using j(5) j1(2) by (simp_all add: correction_preimage_def same_identity_def)
  have "get_effective_delivery_payload db1 (job_idempotency_key job) = Inr (Some corrected)"
    unfolding get_effective_delivery_payload_def pl row prod.case option.case id(1) rec p j(4) bind_result_simps
    by (simp add: json_eq_canon eq kind id(2) del: json_canon.simps)
  then show ?thesis using j by blast
qed

section \<open>Transcript deliveries complete\<close>

lemma chunk_items:
  assumes "build_conversation_chunk_document c loc = Inr d"
  shows "get_item d ''doc_type'' = JStr CONVERSATION_CHUNK" "get_item d ''session_id_hash'' = JStr (sc_session_id_hash c)"
    "\<exists>h. payload_hash d = Inr h" "sc_session_id_hash c \<noteq> ''''"
proof -
  let ?b = "redact_public_ingress_text (sc_redacted_text c)"
  obtain doc fields where f: "finalize (dict_update doc fields) = Inr d"
    and doc: "base_document CONVERSATION_CHUNK (conversation_chunk_doc_id (sc_session_id_hash c) (sc_chunk_id c)) (sc_provider c) (sc_project c)
        (sc_session_id_hash c) loc (sc_redaction_version c) = Inr doc"
    and fs: "fields = [(''chunk_id'', JStr (sc_chunk_id c)), (''turn_start_index'', JInt (sc_turn_start_index c)),
           (''turn_end_index'', JInt (sc_turn_end_index c)), (''part_index'', JInt (sc_part_index c)),
           (''part_count'', JInt (sc_part_count c)), (''char_start'', JInt (sc_char_start c)),
           (''char_end'', JInt (sc_char_end c)), (''observed_at_start'', JStr (sc_observed_at_start c)),
           (''observed_at_end'', JStr (sc_observed_at_end c)), (''content_hash'', JStr (sha256_hash ?b)),
           (''source_status'', JStr (sc_source_status c)), (''body'', JStr ?b)]"
    using assms unfolding build_conversation_chunk_document_def Let_def bind_result_Inr_iff by blast
  have d: "d = dict_update doc fields" using finalize_InrD [OF f] by simp
  have g: "get_item d k = (case map_of (rev fields) k of None \<Rightarrow> get_item doc k | Some v \<Rightarrow> v)" for k
    by (auto simp: d get_item_def map_of_dict_update map_add_def split: option.split)
  show t: "get_item d ''doc_type'' = JStr CONVERSATION_CHUNK" and s: "get_item d ''session_id_hash'' = JStr (sc_session_id_hash c)"
    using base_document_InrD [OF doc] by (auto simp: g fs)
  show "sc_session_id_hash c \<noteq> ''''" using base_document_InrD [OF doc] by (auto simp: assert_hash_like_def)
  have i: "\<exists>i. int_or (get_item d k) 0 = Inr i" if "k \<in> {''turn_start_index'', ''turn_end_index'', ''part_index'', ''part_count'', ''char_start'', ''char_end''}" for k
    using that by (auto simp: g fs int_or_def)
  have all: "list_all (\<lambda>k. \<exists>i. int_or (get_item d k) 0 = Inr i) ks \<Longrightarrow> \<exists>r. int_items d ks = Inr r" for ks
    by (induction ks) auto
  obtain r where "int_items d [''turn_start_index'', ''turn_end_index'', ''part_index'', ''part_count'', ''char_start'', ''char_end''] = Inr r"
    using all [of "[''turn_start_index'', ''turn_end_index'', ''part_index'', ''part_count'', ''char_start'', ''char_end'']"] i by auto
  then show "\<exists>h. payload_hash d = Inr h" using t by (simp add: payload_hash_def str_or_empty_def Let_def)
qed

text \<open>Services that answer, and what holds of the world when they have.\<close>

definition plane_answers :: "'w source_plane \<Rightarrow> ('w \<Rightarrow> bool) \<Rightarrow> bool" where
  "plane_answers sp P \<longleftrightarrow> (\<forall>w. P w \<longrightarrow> (\<forall>d. \<exists>w'. sp_upsert_session sp d w = (Inr (), w') \<and> P w')
    \<and> (\<forall>h. \<exists>c w'. sp_update_coverage sp h w = (Inr c, w') \<and> P w')
    \<and> (\<forall>h p r s b. \<exists>w'. sp_mark_pending sp h p r s b w = (Inr (), w') \<and> P w'))"

definition unpinned :: "string \<Rightarrow> shared \<Rightarrow> bool" where
  "unpinned h w \<longleftrightarrow> exclusive w \<and> shared_view w (active_source_revision_pointer_doc_id h) = None"

lemma unpinned_get: "unpinned h w \<Longrightarrow> st_get (shared_store resolve) k w = (Inr (shared_view w k), w)"
  by (simp add: unpinned_def shared_store_def shared_get_def Let_def exclusive_others shared_view_def)

lemma unpinned_before:
  "sp_store sp = shared_store resolve \<Longrightarrow> unpinned h w \<Longrightarrow> active_source_revision_before_ingress sp h w = (Inr None, w)"
  by (simp add: active_source_revision_before_ingress_def bind_act_def unpinned_get) (simp add: unpinned_def)

lemma store_unpinned_completes:
  assumes sp: "sp_store sp = shared_store resolve" and w: "unpinned (pr_session_id_hash pr) w"
    and b: "build_conversation_chunk_document c '''' = Inr (pr_chunk_doc pr)" "sc_session_id_hash c = pr_session_id_hash pr"
    and f: "shared_view w (doc_id_of (pr_chunk_doc pr)) = None" and ans: "plane_answers sp (unpinned (pr_session_id_hash pr))"
  shows "\<exists>w'. store_chunk sp job pr w = (Inr (Inr False), w')"
proof -
  let ?h = "pr_session_id_hash pr" and ?d = "pr_chunk_doc pr"
  obtain s where s: "w = (s, [])" using w by (cases w) (simp add: unpinned_def exclusive_def)
  note v = chunk_storable [OF b(1)] and it = chunk_items [OF b(1)]
  obtain g where g: "payload_hash ?d = Inr g" using it(3) by blast
  have "str_or_empty (get_item ?d ''session_id_hash'') = ?h" using it(2,4) b(2) by (simp add: str_or_empty_def)
  then have "allows_write resolve s (doc_id_of ?d) ?d True = Inr ()" using w by (simp add: allows_write_def Let_def s unpinned_def shared_view_def)
  then have put: "put_if_absent resolve ?d s = Inr (revision (doc_id_of ?d) (rev_text 1 g) ''accepted'',
      write_document (doc_id_of ?d) (stamp ?d (rev_text 1 g) (doc_id_of ?d) g) s)"
    using put_free [OF _ g] v f by (simp add: s shared_view_def)
  let ?w1 = "(write_document (doc_id_of ?d) (stamp ?d (rev_text 1 g) (doc_id_of ?d) g) s, [])"
  have p: "st_put_if_absent (sp_store sp) ?d w = (Inr (revision (doc_id_of ?d) (rev_text 1 g) ''accepted''), ?w1)"
    by (simp add: sp shared_store_def shared_put_if_absent_def s put)
  have "store_ok (fst ?w1)" using run_call_ok [of s resolve "Put_If_Absent ?d"] w put by (simp add: unpinned_def exclusive_def s store_after_def)
  moreover have "active_source_revision_pointer_doc_id ?h \<noteq> doc_id_of ?d"
    using v by (simp add: doc_id_of_def active_source_revision_pointer_doc_id_def conversation_chunk_doc_id_def)
  ultimately have w1: "unpinned ?h ?w1" using w by (simp add: unpinned_def exclusive_def shared_view_def s)
  obtain w2 where w2: "sp_upsert_session sp (pr_session_doc pr) ?w1 = (Inr (), w2)" "unpinned ?h w2" using ans w1 unfolding plane_answers_def by blast
  obtain cv w3 where w3: "sp_update_coverage sp ?h w2 = (Inr cv, w3)" "unpinned ?h w3" using ans w2(2) unfolding plane_answers_def by blast
  obtain w4 where w4: "sp_mark_pending sp ?h (pr_provider pr) (pr_project pr)
      (str_or_empty (get_item (case cv of None \<Rightarrow> [] | Some d \<Rightarrow> d) ''source_hash'')) True w3 = (Inr (), w4)"
    using ans w3(2) unfolding plane_answers_def by blast
  show ?thesis
    using w2(1) w3(1) w4
    by (simp add: store_chunk_def store_unpinned_def bind_act_def unpinned_before [OF sp w] p unpinned_before [OF sp w2(2)] revision_def)
qed

lemma find_absent:
  assumes sp: "sp_store sp = shared_store resolve" and w: "unpinned (pr_session_id_hash pr) w"
    and pr: "prepare_chunk job payload = Inr (Inr pr)" and f: "shared_view w (doc_id_of (pr_chunk_doc pr)) = None"
    and db: "row_with job_idempotency_key key (delivery_jobs db) = Some j" "job_payload_hash j = h" "job_document_kind j \<noteq> REPO_USAGE_PATTERN"
      "get_effective_delivery_payload db key = Inr (Some payload)"
  shows "couchdb_find sp key h (w, db) = (Inr None, (w, db))"
proof -
  let ?d = "pr_chunk_doc pr"
  obtain c where i: "chunk_document_for_payload_identity payload = Inr (Some ?d)"
    and b: "build_conversation_chunk_document c '''' = Inr ?d" "sc_session_id_hash c = pr_session_id_hash pr"
    using prepare_InrD [OF pr] by blast
  note v = chunk_storable [OF b(1)] and it = chunk_items [OF b(1)]
  have sid: "str_or_empty (get_item ?d ''session_id_hash'') = pr_session_id_hash pr" "pr_session_id_hash pr \<noteq> ''''"
    using it(2,4) b(2) by (simp_all add: str_or_empty_def)
  have id: "str_or_empty (get_item ?d ''_id'') = doc_id_of ?d" "doc_id_of ?d \<noteq> ''''"
    using v by (simp_all add: str_or_empty_def doc_id_of_def conversation_chunk_doc_id_def)
  have "find_chunk sp job' key h payload w = (Inr None, w)" for job'
    using f by (simp add: find_chunk_def i bind_act_def attempt_def Let_def sid id unpinned_before [OF sp w] unpinned_get [OF w, of resolve] sp)
  then show ?thesis using db by (simp add: couchdb_find_def)
qed

lemma transcript_submission_completes:
  assumes sp: "sp_store sp = shared_store resolve" and w: "unpinned (pr_session_id_hash pr) w" and pr: "prepare_chunk job payload = Inr (Inr pr)"
    and f: "shared_view w (doc_id_of (pr_chunk_doc pr)) = None" and ans: "plane_answers sp (unpinned (pr_session_id_hash pr))"
    and db: "row_with job_idempotency_key (jv_idempotency_key job) (delivery_jobs db) = Some j" "job_payload_hash j = jv_payload_hash job"
      "job_document_kind j = jv_document_kind job" "jv_document_kind job \<noteq> REPO_USAGE_PATTERN"
    and g: "resolve_delivery_payload db (jv_idempotency_key job) (jv_payload_hash job) = Inr (Some payload, gate)"
  shows "\<exists>ev w'. evd_status ev = ''succeeded'' \<and> evd_run ev = ''couchdb_put'' \<and> evd_document_ref ev = session_doc_id (pr_session_id_hash pr)
    \<and> (\<forall>db2. same_deliveries db db2 \<longrightarrow> couchdb_submit sp now job (w, db2) = (Inr ev, (w', db2)))"
proof -
  obtain c where b: "build_conversation_chunk_document c '''' = Inr (pr_chunk_doc pr)" "sc_session_id_hash c = pr_session_id_hash pr"
    using prepare_InrD [OF pr] by blast
  obtain w2 where st: "store_chunk sp job pr w = (Inr (Inr False), w2)" using store_unpinned_completes [OF sp w b f ans] by blast
  obtain w3 where m: "submit_mirror sp (pr_payload pr) w2 = (Inr (), w3)" using mirror_silent [of sp "pr_payload pr" w2] by auto
  let ?ev = "evidence_of (jv_idempotency_key job) (jv_payload_hash job) (dataset_of (sp_store sp)) (session_doc_id (pr_session_id_hash pr)) ''couchdb_put''
      ''succeeded''\<lparr>evd_observed_at := Some now\<rparr>"
  have "couchdb_submit sp now job (w, db2) = (Inr ?ev, (w3, db2))" if same: "same_deliveries db db2" for db2
  proof -
    have "rel_option same_identity (row_with job_idempotency_key (jv_idempotency_key job) (delivery_jobs db))
        (row_with job_idempotency_key (jv_idempotency_key job) (delivery_jobs db2))"
      using same by (intro same_deliveries_row) (auto simp: same_deliveries_def same_identity_def)
    then obtain j2 where j2: "row_with job_idempotency_key (jv_idempotency_key job) (delivery_jobs db2) = Some j2" "job_payload_hash j2 = jv_payload_hash job"
        "job_document_kind j2 \<noteq> REPO_USAGE_PATTERN"
      using db by (auto simp: option_rel_Some1 same_identity_def)
    have e: "get_effective_delivery_payload db2 (jv_idempotency_key job) = Inr (Some payload)"
      using resolve_InrD [OF g] by (simp add: same_deliveries_payload [OF same])
    note find = find_absent [OF sp w pr f j2 e]
    have "deliver_prepared sp now job None (Inr pr) (w, db2) = (Inr ?ev, (w3, db2))"
      using deliver_prepared_cases [OF st, of now None db2] m by auto
    then have "submit_chunk sp now job payload (w, db2) = (Inr ?ev, (w3, db2))" using submit_chunk_cases [OF find, of now payload] pr by simp
    then show ?thesis using g db(4) by (simp add: couchdb_submit_def same_deliveries_gate [OF same])
  qed
  then show ?thesis by (intro exI [of _ ?ev] exI [of _ w3]) (simp add: evidence_of_def)
qed

lemma transcript_execution_completes:
  assumes db: "db_wf db" "get_delivery_job db k = Some j" "job_document_kind j \<noteq> REPO_USAGE_PATTERN" "get_domain_record db (correction_id k) = None"
    and op: "open_for (exe_lease_owner ex) t (phase_of j)" "job_attempt_count j < ma"
    and ls: "0 < exe_lease_seconds ex" "dt_add t (exe_lease_seconds ex) = Inr u"
    and g: "resolve_delivery_payload db (job_idempotency_key j) (job_payload_hash j) = Inr (Some payload, gate)"
    and pr: "prepare_chunk (view_from_row j) payload = Inr (Inr pr)"
    and w: "sp_store sp = shared_store resolve" "unpinned (pr_session_id_hash pr) w" "shared_view w (doc_id_of (pr_chunk_doc pr)) = None"
      "plane_answers sp (unpinned (pr_session_id_hash pr))"
  shows "\<exists>r w' db' j'. execute_once_with_receipt (couchdb_backend sp now) ex k (at_instant t) ma fresh (w, db) = (Inr r, (w', db'))
    \<and> rcpt_submit_attempted r \<and> rcpt_status r = ''succeeded'' \<and> get_delivery_job db' k = Some j' \<and> job_status j' = ''succeeded''"
proof -
  have view: "jv_document_kind (view_from_row j) = job_document_kind j" "jv_idempotency_key (view_from_row j) = job_idempotency_key j"
    "jv_payload_hash (view_from_row j) = job_payload_hash j" by (simp_all add: view_from_row_def)
  have row: "row_with job_idempotency_key (job_idempotency_key j) (delivery_jobs db) = Some j" using unique_key [OF _ db(2)] db(1) by (simp add: wf_defs)
  from transcript_submission_completes [OF w(1,2) pr w(3,4), unfolded view, OF row refl refl db(3) g, of now] obtain ev w' where
    e: "evd_status ev = ''succeeded''" "\<And>db2. same_deliveries db db2 \<Longrightarrow> couchdb_submit sp now (view_from_row j) (w, db2) = (Inr ev, (w', db2))" by blast
  have "\<exists>ev. submit (couchdb_backend sp now) (view_from_row j) (w, db2) = (Inr ev, (w', db2)) \<and> evd_status ev = ''succeeded''" if "same_deliveries db db2" for db2
    using e that by (simp add: couchdb_backend_def)
  from execution_succeeds [OF db(1,2) op disjI1 [OF db(4)] ls this, of fresh] show ?thesis by blast
qed

end
