(* ===== verification/Samples_Source.thy ===== *)
theory Samples_Source
  imports Source_Progress Samples_Ingress Leak_Words
begin

text \<open>
  Concrete payloads, documents, databases and a source plane, on which the properties of the source side are shown to be
  applicable.  Digests stay symbolic; the criterion of \<open>Leak_Words\<close> carries the documents through the leak scan.
\<close>

section \<open>Documents that pass the final checks\<close>

lemma finalize_harmless: "assert_no_secret_like_keys_deep (JObj d) = Inr () \<Longrightarrow> harmless (JObj d) \<Longrightarrow> finalize d = Inr d"
  using wordless_clean [OF harmless_print [of "JObj d" "\<lparr>sep_spaced = True, ensure_ascii = False\<rparr>"]]
  by (simp add: finalize_def leak_error_def del: json_print.simps harmless.simps)

lemma secret_free: "list_all (\<lambda>k. \<not> is_secret_like_key k) (map fst d) \<Longrightarrow> assert_no_secret_like_metadata d = Inr ()"
  by (simp add: assert_no_secret_Inr_iff)

text \<open>The names and constant texts of the sample documents.\<close>

definition sample_keys :: "string list" where
  "sample_keys = [''_id'', ''doc_type'', ''schema_version'', ''owner'', ''provider'', ''project'', ''session_id_hash'', ''source_locator_hash'',
     ''redaction_version'', ''body'', ''content_hash'', ''original_document'', ''source'', ''document_kind'', ''target_profile'', ''processing_stage'',
     ''authority'', ''recall_eligible'', ''projection_enabled'', ''provenance'', ''job_id'', ''original_idempotency_key'', ''wire_identity_hash'', ''metadata'',
     ''started_at'', ''ended_at'', ''observed_at_start'', ''observed_at_end'', ''source_hash'', ''materialized_at'', ''source_status'', ''chunk_id'',
     ''turn_start_index'', ''turn_end_index'', ''part_index'', ''part_count'', ''char_start'', ''char_end'']"

lemma sample_keys_checked: "list_all (\<lambda>k. \<not> is_secret_like_key k \<and> harmless_text k) sample_keys"
  by code_simp

lemmas sample_key_facts [simp] = sample_keys_checked [unfolded sample_keys_def, simplified]

definition sample_texts :: "string list" where
  "sample_texts = ['''', REPO_USAGE_PATTERN, TRANSCRIPT_SESSION, CONVERSATION_CHUNK, ''couchdb_transcript_source.v1'', ''couchdb-transcript-source'', ''codex'', ''repo'',
     ''redaction.v2'', ''use make'', ''index-procedural-memory'', ''raw_source_stored'', ''non_authoritative_original'', ''job-1'', ''key-1'', ''c1'',
     ''source_locator_private_spool_only'', ''source_unproven'']"

lemma sample_texts_checked: "list_all harmless_text sample_texts"
  by code_simp

lemmas sample_text_facts [simp] = sample_texts_checked [unfolded sample_texts_def, simplified]

section \<open>A repo usage pattern\<close>

definition sid :: string where
  "sid = ''sha256:'' @ replicate 64 (CHR ''a'')"

lemma sid_facts [simp]: "assert_hash_like f sid = Inr ()" "str_or_empty (JStr sid) = sid" "harmless_text sid" "sid \<noteq> ''''"
  "assert_hash_like f (replicate 64 (CHR ''a'')) \<noteq> Inr ()" "is_bare_sha256 (replicate 64 (CHR ''a''))"
proof -
  have "starts_with ''sha256:'' sid \<and> is_bare_sha256 (drop 7 sid)" "starts_with ''sha256:'' (replicate 64 (CHR ''a'')) = False" by code_simp+
  moreover show n: "sid \<noteq> ''''" by (simp add: sid_def)
  ultimately show "assert_hash_like f sid = Inr ()" "assert_hash_like f (replicate 64 (CHR ''a'')) \<noteq> Inr ()" by (simp_all add: assert_hash_like_def)
  show "str_or_empty (JStr sid) = sid" using n by (simp add: str_or_empty_def)
  show "harmless_text sid" "is_bare_sha256 (replicate 64 (CHR ''a''))" by code_simp+
qed

definition pattern_payload :: "string \<Rightarrow> dict" where
  "pattern_payload s = [(''contentHash'', JStr (sha256_ref ''use make'')), (''idempotencyKey'', JStr ''key-1''), (''kind'', JStr REPO_USAGE_PATTERN),
     (''payload'', JObj [(''document'', JObj [(''body'', JStr ''use make''), (''metadata'', JObj [(''session_id_hash'', JStr s)])]),
       (''redactionVersion'', JStr ''redaction.v2'')]),
     (''source'', JObj [(''project'', JStr ''repo''), (''provider'', JStr ''codex'')]), (''targetProfile'', JStr ''index-procedural-memory'')]"

definition pattern_document :: dict where
  "pattern_document = [(''_id'', JStr (REPO_USAGE_PATTERN @ '':'' @ sha256_hex ''key-1'')), (''doc_type'', JStr REPO_USAGE_PATTERN),
     (''schema_version'', JStr ''couchdb_transcript_source.v1''), (''owner'', JStr ''couchdb-transcript-source''), (''provider'', JStr ''codex''),
     (''project'', JStr ''repo''), (''session_id_hash'', JStr sid), (''source_locator_hash'', JStr ''''), (''redaction_version'', JStr ''redaction.v2''),
     (''body'', JStr ''use make''), (''content_hash'', JStr (sha256_ref ''use make'')),
     (''original_document'', JObj [(''body'', JStr ''use make''), (''metadata'', JObj [(''session_id_hash'', JStr sid)])]),
     (''source'', JObj [(''project'', JStr ''repo''), (''provider'', JStr ''codex'')]), (''document_kind'', JStr REPO_USAGE_PATTERN),
     (''target_profile'', JStr ''index-procedural-memory''), (''processing_stage'', JStr ''raw_source_stored''),
     (''authority'', JStr ''non_authoritative_original''), (''recall_eligible'', JBool False), (''projection_enabled'', JBool False),
     (''provenance'', JObj [(''job_id'', JStr ''job-1''), (''original_idempotency_key'', JStr ''key-1''),
       (''wire_identity_hash'', JStr (wire_identity (pattern_payload sid)))])]"

lemma hash_hex_hash: "hash_hex (sha256_hash s) = sha256_hex s"
  by (simp add: hash_hex_def sha256_hash_def sha256_ref_def starts_with_def)

lemma harmless_ref: "harmless_text (sha256_ref s)"
  using harmless_hash [of s] by (simp add: sha256_hash_def)

lemma pattern_finalized: "finalize pattern_document = Inr pattern_document"
proof (rule finalize_harmless)
  show "assert_no_secret_like_keys_deep (JObj pattern_document) = Inr ()"
    by (simp add: pattern_document_def secret_free)
  have "harmless_text (REPO_USAGE_PATTERN @ '':'' @ sha256_hex ''key-1'')" by (rule harmless_colon [OF _ hex_harmless [OF sha256_hex_chars]]) simp
  then show "harmless (JObj pattern_document)" by (simp add: pattern_document_def wire_identity_def harmless_hash harmless_ref)
qed

lemma sample_labels: "canonicalize_project ''repo'' = Inr ''repo''" "assert_source_text_clean ''use make'' = Inr ()"
  "canonicalize_provider ''codex'' = ''codex''" "redact_public_ingress_text ''use make'' = ''use make''" "redact_text_v2 ''use make'' = ''use make''"
  by code_simp+

lemma pattern_built: "build_repo_usage_pattern_document (pattern_payload sid) ''job-1'' = Inr pattern_document"
proof -
  let ?m = "JObj [(''session_id_hash'', JStr sid)]" and ?s = "JObj [(''project'', JStr ''repo''), (''provider'', JStr ''codex'')]"
  have items: "get_item (pattern_payload sid) ''kind'' = JStr REPO_USAGE_PATTERN" "get_item (pattern_payload sid) ''targetProfile'' = JStr ''index-procedural-memory''"
    "get_item (pattern_payload sid) ''contentHash'' = JStr (sha256_hash ''use make'')" "get_item (pattern_payload sid) ''idempotencyKey'' = JStr ''key-1''"
    by (simp_all add: pattern_payload_def sha256_hash_def)
  have parts: "json_item (JObj (pattern_payload sid)) ''payload'' = Inr (JObj [(''document'', JObj [(''body'', JStr ''use make''), (''metadata'', ?m)]),
      (''redactionVersion'', JStr ''redaction.v2'')])" "json_item (JObj (pattern_payload sid)) ''source'' = Inr ?s"
    by (simp_all add: pattern_payload_def)
  have owned: "assert_couchdb_owned (JStr REPO_USAGE_PATTERN) = Inr ()" by code_simp
  have doc: "base_document REPO_USAGE_PATTERN i ''codex'' ''repo'' sid '''' ''redaction.v2'' = Inr [(''_id'', JStr i), (''doc_type'', JStr REPO_USAGE_PATTERN),
     (''schema_version'', JStr ''couchdb_transcript_source.v1''), (''owner'', JStr ''couchdb-transcript-source''), (''provider'', JStr ''codex''),
     (''project'', JStr ''repo''), (''session_id_hash'', JStr sid), (''source_locator_hash'', JStr ''''), (''redaction_version'', JStr ''redaction.v2'')]" for i
    by (simp add: base_document_def owned sample_labels assert_hash_unless_empty_def)
  have labels: "label_of ?m ?s ''provider'' = Inr ''codex''" "label_of ?m ?s ''project'' = Inr ''repo''" "source_label_matches ?s ''provider'' ''codex'' = Inr ()"
    "source_label_matches ?s ''project'' ''repo'' = Inr ()" "dict_get ?m ''session_id_hash'' = Inr (JStr sid)"
    by (simp_all add: label_of_def source_label_matches_def str_or_empty_def)
  have i: "repo_usage_pattern_doc_id (str_or_empty (JStr ''key-1'')) = Inr (REPO_USAGE_PATTERN @ '':'' @ sha256_hex ''key-1'')"
    by (simp add: repo_usage_pattern_doc_id_def str_or_empty_def hash_hex_hash)
  have upd: "dict_update [(''_id'', JStr (REPO_USAGE_PATTERN @ '':'' @ sha256_hex ''key-1'')), (''doc_type'', JStr REPO_USAGE_PATTERN),
     (''schema_version'', JStr ''couchdb_transcript_source.v1''), (''owner'', JStr ''couchdb-transcript-source''), (''provider'', JStr ''codex''),
     (''project'', JStr ''repo''), (''session_id_hash'', JStr sid), (''source_locator_hash'', JStr ''''), (''redaction_version'', JStr ''redaction.v2'')]
     (procedural_fields (pattern_payload sid) ''job-1'' ''use make'' [(''body'', JStr ''use make''), (''metadata'', ?m)]
       [(''project'', JStr ''repo''), (''provider'', JStr ''codex'')]) = pattern_document"
    by (simp add: dict_update_def procedural_fields_def items pattern_document_def sha256_hash_def)
  show ?thesis
    unfolding build_repo_usage_pattern_document_def parts
    by (simp add: items labels i doc upd [simplified] pattern_finalized sample_labels require_def Let_def)
qed

text \<open>A job for the pattern, with its payload stored.\<close>

definition pattern_job :: "string \<Rightarrow> int \<Rightarrow> delivery_job" where
  "pattern_job st n = (sample_job st n '''')\<lparr>job_document_kind := REPO_USAGE_PATTERN, job_target_profile := ''index-procedural-memory'',
     job_payload_hash := sha256_ref ''use make''\<rparr>"

definition stored_payload :: "dict \<Rightarrow> delivery_payload" where
  "stored_payload d = \<lparr>pl_idempotency_key = ''key-1'', pl_payload_hash = sha256_ref ''use make'', pl_payload_json = json_dumps (JObj d),
     pl_recorded_at = iso (sec 0)\<rparr>"

definition job_db :: "delivery_job \<Rightarrow> dict \<Rightarrow> state_db" where
  "job_db j d = (sample_db j)\<lparr>delivery_payloads := [stored_payload d]\<rparr>"

lemma job_db_wf:
  assumes "job_ok j" "job_command_id j = ''cmd-1''" "json_wf (JObj d)" "get_item d ''idempotencyKey'' = JStr ''key-1''"
    and "get_item d ''contentHash'' = JStr (sha256_ref ''use make'')"
  shows "db_wf (job_db j d)"
proof -
  have "payload_ok (stored_payload d)"
    unfolding payload_ok_def using assms(3-5) by (intro exI [of _ d]) (simp add: stored_payload_def str_or_empty_def sha256_ref_def)
  then show ?thesis using sample_db_wf [OF assms(1,2)] by (simp add: job_db_def sample_db_def empty_db_def wf_defs)
qed

lemma job_db_payload:
  assumes "job_idempotency_key j = ''key-1''" "json_wf (JObj d)" "json_canon (JObj d) = JObj d"
  shows "get_effective_delivery_payload (job_db j d) ''key-1'' = Inr (Some d)" "get_delivery_payload (job_db j d) ''key-1'' = Some d"
proof -
  show g: "get_delivery_payload (job_db j d) ''key-1'' = Some d"
    using json_loads_dumps [OF assms(2)] assms(3) by (simp add: get_delivery_payload_def job_db_def stored_payload_def)
  have "get_domain_record (job_db j d) k = None" for k by (simp add: job_db_def get_domain_record_def sample_db_def empty_db_def)
  moreover have "row_with job_idempotency_key ''key-1'' (delivery_jobs (job_db j d)) = Some j"
    using assms(1) by (simp add: job_db_def sample_db_def)
  ultimately show "get_effective_delivery_payload (job_db j d) ''key-1'' = Inr (Some d)" by (simp add: get_effective_delivery_payload_def g)
qed

lemma pattern_payload_facts:
  "json_wf (JObj (pattern_payload s))" "json_canon (JObj (pattern_payload s)) = JObj (pattern_payload s)"
  "json_path (JObj (pattern_payload s)) [''payload'', ''document'', ''body''] = Inr (JStr ''use make'')"
  "payload_body (pattern_payload s) = Inr ''use make''" "get_item (pattern_payload s) ''contentHash'' = JStr (sha256_ref ''use make'')"
  "get_item (pattern_payload s) ''idempotencyKey'' = JStr ''key-1''"
  by (simp_all add: pattern_payload_def payload_body_def py_or_def str_or_empty_def)

lemma pattern_gate:
  "resolve_delivery_payload (job_db (pattern_job st n) (pattern_payload s)) ''key-1'' (sha256_ref ''use make'') = Inr (Some (pattern_payload s), PAYLOAD_OK)"
proof -
  have "job_idempotency_key (pattern_job st n) = ''key-1''" by (simp add: pattern_job_def)
  note e = job_db_payload(1) [OF this pattern_payload_facts(1,2) [of s]]
  have "str_or_empty (JStr (sha256_ref ''use make'')) = sha256_ref ''use make''" by (simp add: str_or_empty_def sha256_ref_def)
  then show ?thesis by (simp add: resolve_delivery_payload_def e pattern_payload_facts)
qed

section \<open>A source plane\<close>

text \<open>Services around the in-memory store that answer and leave it alone; no revision is ever pinned.\<close>

definition unresolved :: resolver where
  "unresolved = (\<lambda>_ _. Inl (SourceRevisionResolutionError ''no revision''))"

definition idle_plane :: "shared source_plane" where
  "idle_plane = \<lparr>sp_store = shared_store unresolved, sp_resolve_active = (\<lambda>_. raise_act (SourceRevisionResolutionError ''no revision'')),
     sp_activate = (\<lambda>_ _ _ _. raise_act (SourceRevisionResolutionError ''no revision'')), sp_origin_ids = (\<lambda>_. Inr []),
     sp_upsert_session = (\<lambda>_. return_act ()), sp_update_coverage = (\<lambda>_. return_act None), sp_mark_pending = (\<lambda>_ _ _ _ _. return_act ()),
     sp_mirror = None, sp_on_mirror_outcome = None\<rparr>"

definition fresh_world :: shared where
  "fresh_world = (new_store, [])"

lemma new_store_ok [simp]: "store_ok new_store" "store_typed new_store" "store_get k new_store = None"
  by (simp_all add: store_ok_def store_typed_def new_store_def store_get_def)

lemma fresh_world_ok [simp]: "exclusive fresh_world" "shared_ok fresh_world" "shared_view fresh_world k = None" "sp_store idle_plane = shared_store unresolved"
  by (simp_all add: exclusive_def shared_ok_def fresh_world_def shared_view_def idle_plane_def)

lemma pattern_job_facts:
  "0 \<le> n \<Longrightarrow> job_ok (pattern_job st n)" "job_command_id (pattern_job st n) = ''cmd-1''" "job_id (pattern_job st n) = ''job-1''"
  "job_idempotency_key (pattern_job st n) = ''key-1''" "job_payload_hash (pattern_job st n) = sha256_ref ''use make''"
  "job_document_kind (pattern_job st n) = REPO_USAGE_PATTERN" "job_attempt_count (pattern_job st n) = n" "job_status (pattern_job st n) = st"
  by (simp_all add: pattern_job_def sample_job_def job_ok_def)

lemma job_db_facts: "job_id j = ''job-1'' \<Longrightarrow> get_delivery_job (job_db j d) ''job-1'' = Some j" "get_domain_record (job_db j d) k = None"
  by (simp_all add: job_db_def get_delivery_job_def get_domain_record_def sample_db_def empty_db_def)

lemma pattern_db_wf: "0 \<le> n \<Longrightarrow> db_wf (job_db (pattern_job st n) (pattern_payload s))"
  by (rule job_db_wf) (simp_all only: pattern_job_facts pattern_payload_facts)

lemma pattern_open: "open_for ''w1'' t (phase_of (pattern_job ''pending'' n))"
  by (simp add: phase_of_def pattern_job_def)

lemma pattern_run:
  "\<exists>r w' db' j'. execute_once_with_receipt (couchdb_backend idle_plane (sec 0)) (delivery_executor ''w1'' 600) ''job-1'' (at_instant (sec 0)) 3 ''00''
      (fresh_world, job_db (pattern_job ''pending'' 0) (pattern_payload sid)) = (Inr r, (w', db'))
    \<and> rcpt_submit_attempted r \<and> rcpt_status r = ''succeeded'' \<and> get_delivery_job db' ''job-1'' = Some j' \<and> job_status j' = ''succeeded''
    \<and> holds_payload (shared_view w' (doc_id_of pattern_document)) pattern_document"
proof -
  have ls: "0 < exe_lease_seconds (delivery_executor ''w1'' 600)" "dt_add (sec 0) (exe_lease_seconds (delivery_executor ''w1'' 600)) = Inr (sec 600)"
    "exe_lease_owner (delivery_executor ''w1'' 600) = ''w1''"
    by (simp_all add: delivery_executor_def)
  show ?thesis
    by (rule procedural_execution_completes [where gate = PAYLOAD_OK and resolve = unresolved,
        OF pattern_db_wf job_db_facts(1) _ _ _ _ ls(1,2) _ pattern_built pattern_payload_facts(3)])
      (simp_all add: pattern_job_facts job_db_facts pattern_open pattern_gate ls)
qed

section \<open>A correction\<close>

definition bare_hash :: string where
  "bare_hash = replicate 64 (CHR ''a'')"

definition failed_pattern_job :: delivery_job where
  "failed_pattern_job = (pattern_job ''replayable'' 1)\<lparr>job_last_error_class := ''remote_outcome_uncertain''\<rparr>"

definition failed_pattern_db :: state_db where
  "failed_pattern_db = job_db failed_pattern_job (pattern_payload bare_hash)"

definition failed_identity :: string where
  "failed_identity = sha256_ref (json_dumps (JObj (pattern_payload bare_hash)))"

lemma failed_pattern_facts:
  "job_ok failed_pattern_job" "job_command_id failed_pattern_job = ''cmd-1''" "job_id failed_pattern_job = ''job-1''"
  "job_idempotency_key failed_pattern_job = ''key-1''" "job_payload_hash failed_pattern_job = sha256_ref ''use make''"
  "job_document_kind failed_pattern_job = REPO_USAGE_PATTERN" "job_target_profile failed_pattern_job = ''index-procedural-memory''"
  by (simp_all add: failed_pattern_job_def pattern_job_def sample_job_def job_ok_def)

lemma failed_db_facts: "db_wf failed_pattern_db" "get_delivery_job failed_pattern_db ''job-1'' = Some failed_pattern_job"
  "get_domain_record failed_pattern_db c = None" "get_delivery_payload failed_pattern_db ''key-1'' = Some (pattern_payload bare_hash)"
proof -
  show "db_wf failed_pattern_db" unfolding failed_pattern_db_def by (rule job_db_wf) (simp_all only: failed_pattern_facts pattern_payload_facts)
  show "get_delivery_job failed_pattern_db ''job-1'' = Some failed_pattern_job" "get_domain_record failed_pattern_db c = None"
    unfolding failed_pattern_db_def by (simp_all add: job_db_facts failed_pattern_facts)
  show "get_delivery_payload failed_pattern_db ''key-1'' = Some (pattern_payload bare_hash)"
    unfolding failed_pattern_db_def by (rule job_db_payload(2)) (simp_all only: failed_pattern_facts pattern_payload_facts)
qed

lemma pattern_prefixed: "corrected_payload (pattern_payload bare_hash) err = Inr (pattern_payload sid, bare_hash)"
  "prefixed_session_hash (pattern_payload bare_hash) = Inr (pattern_payload sid)"
proof -
  have "json_path (JObj (pattern_payload bare_hash)) session_hash_path = Inr (JStr bare_hash)"
    "set_path (JObj (pattern_payload bare_hash)) session_hash_path (JStr (''sha256:'' @ bare_hash)) = JObj (pattern_payload (''sha256:'' @ bare_hash))"
    by (simp_all add: pattern_payload_def session_hash_path_def)
  moreover have "is_bare_sha256 bare_hash" "''sha256:'' @ bare_hash = sid" by (simp_all add: bare_hash_def sid_def)
  ultimately show "corrected_payload (pattern_payload bare_hash) err = Inr (pattern_payload sid, bare_hash)"
    "prefixed_session_hash (pattern_payload bare_hash) = Inr (pattern_payload sid)" unfolding corrected_payload_iff prefixed_iff by auto
qed

lemma correction_runs: "\<exists>a db1. correct_procedural_source_hash ''job-1'' (iso (sec 0)) failed_identity ''w1'' (sec 0) failed_pattern_db = Inr (a, db1)"
proof -
  have pre: "correction_preimage failed_pattern_job (iso (sec 0)) (sec 0)"
    by (simp add: correction_preimage_def failed_pattern_job_def pattern_job_def sample_job_def)
  have row: "row_with pl_idempotency_key ''key-1'' (delivery_payloads failed_pattern_db) = Some (stored_payload (pattern_payload bare_hash))"
    by (simp add: failed_pattern_db_def job_db_def stored_payload_def)
  have loads: "json_loads (pl_payload_json (stored_payload (pattern_payload bare_hash))) = Some (JObj (pattern_payload bare_hash))"
    using json_loads_dumps [OF pattern_payload_facts(1)] pattern_payload_facts(2) by (simp add: stored_payload_def)
  have contract: "correction_contract (pattern_payload bare_hash) failed_pattern_job (stored_payload (pattern_payload bare_hash)) (sha256_ref ''use make'') = Inr ()"
    by (simp add: correction_contract_def failed_pattern_facts stored_payload_def pattern_payload_def json_eq_def)
  have w: "\<exists>a db1. write_correction failed_pattern_job (pattern_payload bare_hash) (pattern_payload sid) failed_identity ''w1'' (sec 0) failed_pattern_db = Inr (a, db1)"
    by (simp add: write_correction_def Let_def insert_domain_row_def insert_result_row_def failed_pattern_facts failed_pattern_db_def job_db_def sample_db_def
        empty_db_def sample_command_def)
  show ?thesis using w
    by (simp add: correct_procedural_source_hash_def failed_db_facts pre failed_pattern_facts row loads Let_def failed_identity_def [symmetric]
        pattern_payload_facts(3) as_str_def contract pattern_prefixed del: json_path.simps json_dumps_def)
qed

lemma preflight_sample:
  assumes "jv_job_id v = ''job-1''"
  shows "preflight_procedural_correction (shared_store unresolved) v (pattern_payload bare_hash) (pattern_payload sid) (fresh_world, db) = (Inr (), (fresh_world, db))"
proof -
  have p: "json_path (JObj (pattern_payload bare_hash)) session_hash_path = Inr (JStr bare_hash)" by (simp add: pattern_payload_def session_hash_path_def)
  have h: "is_bare_sha256 bare_hash" "assert_hash_like f bare_hash \<noteq> Inr ()" for f by (simp_all add: bare_hash_def)
  have g: "st_get (shared_store unresolved) k fresh_world = (Inr None, fresh_world)" for k
    by (simp add: shared_store_def shared_get_def fresh_world_def)
  show ?thesis
    by (simp add: preflight_procedural_correction_def p as_str_def h assms pattern_built g bind_act_def)
qed

lemma corrected_run:
  "\<exists>r w' db'. correct_and_execute_procedural_once (couchdb_backend idle_plane (sec 0)) (Some (preflight_procedural_correction (sp_store idle_plane)))
      (delivery_executor ''w1'' 600) ''job-1'' (iso (sec 0)) failed_identity (sec 0) (at_instant (sec 0)) ''00'' (fresh_world, failed_pattern_db) = (Inr r, (w', db'))
    \<and> rcpt_submit_attempted r \<and> rcpt_status r = ''succeeded''"
proof -
  let ?ex = "delivery_executor ''w1'' 600" and ?be = "couchdb_backend idle_plane (sec 0)"
  have ex: "exe_lease_owner ?ex = ''w1''" "0 < exe_lease_seconds ?ex" "dt_add (sec 0) (exe_lease_seconds ?ex) = Inr (sec 600)"
    by (simp_all add: delivery_executor_def)
  obtain a db1 where c: "correct_procedural_source_hash ''job-1'' (iso (sec 0)) failed_identity ''w1'' (sec 0) failed_pattern_db = Inr (a, db1)"
    using correction_runs by blast
  from correction_steps [OF c] obtain rec q where q: "res_id q = correction_id ''job-1''"
    and db1: "db1 = update_job ''job-1'' (\<lambda>j. j\<lparr>job_status := ''claimed'', job_lease_owner := ''w1'', job_lease_until := iso (sec 600), job_updated_at := iso (sec 0)\<rparr>)
        (failed_pattern_db\<lparr>domain_records := domain_records failed_pattern_db @ [rec], command_results := command_results failed_pattern_db @ [q]\<rparr>)"
    by (auto simp: dt_add_sec_numeral)
  let ?j = "failed_pattern_job\<lparr>job_status := ''claimed'', job_lease_owner := ''w1'', job_lease_until := iso (sec 600), job_updated_at := iso (sec 0)\<rparr>"
  have j: "get_delivery_job db1 ''job-1'' = Some ?j"
    using failed_db_facts(2) unfolding db1 by (simp add: row_simps job_keeping_def) (simp add: get_delivery_job_def)
  have wf: "db_wf db1" using correct_procedural_source_hash_wf [OF c failed_db_facts(1)] .
  have eff: "get_effective_delivery_payload db1 ''key-1'' = Inr (Some (pattern_payload sid))"
    using correction_effective [OF failed_db_facts(1) c] by (auto simp: failed_db_facts failed_pattern_facts pattern_prefixed)
  have "str_or_empty (JStr (sha256_ref ''use make'')) = sha256_ref ''use make''" by (simp add: str_or_empty_def sha256_ref_def)
  then have gate: "resolve_delivery_payload db1 ''key-1'' (sha256_ref ''use make'') = Inr (Some (pattern_payload sid), PAYLOAD_OK)"
    by (simp add: resolve_delivery_payload_def eff pattern_payload_facts)
  have view: "jv_document_kind (view_from_row ?j) = REPO_USAGE_PATTERN" "jv_idempotency_key (view_from_row ?j) = ''key-1''"
    "jv_payload_hash (view_from_row ?j) = sha256_ref ''use make''" "jv_job_id (view_from_row ?j) = ''job-1''"
    by (simp_all add: view_from_row_def failed_pattern_facts)
  have v: "validate_for_write pattern_document = Inr ()" using procedural_storable [OF pattern_built pattern_payload_facts(3)] by simp
  from procedural_submission_completes [where sp = idle_plane and job = "view_from_row ?j" and w = fresh_world and now = "sec 0" and d = pattern_document
      and resolve = unresolved and gate = PAYLOAD_OK and db = db1, unfolded view, OF _ _ refl gate pattern_built v] obtain w' where
    s: "\<And>db2. same_deliveries db1 db2 \<Longrightarrow> couchdb_submit idle_plane (sec 0) (view_from_row ?j) (fresh_world, db2) =
      (Inr (raw_source_stored (shared_store unresolved) ''key-1'' (sha256_ref ''use make'') pattern_document), (w', db2))" by auto
  have ev: "\<exists>ev. submit ?be (view_from_row ?j) (fresh_world, db2) = (Inr ev, (w', db2)) \<and> evd_status ev = ''succeeded''"
    if "same_deliveries db1 db2" for db2
    using s [OF that] by (simp add: couchdb_backend_def raw_source_stored_def evidence_of_def)
  have op: "open_for (exe_lease_owner ?ex) (sec 0) (phase_of ?j)" by (simp add: phase_of_def ex)
  have fresh: "''correction_attempt_'' @ ''00'' \<notin> res_id ` set (command_results db1)"
    by (simp add: db1 update_job_def q correction_id_def failed_pattern_db_def job_db_def sample_db_def empty_db_def)
  from execution_succeeds [OF wf j op _ _ ex(2,3) ev, where ma = 3 and fresh = "''00''"] obtain r db' where
    e: "execute_once_with_receipt ?be ?ex ''job-1'' (at_instant (sec 0)) 3 ''00'' (fresh_world, db1) = (Inr r, (w', db'))"
      "rcpt_submit_attempted r" "rcpt_status r = ''succeeded''"
    using fresh ex(1) by (auto simp: failed_pattern_job_def pattern_job_facts)
  have "correct_and_execute_procedural_once ?be (Some (preflight_procedural_correction (sp_store idle_plane))) ?ex ''job-1'' (iso (sec 0)) failed_identity
      (sec 0) (at_instant (sec 0)) ''00'' (fresh_world, failed_pattern_db) = (Inr r, (w', db'))"
    using e(1) c
    by (simp add: correct_and_execute_procedural_once_def failed_db_facts failed_pattern_facts pattern_prefixed pattern_built preflight_sample
        bind_act_def act_of_def on_db_def read_db_def view_from_row_def ex)
  then show ?thesis using e by blast
qed

section \<open>A conversation chunk\<close>

definition chunk_payload :: dict where
  "chunk_payload = [(''contentHash'', JStr (sha256_ref ''use make'')), (''idempotencyKey'', JStr ''key-1''), (''kind'', JStr CONVERSATION_CHUNK),
     (''payload'', JObj [(''document'', JObj [(''body'', JStr ''use make''), (''filename'', JStr ''''),
         (''metadata'', JObj [(''chunk_id'', JStr ''c1''), (''session_id_hash'', JStr sid)])]), (''redactionVersion'', JStr ''redaction.v2'')]),
     (''source'', JObj [(''project'', JStr ''repo''), (''provider'', JStr ''codex'')]), (''targetProfile'', JStr ''session-memory'')]"

definition sample_chunk :: source_chunk where
  "sample_chunk = \<lparr>sc_chunk_id = ''c1'', sc_session_id_hash = sid, sc_provider = ''codex'', sc_project = ''repo'', sc_turn_start_index = 0, sc_turn_end_index = 0,
     sc_redacted_text = ''use make'', sc_content_hash = sha256_hash ''use make'', sc_redaction_version = ''redaction.v2'',
     sc_source_status = ''source_locator_private_spool_only'', sc_part_index = 1, sc_part_count = 1, sc_char_start = 0, sc_char_end = 8,
     sc_observed_at_start = '''', sc_observed_at_end = ''''\<rparr>"

definition sample_session :: transcript_session where
  "sample_session = \<lparr>ts_session_id_hash = sid, ts_provider = ''codex'', ts_project = ''repo'', ts_started_at = '''', ts_ended_at = '''',
     ts_source_status = ''source_unproven'', ts_source_locator_hash = '''', ts_observed_at_start = '''', ts_observed_at_end = '''', ts_source_hash = '''',
     ts_materialized_at = ''''\<rparr>"

lemma sample_redacted: "redact_public_ingress_text '''' = ''''" "redact_public_ingress_text ''c1'' = ''c1''" "redact_public_ingress_text ''repo'' = ''repo''"
  by code_simp+

lemma sid_redacted: "redact_public_ingress_text sid = sid"
  by code_simp

lemma chunk_redacted: "apply_server_redaction chunk_payload = Inr chunk_payload"
  by (simp add: apply_server_redaction_def redact_payload_def chunk_payload_def redact_source_def redact_field_def redact_document_def py_or_def as_dict_def
      str_or_empty_def sample_redacted sid_redacted sample_labels Let_def)

lemma sample_post_init: "chunk_post_init sample_chunk = Inr sample_chunk" "session_post_init sample_session = Inr sample_session"
  by (simp_all add: chunk_post_init_def session_post_init_def sample_chunk_def sample_session_def sample_labels str_or_def)

lemma sample_owned: "assert_couchdb_owned (JStr CONVERSATION_CHUNK) = Inr ()" "assert_couchdb_owned (JStr TRANSCRIPT_SESSION) = Inr ()"
  by code_simp+

lemma sid_id: "harmless_text (hash_hex sid)"
  by code_simp

lemma session_built: "\<exists>d. build_transcript_session_document sample_session = Inr d"
proof -
  have i: "harmless_text (session_doc_id sid)" unfolding session_doc_id_def by (rule harmless_colon [OF _ sid_id]) simp
  show ?thesis
    by (simp add: build_transcript_session_document_def base_document_def sample_session_def sample_owned assert_hash_unless_empty_def sample_labels
        wire_constants finalize_harmless secret_free i)
qed

lemma chunk_built: "\<exists>d. build_conversation_chunk_document sample_chunk '''' = Inr d"
proof -
  have "harmless_text (CONVERSATION_CHUNK @ '':'' @ (hash_hex sid @ '':'' @ ''c1''))"
    by (rule harmless_colon [OF _ harmless_colon [OF sid_id]]) simp_all
  then have i: "harmless_text (conversation_chunk_doc_id sid ''c1'')" by (simp add: conversation_chunk_doc_id_def)
  show ?thesis
    by (simp add: build_conversation_chunk_document_def base_document_def sample_chunk_def sample_owned assert_hash_unless_empty_def sample_labels
        finalize_harmless secret_free i harmless_hash Let_def)
qed

lemma surface_clean:
  "public_ingress_leak_violations (leak_surface [(''body'', JStr ''use make''), (''filename'', JStr ''''),
     (''metadata'', JObj [(''chunk_id'', JStr ''c1''), (''session_id_hash'', JStr sid)])] [(''chunk_id'', JStr ''c1''), (''session_id_hash'', JStr sid)]
     [(''project'', JStr ''repo''), (''provider'', JStr ''codex'')]) = []"
proof -
  have k: "harmless_text ''filename''" "harmless_text ''host''" by code_simp+
  show ?thesis unfolding leak_surface_def json_dump_sorted_def
    by (rule wordless_clean, rule harmless_print) (simp add: py_or_def str_or_empty_def k)
qed

lemma chunk_prepared:
  "\<exists>pr. prepare_chunk job chunk_payload = Inr (Inr pr) \<and> pr_session_id_hash pr = sid"
proof -
  let ?meta = "[(''chunk_id'', JStr ''c1''), (''session_id_hash'', JStr sid)]" and ?src = "[(''project'', JStr ''repo''), (''provider'', JStr ''codex'')]"
  let ?doc = "[(''body'', JStr ''use make''), (''filename'', JStr ''''), (''metadata'', JObj ?meta)]"
  have shape: "has_payload_shape chunk_payload" by (simp add: has_payload_shape_def chunk_payload_def py_or_def)
  have pos: "positions ?meta ''use make'' = Inr (0, 0, 1, 1, 0, 8)" by (simp add: positions_def int_or_def)
  obtain sd where sd: "build_transcript_session_document sample_session = Inr sd" using session_built by blast
  obtain cd where cd: "build_conversation_chunk_document sample_chunk '''' = Inr cd" using chunk_built by blast
  have "build_documents job chunk_payload [(''document'', JObj ?doc), (''redactionVersion'', JStr ''redaction.v2'')] ?src ?meta ''use make'' =
      Inr (Inr \<lparr>pr_payload = chunk_payload, pr_session_id_hash = sid, pr_provider = ''codex'', pr_project = ''repo'', pr_session_doc = sd, pr_chunk_doc = cd\<rparr>)"
    using sample_post_init sd cd
    by (simp add: build_documents_def pos Let_def str_or_empty_def sample_chunk_def sample_session_def)
  moreover have "prepare_chunk job chunk_payload =
      build_documents job chunk_payload [(''document'', JObj ?doc), (''redactionVersion'', JStr ''redaction.v2'')] ?src ?meta ''use make''"
    using shape chunk_redacted surface_clean by (simp add: prepare_chunk_def chunk_payload_def py_or_def str_or_empty_def Let_def)
  ultimately show ?thesis by simp
qed

definition chunk_job :: delivery_job where
  "chunk_job = (sample_job ''pending'' 0 '''')\<lparr>job_document_kind := CONVERSATION_CHUNK, job_payload_hash := sha256_ref ''use make''\<rparr>"

definition chunk_db :: state_db where
  "chunk_db = job_db chunk_job chunk_payload"

lemma chunk_payload_facts:
  "json_wf (JObj chunk_payload)" "json_canon (JObj chunk_payload) = JObj chunk_payload" "payload_body chunk_payload = Inr ''use make''"
  "get_item chunk_payload ''contentHash'' = JStr (sha256_ref ''use make'')" "get_item chunk_payload ''idempotencyKey'' = JStr ''key-1''"
  by (simp_all add: chunk_payload_def payload_body_def py_or_def str_or_empty_def)

lemma chunk_job_facts:
  "job_ok chunk_job" "job_command_id chunk_job = ''cmd-1''" "job_id chunk_job = ''job-1''" "job_idempotency_key chunk_job = ''key-1''"
  "job_payload_hash chunk_job = sha256_ref ''use make''" "job_document_kind chunk_job \<noteq> REPO_USAGE_PATTERN" "job_attempt_count chunk_job = 0"
  "open_for own t (phase_of chunk_job)"
  by (simp_all add: chunk_job_def sample_job_def job_ok_def phase_of_def)

lemma chunk_db_facts: "db_wf chunk_db" "get_delivery_job chunk_db ''job-1'' = Some chunk_job" "get_domain_record chunk_db c = None"
  "resolve_delivery_payload chunk_db ''key-1'' (sha256_ref ''use make'') = Inr (Some chunk_payload, PAYLOAD_OK)"
proof -
  show "db_wf chunk_db" unfolding chunk_db_def by (rule job_db_wf) (simp_all only: chunk_job_facts chunk_payload_facts)
  show "get_delivery_job chunk_db ''job-1'' = Some chunk_job" "get_domain_record chunk_db c = None"
    unfolding chunk_db_def by (simp_all add: job_db_facts chunk_job_facts)
  have "get_effective_delivery_payload chunk_db ''key-1'' = Inr (Some chunk_payload)"
    unfolding chunk_db_def by (rule job_db_payload(1)) (simp_all only: chunk_job_facts chunk_payload_facts)
  moreover have "str_or_empty (JStr (sha256_ref ''use make'')) = sha256_ref ''use make''" by (simp add: str_or_empty_def sha256_ref_def)
  ultimately show "resolve_delivery_payload chunk_db ''key-1'' (sha256_ref ''use make'') = Inr (Some chunk_payload, PAYLOAD_OK)"
    by (simp add: resolve_delivery_payload_def chunk_payload_facts)
qed

lemma idle_answers: "plane_answers idle_plane P"
  by (simp add: plane_answers_def idle_plane_def)

lemma fresh_unpinned: "unpinned h fresh_world"
  by (simp add: unpinned_def)

lemma idle_keeps: "plane_keeps idle_plane exclusive" "plane_keeps idle_plane (chunk_stored d)"
proof -
  have get: "stays P (st_get (shared_store unresolved) k)" if "\<And>w. P w \<Longrightarrow> exclusive w" for P k
    using that exclusive_others [of _ unresolved] by (auto simp: stays_def shared_store_def shared_get_def Let_def)
  have c: "chunk_stored d w \<Longrightarrow> exclusive w" for w by (simp add: chunk_stored_def)
  show "plane_keeps idle_plane exclusive" "plane_keeps idle_plane (chunk_stored d)"
    using get [of exclusive] get [OF c] by (simp_all add: plane_keeps_def idle_plane_def stays_pure)
qed

lemma executor_facts: "exe_lease_owner (delivery_executor ''w1'' 600) = ''w1''" "0 < exe_lease_seconds (delivery_executor ''w1'' 600)"
  "dt_add (sec 0) (exe_lease_seconds (delivery_executor ''w1'' 600)) = Inr (sec 600)"
  by (simp_all add: delivery_executor_def)

lemma chunk_submission:
  "\<exists>ev w'. couchdb_submit idle_plane (sec 0) (view_from_row chunk_job) (fresh_world, chunk_db) = (Inr ev, (w', chunk_db)) \<and> evd_status ev = ''succeeded''"
proof -
  obtain pr where pr: "prepare_chunk (view_from_row chunk_job) chunk_payload = Inr (Inr pr)" using chunk_prepared by blast
  have view: "jv_document_kind (view_from_row chunk_job) = job_document_kind chunk_job" "jv_idempotency_key (view_from_row chunk_job) = ''key-1''"
    "jv_payload_hash (view_from_row chunk_job) = sha256_ref ''use make''" by (simp_all add: view_from_row_def chunk_job_facts)
  have row: "row_with job_idempotency_key ''key-1'' (delivery_jobs chunk_db) = Some chunk_job"
    using unique_key [OF _ chunk_db_facts(2)] chunk_db_facts(1) by (simp add: wf_defs chunk_job_facts)
  from transcript_submission_completes [where sp = idle_plane and job = "view_from_row chunk_job" and w = fresh_world and now = "sec 0" and resolve = unresolved,
      unfolded view, OF _ fresh_unpinned pr _ idle_answers row chunk_job_facts(5) refl chunk_job_facts(6) chunk_db_facts(4)]
  show ?thesis by auto
qed

end
