(* ===== verification/Source_Theorems.thy ===== *)
theory Source_Theorems
  imports Samples_Source
begin

text \<open>
  The properties of the source plane: the document model, the store, and the deliveries of both lanes of the CouchDB backend.
\<close>

text \<open>A plane whose store is down.\<close>

definition broken_plane :: "shared source_plane" where
  "broken_plane = idle_plane\<lparr>sp_store := \<lparr>st_get = (\<lambda>_. raise_act (CouchDBError ''down'')), st_put_if_absent = (\<lambda>_. raise_act (CouchDBError ''down'')),
     st_db = ''couchdb''\<rparr>\<rparr>"

section \<open>Procedural deliveries\<close>

text \<open>
  C3.  A receipt of success is true: when the executor reports that it has delivered a repo usage pattern, the source store holds a
  document with the identity of the job's effective payload under the identifier of the job's natural key, whatever the other clients of the
  store have done between the calls of the delivery.
\<close>

theorem procedural_delivery_stored:
  assumes "shared_ok w" "sp_store sp = shared_store resolve"
    and "get_delivery_job db k = Some j" "job_document_kind j = REPO_USAGE_PATTERN"
    and "execute_once_with_receipt (couchdb_backend sp now) ex k ck ma fresh (w, db) = (Inr r, (w', db'))"
    and "rcpt_submit_attempted r" "rcpt_status r = ''succeeded''"
  shows "\<exists>payload d. get_effective_delivery_payload db (job_idempotency_key j) = Inr (Some payload)
    \<and> build_repo_usage_pattern_document payload k = Inr d \<and> holds_payload (shared_view w' (doc_id_of d)) d"
  using assms by (rule procedural_execution_stored)

theorem procedural_delivery_stored_witness:
  "\<exists>r w' db'. execute_once_with_receipt (couchdb_backend idle_plane (sec 0)) (delivery_executor ''w1'' 600) ''job-1'' (at_instant (sec 0)) 3 ''00''
      (fresh_world, job_db (pattern_job ''pending'' 0) (pattern_payload sid)) = (Inr r, (w', db')) \<and> rcpt_status r = ''succeeded''
    \<and> (\<exists>payload d. get_effective_delivery_payload (job_db (pattern_job ''pending'' 0) (pattern_payload sid)) ''key-1'' = Inr (Some payload)
        \<and> build_repo_usage_pattern_document payload ''job-1'' = Inr d \<and> holds_payload (shared_view w' (doc_id_of d)) d)"
proof -
  let ?db = "job_db (pattern_job ''pending'' 0) (pattern_payload sid)"
  obtain r w' db' where r: "execute_once_with_receipt (couchdb_backend idle_plane (sec 0)) (delivery_executor ''w1'' 600) ''job-1'' (at_instant (sec 0)) 3 ''00''
      (fresh_world, ?db) = (Inr r, (w', db'))" "rcpt_submit_attempted r" "rcpt_status r = ''succeeded''" using pattern_run by blast
  have j: "get_delivery_job ?db ''job-1'' = Some (pattern_job ''pending'' 0)" by (simp add: job_db_facts pattern_job_facts)
  show ?thesis
    using procedural_delivery_stored [OF fresh_world_ok(2,4) j pattern_job_facts(6) r] r by (auto simp: pattern_job_facts)
qed



text \<open>
  C17.  A correction happens once and delivers what it corrects: after a run of the bounded correction, whatever became of its delivery, every further
  correction of the job is refused and changes nothing; and if the delivery was reported as a success the store holds the
  document of the stored payload with the prefixed session hash.
\<close>

theorem correction_delivered_once:
  assumes "db_wf db" "shared_ok w" "sp_store sp = shared_store resolve"
    and "correct_and_execute_procedural_once (couchdb_backend sp t) (Some (preflight_procedural_correction (sp_store sp))) ex k u ident now ck fresh (w, db)
      = (Inr r, (w', db'))"
  shows "(\<forall>be preflight ex' u' ident' now' ck' fresh'. correct_and_execute_procedural_once be preflight ex' k u' ident' now' ck' fresh' (w', db')
      = (Inl (StateDBError ''source_correction_already_recorded_get_only''), (w', db')))
    \<and> (rcpt_submit_attempted r \<and> rcpt_status r = ''succeeded'' \<longrightarrow> (\<exists>j original corrected d. get_delivery_job db k = Some j
      \<and> get_delivery_payload db (job_idempotency_key j) = Some original \<and> prefixed_session_hash original = Inr corrected
      \<and> build_repo_usage_pattern_document corrected k = Inr d \<and> holds_payload (shared_view w' (doc_id_of d)) d))"
  using correction_once [OF assms(4)] corrected_delivery_stored [OF assms] by blast

theorem correction_delivered_once_witness:
  "\<exists>r w' db' d. correct_and_execute_procedural_once (couchdb_backend idle_plane (sec 0)) (Some (preflight_procedural_correction (sp_store idle_plane)))
      (delivery_executor ''w1'' 600) ''job-1'' (iso (sec 0)) failed_identity (sec 0) (at_instant (sec 0)) ''00'' (fresh_world, failed_pattern_db) = (Inr r, (w', db'))
    \<and> build_repo_usage_pattern_document (pattern_payload sid) ''job-1'' = Inr d \<and> holds_payload (shared_view w' (doc_id_of d)) d"
proof -
  obtain r w' db' where r: "correct_and_execute_procedural_once (couchdb_backend idle_plane (sec 0)) (Some (preflight_procedural_correction (sp_store idle_plane)))
      (delivery_executor ''w1'' 600) ''job-1'' (iso (sec 0)) failed_identity (sec 0) (at_instant (sec 0)) ''00'' (fresh_world, failed_pattern_db) = (Inr r, (w', db'))"
    "rcpt_submit_attempted r" "rcpt_status r = ''succeeded''" using corrected_run by blast
  show ?thesis
    using correction_delivered_once [OF failed_db_facts(1) fresh_world_ok(2,4) r(1)] r
    by (auto simp: failed_db_facts failed_pattern_facts pattern_prefixed)
qed

text \<open>
  C24.  A stored original stays: no submission of a pattern under its natural key and no lawful call of another client in between replaces
  it, whether the submission returns or raises, and the submission succeeds only if the stored document has the same identity.
\<close>

theorem procedural_original_stays:
  assumes "shared_ok w" "build_repo_usage_pattern_document payload (jv_job_id job) = Inr d" "shared_view w (doc_id_of d) = Some e"
    and "submit_procedural (shared_store resolve) job payload (w, db) = (r, (w', db'))"
  shows "shared_view w' (doc_id_of d) = Some e \<and> db' = db
    \<and> (\<forall>ev. r = Inr ev \<longrightarrow> evd_status ev = ''succeeded'' \<and> payload_hash e = payload_hash d \<or> evd_status ev = ''payload_integrity_mismatch'')"
proof -
  have "procedural e" using shared_source.id_law [OF assms(1,3)] procedural_id_of built_procedural [OF assms(2)] by blast
  then have k: "shared_view w' (doc_id_of d) = Some e" "db' = db"
    using shared_source.submit_keeps [OF assms(1,4)] assms(3) by (auto simp: keeps_procedural_def)
  then show ?thesis using shared_source.submit_cases [OF assms(1)] assms(2,4) by (fastforce simp: holds_payload_def)
qed

theorem procedural_original_stays_witness:
  "\<exists>w e r w' db'. shared_view w (doc_id_of pattern_document) = Some e
    \<and> submit_procedural (shared_store unresolved) (view_from_row (pattern_job ''pending'' 0)) (pattern_payload sid) (w, empty_db) = (r, (w', db'))
    \<and> shared_view w' (doc_id_of pattern_document) = Some e"
proof -
  let ?job = "view_from_row (pattern_job ''pending'' 0)"
  have b: "build_repo_usage_pattern_document (pattern_payload sid) (jv_job_id ?job) = Inr pattern_document"
    using pattern_built by (simp add: view_from_row_def pattern_job_facts)
  have v: "validate_for_write pattern_document = Inr ()" using procedural_storable [OF pattern_built pattern_payload_facts(3)] by simp
  obtain ev w where w: "submit_procedural (shared_store unresolved) ?job (pattern_payload sid) (fresh_world, empty_db) = (Inr ev, (w, empty_db))"
    "holds_payload (shared_view w (doc_id_of pattern_document)) pattern_document"
    using submit_first [OF fresh_world_ok(1) b v fresh_world_ok(3), of unresolved] by blast
  obtain e where e: "shared_view w (doc_id_of pattern_document) = Some e" using w(2) by (auto simp: holds_payload_def)
  have ok: "shared_ok w" using shared_source.submit_keeps [OF fresh_world_ok(2) w(1)] by simp
  obtain r w' db' where r: "submit_procedural (shared_store unresolved) ?job (pattern_payload sid) (w, empty_db) = (r, (w', db'))" by (metis prod.collapse)
  show ?thesis using procedural_original_stays [OF ok b e r] e r by blast
qed

section \<open>Transcript deliveries\<close>





lemma submit_chunk_index:
  assumes "submit_chunk sp now job payload (w, db) = (Inl IndexError, s')"
  shows "prepare_chunk job payload = Inl IndexError"
proof -
  obtain looked w1 db1 where f: "couchdb_find sp (jv_idempotency_key job) (jv_payload_hash job) (w, db) = (looked, (w1, db1))" by (metis prod.collapse)
  have "deliver_prepared sp now job existing ready (w1, db1) \<noteq> (Inl IndexError, s')" for existing ready
  proof (cases ready)
    case (Inr pr)
    obtain ans w2 where st: "store_chunk sp job pr w1 = (ans, w2)" by fastforce
    from deliver_prepared_cases [OF st, of now existing db1] show ?thesis unfolding Inr by (cases ans rule: sum.exhaust; cases "projr ans") auto
  qed (simp add: deliver_prepared_def)
  then show ?thesis using assms unfolding submit_chunk_cases [OF f] by (auto split: sum.splits if_splits)
qed

text \<open>
  C31.  Failures of the transcript lane are contained, whatever the store and the services raise: the only exceptions that leave a submission are the uncertain
  outcome, which the executor retries, and the \<open>IndexError\<close> of a project path without a last part, which is raised by the
  preparation of the payload, before anything is written.
\<close>

theorem transcript_failures_contained:
  assumes "couchdb_submit sp now job (w, db) = (Inl e, s')" "jv_document_kind job \<noteq> REPO_USAGE_PATTERN"
  shows "(\<exists>m. e = DeliveryOutcomeUncertain m)
    \<or> e = IndexError \<and> (\<exists>payload. get_effective_delivery_payload db (jv_idempotency_key job) = Inr (Some payload) \<and> prepare_chunk job payload = Inl IndexError)"
proof -
  have i: "\<exists>payload. get_effective_delivery_payload db (jv_idempotency_key job) = Inr (Some payload) \<and> prepare_chunk job payload = Inl IndexError"
    if e: "e = IndexError"
  proof -
    obtain payload gate where g: "resolve_delivery_payload db (jv_idempotency_key job) (jv_payload_hash job) = Inr (Some payload, gate)"
      and s: "submit_chunk sp now job payload (w, db) = (Inl IndexError, s')"
      using assms e by (auto simp: couchdb_submit_def split: sum.splits prod.splits option.splits if_splits)
    show ?thesis using submit_chunk_index [OF s] resolve_InrD [OF g] by blast
  qed
  show ?thesis using transcript_submission_raises [OF assms] i by blast
qed

theorem transcript_failures_contained_witness:
  "\<exists>e s'. couchdb_submit broken_plane (sec 0) (view_from_row chunk_job) (fresh_world, chunk_db) = (Inl e, s')
    \<and> ((\<exists>m. e = DeliveryOutcomeUncertain m)
      \<or> e = IndexError \<and> (\<exists>payload. get_effective_delivery_payload chunk_db (jv_idempotency_key (view_from_row chunk_job)) = Inr (Some payload)
          \<and> prepare_chunk (view_from_row chunk_job) payload = Inl IndexError))"
proof -
  let ?job = "view_from_row chunk_job"
  obtain pr where pr: "prepare_chunk ?job chunk_payload = Inr (Inr pr)" using chunk_prepared by blast
  obtain c where i: "chunk_document_for_payload_identity chunk_payload = Inr (Some (pr_chunk_doc pr))"
    and b: "build_conversation_chunk_document c '''' = Inr (pr_chunk_doc pr)" using prepare_InrD [OF pr] by blast
  have items: "str_or_empty (get_item (pr_chunk_doc pr) ''session_id_hash'') \<noteq> ''''" "str_or_empty (get_item (pr_chunk_doc pr) ''_id'') \<noteq> ''''"
    using chunk_items(2,4) [OF b] chunk_storable [OF b] by (simp_all add: str_or_empty_def conversation_chunk_doc_id_def)
  have st: "st_get (sp_store broken_plane) k = raise_act (CouchDBError ''down'')" for k by (simp add: broken_plane_def)
  have find: "find_chunk broken_plane v key h chunk_payload w = (Inl (CouchDBError ''down''), w)" for v key h w
    using items by (simp add: find_chunk_def i bind_act_def attempt_def Let_def active_source_revision_before_ingress_def st)
  have k: "jv_document_kind ?job \<noteq> REPO_USAGE_PATTERN" "jv_idempotency_key ?job = ''key-1''" "jv_payload_hash ?job = sha256_ref ''use make''"
    using chunk_job_facts by (simp_all add: view_from_row_def)
  have row: "row_with job_idempotency_key ''key-1'' (delivery_jobs chunk_db) = Some chunk_job"
    using unique_key [OF _ chunk_db_facts(2)] chunk_db_facts(1) by (simp add: wf_defs chunk_job_facts)
  have "couchdb_find broken_plane ''key-1'' (sha256_ref ''use make'') (fresh_world, chunk_db) = (Inl (CouchDBError ''down''), (fresh_world, chunk_db))"
    using resolve_InrD [OF chunk_db_facts(4)] by (simp add: couchdb_find_def row chunk_job_facts find)
  then have "couchdb_submit broken_plane (sec 0) ?job (fresh_world, chunk_db) = (Inl (DeliveryOutcomeUncertain ''CouchDBError''), (fresh_world, chunk_db))"
    using submit_chunk_cases [where job = ?job and sp = broken_plane and s = "(fresh_world, chunk_db)"] k chunk_db_facts(4) by (simp add: couchdb_submit_def)
  then show ?thesis using transcript_failures_contained [OF _ k(1)] by blast
qed

text \<open>
  C34.  The lookup and the submission agree on what a payload stands for: whenever a payload can be prepared, the document that \<open>find_by_natural_key\<close> expects in the
  store is the chunk document that \<open>submit\<close> writes.
\<close>

theorem lookup_mirrors_submission:
  assumes "prepare_chunk job payload = Inr (Inr pr)"
  shows "chunk_document_for_payload_identity payload = Inr (Some (pr_chunk_doc pr)) \<and> apply_server_redaction payload = Inr (pr_payload pr)"
  using prepare_InrD [OF assms] by blast

theorem lookup_mirrors_submission_witness:
  "\<exists>pr. prepare_chunk (view_from_row chunk_job) chunk_payload = Inr (Inr pr) \<and> chunk_document_for_payload_identity chunk_payload = Inr (Some (pr_chunk_doc pr))"
  using chunk_prepared lookup_mirrors_submission by blast

section \<open>The store\<close>

text \<open>
  C36.  What is immutable stays: in every run of calls of the store interface on documents whose identifier begins with their type, and with temporal
  patches that leave the locator alone, an immutable document (a repo usage pattern, a member or a manifest of a source revision, a revision-scoped
  copy) remains as it is, with its revision, and the store keeps its invariant.
\<close>

theorem immutable_documents_stay:
  assumes "(\<lambda>s t. \<exists>c. lawful c \<and> t = run_call resolve c s)\<^sup>*\<^sup>* s s'"
    and "store_ok s" "store_typed s" "store_get k s = Some d" "is_immutable_source_document d"
  shows "store_get k s' = Some d \<and> store_ok s'"
  using immutable_documents.run_keeps [OF assms(1), of k d] assms(2-) by blast

theorem immutable_documents_stay_witness:
  "\<exists>d. is_immutable_source_document d
    \<and> store_get (doc_id_of pattern_document) (run_call unresolved (Put_If_Absent pattern_document) new_store) = Some d
    \<and> store_get (doc_id_of pattern_document)
        (run_call unresolved (Delete (doc_id_of pattern_document)) (run_call unresolved (Put_If_Absent pattern_document) new_store)) = Some d"
proof -
  let ?k = "doc_id_of pattern_document" and ?s1 = "run_call unresolved (Put_If_Absent pattern_document) new_store"
  have v: "validate_for_write pattern_document = Inr ()" "typed pattern_document"
    using procedural_storable [OF pattern_built pattern_payload_facts(3)] by simp_all
  have p: "procedural pattern_document" by (simp add: procedural_def pattern_document_def)
  obtain h where h: "payload_hash pattern_document = Inr h"
    using payload_hash_total [of pattern_document] p by (auto simp: procedural_def str_or_empty_def)
  let ?d = "stamp pattern_document (rev_text 1 h) ?k h"
  have s1: "store_get ?k ?s1 = Some ?d"
    using put_free [OF v(1) h new_store_ok(3) procedural_unpinned [OF p]] by (simp add: store_after_def)
  have i: "is_immutable_source_document ?d" by (rule procedural_immutable) (use p in \<open>simp add: procedural_def stamp_def\<close>)
  have ok: "store_ok ?s1" "store_typed ?s1"
    using run_call_ok [OF new_store_ok(1)] lawful_call_typed [OF new_store_ok(1,2), of "Put_If_Absent pattern_document"] v(2) by (simp_all del: run_call.simps)
  have "(\<lambda>s t. \<exists>c. lawful c \<and> t = run_call unresolved c s)\<^sup>*\<^sup>* ?s1 (run_call unresolved (Delete ?k) ?s1)"
    by (rule r_into_rtranclp) (intro exI [of _ "Delete ?k"] conjI refl, simp)
  from immutable_documents_stay [OF this ok s1 i] show ?thesis using s1 i by blast
qed

text \<open>
  C37.  One conditional write wins: after \<open>put_if_revision\<close> has written a document against an expected revision, every further conditional write of a document with
  that identifier against the same expected revision is refused, whatever it contains.
\<close>

theorem one_conditional_write_wins:
  assumes "store_ok s" "put_if_revision resolve d rv s = Inr (a, s1)" "rv_outcome a \<noteq> ''duplicate''"
    and "py_str (get_item e ''_id'') = py_str (get_item d ''_id'')"
  shows "\<exists>x. put_if_revision resolve' e rv s1 = Inl x"
  using conditional_write_fences [OF assms] by (cases "put_if_revision resolve' e rv s1") auto

lemma session_stores_first:
  assumes "build_transcript_session_document c = Inr d"
  shows "\<exists>a s1. put_if_revision resolve d '''' new_store = Inr (a, s1) \<and> rv_outcome a = ''accepted''"
proof -
  have t: "get_item d ''doc_type'' = JStr TRANSCRIPT_SESSION" "\<not> is_revision_scoped_source_copy d"
    using assms by (auto simp: build_transcript_session_document_def bind_result_Inr_iff is_revision_scoped_source_copy_def
        dest!: finalize_InrD base_document_InrD)
  then obtain h where h: "payload_hash d = Inr h" using payload_hash_total [of d] by (auto simp: str_or_empty_def)
  have v: "validate_for_write d = Inr ()" using session_storable [OF assms] by simp
  obtain dec where dec: "classify_document_idempotency None (py_str (get_item d ''_id'')) h = Inr dec"
    using item_of_id [OF v] hash_nonempty [OF h] classify_total [of "py_str (get_item d ''_id'')" h None] by (auto simp: classify_document_idempotency_def)
  have a: "allows_write resolve new_store k d b = Inr ()" for k b by (simp add: allows_write_def Let_def)
  have n: "get_item d ''doc_type'' \<notin> JStr ` set IMMUTABLE_SOURCE_REVISION_DOC_TYPES" by (simp add: t IMMUTABLE_SOURCE_REVISION_DOC_TYPES_def)
  have "json_item (JObj d) ''_id'' = Inr (get_item d ''_id'')" using item_of_id [OF v] by simp
  then show ?thesis using n by (simp add: put_if_revision_def v Let_def h dec a t(2) revision_def del: json_item.simps)
qed

theorem one_conditional_write_wins_witness:
  "\<exists>d a s1 x. build_transcript_session_document sample_session = Inr d \<and> put_if_revision unresolved d '''' new_store = Inr (a, s1)
    \<and> put_if_revision unresolved d '''' s1 = Inl x"
proof -
  obtain d where d: "build_transcript_session_document sample_session = Inr d" using session_built by blast
  obtain a s1 where p: "put_if_revision unresolved d '''' new_store = Inr (a, s1)" "rv_outcome a = ''accepted''" using session_stores_first [OF d] by blast
  have "rv_outcome a \<noteq> ''duplicate''" using p(2) by simp
  from one_conditional_write_wins [OF new_store_ok(1) p(1) this refl, of unresolved] show ?thesis using d p(1) by blast
qed



end
