(* ===== verification/Spec2Isabelle.thy ===== *)
theory Spec2Isabelle
  imports Ingress_Theorems Source_Theorems
begin

text \<open>
  Verification of the ingress lane of the \<open>neurons\<close> worker (\<open>src/worker/lib/agent_knowledge\<close>; below, a file without
  a directory is in \<open>rag_ingress/\<close>).

  \<^bold>\<open>The program.\<close>  A redacted document travels from the client to the source plane in these stages.
  The client builds a wire payload (\<open>rag_ready_document.py\<close>) and posts it to the ingress host
  (\<open>server_runtime.py\<close>), which validates it and puts it as a JSON file into a directory queue; events go to
  a spool of the same make (\<open>../spool.py\<close>, \<open>../events.py\<close>).  The queue worker (\<open>shadow_worker.py\<close>) takes messages from a
  broker, checks that they are redacted (\<open>../redaction.py\<close>), records them in the state database and delivers them.  The state
  database (\<open>state_db.py\<close>) is the authority: commands, an inbox, domain records, delivery jobs with
  leases and retries, and the payloads.  Payloads also come into it through the state sink (\<open>state_sink.py\<close>, with a
  journal, \<open>ingress_journal.py\<close>) and the backfill (\<open>backfill.py\<close>, \<open>backfill_apply.py\<close>).  The executor
  (\<open>delivery_executor.py\<close>) claims a job, reads its payload through a hash gate
  (\<open>delivery_payload_gate.py\<close>) and submits it to a backend; the reconciler and the drain
  (\<open>delivery_reconcile.py\<close>, \<open>delivery_drain.py\<close>) settle what is left.  The backend for CouchDB
  (\<open>couchdb_delivery_backend.py\<close>) builds source documents (\<open>../couchdb_source/document_model.py\<close>) and writes them to a
  source store (\<open>../couchdb_source/source_store.py\<close>).  Rows of the former ledger that ask for it are replayed
  (\<open>replay_delivery.py\<close>, \<open>../ledger*.py\<close>).

  \<^bold>\<open>Foundations.\<close>  \<open>Prelude\<close>: the exceptions of the code as one datatype, results, actions that keep the state an
  exception leaves, rows by key, the locale of a state machine with an invariant.  \<open>Iso_Time\<close>: instants and their ISO
  texts (\<open>_iso\<close>, \<open>fromisoformat\<close>); the order of the texts is the order of the instants.  \<open>Py_Json\<close>: JSON values,
  \<open>json.dumps\<close> and \<open>json.loads\<close>; reading what was printed gives the value back.  \<open>Sha256\<close>: the digest, on 32-bit words.
  \<open>Py_Text\<close>: the operations of \<open>str\<close>.  \<open>Redaction\<close>: the patterns of \<open>redaction.py\<close> and of the leak scan with a
  backtracking matcher, and that the public redaction leaves no local path.

  \<^bold>\<open>The state database.\<close>  \<open>Idempotency\<close>: \<open>classify_idempotency\<close>.  \<open>State_Rows\<close>: the tables as lists of records, their
  constraints, the invariant \<open>db_wf\<close>.  \<open>State_Db\<close>: every method outside a command transaction, as a transaction that
  leaves the database alone when it raises.  \<open>Command_Tx\<close>: \<open>CommandTransaction.execute\<close>.  \<open>Job_Lifecycle\<close>: the database as a
  state machine \<open>db_step\<close>, its invariant, the five phases a delivery job is refined to, and the contract of a lease (locale
  \<open>leased\<close>), interpreted for commands and for delivery jobs.

  \<^bold>\<open>Delivery.\<close>  \<open>Delivery\<close>: gate, executor, reconciler and drain over an environment of a backend's world and the
  database; a backend is a record of actions that may change the database in between, as other workers do.
  \<open>Source_Model\<close>: document types, identifiers, hashes, canonical labels, assertions and builders of the source plane.
  \<open>Source_Store\<close>: the in-memory store with its compare-and-set, immutability and idempotency rules.
  \<open>Source_Delivery\<close>: \<open>CouchDBDeliveryBackend\<close>, with both lanes of \<open>submit\<close>, the lookup, the status and the preflight, and
  \<open>correct_and_execute_procedural_once\<close> of the executor.  \<open>Source_Contract\<close>: what the backend needs of a store (locales
  \<open>procedural_store\<close>, \<open>reliable_store\<close>), interpreted on the in-memory store while other clients run
  any lawful calls between any two of its calls; what a success of the procedural lane says.
  \<open>Transcript_Lane\<close>: the same for conversation chunks, and the exceptions that can leave the lane.
  \<open>Source_Progress\<close>: on a store that answers and is left alone the deliveries of both lanes and the correction complete.
  \<open>Leak_Words\<close>: a criterion for documents that pass the leak scan whatever their digests are.

  \<^bold>\<open>Ingress.\<close>  \<open>Ingress_Wire\<close>: the wire payload, its validation, normalisation and redaction.
  \<open>File_Queue\<close>: a file system with path resolution, the spool and the job queue (locale \<open>durable_queue\<close>, interpreted for both).
  \<open>Ingress_Http\<close>: the runtime and the request handler.  \<open>Backfill\<close>: planner and live application.
  \<open>State_Sink\<close>: sink and journal.  \<open>Worker\<close>: the processing of a message in both modes, its acknowledgement, poison
  messages and the fetch loop.  \<open>Ledger_Items\<close>: the queued rows of the ledger and their four compare-and-set dispositions
  (locale \<open>queued_cas\<close>).  \<open>Replay\<close>: selection, payloads, the loop and its report.

  \<^bold>\<open>Properties.\<close>  They stand in this theory (database and delivery), in \<open>Source_Theorems\<close> (source plane) and
  in \<open>Ingress_Theorems\<close> (wire, queues, sink, worker, replay), each after a text with its number.  \<open>Samples\<close>,
  \<open>Samples_Ingress\<close> and \<open>Samples_Source\<close> hold concrete data on which a property with hypotheses is applied in the
  theorem that follows it.  Behaviour of the code that contradicts its comments or intention is proved as well:
  \<open>Backfill.apply_after_crash\<close>, \<open>Backfill.apply_after_shadow\<close>, \<open>Worker.flat_poison_fails\<close>, \<open>Ingress_Http.post_null_hash_escapes\<close>,
  \<open>File_Queue.stale_temp_blocks\<close>, \<open>Ingress_Http.spool_escape\<close>, \<open>Redaction.public_redaction_not_idempotent\<close>,
  \<open>Redaction.two_stages_differ\<close>, \<open>Redaction.redacted_url_is_reported\<close>, \<open>Redaction.conservative_redaction_not_idempotent\<close>,
  \<open>Replay.probe_posts\<close>, \<open>Source_Store.relocation_ignores_immutability\<close>, \<open>Source_Store.conditional_write_ignores_stored_type\<close>,
  \<open>Transcript_Lane.worktree_root_escapes\<close>, \<open>Transcript_Lane.pinned_labels_not_canonical\<close>.

  \<^bold>\<open>Conventions and bounds.\<close>  Characters are code points below 256; JSON numbers are integers.  Clock readings, random parts of identifiers
  and the answers of services are arguments.  The JSON reader takes fuel, the length of its text, and every value it
  reads shortens the text, so the fuel never runs out (\<open>Py_Json\<close> proves this of every printed text).  A regular
  substitution recurs on the rest of the text after a match, which is shorter.  The fetch loop of the worker runs on the schedule of turns that the broker gives it.
  A lost answer of a backend is an exception that keeps the world the call has left behind.

  \<^bold>\<open>Not modelled.\<close>  File permissions, symbolic links, SQLite pragmas and the migration of columns; sockets, the NATS
  client, the concurrency of asyncio tasks within one batch, command lines and logging.  \<open>source_revision.py\<close>
  and \<open>session_memory_materializer.py\<close> (resolving and activating source revisions, coverage, projection state), the HTTP
  store and the Qdrant and PostgreSQL mirrors are services behind the backend and arguments of its model; the merge of session
  aggregates and the paged queries of the store, and the normalisation of observed intervals in the document model, are left out.
  The readiness and retirement reports, the temporal metadata jobs, the query side (ledger, knowledge search, LLM brain core, session memory)
  and the MCP servers are outside the ingress lane.
\<close>

section \<open>The state database\<close>

text \<open>
  C1.  Every database that calls of \<open>RAGIngressStateDB\<close> and command transactions reach from the
  empty one is well formed: all primary keys and unique indexes hold, every result, domain
  record and job refers to a command, a consumed inbox event names the command that consumed
  it, a lease is an instant and only claimed or executing jobs carry one, and every stored
  payload is the text of a dict that agrees with its key and hash columns.
\<close>

theorem reachable_db_wf:
  assumes "db_step\<^sup>*\<^sup>* empty_db db"
  shows "db_wf db"
  using db_machine.run_keeps assms empty_db_wf by blast

theorem reachable_db_wf_witness:
  "\<exists>db. db_step\<^sup>*\<^sup>* empty_db db \<and> get_command db ''c'' \<noteq> None \<and> db_wf db"
proof -
  obtain db where c: "create_command ''c'' ''t'' ''k'' ''h'' '''' '''' '''' ''pending'' (sec 0) empty_db = Inr ((), db)"
    by (simp add: create_command_def insert_command_def empty_db_def)
  then have "db_step\<^sup>*\<^sup>* empty_db db" by (blast intro: st_create_command)
  moreover have "get_command db ''c'' \<noteq> None"
    using c by (auto simp: create_command_def insert_command_def empty_db_def get_command_def)
  ultimately show ?thesis using reachable_db_wf by blast
qed

text \<open>
  C2.  A command transaction without callbacks that commits has claimed a fresh command, added
  one result row for it and consumed its inbox event, which nobody had consumed before; it has
  only appended delivery jobs, all owned by the command; and either the command is completed
  and every requested delivery is covered by a job with its key and payload hash, or it is
  quarantined and no job was added.
\<close>

theorem command_transaction_commits:
  assumes "execute rq now fresh db = Inr (r, db')" "no_callbacks rq"
  shows "committed rq db r db'"
  using assms by (rule execute_commits)

theorem command_transaction_commits_witness:
  "\<exists>r db'. execute sample_request (sec 0) ''00'' empty_db = Inr (r, db') \<and> ctr_status r = ''completed''
    \<and> committed sample_request empty_db r db'"
proof -
  have "\<exists>r db'. execute sample_request (sec 0) ''00'' empty_db = Inr (r, db') \<and> ctr_status r = ''completed''"
    by (simp add: execute_def tx_claim_def tx_validate_def tx_deliver_def tx_write_def sample_request_def empty_db_def
        insert_defs maybe_fail_def set_command_status_def update_command_def plan_delivery_jobs_def
        find_delivery_job_by_idempotency_key_def first_by_def classify_idempotency_def insert_command_result_def
        final_result_def transaction_result_def insert_delivery_job_def Let_def)
  then show ?thesis using command_transaction_commits no_callbacks_sample by blast
qed

text \<open>
  A command whose idempotency key is already in the database is never run again: the
  transaction raises (the unique index refuses it, or the lease end overflows first), so by
  the rollback the database is as before.
\<close>

theorem command_replay_rejected:
  assumes "rq_idempotency_key rq \<in> cmd_idempotency_key ` set (commands db)"
  shows "\<exists>e. transact (execute rq now fresh) db = (Inl e, db) \<and> (e = OverflowError \<or> (\<exists>m. e = IntegrityError m))"
  using execute_replay_rejected [OF assms, of now fresh] by auto

theorem command_replay_rejected_witness:
  "\<exists>e. transact (execute (sample_request\<lparr>rq_idempotency_key := ''key-1''\<rparr>) (sec 0) ''00'')
    (sample_db (sample_job ''pending'' 0 '''')) = (Inl e, sample_db (sample_job ''pending'' 0 ''''))"
  using command_replay_rejected [of "sample_request\<lparr>rq_idempotency_key := ''key-1''\<rparr>"
      "sample_db (sample_job ''pending'' 0 '''')" "sec 0" "''00''"]
  by (auto simp: sample_db_def sample_command_def empty_db_def)

section \<open>Leases\<close>

text \<open>
  C4.  Mutual exclusion of delivery leases: while the lease a worker was granted runs, no other
  worker's claim of the job is granted, whatever lease length and attempt limit it asks for.
\<close>

theorem delivery_lease_exclusive:
  assumes "db_wf db" "claim_delivery_job k a t1 ls ma db = Inr (True, db1)" "dt_add t1 ls = Inr u" "t2 < u"
    and "a \<noteq> ''''" "b \<noteq> a"
  shows "claim_delivery_job k b t2 ls' ma' db1 \<noteq> Inr (True, db2)"
  using assms by (rule job_lease.exclusive)

theorem delivery_lease_exclusive_witness:
  "\<exists>db1. claim_delivery_job ''job-1'' ''w1'' (sec 0) 60 3 (sample_db (sample_job ''pending'' 0 '''')) = Inr (True, db1)
    \<and> (\<forall>db2. claim_delivery_job ''job-1'' ''w2'' (sec 59) 60 3 db1 \<noteq> Inr (True, db2))"
proof -
  obtain db1 where "claim_delivery_job ''job-1'' ''w1'' (sec 0) 60 3 (sample_db (sample_job ''pending'' 0 '''')) = Inr (True, db1)"
    using claim_open [of "sample_db (sample_job ''pending'' 0 '''')" "''job-1''" "sample_job ''pending'' 0 ''''" "''w1''" "sec 0" 3 60 "sec 60"]
    by (simp add: phase_of_def)
  then show ?thesis
    using delivery_lease_exclusive [of "sample_db (sample_job ''pending'' 0 '''')" "''job-1''" "''w1''" "sec 0" 60 3 _ "sec 60" "sec 59" "''w2''" 60 3]
    by simp
qed

text \<open>
  C5.  Fencing: once a job has been claimed by another worker, the completion of the former
  owner is not accepted at any later instant, with any evidence.
\<close>

theorem delivery_completion_fenced:
  assumes "db_wf db" "claim_delivery_job k b t ls ma db = Inr (True, db1)" "a \<noteq> b"
  shows "complete_delivery_with_evidence k a st ds dc run e obs t' fresh db1 \<noteq> Inr (True, db2)"
  using assms by (rule job_lease.fenced)

theorem delivery_completion_fenced_witness:
  "\<exists>db1. claim_delivery_job ''job-1'' ''w2'' (sec 0) 60 3 (sample_db (sample_job ''pending'' 0 '''')) = Inr (True, db1)
    \<and> (\<forall>db2. complete_delivery_with_evidence ''job-1'' ''w1'' ''succeeded'' '''' '''' '''' '''' None (sec 1) ''00'' db1
        \<noteq> Inr (True, db2))"
proof -
  obtain db1 where "claim_delivery_job ''job-1'' ''w2'' (sec 0) 60 3 (sample_db (sample_job ''pending'' 0 '''')) = Inr (True, db1)"
    using claim_open [of "sample_db (sample_job ''pending'' 0 '''')" "''job-1''" "sample_job ''pending'' 0 ''''" "''w2''" "sec 0" 3 60 "sec 60"]
    by (simp add: phase_of_def)
  then show ?thesis
    using delivery_completion_fenced [of "sample_db (sample_job ''pending'' 0 '''')" "''job-1''" "''w2''" "sec 0" 60 3]
    by simp
qed

text \<open>
  C6.  The same contract holds for commands: a running command lease excludes other claimants,
  and after a reclaim the former owner cannot complete the command.
\<close>

theorem command_lease_contract:
  assumes "db_wf db" "claim_command k a t1 ls ma db = Inr (True, db1)" "dt_add t1 ls = Inr u" "a \<noteq> ''''" "b \<noteq> a"
  shows "(t2 < u \<longrightarrow> claim_command k b t2 ls' ma' db1 \<noteq> Inr (True, db2))
    \<and> complete_claimed_command k b t3 db1 \<noteq> Inr (True, db2)"
  using command_lease.exclusive [OF assms(1-3) _ assms(4,5)] command_lease.fenced [OF assms(1,2,5)] by blast

theorem command_lease_contract_witness:
  "\<exists>db1. claim_command ''cmd-1'' ''w1'' (sec 0) 60 3 (sample_db (sample_job ''pending'' 0 '''')) = Inr (True, db1)
    \<and> (\<forall>db2. claim_command ''cmd-1'' ''w2'' (sec 59) 60 3 db1 \<noteq> Inr (True, db2))"
proof -
  obtain db1 where "claim_command ''cmd-1'' ''w1'' (sec 0) 60 3 (sample_db (sample_job ''pending'' 0 '''')) = Inr (True, db1)"
    by (simp add: claim_command_def sample_command_def Let_def del: with_row_Inr_iff)
  then show ?thesis
    using command_lease_contract [of "sample_db (sample_job ''pending'' 0 '''')" "''cmd-1''" "''w1''" "sec 0" 60 3 _ "sec 60" "''w2''" "sec 59" 60 3]
    by simp
qed

text \<open>
  C7.  When a delivery may be claimed: a claim of a job is granted exactly when the job is
  pending, its retry deadline has passed, or its lease is free, expired or the claimant's own,
  and fewer attempts than the limit have been made; a missing deadline is never due.  A job
  that is open but has used up its attempts is quarantined by the claim.
\<close>

theorem claim_granted_iff_open:
  assumes "get_delivery_job db k = Some j" "dt_add now ls = Inr u"
  shows "((\<exists>db'. claim_delivery_job k own now ls ma db = Inr (True, db')) \<longleftrightarrow>
      open_for own now (phase_of j) \<and> job_attempt_count j < ma)
    \<and> (open_for own now (phase_of j) \<longrightarrow> ma \<le> job_attempt_count j \<longrightarrow>
      (\<exists>db' j'. claim_delivery_job k own now ls ma db = Inr (False, db') \<and> get_delivery_job db' k = Some j'
        \<and> phase_of j' = Closed ''quarantined''))
    \<and> (\<not> open_for own now (phase_of j) \<longrightarrow> claim_delivery_job k own now ls ma db = Inr (False, db))"
  using assms claimable_open [of j own now] open_claimable [of own now j]
  by (auto simp: claim_delivery_job_def row_simps job_keepingI phase_of_def simp del: with_row_Inr_iff)

theorem claim_granted_iff_open_witness:
  "(\<exists>db'. claim_delivery_job ''job-1'' ''w1'' (sec 60) 60 3 (sample_db (sample_job ''replayable'' 1 (iso (sec 60)))) = Inr (True, db'))
   \<and> claim_delivery_job ''job-1'' ''w1'' (sec 59) 60 3 (sample_db (sample_job ''replayable'' 1 (iso (sec 60))))
       = Inr (False, sample_db (sample_job ''replayable'' 1 (iso (sec 60))))"
  using claim_granted_iff_open [of "sample_db (sample_job ''replayable'' 1 (iso (sec 60)))" "''job-1''"
      "sample_job ''replayable'' 1 (iso (sec 60))" "sec 60" 60 "sec 120" "''w1''" 3]
    claim_granted_iff_open [of "sample_db (sample_job ''replayable'' 1 (iso (sec 60)))" "''job-1''"
      "sample_job ''replayable'' 1 (iso (sec 60))" "sec 59" 60 "sec 119" "''w1''" 3]
  by (simp add: phase_of_def)

section \<open>The life cycle of a delivery\<close>

text \<open>
  C8.  Refinement: every call a worker makes on a job under its lease either leaves the row as
  it was or is a transition of the abstract life cycle (claim, cap, run, retry, exhaust,
  finish), and it leaves every other job alone.
\<close>

theorem leased_calls_refine_lifecycle:
  assumes "leased_call own now ma k db db'" "db_wf db" "own \<noteq> ''''"
  shows "(get_delivery_job db' k = get_delivery_job db k
      \<or> (\<exists>j j'. get_delivery_job db k = Some j \<and> get_delivery_job db' k = Some j'
        \<and> lane own now ma (abs_job j) (abs_job j')))
    \<and> (\<forall>k'. k' \<noteq> k \<longrightarrow> get_delivery_job db' k' = get_delivery_job db k')"
  using leased_call_moves [OF assms] by (auto simp: job_moves_def)

theorem leased_calls_refine_lifecycle_witness:
  "\<exists>db' j'. leased_call ''w1'' (sec 0) 3 ''job-1'' (sample_db (sample_job ''pending'' 0 '''')) db'
    \<and> get_delivery_job db' ''job-1'' = Some j' \<and> lane ''w1'' (sec 0) 3 (Pending, 0) (abs_job j')"
proof -
  let ?db = "sample_db (sample_job ''pending'' 0 '''')"
  obtain db' where c: "claim_delivery_job ''job-1'' ''w1'' (sec 0) 60 3 ?db = Inr (True, db')"
    and s: "map_option job_status (get_delivery_job db' ''job-1'') = Some ''claimed''"
    using claim_open [of ?db "''job-1''" "sample_job ''pending'' 0 ''''" "''w1''" "sec 0" 3 60 "sec 60"]
    by (simp add: phase_of_def row_simps job_keepingI)
  then have "leased_call ''w1'' (sec 0) 3 ''job-1'' ?db db'" by (blast intro: lc_claim)
  with leased_calls_refine_lifecycle [OF this] s show ?thesis
    by (auto simp: abs_job_def [of "sample_job _ _ _"] phase_of_def [of "sample_job _ _ _"])
qed

text \<open>
  C9.  A delivery that has succeeded or is quarantined stays exactly as it is through any run
  of worker calls: inbox, planning, claims, executions, completions, transport quarantine,
  payload recording, source corrections and command transactions.
\<close>

theorem closed_deliveries_stay_closed:
  assumes "worker_step\<^sup>*\<^sup>* db db'" "db_wf db" "get_delivery_job db k = Some j"
    and "job_status j \<in> {''succeeded'', ''quarantined''}"
  shows "get_delivery_job db' k = Some j"
  using closed_jobs.run_keeps [OF assms(1), of k j] assms(2-) by (simp add: closed_job_def)

theorem closed_deliveries_stay_closed_witness:
  "\<exists>db'. worker_step\<^sup>*\<^sup>* (sample_db (sample_job ''succeeded'' 1 '''')) db' \<and> db' \<noteq> sample_db (sample_job ''succeeded'' 1 '''')
    \<and> get_delivery_job db' ''job-1'' = Some (sample_job ''succeeded'' 1 '''')"
proof -
  let ?db = "sample_db (sample_job ''succeeded'' 1 '''')"
  obtain db' where p: "record_delivery_payload (sample_payload ''b'') (sec 0) ?db = Inr (''recorded'', db')" "db' \<noteq> ?db"
    by (simp add: record_delivery_payload_def sample_payload_def get_item_def str_or_empty_def py_str_def
        insert_payload_row_def sample_db_def empty_db_def Let_def)
  then have "worker_step\<^sup>*\<^sup>* ?db db'" by (blast intro: ws_payload sample_payload_wf)
  with p(2) closed_deliveries_stay_closed [OF this] show ?thesis by auto
qed

text \<open>
  C10.  A late answer is fenced: if at the time the executor records the backend's answer the
  job has another owner or its lease has run out, the recording reports a stale owner and the
  database is unchanged, whatever the answer is.
\<close>

theorem late_answer_fenced:
  assumes "record_outcome ex k now ma fresh ans db = Inr (r, db')" "get_delivery_job db k = Some j"
    and "exe_lease_owner ex \<noteq> ''''"
    and "job_lease_owner j \<noteq> exe_lease_owner ex \<or> \<not> lease_is_live (job_lease_until j) now"
  shows "rcpt_status r = ''stale_owner_rejected'' \<and> db' = db"
  using record_outcome_fenced [OF assms] by (simp add: mk_receipt_def)

theorem late_answer_fenced_witness:
  "\<exists>r. record_outcome (delivery_executor ''w1'' 600) ''job-1'' (sec 0) 3 ''00'' (Inl (DeliveryOutcomeUncertain ''x''))
      (sample_db (sample_job ''pending'' 0 '''')) = Inr (r, sample_db (sample_job ''pending'' 0 ''''))
    \<and> rcpt_status r = ''stale_owner_rejected''"
proof -
  let ?ex = "delivery_executor ''w1'' 600" and ?db = "sample_db (sample_job ''pending'' 0 '''')"
  obtain r db' where "record_outcome ?ex ''job-1'' (sec 0) 3 ''00'' (Inl (DeliveryOutcomeUncertain ''x'')) ?db = Inr (r, db')"
    by (simp add: record_outcome_def record_replayable_attempt_def delivery_executor_def stale_owner_def Let_def
        del: with_row_Inr_iff)
  then show ?thesis
    using late_answer_fenced [of ?ex "''job-1''" "sec 0" 3 "''00''" "Inl (DeliveryOutcomeUncertain ''x'')" ?db r db'
        "sample_job ''pending'' 0 ''''"] by (auto simp: delivery_executor_def)
qed

text \<open>
  C11.  Progress: with a backend that answers (with evidence or with an uncertain outcome) and
  leaves the state database alone, an execution of an open delivery returns a receipt of an
  attempted submission and leaves the job closed, or waiting for a deadline one minute later
  with one more attempt counted and the limit not reached.
\<close>

theorem execution_settles:
  assumes "db_wf db" "get_delivery_job db k = Some j" "open_for (exe_lease_owner ex) t (phase_of j)"
    and "job_attempt_count j < ma" "exe_lease_owner ex \<noteq> ''''" "get_domain_record db (correction_id k) = None"
    and "0 < exe_lease_seconds ex" "dt_add t (exe_lease_seconds ex) = Inr u" "dt_add t 60 = Inr due" "quiet be"
  shows "\<exists>r w' db' j'. execute_once_with_receipt be ex k (at_instant t) ma fresh (w, db) = (Inr r, (w', db'))
    \<and> rcpt_submit_attempted r \<and> get_delivery_job db' k = Some j'
    \<and> (closed_job j' \<or> phase_of j' = Waiting (iso due) \<and> job_attempt_count j' = job_attempt_count j + 1
        \<and> job_attempt_count j' < ma)"
  using execute_progress [OF assms, of fresh w] by (fastforce simp: settled_def)

theorem execution_settles_witness:
  "\<exists>r w' db' j'. execute_once_with_receipt uncertain_backend (delivery_executor ''w1'' 600) ''job-1'' (at_instant (sec 0)) 3 ''00''
      (0, sample_db (sample_job ''pending'' 0 '''')) = (Inr r, (w', db')) \<and> rcpt_submit_attempted r
    \<and> get_delivery_job db' ''job-1'' = Some j' \<and> (closed_job j' \<or> phase_of j' = Waiting (iso (sec 60)))"
  using execution_settles [of "sample_db (sample_job ''pending'' 0 '''')" "''job-1''" "sample_job ''pending'' 0 ''''"
      "delivery_executor ''w1'' 600" "sec 0" 3 "sec 600" "sec 60" uncertain_backend "''00''" 0]
  by (fastforce simp: delivery_executor_def phase_of_def)

text \<open>
  C12.  Termination of the retries: executions of a job at instants a retry delay apart, as many
  as it has attempts left, all return and leave it closed, for every answering backend.
\<close>

theorem retries_end:
  assumes "db_wf db" "get_delivery_job db k = Some j" "get_domain_record db (correction_id k) = None"
    and "job_attempt_count j < ma" "ma - job_attempt_count j \<le> int (length (t # ts))"
    and "open_for (exe_lease_owner ex) t (phase_of j)" "spaced (exe_lease_seconds ex) (t # ts)" "quiet be"
    and "exe_lease_owner ex \<noteq> ''''" "0 < exe_lease_seconds ex"
  shows "\<exists>w' db' j'. deliver_at be ex k ma fresh (t # ts) (w, db) = (Inr (), (w', db'))
    \<and> get_delivery_job db' k = Some j' \<and> job_status j' \<in> {''succeeded'', ''quarantined''}"
proof -
  have "on_track ex k ma (t # ts) db" using assms by (simp add: on_track_def)
  from deliver_at_on_track [OF this assms(7-10), of fresh w] show ?thesis
    using on_track_end by (fastforce simp: closed_job_def)
qed

theorem retries_end_witness:
  "\<exists>w' db' j'. deliver_at uncertain_backend (delivery_executor ''w1'' 600) ''job-1'' 3 (\<lambda>_. ''00'') [sec 0, sec 60, sec 120]
      (0, sample_db (sample_job ''pending'' 0 '''')) = (Inr (), (w', db'))
    \<and> get_delivery_job db' ''job-1'' = Some j' \<and> job_status j' \<in> {''succeeded'', ''quarantined''}"
  by (rule retries_end [of _ _ "sample_job ''pending'' 0 ''''"]) (simp_all add: delivery_executor_def phase_of_def)

text \<open>
  C13.  The executor calls the backend only while the job is executing under its own live
  lease: replacing the backend by one that agrees on such states changes nothing.
\<close>

theorem submit_only_under_lease:
  assumes "\<And>v w db. executing_for ex k (t_mark ck) db \<Longrightarrow> submit be v (w, db) = submit be' v (w, db)"
  shows "execute_once_with_receipt be ex k ck ma fresh s = execute_once_with_receipt be' ex k ck ma fresh s"
  using assms by (rule submit_only_executing)

definition guarded_backend :: "nat backend" where
  "guarded_backend = uncertain_backend\<lparr>submit := (\<lambda>v s.
     if executing_for (delivery_executor ''w1'' 600) ''job-1'' (sec 0) (snd s) then submit uncertain_backend v s
     else raise_act (RuntimeError ''called without lease'') s)\<rparr>"

theorem submit_only_under_lease_witness:
  "execute_once_with_receipt uncertain_backend (delivery_executor ''w1'' 600) ''job-1'' (at_instant (sec 0)) 3 ''00''
      (0, sample_db (sample_job ''pending'' 0 '''')) =
   execute_once_with_receipt guarded_backend (delivery_executor ''w1'' 600) ''job-1'' (at_instant (sec 0)) 3 ''00''
      (0, sample_db (sample_job ''pending'' 0 ''''))"
  by (rule submit_only_under_lease) (simp add: guarded_backend_def at_instant_def)

section \<open>The payload gate and the drain\<close>





text \<open>
  A stored payload is never overwritten: recording under a key that is already there
  reports whether the content hash is the same and leaves the database as it was.
\<close>

theorem payload_never_overwritten:
  assumes "row_with pl_idempotency_key (str_or_empty (get_item d ''idempotencyKey'')) (delivery_payloads db) = Some row"
    and "str_or_empty (get_item d ''idempotencyKey'') \<noteq> ''''" "str_or_empty (get_item d ''contentHash'') \<noteq> ''''"
  shows "record_delivery_payload d now db =
    Inr (if pl_payload_hash row = str_or_empty (get_item d ''contentHash'') then ''already_present'' else ''conflict'', db)"
  using assms by (simp add: record_delivery_payload_def Let_def)

theorem payload_never_overwritten_witness:
  "record_delivery_payload (sample_payload ''text'') (sec 0)
      (empty_db\<lparr>delivery_payloads := [\<lparr>pl_idempotency_key = ''key-3'', pl_payload_hash = ''other'', pl_payload_json = '''',
        pl_recorded_at = ''''\<rparr>]\<rparr>) =
    Inr (''conflict'', empty_db\<lparr>delivery_payloads := [\<lparr>pl_idempotency_key = ''key-3'', pl_payload_hash = ''other'',
      pl_payload_json = '''', pl_recorded_at = ''''\<rparr>]\<rparr>)"
  using payload_never_overwritten [of "sample_payload ''text''"
      "empty_db\<lparr>delivery_payloads := [\<lparr>pl_idempotency_key = ''key-3'', pl_payload_hash = ''other'', pl_payload_json = '''',
        pl_recorded_at = ''''\<rparr>]\<rparr>" _ "sec 0"]
  by (simp add: sample_payload_def get_item_def str_or_empty_def py_str_def sha256_ref_def)

text \<open>
  A dry run of the drain changes neither the database nor the backend's world, reports no
  mutation and no network use, and succeeds or fails only by what it read.
\<close>

theorem dry_run_is_read_only:
  "snd (drain_pending_deliveries backend own limit True ma now over fresh (w, db)) = (w, db)
    \<and> (case fst (drain_pending_deliveries backend own limit True ma now over fresh (w, db)) of
        Inl e \<Rightarrow> True | Inr r \<Rightarrow> \<not> dr_mutation_performed r \<and> \<not> dr_network_used r)"
  using drain_dry_run [of backend own limit ma now over fresh w db]
  by (cases "drain_pending_deliveries backend own limit True ma now over fresh (w, db)") (auto split: sum.split)

text \<open>
  C18.  A live drain is bounded and accounts for every job: it selects at most \<open>limit\<close> jobs,
  every payload gate result is counted, each executed job was either blocked or counted as
  succeeded, retryable or quarantined, and unless the runtime limit stopped it every selected
  job was executed.
\<close>

theorem drain_report_accounts:
  assumes "drain_pending_deliveries (Some be) own limit False ma now over fresh s = (Inr r, s')"
  shows "dr_selected_count r \<le> nat limit
    \<and> gc_available (dr_gate r) + gc_missing (dr_gate r) + gc_hash_mismatch (dr_gate r) = dr_selected_count r
    \<and> dc_executed (dr_counts r) = dc_blocked (dr_counts r) + dc_succeeded (dr_counts r) + dc_retryable (dr_counts r)
        + dc_quarantined (dr_counts r)
    \<and> dc_executed (dr_counts r) \<le> dr_selected_count r
    \<and> (dc_runtime_exceeded (dr_counts r) \<or> dc_executed (dr_counts r) = dr_selected_count r)"
  using drain_live [OF assms] by auto

theorem drain_report_accounts_witness:
  "\<exists>r s'. drain_pending_deliveries (Some uncertain_backend) ''m8_drain'' 10 False 3 (sec 0) (\<lambda>_. False) (\<lambda>_. ''00'')
      (0, sample_db (sample_job ''pending'' 0 '''')) = (Inr r, s')
    \<and> dr_selected_count r = 1 \<and> dc_executed (dr_counts r) = 1"
proof -
  let ?db = "sample_db (sample_job ''pending'' 0 '''')" and ?ex = "delivery_executor ''m8_drain'' 600"
  have sel: "select_jobs ?db 10 (sec 0) EXECUTABLE_STATUSES [] = [sample_job ''pending'' 0 '''']"
    by (simp add: EXECUTABLE_STATUSES_def list_delivery_jobs_def sample_db_def empty_db_def sql_limit_def)
  have gate: "gate_selected ?db [sample_job ''pending'' 0 ''''] gc = Inr (gc\<lparr>gc_missing := gc_missing gc + 1\<rparr>)" for gc
    by (simp add: resolve_delivery_payload_def get_effective_delivery_payload_def get_delivery_payload_def sample_db_def
        empty_db_def gate_names)
  obtain r w' db' where "execute_once_with_receipt uncertain_backend ?ex ''job-1'' (at_instant (sec 0)) 3 ''00'' (0, ?db) =
      (Inr r, (w', db'))"
    using execute_progress [of ?db "''job-1''" "sample_job ''pending'' 0 ''''" ?ex "sec 0" 3 "sec 600" "sec 60"
        uncertain_backend "''00''" 0] by (auto simp: delivery_executor_def phase_of_def)
  then obtain rep s' where d: "drain_pending_deliveries (Some uncertain_backend) ''m8_drain'' 10 False 3 (sec 0) (\<lambda>_. False)
      (\<lambda>_. ''00'') (0, ?db) = (Inr rep, s')" and sc: "dr_selected_count rep = 1"
      "\<not> dc_runtime_exceeded (dr_counts rep)"
    by (simp add: drain_pending_deliveries_def sel gate execute_once_def drain_report_of_def Let_def count_outcome_def
        no_counts_def del: gate_selected.simps)
  then show ?thesis using drain_report_accounts [OF d] by auto
qed

end
